(* ===== verification/Prelude.thy ===== *)
theory Prelude
  imports Complex_Main "HOL-Library.Signed_Division"
begin

text \<open>
  Shared vocabulary of the development: the errors the sources can raise, the result
  type every fallible definition returns, and the integer operations of BN and BigInt
  values. Both number types are unbounded integers, so values are \<open>int\<close>; their
  division truncates towards zero and raises on a zero divisor, which \<open>trunc_div\<close> and
  \<open>trunc_mod\<close> write out.
\<close>

section \<open>Results and errors\<close>

named_theorems result_simps \<open>equations of the result operations\<close>

named_theorems num_defs \<open>definitions of the numeric operations\<close>

datatype js_error =
    Thrown string
  | InvariantViolation string
  | DivisionByZero
  | UnsafeNumber
  | TypeError
  | RangeError

type_synonym 'a result = "js_error + 'a"

definition and_then :: "'a result \<Rightarrow> ('a \<Rightarrow> 'b result) \<Rightarrow> 'b result" where
  "and_then m f = (case m of Inl e \<Rightarrow> Inl e | Inr x \<Rightarrow> f x)"

lemma and_then_Inl [simp, result_simps]: "and_then (Inl e) f = Inl e"
  by (simp add: and_then_def)

lemma and_then_Inr [simp, result_simps]: "and_then (Inr x) f = f x"
  by (simp add: and_then_def)

lemma and_then_eq_Inr_iff: "and_then m f = Inr y \<longleftrightarrow> (\<exists>x. m = Inr x \<and> f x = Inr y)"
  by (cases m) auto

lemma and_thenE [elim!]:
  assumes "and_then m f = Inr y"
  obtains x where "m = Inr x" and "f x = Inr y"
  using assms by (auto simp: and_then_eq_Inr_iff)

lemma and_then_assoc: "and_then (and_then m f) g = and_then m (\<lambda>x. and_then (f x) g)"
  by (cases m) auto

lemma and_then_cong [fundef_cong]:
  "m = m' \<Longrightarrow> (\<And>x. m' = Inr x \<Longrightarrow> f x = g x) \<Longrightarrow> and_then m f = and_then m' g"
  by (cases m') auto

text \<open>The package \<open>invariant\<close>: continue when the condition holds, raise otherwise.\<close>

definition invariant :: "bool \<Rightarrow> string \<Rightarrow> unit result" where
  "invariant c msg = (if c then Inr () else Inl (InvariantViolation msg))"

lemma invariant_eq_Inr_iff [simp]: "invariant c msg = Inr u \<longleftrightarrow> c"
  by (simp add: invariant_def)

lemma invariant_True [simp, result_simps]: "invariant True msg = Inr ()"
  by (simp add: invariant_def)

lemma invariant_False [simp, result_simps]: "invariant False msg = Inl (InvariantViolation msg)"
  by (simp add: invariant_def)

section \<open>Operations on mutable objects\<close>

text \<open>
  An operation that mutates an object returns its result and the object afterwards; a raise
  keeps the mutations made before it.
\<close>

type_synonym ('s, 'a) action = "'s \<Rightarrow> 'a result \<times> 's"

definition pure_step :: "'a result \<Rightarrow> ('s, 'a) action" where
  "pure_step r s = (r, s)"

definition then_do :: "('s, 'a) action \<Rightarrow> ('a \<Rightarrow> ('s, 'b) action) \<Rightarrow> ('s, 'b) action" where
  "then_do m f s = (case m s of (Inl e, s') \<Rightarrow> (Inl e, s') | (Inr x, s') \<Rightarrow> f x s')"

lemma pure_step_simps [simp]: "fst (pure_step r s) = r" "snd (pure_step r s) = s"
  by (simp_all add: pure_step_def)

lemma then_do_pure_Inl [simp, result_simps]: "then_do (pure_step (Inl e)) f s = (Inl e, s)"
  by (simp add: then_do_def pure_step_def)

lemma then_do_pure_Inr [simp, result_simps]: "then_do (pure_step (Inr x)) f s = f x s"
  by (simp add: then_do_def pure_step_def)

lemma then_do_pure: "then_do (pure_step r) f s = (case r of Inl e \<Rightarrow> (Inl e, s) | Inr x \<Rightarrow> f x s)"
  by (cases r) simp_all

lemma fst_then_do: "fst (then_do m f s) = and_then (fst (m s)) (\<lambda>x. fst (f x (snd (m s))))"
  by (auto simp: then_do_def split: prod.splits sum.splits)

lemma snd_then_do:
  "snd (then_do m f s) = (case fst (m s) of Inl e \<Rightarrow> snd (m s) | Inr x \<Rightarrow> snd (f x (snd (m s))))"
  by (auto simp: then_do_def split: prod.splits sum.splits)

lemma then_doE [elim!]:
  assumes "then_do m f s = (Inr y, s'')"
  obtains x s' where "m s = (Inr x, s')" and "f x s' = (Inr y, s'')"
  using assms by (auto simp: then_do_def split: prod.splits sum.splits)

text \<open>Where a sequence of operations leaves the object: one rule per kind of step.\<close>

lemma snd_then_do_pure:
  assumes "s \<in> S" and "\<And>x. r = Inr x \<Longrightarrow> snd (f x s) \<in> S"
  shows "snd (then_do (pure_step r) f s) \<in> S"
  using assms by (cases r) auto

lemma snd_then_do_in:
  assumes "snd (m s) \<in> S" and "\<And>x. snd (f x (snd (m s))) \<in> S"
  shows "snd (then_do m f s) \<in> S"
  using assms by (auto simp: snd_then_do split: sum.splits)

lemma pure_step_eq [simp]: "pure_step r s = (r', s') \<longleftrightarrow> r = r' \<and> s = s'"
  by (auto simp: pure_step_def)

text \<open>The answers of a sequence of calls on one object, which each call may mutate.\<close>

fun asks :: "('q \<Rightarrow> 'c \<Rightarrow> 'a \<times> 'c) \<Rightarrow> 'q list \<Rightarrow> 'c \<Rightarrow> 'a list \<times> 'c" where
  "asks ask [] c = ([], c)"
| "asks ask (q # qs) c =
     (let (a, c') = ask q c; (as, c'') = asks ask qs c' in (a # as, c''))"

lemma asks_Cons:
  "asks ask (q # qs) c =
    (fst (ask q c) # fst (asks ask qs (snd (ask q c))), snd (asks ask qs (snd (ask q c))))"
  by (simp add: split_beta Let_def)

section \<open>Division of BN and BigInt values\<close>

definition trunc_div :: "int \<Rightarrow> int \<Rightarrow> int result" where
  "trunc_div a b = (if b = 0 then Inl DivisionByZero else Inr (a sdiv b))"

definition trunc_mod :: "int \<Rightarrow> int \<Rightarrow> int result" where
  "trunc_mod a b = (if b = 0 then Inl DivisionByZero else Inr (a smod b))"

lemma trunc_div_zero [simp, result_simps]: "trunc_div a 0 = Inl DivisionByZero"
  by (simp add: trunc_div_def)

lemma sdiv_nonneg_eq [simp]: "0 \<le> a \<Longrightarrow> 0 \<le> b \<Longrightarrow> (a::int) sdiv b = a div b"
  by (cases "a = 0"; cases "b = 0") (simp_all add: signed_divide_int_def)

lemma smod_nonneg_eq [simp]: "0 \<le> a \<Longrightarrow> 0 \<le> b \<Longrightarrow> (a::int) smod b = a mod b"
  by (cases "a = 0") (simp_all add: signed_modulo_int_def)

lemma trunc_div_pos: "0 \<le> a \<Longrightarrow> 0 < b \<Longrightarrow> trunc_div a b = Inr (a div b)"
  by (simp add: trunc_div_def)

lemma trunc_mod_pos: "0 \<le> a \<Longrightarrow> 0 < b \<Longrightarrow> trunc_mod a b = Inr (a mod b)"
  by (simp add: trunc_mod_def)

lemma trunc_div_eq_Inr_iff: "trunc_div a b = Inr q \<longleftrightarrow> b \<noteq> 0 \<and> q = a sdiv b"
  by (auto simp: trunc_div_def)

lemma div_nonneg: "0 \<le> a \<Longrightarrow> 0 \<le> b \<Longrightarrow> 0 \<le> (a :: int) div b"
  by (cases "b = 0") (simp_all add: pos_imp_zdiv_nonneg_iff)

lemma sdiv_nonpos: "a \<le> 0 \<Longrightarrow> 0 \<le> b \<Longrightarrow> (a::int) sdiv b \<le> 0"
  by (cases "a = 0"; cases "b = 0")
    (simp_all add: signed_divide_int_def pos_imp_zdiv_nonneg_iff)

lemma sdiv_nonneg: "0 \<le> a \<Longrightarrow> 0 \<le> b \<Longrightarrow> 0 \<le> (a::int) sdiv b"
  by (cases "b = 0") (simp_all add: pos_imp_zdiv_nonneg_iff)

lemma div_times_le: "0 < b \<Longrightarrow> (a::int) div b * b \<le> a"
  by (metis le_add_same_cancel1 mult.commute pos_mod_sign mult_div_mod_eq)

lemma lt_Suc_div_times: "0 < b \<Longrightarrow> (a::int) < (a div b + 1) * b"
  by (metis add.commute add_less_cancel_left distrib_right mult_1 div_mult_mod_eq pos_mod_bound add.left_commute)

lemma div_lt_of_lt_mult: "0 < b \<Longrightarrow> a < c * b \<Longrightarrow> (a::int) div b < c"
  using div_times_le [of b a] mult_right_mono [of c "a div b" b] by linarith

lemma le_div_of_mult_le: "0 < b \<Longrightarrow> c * b \<le> a \<Longrightarrow> c \<le> (a::int) div b"
  using lt_Suc_div_times [of b a] mult_right_mono [of "a div b + 1" c b] by linarith

lemma sdiv_lt_of_lt_mult:
  assumes "0 < b" and "a < c * b" and "0 < c"
  shows "(a::int) sdiv b < c"
proof (cases "0 \<le> a")
  case True
  with assms show ?thesis by (simp add: div_lt_of_lt_mult)
next
  case False
  with assms sdiv_nonpos [of a b] show ?thesis by linarith
qed

end
