(* ===== verification/AmmTypes.thy ===== *)
theory AmmTypes
  imports Prelude "HOL-Library.Word" "HOL-Library.List_Lexorder"
begin

text \<open>
  The data of the SDK: public keys, the on-chain states the SDK reads
  (\<open>types/index.ts\<close> and the account types of \<open>idl.ts\<close>), the quote results, and the record
  of functions that come from packages outside the repository. BN fields are \<open>int\<close>. A
  \<open>decimal.js\<close> quotient is kept as its two operands, since the sources only build and
  return it.
\<close>

section \<open>Public keys\<close>

type_synonym byte = "8 word"

text \<open>A key is its byte string; \<open>toBuffer\<close> of a valid key has 32 bytes.\<close>

datatype pubkey = PublicKey (toBuffer: "byte list")

definition valid_pubkey :: "pubkey \<Rightarrow> bool" where
  "valid_pubkey k \<longleftrightarrow> length (toBuffer k) = 32"

definition PublicKey_default :: pubkey where
  "PublicKey_default = PublicKey (replicate 32 0)"

text \<open>Keys are ordered by their bytes, first byte first.\<close>

instantiation pubkey :: linorder
begin

definition less_eq_pubkey :: "pubkey \<Rightarrow> pubkey \<Rightarrow> bool" where
  "less_eq_pubkey k l \<longleftrightarrow> toBuffer k \<le> toBuffer l"

definition less_pubkey :: "pubkey \<Rightarrow> pubkey \<Rightarrow> bool" where
  "less_pubkey k l \<longleftrightarrow> toBuffer k < toBuffer l"

instance
  by standard (auto simp: less_eq_pubkey_def less_pubkey_def pubkey.expand)

end

text \<open>\<open>CURVE_TYPE_ACCOUNTS\<close> of \<open>constants.ts\<close>, the base58 strings decoded.\<close>

definition CURVE_TYPE_ACCOUNTS_marinade :: pubkey where
  "CURVE_TYPE_ACCOUNTS_marinade = PublicKey
    [117, 17, 155, 49, 117, 128, 117, 134, 227, 244, 167, 229, 205, 15, 137, 14,
     150, 167, 83, 177, 15, 204, 199, 104, 30, 148, 115, 160, 8, 50, 112, 241]"

definition CURVE_TYPE_ACCOUNTS_lido :: pubkey where
  "CURVE_TYPE_ACCOUNTS_lido = PublicKey
    [46, 195, 142, 250, 71, 7, 14, 31, 131, 13, 41, 188, 37, 184, 24, 165,
     85, 96, 114, 68, 1, 123, 223, 158, 34, 157, 250, 98, 24, 162, 89, 209]"

section \<open>Curve and pool state\<close>

datatype depeg_type = DepegNone | DepegMarinade | DepegLido | DepegSplStake

record depeg =
  baseVirtualPrice :: int
  baseCacheUpdated :: int
  depegType :: depeg_type

record token_multiplier =
  tokenAMultiplier :: int
  tokenBMultiplier :: int
  precisionFactor :: int

record stable_params =
  amp :: int
  tokenMultiplier :: token_multiplier
  depegInfo :: depeg
  lastAmpUpdatedTimestamp :: int

datatype curve_type = ConstantProductCurve | StableSwapCurve stable_params

datatype pool_type = Permissioned | Permissionless

datatype activation_type = Slot | Timestamp

record pool_fees =
  tradeFeeNumerator :: int
  tradeFeeDenominator :: int
  protocolTradeFeeNumerator :: int
  protocolTradeFeeDenominator :: int

text \<open>
  The IDL gives \<open>activationType\<close> as a \<open>u8\<close>; the code compares it with the enum
  \<open>ActivationType\<close>, whose members \<open>Slot\<close> and \<open>Timestamp\<close> are the numbers 0 and 1.
\<close>

fun activationTypeCode :: "activation_type \<Rightarrow> int" where
  "activationTypeCode Slot = 0"
| "activationTypeCode Timestamp = 1"

record bootstrapping_info =
  activationPoint :: int
  whitelistedVault :: pubkey
  poolCreator :: pubkey
  activationType :: int

record pool_state =
  lpMint :: pubkey
  tokenAMint :: pubkey
  tokenBMint :: pubkey
  aVault :: pubkey
  bVault :: pubkey
  aVaultLp :: pubkey
  bVaultLp :: pubkey
  aVaultLpBump :: int
  enabled :: bool
  protocolTokenAFee :: pubkey
  protocolTokenBFee :: pubkey
  feeLastUpdatedAt :: int
  fees :: pool_fees
  poolType :: pool_type
  stake :: pubkey
  totalLockedLp :: int
  bootstrapping :: bootstrapping_info
  curveType :: curve_type

text \<open>
  A vault of the vault program: the fields the SDK reads or writes, and the rest as the
  undecoded bytes it only hands on to the vault SDK.
\<close>

record vault_state =
  totalAmount :: int
  tokenVault :: pubkey
  vaultLpMint :: pubkey
  vaultRest :: "byte list"

section \<open>Quote results\<close>

datatype decimal = DecimalQuotient int int

record out_result =
  outAmount :: int
  outPriceImpact :: decimal

record swap_result =
  amountOut :: int
  swapFee :: int
  swapPriceImpact :: decimal

record swap_quote =
  swapInAmount :: int
  swapOutAmount :: int
  minSwapOutAmount :: int
  quoteFee :: int
  quotePriceImpact :: decimal

record deposit_quote =
  poolTokenAmountOut :: int
  minPoolTokenAmountOut :: int
  tokenAInAmount :: int
  tokenBInAmount :: int

record withdraw_quote =
  poolTokenAmountIn :: int
  minTokenAOutAmount :: int
  minTokenBOutAmount :: int
  tokenAOutAmount :: int
  tokenBOutAmount :: int

record pool_information =
  tokenAAmount :: int
  tokenBAmount :: int
  virtualPrice :: decimal
  virtualPriceRaw :: int

record accounts_info =
  vaultAReserve :: int
  vaultBReserve :: int
  vaultALpSupply :: int
  vaultBLpSupply :: int
  poolVaultALp :: int
  poolVaultBLp :: int
  poolLpSupply :: int
  currentTime :: int
  currentSlot :: int

text \<open>Enum \<open>TradeDirection\<close> and \<open>getPriceImpact\<close> of \<open>curve/index.ts\<close>.\<close>

datatype trade_direction = AToB | BToA

definition getPriceImpact :: "int \<Rightarrow> int \<Rightarrow> decimal" where
  "getPriceImpact amount amountWithoutSlippage =
     (let diff = amountWithoutSlippage - amount in DecimalQuotient diff amountWithoutSlippage)"

section \<open>Conversions between BN values and numbers\<close>

text \<open>
  \<open>toNumber\<close> of a BN and \<open>new BN\<close> of an integral number both refuse values outside the safe
  integers.
\<close>

definition toNumber :: "int \<Rightarrow> int result" where
  "toNumber a = (if \<bar>a\<bar> < 2 ^ 53 then Inr a else Inl UnsafeNumber)"

definition bnOfNumber :: "int \<Rightarrow> int result" where
  "bnOfNumber a = (if \<bar>a\<bar> < 2 ^ 53 then Inr a else Inl UnsafeNumber)"

lemma toNumber_eq_Inr_iff: "toNumber a = Inr b \<longleftrightarrow> \<bar>a\<bar> < 2 ^ 53 \<and> b = a"
  by (auto simp: toNumber_def)

lemma bnOfNumber_eq_Inr_iff: "bnOfNumber a = Inr b \<longleftrightarrow> \<bar>a\<bar> < 2 ^ 53 \<and> b = a"
  by (auto simp: bnOfNumber_def)

end
