(* ===== verification/Layout.thy ===== *)
theory Layout
  imports AmmTypes
begin

text \<open>
  Byte-level facts the sources rely on: little-endian integers (\<open>Buffer.readBigInt64LE\<close>
  and the \<open>toBuffer('le', 8)\<close> seeds of program addresses), the two layouts declared in
  \<open>types/index.ts\<close>, and the layouts of the accounts that the SDK searches by byte offset.
\<close>

section \<open>Little-endian integers\<close>

fun leValue :: "byte list \<Rightarrow> int" where
  "leValue [] = 0"
| "leValue (b # bs) = uint b + 256 * leValue bs"

fun leBytes :: "nat \<Rightarrow> int \<Rightarrow> byte list" where
  "leBytes 0 v = []"
| "leBytes (Suc n) v = word_of_int (v mod 256) # leBytes n (v div 256)"

lemma leValue_nonneg: "0 \<le> leValue bs"
  by (induction bs) auto

lemma length_leBytes [simp]: "length (leBytes n v) = n"
  by (induction n arbitrary: v) auto

lemma leValue_less: "leValue bs < 256 ^ length bs"
proof (induction bs)
  case (Cons b bs)
  have "uint b < 256" using uint_lt2p [of b] by simp
  with Cons.IH have "uint b + 256 * leValue bs < 256 * 256 ^ length bs" by linarith
  then show ?case by simp
qed simp

lemma leValue_leBytes: "0 \<le> v \<Longrightarrow> v < 256 ^ n \<Longrightarrow> leValue (leBytes n v) = v"
proof (induction n arbitrary: v)
  case 0
  then show ?case by simp
next
  case (Suc n)
  have "v div 256 < 256 ^ n" using Suc.prems by (intro div_lt_of_lt_mult) auto
  moreover have "0 \<le> v div 256" using Suc.prems by (simp add: pos_imp_zdiv_nonneg_iff)
  ultimately have "leValue (leBytes n (v div 256)) = v div 256" using Suc.IH by blast
  moreover have "uint (word_of_int (v mod 256) :: byte) = v mod 256"
    by (simp add: uint_word_of_int)
  ultimately show ?case by simp
qed

lemma leBytes_inj:
  assumes "leBytes n v = leBytes n w" and "0 \<le> v" "v < 256 ^ n" "0 \<le> w" "w < 256 ^ n"
  shows "v = w"
  using assms leValue_leBytes by metis

text \<open>
  \<open>Buffer.readBigInt64LE(offset)\<close>: eight bytes read as two's complement, a range error when
  they are not all there.
\<close>

definition readBigInt64LE :: "byte list \<Rightarrow> nat \<Rightarrow> int result" where
  "readBigInt64LE buf offset =
     (if offset + 8 \<le> length buf
      then let u = leValue (take 8 (drop offset buf)) in Inr (if u < 2 ^ 63 then u else u - 2 ^ 64)
      else Inl RangeError)"

text \<open>\<open>toBuffer('le', n)\<close> of a BN: the absolute value in \<open>n\<close> bytes, refused when too long.\<close>

definition toBufferLE :: "int \<Rightarrow> nat \<Rightarrow> byte list result" where
  "toBufferLE v n =
     (if \<bar>v\<bar> < 256 ^ n then Inr (leBytes n \<bar>v\<bar>)
      else Inl (Thrown ''byte array longer than desired length''))"

section \<open>Layouts\<close>

datatype field_kind = U8 | U64 | I64 | U128 | PublicKeyField | BoolField | BytesField nat

type_synonym layout = "(string \<times> field_kind) list"

fun span :: "field_kind \<Rightarrow> nat" where
  "span U8 = 1"
| "span U64 = 8"
| "span I64 = 8"
| "span U128 = 16"
| "span PublicKeyField = 32"
| "span BoolField = 1"
| "span (BytesField n) = n"

fun offsetOf :: "layout \<Rightarrow> string \<Rightarrow> nat option" where
  "offsetOf [] f = None"
| "offsetOf ((g, k) # fs) f = (if g = f then Some 0 else map_option ((+) (span k)) (offsetOf fs f))"

definition StakePoolLayout :: layout where
  "StakePoolLayout =
     [(''accountType'', U8),
      (''manager'', PublicKeyField),
      (''staker'', PublicKeyField),
      (''stakeDepositAuthority'', PublicKeyField),
      (''stakeWithdrawBumpSeed'', U8),
      (''validatorList'', PublicKeyField),
      (''reserveStake'', PublicKeyField),
      (''poolMint'', PublicKeyField),
      (''managerFeeAccount'', PublicKeyField),
      (''tokenProgramId'', PublicKeyField),
      (''totalLamports'', U64),
      (''poolTokenSupply'', U64),
      (''lastUpdateEpoch'', U64)]"

definition ClockLayout :: layout where
  "ClockLayout =
     [(''slot'', U64),
      (''epochStartTimestamp'', I64),
      (''epoch'', U64),
      (''leaderScheduleEpoch'', U64),
      (''unixTimestamp'', I64)]"

section \<open>Functions from outside the repository\<close>

text \<open>
  Packages the sources call and that are not part of the repository, one field each:
  \<^item> \<open>decodeMsolPrice\<close>: \<open>new BorshCoder(MarinadeIDL).accounts.decode('State', data).msolPrice\<close>;
  \<^item> \<open>structDecode\<close>: \<open>decode\<close> of a \<open>@coral-xyz/borsh\<close> struct, as a map from field names;
  \<^item> \<open>bnSqrt\<close>: the function of \<open>bn-sqrt\<close>;
  \<^item> \<open>toFixed0\<close>: \<open>toFixed(0)\<close> of a \<open>token-math\<close> Fraction, read back as an integer;
  \<^item> \<open>bnDivRound\<close>: \<open>divRound\<close> of a BN, on a divisor that is not zero;
  \<^item> \<open>vsWithdrawable\<close>, \<open>vsAmountByShare\<close>, \<open>vsUnmintAmount\<close>: \<open>calculateWithdrawableAmount\<close>,
    \<open>getAmountByShare\<close> and \<open>getUnmintAmount\<close> of the vault SDK.
\<close>

record externals =
  decodeMsolPrice :: "byte list \<Rightarrow> int result"
  structDecode :: "layout \<Rightarrow> byte list \<Rightarrow> (string \<rightharpoonup> int) result"
  bnSqrt :: "int \<Rightarrow> int result"
  toFixed0 :: "rat \<Rightarrow> int"
  bnDivRound :: "int \<Rightarrow> int \<Rightarrow> int"
  vsWithdrawable :: "int \<Rightarrow> vault_state \<Rightarrow> int result"
  vsAmountByShare :: "int \<Rightarrow> int \<Rightarrow> int \<Rightarrow> int result"
  vsUnmintAmount :: "int \<Rightarrow> int \<Rightarrow> int \<Rightarrow> int result"

text \<open>
  The integer square root, the documented result of \<open>bn-sqrt\<close>, computed two bits at a time.
\<close>

function isqrt :: "int \<Rightarrow> int" where
  "isqrt n =
     (if n \<le> 0 then 0
      else let r = 2 * isqrt (n div 4) in if (r + 1) * (r + 1) \<le> n then r + 1 else r)"
  by pat_completeness auto

termination
  by (relation "measure nat") auto

declare isqrt.simps [simp del]

lemma isqrt_bounds:
  assumes "0 \<le> n"
  shows "0 \<le> isqrt n \<and> isqrt n * isqrt n \<le> n \<and> n < (isqrt n + 1) * (isqrt n + 1)"
  using assms
proof (induction n rule: isqrt.induct)
  case (1 n)
  show ?case
  proof (cases "n = 0")
    case True
    then show ?thesis by (simp add: isqrt.simps)
  next
    case False
    let ?q = "isqrt (n div 4)"
    from 1 False have IH: "0 \<le> ?q" "?q * ?q \<le> n div 4" "n div 4 < (?q + 1) * (?q + 1)"
      by (auto simp: pos_imp_zdiv_nonneg_iff)
    have low: "4 * (?q * ?q) \<le> n" using IH(2) by linarith
    have "n div 4 + 1 \<le> (?q + 1) * (?q + 1)" using IH(3) by linarith
    then have high: "n < 4 * ((?q + 1) * (?q + 1))" by linarith
    have "isqrt n = (if (2 * ?q + 1) * (2 * ?q + 1) \<le> n then 2 * ?q + 1 else 2 * ?q)"
      using False 1(2) by (subst isqrt.simps) (simp add: Let_def)
    then show ?thesis using IH(1) low high by (auto simp: algebra_simps)
  qed
qed

end
