(* ===== verification/Calculator.thy ===== *)
theory Calculator
  imports Prelude
begin

text \<open>
  The StableSwap calculator, \<open>ts-client/src/amm/curve/stable-swap-math/calculator.ts\<close>:
  the two Newton iterations \<open>computeD\<close> and \<open>computeY\<close> over BigInt values. Both share
  the loop shape "repeat the step while two neighbours differ by more than one, at most
  \<open>MAX_ITERS\<close> times", modelled once as \<open>newtonLoop\<close>, whose laws are the locale
  \<open>newton_iteration\<close>. The theorems say that the iterations never divide by zero on
  positive reserves, and what the returned values satisfy.
\<close>

section \<open>The Newton loop\<close>

definition N_COINS :: int where
  "N_COINS = 2"

definition MAX_ITERS :: nat where
  "MAX_ITERS = 20"

text \<open>
  \<open>newtonLoop step n prev v\<close> is the \<open>for\<close> loop with \<open>n\<close> iterations left, \<open>prev\<close> and
  \<open>v\<close> the last two iterates. An iteration that raises ends the loop with the error.
\<close>

fun newtonLoop :: "(int \<Rightarrow> int result) \<Rightarrow> nat \<Rightarrow> int \<Rightarrow> int \<Rightarrow> int result" where
  "newtonLoop step 0 prev v = Inr v"
| "newtonLoop step (Suc n) prev v =
     (if \<bar>v - prev\<bar> > 1 then and_then (step v) (\<lambda>v'. newtonLoop step n v v') else Inr v)"

text \<open>The step applied \<open>n\<close> times, the value of a loop that runs out of iterations.\<close>

fun stepN :: "(int \<Rightarrow> int result) \<Rightarrow> nat \<Rightarrow> int \<Rightarrow> int result" where
  "stepN step 0 v = Inr v"
| "stepN step (Suc n) v = and_then (step v) (stepN step n)"

text \<open>One step of \<open>computeD\<close>: the loop body of the source, with its BigInt divisions.\<close>

definition stepD :: "int \<Rightarrow> int \<Rightarrow> int \<Rightarrow> int \<Rightarrow> int result" where
  "stepD Ann amountA amountB d =
     (let S = amountA + amountB in
      and_then (trunc_div (d * d) (amountA * N_COINS)) (\<lambda>dP1.
      and_then (trunc_div (dP1 * d) (amountB * N_COINS)) (\<lambda>dP.
        trunc_div (d * (Ann * S + dP * N_COINS)) (d * (Ann - 1) + dP * (N_COINS + 1)))))"

definition computeD :: "int \<Rightarrow> int \<Rightarrow> int \<Rightarrow> int result" where
  "computeD ampFactor amountA amountB =
     (let Ann = ampFactor * N_COINS; S = amountA + amountB in
      if S = 0 then Inr 0 else newtonLoop (stepD Ann amountA amountB) MAX_ITERS 0 S)"

definition stepY :: "int \<Rightarrow> int \<Rightarrow> int \<Rightarrow> int result" where
  "stepY b c y = trunc_div (y * y + c) (N_COINS * y + b)"

definition computeY :: "int \<Rightarrow> int \<Rightarrow> int \<Rightarrow> int result" where
  "computeY ampFactor x d =
     (let Ann = ampFactor * N_COINS in
      and_then (trunc_div d Ann) (\<lambda>q. let b = x + q - d in
      and_then (trunc_div (d * d * d) (N_COINS * (N_COINS * (x * Ann)))) (\<lambda>c.
        newtonLoop (stepY b c) MAX_ITERS 0 d)))"

section \<open>Laws of the loop\<close>

text \<open>
  \<open>inv\<close> holds of an iterate from which a step may be taken, \<open>good\<close> of any value a
  step returns. A step from an \<open>inv\<close> value returns, and its value is again \<open>inv\<close> or
  so close that the loop stops.
\<close>

locale newton_iteration =
  fixes step :: "int \<Rightarrow> int result"
    and inv :: "int \<Rightarrow> bool"
    and good :: "int \<Rightarrow> int \<Rightarrow> bool"
  assumes step_ok: "inv v \<Longrightarrow> \<exists>v'. step v = Inr v' \<and> good v v' \<and> (inv v' \<or> \<bar>v' - v\<bar> \<le> 1)"
begin

lemma loop_stops: "\<bar>v - prev\<bar> \<le> 1 \<Longrightarrow> newtonLoop step n prev v = Inr v"
  by (cases n) auto

text \<open>The loop returns, and its value is the start or a good successor of some iterate.\<close>

lemma loop_total:
  "inv v \<Longrightarrow> \<exists>r. newtonLoop step n prev v = Inr r \<and> (r = v \<or> (\<exists>p. inv p \<and> good p r))"
proof (induction n arbitrary: prev v)
  case 0
  then show ?case by simp
next
  case (Suc n)
  from step_ok [OF Suc.prems] obtain v' where v': "step v = Inr v'" "good v v'"
    and next_or_stop: "inv v' \<or> \<bar>v' - v\<bar> \<le> 1"
    by blast
  from next_or_stop have "\<exists>r. newtonLoop step n v v' = Inr r \<and> (r = v' \<or> (\<exists>p. inv p \<and> good p r))"
    using Suc.IH [of v' v] loop_stops [of v' v n] by blast
  with v' Suc.prems show ?case by auto
qed

text \<open>
  When the first two iterates are apart, the loop ends in one of two ways: it has run
  all its iterations, or the last step moved the value by at most one.
\<close>

lemma loop_outcome:
  "inv v \<Longrightarrow> \<bar>v - prev\<bar> > 1 \<Longrightarrow> \<exists>r. newtonLoop step n prev v = Inr r \<and>
    (stepN step n v = Inr r \<or> (\<exists>p. inv p \<and> good p r \<and> \<bar>r - p\<bar> \<le> 1))"
proof (induction n arbitrary: prev v)
  case 0
  then show ?case by simp
next
  case (Suc n)
  from step_ok [OF Suc.prems(1)] obtain v' where v': "step v = Inr v'" "good v v'"
    and next_or_stop: "inv v' \<or> \<bar>v' - v\<bar> \<le> 1"
    by blast
  show ?case
  proof (cases "\<bar>v' - v\<bar> \<le> 1")
    case True
    with v' Suc.prems loop_stops [of v' v n] show ?thesis by auto
  next
    case False
    with next_or_stop Suc.IH [of v' v] v' Suc.prems show ?thesis by auto
  qed
qed

text \<open>At least one step is taken, so the value is a good successor of some iterate.\<close>

lemma loop_steps:
  assumes "inv v" and "\<bar>v - prev\<bar> > 1" and "0 < n"
  shows "\<exists>p r. newtonLoop step n prev v = Inr r \<and> inv p \<and> good p r"
proof -
  from assms(3) obtain m where m: "n = Suc m" by (cases n) auto
  from step_ok [OF assms(1)] obtain v' where v': "step v = Inr v'" "good v v'"
    and next_or_stop: "inv v' \<or> \<bar>v' - v\<bar> \<le> 1"
    by blast
  from next_or_stop have "\<exists>r. newtonLoop step m v v' = Inr r \<and> (r = v' \<or> (\<exists>p. inv p \<and> good p r))"
    using loop_total [of v' m v] loop_stops [of v' v m] by blast
  with v' assms m show ?thesis by auto
qed

end

section \<open>The iteration of computeY\<close>

text \<open>
  \<open>computeY\<close> looks for the positive root of \<open>y * y + b * y - c\<close>. A step from any
  iterate to the right of the vertex lands at or above the integer part of the root, and
  its distance from the root is bounded by the square of the last change.
\<close>

definition invY :: "int \<Rightarrow> int \<Rightarrow> int \<Rightarrow> bool" where
  "invY b c y \<longleftrightarrow> 0 \<le> y \<and> 0 \<le> c \<and> 0 < 2 * y + b"

definition goodY :: "int \<Rightarrow> int \<Rightarrow> int \<Rightarrow> int \<Rightarrow> bool" where
  "goodY b c p y \<longleftrightarrow> 0 \<le> y \<and> c < (y + 1) * (y + 1) + b * (y + 1) \<and>
     y * y + b * y \<le> c + (p - y) * (p - y)"

lemma stepY_value:
  assumes "invY b c y"
  shows "stepY b c y = Inr ((y * y + c) div (2 * y + b))"
  using assms by (simp add: stepY_def invY_def N_COINS_def trunc_div_pos)

lemma stepY_good:
  assumes "invY b c y"
  shows "goodY b c y ((y * y + c) div (2 * y + b))"
proof -
  let ?k = "2 * y + b" and ?y' = "(y * y + c) div (2 * y + b)"
  from assms have pos: "0 < ?k" and num: "0 \<le> y * y + c" by (auto simp: invY_def)
  have lower: "?y' * ?k \<le> y * y + c" using pos by (rule div_times_le)
  have upper: "y * y + c < (?y' + 1) * ?k" using pos by (rule lt_Suc_div_times)
  have "0 \<le> ?y'" using pos num by (simp add: pos_imp_zdiv_nonneg_iff)
  moreover have "c < (?y' + 1) * (?y' + 1) + b * (?y' + 1)"
  proof -
    have "0 \<le> (?y' + 1 - y) * (?y' + 1 - y)" by simp
    with upper show ?thesis by (simp add: algebra_simps)
  qed
  moreover have "?y' * ?y' + b * ?y' \<le> c + (y - ?y') * (y - ?y')"
    using lower by (simp add: algebra_simps)
  ultimately show ?thesis by (simp add: goodY_def)
qed

lemma stepY_progress:
  assumes "invY b c y"
  defines "y' \<equiv> (y * y + c) div (2 * y + b)"
  shows "invY b c y' \<or> \<bar>y' - y\<bar> \<le> 1"
proof -
  from assms have c: "0 \<le> c" and y: "0 \<le> y" and pos: "0 < 2 * y + b" by (auto simp: invY_def)
  from stepY_good [OF assms(1)] have y': "0 \<le> y'" and gap: "c < (y' + 1) * (y' + 1 + b)"
    by (auto simp: goodY_def y'_def algebra_simps)
  have "0 < y' + 1 + b"
  proof (rule ccontr)
    assume "\<not> 0 < y' + 1 + b"
    with y' have "(y' + 1) * (y' + 1 + b) \<le> 0" by (intro mult_nonneg_nonpos) auto
    with gap c show False by linarith
  qed
  then consider "0 < 2 * y' + b" | "y' = 0" "b = 0" using y' by linarith
  then show ?thesis
  proof cases
    case 1
    with y' c show ?thesis by (simp add: invY_def)
  next
    case 2
    with gap c have "c = 0" by simp
    with 2 have "(y * y) div (2 * y) = 0" by (simp add: y'_def)
    with pos 2 have "y * y < 2 * y" using lt_Suc_div_times [of "2 * y" "y * y"] by simp
    with pos 2 have "y < 2" by simp
    with y 2 show ?thesis by simp
  qed
qed

lemma goodY_close:
  assumes "goodY b c p y" and "\<bar>y - p\<bar> \<le> 1"
  shows "y * y + b * y \<le> c + 1"
proof -
  from assms(2) have "p - y = -1 \<or> p - y = 0 \<or> p - y = 1" by linarith
  then have "(p - y) * (p - y) \<le> 1" by auto
  with assms(1) show ?thesis by (simp add: goodY_def)
qed

interpretation newtonY: newton_iteration "stepY b c" "invY b c" "goodY b c" for b c
proof
  fix y
  assume "invY b c y"
  then show "\<exists>y'. stepY b c y = Inr y' \<and> goodY b c y y' \<and> (invY b c y' \<or> \<bar>y' - y\<bar> \<le> 1)"
    using stepY_value stepY_good stepY_progress by blast
qed

text \<open>The coefficients of the quadratic that \<open>computeY\<close> solves.\<close>

definition coeffB :: "int \<Rightarrow> int \<Rightarrow> int \<Rightarrow> int" where
  "coeffB ampFactor x d = x + d div (2 * ampFactor) - d"

definition coeffC :: "int \<Rightarrow> int \<Rightarrow> int \<Rightarrow> int" where
  "coeffC ampFactor x d = (d * d * d) div (4 * (x * (2 * ampFactor)))"

lemma computeY_unfold:
  assumes "0 < ampFactor" and "0 < x" and "0 \<le> d"
  shows "computeY ampFactor x d =
    newtonLoop (stepY (coeffB ampFactor x d) (coeffC ampFactor x d)) MAX_ITERS 0 d"
  using assms
  by (simp add: computeY_def coeffB_def coeffC_def Let_def N_COINS_def trunc_div_pos mult.commute
      mult.left_commute)

lemma coeffC_nonneg: "0 < ampFactor \<Longrightarrow> 0 < x \<Longrightarrow> 0 \<le> d \<Longrightarrow> 0 \<le> coeffC ampFactor x d"
  by (simp add: coeffC_def pos_imp_zdiv_nonneg_iff)

lemma invY_start:
  assumes "0 < ampFactor" and "0 < x" and "0 \<le> d"
  shows "invY (coeffB ampFactor x d) (coeffC ampFactor x d) d"
proof -
  have "0 \<le> d div (2 * ampFactor)" using assms by (simp add: pos_imp_zdiv_nonneg_iff)
  with assms coeffC_nonneg [OF assms] show ?thesis by (simp add: invY_def coeffB_def)
qed

lemma MAX_ITERS_pos: "0 < MAX_ITERS"
  by (simp add: MAX_ITERS_def)

lemma computeY_returns:
  assumes "0 < ampFactor" and "0 < x" and "0 \<le> d"
  shows "\<exists>y. computeY ampFactor x d = Inr y \<and> 0 \<le> y"
proof -
  from newtonY.loop_total [OF invY_start [OF assms], of MAX_ITERS 0] assms
  show ?thesis by (auto simp: computeY_unfold goodY_def)
qed

lemma computeY_good:
  assumes "0 < ampFactor" and "0 < x" and "2 \<le> d"
  shows "\<exists>p y. computeY ampFactor x d = Inr y \<and>
    goodY (coeffB ampFactor x d) (coeffC ampFactor x d) p y"
proof -
  from assms have "0 \<le> d" and apart: "\<bar>d - 0\<bar> > 1" by auto
  from newtonY.loop_steps [OF invY_start [OF assms(1,2) \<open>0 \<le> d\<close>] apart MAX_ITERS_pos]
  show ?thesis unfolding computeY_unfold [OF assms(1,2) \<open>0 \<le> d\<close>] by blast
qed

section \<open>The iteration of computeD\<close>

text \<open>
  \<open>prodD\<close> is the floored \<open>d^3 / (4 a b)\<close> of the loop body. The value of a step is
  characterised by how far the StableSwap equation \<open>Ann S + d = Ann d + d^3 / (4 a b)\<close>
  is from holding at the iterate it starts from.
\<close>

definition prodD :: "int \<Rightarrow> int \<Rightarrow> int \<Rightarrow> int" where
  "prodD a b d = ((d * d) div (2 * a) * d) div (2 * b)"

definition denomD :: "int \<Rightarrow> int \<Rightarrow> int \<Rightarrow> int \<Rightarrow> int" where
  "denomD Ann a b d = d * (Ann - 1) + 3 * prodD a b d"

definition residualD :: "int \<Rightarrow> int \<Rightarrow> int \<Rightarrow> int \<Rightarrow> int" where
  "residualD Ann a b d = Ann * (a + b) + d - (Ann * d + prodD a b d)"

definition invD :: "int \<Rightarrow> int \<Rightarrow> int \<Rightarrow> int \<Rightarrow> bool" where
  "invD Ann a b d \<longleftrightarrow> 2 \<le> Ann \<and> 0 < a \<and> 0 < b \<and> 1 \<le> d"

definition goodD :: "int \<Rightarrow> int \<Rightarrow> int \<Rightarrow> int \<Rightarrow> int \<Rightarrow> bool" where
  "goodD Ann a b p d \<longleftrightarrow> 1 \<le> d \<and> 1 \<le> p \<and> (d - p) * denomD Ann a b p \<le> p * residualD Ann a b p \<and>
     p * residualD Ann a b p < (d - p + 1) * denomD Ann a b p \<and> 4 * (a * b) \<le> (d + 1) * (d + 1)"

lemma prodD_nonneg: "0 < a \<Longrightarrow> 0 < b \<Longrightarrow> 0 \<le> d \<Longrightarrow> 0 \<le> prodD a b d"
  by (simp add: prodD_def pos_imp_zdiv_nonneg_iff)

lemma denomD_pos: "invD Ann a b d \<Longrightarrow> 0 < denomD Ann a b d"
  using prodD_nonneg [of a b d] by (simp add: invD_def denomD_def add_pos_nonneg)

lemma stepD_value:
  assumes "invD Ann a b d"
  shows "stepD Ann a b d =
    Inr ((d * (Ann * (a + b) + 2 * prodD a b d)) div denomD Ann a b d)"
proof -
  from assms have pos: "0 < a" "0 < b" "1 \<le> d" "2 \<le> Ann" by (auto simp: invD_def)
  then have "0 \<le> d * d div (a * 2)" by (simp add: pos_imp_zdiv_nonneg_iff)
  moreover have "0 \<le> d * (Ann * (a + b) + prodD a b d * 2)"
    using pos prodD_nonneg [of a b d] by simp
  moreover have "0 < d * (Ann - 1) + prodD a b d * 3"
    using denomD_pos [OF assms] by (simp add: denomD_def mult.commute)
  ultimately show ?thesis using pos
    by (simp add: stepD_def N_COINS_def Let_def trunc_div_pos prodD_def denomD_def mult.commute)
qed

lemma stepD_positive:
  assumes "invD Ann a b d"
  shows "1 \<le> (d * (Ann * (a + b) + 2 * prodD a b d)) div denomD Ann a b d"
proof (rule le_div_of_mult_le [OF denomD_pos [OF assms]])
  from assms have pos: "0 < a" "0 < b" "1 \<le> d" "2 \<le> Ann" by (auto simp: invD_def)
  have "Ann * 1 \<le> Ann * (a + b)" using pos by (intro mult_left_mono) auto
  then have "Ann - 1 \<le> Ann * (a + b)" by linarith
  then have "d * (Ann - 1) \<le> d * (Ann * (a + b))" using pos by (intro mult_left_mono) auto
  moreover have "3 * prodD a b d \<le> d * (2 * prodD a b d)"
  proof (cases "d = 1")
    case True
    with pos have "prodD a b d = 0" by (simp add: prodD_def)
    then show ?thesis by simp
  next
    case False
    with pos have "2 * (2 * prodD a b d) \<le> d * (2 * prodD a b d)"
      using prodD_nonneg [of a b d] by (intro mult_right_mono) auto
    then show ?thesis using prodD_nonneg [of a b d] pos by linarith
  qed
  ultimately show "1 * denomD Ann a b d \<le> d * (Ann * (a + b) + 2 * prodD a b d)"
    by (simp add: denomD_def distrib_left)
qed

text \<open>
  The floored cube never exceeds the exact one, and a step from any iterate ends at most one
  below twice the geometric mean of the reserves.
\<close>

lemma prodD_le_cube:
  assumes "0 < a" and "0 < b" and "0 \<le> d"
  shows "prodD a b d * (4 * (a * b)) \<le> d * d * d"
proof -
  let ?q = "d * d div (2 * a)"
  have "prodD a b d * (2 * b) \<le> ?q * d"
    unfolding prodD_def using assms by (intro div_times_le) auto
  then have "prodD a b d * (2 * b) * (2 * a) \<le> ?q * d * (2 * a)"
    using assms by (intro mult_right_mono) auto
  also have "\<dots> = ?q * (2 * a) * d" by simp
  also have "\<dots> \<le> d * d * d"
    using assms div_times_le [of "2 * a" "d * d"] by (intro mult_right_mono) auto
  finally show ?thesis by (simp add: ac_simps)
qed

lemma cubic_nonneg:
  assumes "0 \<le> d" and "0 \<le> z"
  shows "d * d * (3 * z - 2 * d) \<le> z * z * (z::int)"
proof -
  have "0 \<le> (d - z) * (d - z) * (2 * d + z)" using assms by simp
  then show ?thesis by (simp add: algebra_simps)
qed

lemma geometric_excess:
  assumes "0 < a" and "0 < b" and "1 \<le> d" and "1 \<le> z" and "z * z < 4 * (a * b)"
  shows "prodD a b d * (3 * z - 2 * d) \<le> d * z"
proof (cases "3 * z - 2 * d \<le> 0")
  case True
  with assms prodD_nonneg [of a b d] have "prodD a b d * (3 * z - 2 * d) \<le> 0"
    by (intro mult_nonneg_nonpos) auto
  moreover have "0 \<le> d * z" using assms by simp
  ultimately show ?thesis by linarith
next
  case False
  let ?p = "prodD a b d"
  have p: "0 \<le> ?p" using assms prodD_nonneg by simp
  have "?p * (z * z) \<le> ?p * (4 * (a * b))" using assms p by (intro mult_left_mono) auto
  also have "\<dots> \<le> d * d * d" using assms prodD_le_cube by simp
  finally have "?p * (z * z) * (3 * z - 2 * d) \<le> d * d * d * (3 * z - 2 * d)"
    using False by (intro mult_right_mono) auto
  also have "\<dots> = d * (d * d * (3 * z - 2 * d))" by simp
  also have "\<dots> \<le> d * (z * z * z)"
    using assms cubic_nonneg [of d z] by (intro mult_left_mono) auto
  finally have "(z * z) * (?p * (3 * z - 2 * d)) \<le> (z * z) * (d * z)" by (simp add: ac_simps)
  with assms show ?thesis by (simp add: mult_le_cancel_left)
qed

lemma sum_ge_geometric: "4 * (a * b) \<le> (a + b) * (a + b)" for a b :: int
proof -
  have "0 \<le> (a - b) * (a - b)" by simp
  then show ?thesis by (simp add: algebra_simps)
qed

lemma stepD_geometric:
  assumes "invD Ann a b d"
  defines "d' \<equiv> (d * (Ann * (a + b) + 2 * prodD a b d)) div denomD Ann a b d"
  shows "4 * (a * b) \<le> (d' + 1) * (d' + 1)"
proof (rule ccontr)
  let ?z = "d' + 1" and ?p = "prodD a b d"
  assume "\<not> ?thesis"
  then have less: "?z * ?z < 4 * (a * b)" by simp
  from assms have pos: "0 < a" "0 < b" "1 \<le> d" "2 \<le> Ann" by (auto simp: invD_def)
  have z: "1 \<le> ?z" using stepD_positive [OF assms(1)] by (simp add: d'_def)
  have "?z * ?z < (a + b) * (a + b)" using less sum_ge_geometric [of a b] by linarith
  then have "?z + 1 \<le> a + b" using pos z mult_mono [of "a + b" ?z "a + b" ?z] by linarith
  then have "d * Ann * (?z + 1) \<le> d * Ann * (a + b)" using pos by (intro mult_left_mono) auto
  moreover have "?p * (3 * ?z - 2 * d) \<le> d * ?z" using geometric_excess pos z less by blast
  moreover have "0 \<le> d * Ann" using pos by simp
  ultimately have "?z * denomD Ann a b d \<le> d * (Ann * (a + b) + 2 * ?p)"
    by (simp add: denomD_def algebra_simps)
  moreover have "d * (Ann * (a + b) + 2 * ?p) < ?z * denomD Ann a b d"
    unfolding d'_def using denomD_pos [OF assms(1)] by (rule lt_Suc_div_times)
  ultimately show False by simp
qed

lemma stepD_good:
  assumes "invD Ann a b d"
  shows "goodD Ann a b d ((d * (Ann * (a + b) + 2 * prodD a b d)) div denomD Ann a b d)"
proof -
  define k where "k = denomD Ann a b d"
  define num where "num = d * (Ann * (a + b) + 2 * prodD a b d)"
  have k: "0 < k" using denomD_pos [OF assms] by (simp add: k_def)
  have num: "num = d * k + d * residualD Ann a b d"
    by (simp add: num_def k_def denomD_def residualD_def algebra_simps)
  have "1 \<le> num div k" using stepD_positive [OF assms] by (simp add: num_def k_def)
  moreover have "(num div k - d) * k \<le> d * residualD Ann a b d"
    using div_times_le [OF k, of num] num by (simp add: left_diff_distrib)
  moreover have "d * residualD Ann a b d < (num div k - d + 1) * k"
    using lt_Suc_div_times [OF k, of num] num by (simp add: left_diff_distrib distrib_right)
  ultimately show ?thesis using assms stepD_geometric [OF assms]
    by (simp add: goodD_def invD_def num_def k_def)
qed

lemma goodD_close:
  assumes "invD Ann a b p" and "goodD Ann a b p d" and "\<bar>d - p\<bar> \<le> 1"
  shows "- denomD Ann a b p \<le> p * residualD Ann a b p \<and>
    p * residualD Ann a b p < 2 * denomD Ann a b p"
proof -
  have k: "0 \<le> denomD Ann a b p" using denomD_pos [OF assms(1)] by simp
  from assms(3) have "-1 * denomD Ann a b p \<le> (d - p) * denomD Ann a b p"
    using k by (intro mult_right_mono) auto
  moreover from assms(3) have "(d - p + 1) * denomD Ann a b p \<le> 2 * denomD Ann a b p"
    using k by (intro mult_right_mono) auto
  ultimately show ?thesis using assms(2) by (auto simp: goodD_def)
qed

interpretation newtonD: newton_iteration "stepD Ann a b" "invD Ann a b" "goodD Ann a b" for Ann a b
proof
  fix d
  assume "invD Ann a b d"
  with stepD_value stepD_good stepD_positive
  show "\<exists>d'. stepD Ann a b d = Inr d' \<and> goodD Ann a b d d' \<and> (invD Ann a b d' \<or> \<bar>d' - d\<bar> \<le> 1)"
    by (fastforce simp: invD_def)
qed

lemma invD_start:
  "0 < ampFactor \<Longrightarrow> 0 < a \<Longrightarrow> 0 < b \<Longrightarrow> invD (2 * ampFactor) a b (a + b)"
  by (simp add: invD_def)

lemma computeD_unfold:
  "0 < a \<Longrightarrow> 0 < b \<Longrightarrow>
    computeD ampFactor a b = newtonLoop (stepD (2 * ampFactor) a b) MAX_ITERS 0 (a + b)"
  by (simp add: computeD_def Let_def N_COINS_def mult.commute)

lemma computeD_good:
  assumes "0 < ampFactor" and "0 < a" and "0 < b"
  shows "\<exists>p d. computeD ampFactor a b = Inr d \<and> goodD (2 * ampFactor) a b p d"
proof -
  from assms have apart: "\<bar>a + b - 0\<bar> > 1" by auto
  from newtonD.loop_steps [OF invD_start [OF assms] apart MAX_ITERS_pos]
  show ?thesis unfolding computeD_unfold [OF assms(2,3)] by blast
qed

lemma computeD_returns:
  assumes "0 < ampFactor" and "0 < a" and "0 < b"
  shows "\<exists>d. computeD ampFactor a b = Inr d \<and> 1 \<le> d"
  using computeD_good [OF assms] by (auto simp: goodD_def)

lemma stepD_balanced:
  assumes "2 \<le> Ann" and "0 < x"
  shows "stepD Ann x x (2 * x) = Inr (2 * x)"
proof -
  have inv: "invD Ann x x (2 * x)" using assms by (simp add: invD_def)
  have p: "prodD x x (2 * x) = 2 * x" using assms by (simp add: prodD_def)
  have "2 * x * (Ann * (x + x) + 2 * (2 * x)) = (2 * x) * denomD Ann x x (2 * x)"
    unfolding denomD_def p by (simp add: algebra_simps)
  with denomD_pos [OF inv] show ?thesis
    unfolding stepD_value [OF inv] p by (metis less_irrefl nonzero_mult_div_cancel_right)
qed

lemma computeD_same:
  assumes "0 < ampFactor" and "0 < x"
  shows "computeD ampFactor x x = Inr (2 * x)"
proof -
  have loop: "newtonLoop (stepD (2 * ampFactor) x x) MAX_ITERS 0 (2 * x) = Inr (2 * x)"
    using assms stepD_balanced [of "2 * ampFactor" x] by (simp add: MAX_ITERS_def numeral_eq_Suc)
  show ?thesis using loop unfolding computeD_unfold [OF assms(2) assms(2)] mult_2 .
qed

section \<open>Properties\<close>

text \<open>
  C7: On positive reserves \<open>computeD\<close> never divides by zero: it returns some \<open>d\<close> of at least one,
  never more than one below twice the geometric mean of the reserves. There are two outcomes. Either
  the last step started at a \<open>p\<close> within one of \<open>d\<close> at which the StableSwap equation
  \<open>Ann S + d = Ann d + d^3 / (4 a b)\<close> (with \<open>d^3 / (4 a b)\<close> floored as in the code) holds up to
  less than two denominators of the step. Or all \<open>MAX_ITERS\<close> Newton steps from the sum of the
  reserves were used, as happens for reserves far out of balance; then \<open>d\<close> is the last iterate, and
  nothing more is claimed of the equation.
\<close>

theorem computeD_solves_invariant:
  assumes "0 < ampFactor" and "0 < a" and "0 < b"
  shows "\<exists>d. computeD ampFactor a b = Inr d \<and> 1 \<le> d \<and> 4 * (a * b) \<le> (d + 1) * (d + 1) \<and>
    (stepN (stepD (2 * ampFactor) a b) MAX_ITERS (a + b) = Inr d \<or>
     (\<exists>p. 1 \<le> p \<and> \<bar>d - p\<bar> \<le> 1 \<and>
       - denomD (2 * ampFactor) a b p \<le> p * residualD (2 * ampFactor) a b p \<and>
       p * residualD (2 * ampFactor) a b p < 2 * denomD (2 * ampFactor) a b p))"
proof -
  from assms have apart: "\<bar>a + b - 0\<bar> > 1" by auto
  from newtonD.loop_outcome [OF invD_start [OF assms] apart, of MAX_ITERS]
  obtain d where d: "computeD ampFactor a b = Inr d"
    and outcome: "stepN (stepD (2 * ampFactor) a b) MAX_ITERS (a + b) = Inr d \<or>
      (\<exists>p. invD (2 * ampFactor) a b p \<and> goodD (2 * ampFactor) a b p d \<and> \<bar>d - p\<bar> \<le> 1)"
    unfolding computeD_unfold [OF assms(2,3)] by blast
  moreover have "1 \<le> d" "4 * (a * b) \<le> (d + 1) * (d + 1)" using computeD_good [OF assms] d by (auto simp: goodD_def)
  moreover have "- denomD (2 * ampFactor) a b p \<le> p * residualD (2 * ampFactor) a b p \<and>
      p * residualD (2 * ampFactor) a b p < 2 * denomD (2 * ampFactor) a b p"
    if "invD (2 * ampFactor) a b p" "goodD (2 * ampFactor) a b p d" "\<bar>d - p\<bar> \<le> 1" for p
    using that goodD_close [of "2 * ampFactor" a b p d] by blast
  ultimately show ?thesis by (auto simp: goodD_def)
qed

theorem computeD_solves_invariant_witness:
  "(0::int) < 100 \<and> (0::int) < 1000 \<and> (0::int) < 3000 \<and>
    (\<exists>d. computeD 100 1000 3000 = Inr d \<and> 1 \<le> d)"
  using computeD_solves_invariant [of 100 1000 3000] by auto

text \<open>
  On a balanced pool the invariant is exact: \<open>computeD\<close> of two equal reserves is their sum,
  for every amplification.
\<close>

lemma computeD_balanced:
  assumes "0 < ampFactor" and "0 < x"
  shows "computeD ampFactor x x = Inr (2 * x)"
  using assms by (rule computeD_same)

text \<open>
  C8: \<open>computeY\<close> never divides by zero on a positive reserve and returns a non-negative \<open>y\<close>
  that is not below the integer part of the positive root of \<open>y * y + b * y = c\<close>; unless all
  \<open>MAX_ITERS\<close> steps were used up, the quadratic exceeds \<open>c\<close> by at most one, so that \<open>y\<close> is
  the integer root up to rounding.
\<close>

theorem computeY_brackets_root:
  assumes "0 < ampFactor" and "0 < x" and "2 \<le> d"
  defines "b \<equiv> coeffB ampFactor x d" and "c \<equiv> coeffC ampFactor x d"
  shows "\<exists>y. computeY ampFactor x d = Inr y \<and> 0 \<le> y \<and> c < (y + 1) * (y + 1) + b * (y + 1) \<and>
    (stepN (stepY b c) MAX_ITERS d = Inr y \<or> y * y + b * y \<le> c + 1)"
proof -
  from assms have d: "0 \<le> d" and apart: "\<bar>d - 0\<bar> > 1" by auto
  from newtonY.loop_outcome [OF invY_start [OF assms(1,2) d] apart, of MAX_ITERS]
  obtain y where y: "computeY ampFactor x d = Inr y"
    and outcome: "stepN (stepY b c) MAX_ITERS d = Inr y \<or> (\<exists>p. goodY b c p y \<and> \<bar>y - p\<bar> \<le> 1)"
    unfolding computeY_unfold [OF assms(1,2) d] b_def c_def by blast
  from computeY_good [OF assms(1-3)] y have "0 \<le> y" "c < (y + 1) * (y + 1) + b * (y + 1)"
    by (auto simp: goodY_def b_def c_def)
  moreover have "y * y + b * y \<le> c + 1" if "goodY b c p y" "\<bar>y - p\<bar> \<le> 1" for p
    using that goodY_close by blast
  ultimately show ?thesis using y outcome by auto
qed

theorem computeY_brackets_root_witness:
  "(0::int) < 100 \<and> (0::int) < 1100 \<and> (2::int) \<le> 2000 \<and>
    (\<exists>y. computeY 100 1100 2000 = Inr y \<and> 0 \<le> y \<and>
      coeffC 100 1100 2000 < (y + 1) * (y + 1) + coeffB 100 1100 2000 * (y + 1))"
  using computeY_brackets_root [of 100 1100 2000] by auto

text \<open>
  The degenerate reserves: with both reserves empty \<open>computeD\<close> is zero, and with exactly one
  of them empty (the other above one) the loop raises on its first division.
\<close>

lemma computeD_empty_reserve:
  "computeD ampFactor 0 0 = Inr 0 \<and>
   (1 < r \<longrightarrow> computeD ampFactor 0 r = Inl DivisionByZero \<and> computeD ampFactor r 0 = Inl DivisionByZero)"
  by (auto simp: computeD_def Let_def MAX_ITERS_def numeral_eq_Suc stepD_def N_COINS_def trunc_div_pos)

text \<open>
  The invariant of two reserves is never more than one below twice their geometric mean: the
  squared successor of \<open>computeD\<close> is at least \<open>4 a b\<close>, so a stable pool is valued at
  least like a constant product pool on the same reserves.
\<close>

lemma computeD_geometric_bound:
  assumes "computeD ampFactor a b = Inr d" and "0 < ampFactor" and "0 < a" and "0 < b"
  shows "4 * (a * b) \<le> (d + 1) * (d + 1)"
  using computeD_good [OF assms(2-4)] assms(1) by (auto simp: goodD_def)

end
