(* ===== verification/StableSwap.thy ===== *)
theory StableSwap
  imports Layout Calculator
begin

text \<open>
  The stable curve, \<open>ts-client/src/amm/curve/stable-swap.ts\<close>: the class \<open>StableSwap\<close>, its
  depeg price cache, the scaling of amounts, and the two estimators below the class. The
  class mutates its \<open>depeg\<close> object when the cache has expired, so a method is a function
  from the object to a result and the object after the call; the mutation stays when a
  later part of the method raises.
\<close>

section \<open>The object\<close>

definition PRECISION :: int where
  "PRECISION = 1000000"

definition BASE_CACHE_EXPIRE :: int where
  "BASE_CACHE_EXPIRE = 60 * 10"

text \<open>\<open>extraAccounts\<close> is keyed by public key where the source uses its base58 string.\<close>

record stable_swap =
  this_amp :: int
  this_tokenMultiplier :: token_multiplier
  this_depeg :: depeg
  extraAccounts :: "pubkey \<rightharpoonup> byte list"
  onChainTime :: int
  stakePoolPubkey :: pubkey

text \<open>Reading \<open>account!.data\<close> of a missing account is a type error.\<close>

definition accountData :: "stable_swap \<Rightarrow> pubkey \<Rightarrow> byte list result" where
  "accountData ss k = (case extraAccounts ss k of None \<Rightarrow> Inl TypeError | Some data \<Rightarrow> Inr data)"

definition fieldOf :: "(string \<rightharpoonup> int) \<Rightarrow> string \<Rightarrow> int result" where
  "fieldOf m f = (case m f of None \<Rightarrow> Inl TypeError | Some v \<Rightarrow> Inr v)"

fun getBasePoolVirtualPrice :: "externals \<Rightarrow> stable_swap \<Rightarrow> depeg_type \<Rightarrow> int result" where
  "getBasePoolVirtualPrice X ss DepegMarinade =
     and_then (accountData ss CURVE_TYPE_ACCOUNTS_marinade) (\<lambda>data.
     and_then (decodeMsolPrice X data) (\<lambda>msolPrice.
       trunc_div (msolPrice * PRECISION) 0x100000000))"
| "getBasePoolVirtualPrice X ss DepegLido =
     and_then (accountData ss CURVE_TYPE_ACCOUNTS_lido) (\<lambda>data.
     and_then (readBigInt64LE data 73) (\<lambda>stSolSupply.
     and_then (readBigInt64LE data 81) (\<lambda>stSolBalance.
       trunc_div (stSolBalance * PRECISION) stSolSupply)))"
| "getBasePoolVirtualPrice X ss DepegSplStake =
     and_then (accountData ss (stakePoolPubkey ss)) (\<lambda>data.
     and_then (structDecode X StakePoolLayout data) (\<lambda>stakePool.
     and_then (fieldOf stakePool ''totalLamports'') (\<lambda>totalLamports.
     and_then (fieldOf stakePool ''poolTokenSupply'') (\<lambda>poolTokenSupply.
       trunc_div (totalLamports * PRECISION) poolTokenSupply))))"
| "getBasePoolVirtualPrice X ss DepegNone = Inl (Thrown ''UnsupportedBasePool'')"

definition cacheExpired :: "stable_swap \<Rightarrow> bool result" where
  "cacheExpired ss =
     and_then (toNumber (onChainTime ss)) (\<lambda>now.
     and_then (toNumber (baseCacheUpdated (this_depeg ss) + BASE_CACHE_EXPIRE)) (\<lambda>expiry.
       Inr (now > expiry)))"

definition updateDepegInfoIfExpired :: "externals \<Rightarrow> stable_swap \<Rightarrow> unit result \<times> stable_swap" where
  "updateDepegInfoIfExpired X ss =
     (if depegType (this_depeg ss) = DepegNone then (Inr (), ss)
      else (case cacheExpired ss of
        Inl e \<Rightarrow> (Inl e, ss)
      | Inr expired \<Rightarrow>
          if expired then
            (case getBasePoolVirtualPrice X ss (depegType (this_depeg ss)) of
              Inl e \<Rightarrow> (Inl e, ss)
            | Inr price \<Rightarrow>
                (Inr (), ss\<lparr>this_depeg := (this_depeg ss)
                   \<lparr>baseVirtualPrice := price, baseCacheUpdated := onChainTime ss\<rparr>\<rparr>))
          else (Inr (), ss)))"

text \<open>Every method first refreshes the cache and then computes on the refreshed object.\<close>

definition refreshed ::
  "externals \<Rightarrow> (stable_swap \<Rightarrow> 'a result) \<Rightarrow> stable_swap \<Rightarrow> 'a result \<times> stable_swap" where
  "refreshed X f ss =
     (case updateDepegInfoIfExpired X ss of
        (Inl e, ss') \<Rightarrow> (Inl e, ss')
      | (Inr u, ss') \<Rightarrow> (f ss', ss'))"

section \<open>Scaling\<close>

definition upscaleTokenA :: "stable_swap \<Rightarrow> int \<Rightarrow> int" where
  "upscaleTokenA ss a =
     (let n = a * tokenAMultiplier (this_tokenMultiplier ss) in
      if depegType (this_depeg ss) \<noteq> DepegNone then n * PRECISION else n)"

definition downscaleTokenA :: "stable_swap \<Rightarrow> int \<Rightarrow> int result" where
  "downscaleTokenA ss a =
     and_then (trunc_div a (tokenAMultiplier (this_tokenMultiplier ss))) (\<lambda>n.
     if depegType (this_depeg ss) \<noteq> DepegNone then trunc_div n PRECISION else Inr n)"

definition upscaleTokenB :: "stable_swap \<Rightarrow> int \<Rightarrow> int" where
  "upscaleTokenB ss b =
     (let n = b * tokenBMultiplier (this_tokenMultiplier ss) in
      if depegType (this_depeg ss) \<noteq> DepegNone then n * baseVirtualPrice (this_depeg ss) else n)"

definition downscaleTokenB :: "stable_swap \<Rightarrow> int \<Rightarrow> int result" where
  "downscaleTokenB ss b =
     and_then (trunc_div b (tokenBMultiplier (this_tokenMultiplier ss))) (\<lambda>n.
     if depegType (this_depeg ss) \<noteq> DepegNone
     then trunc_div n (baseVirtualPrice (this_depeg ss)) else Inr n)"

section \<open>Swaps and the invariant\<close>

definition ss_computeOutAmountWithoutSlippage ::
  "stable_swap \<Rightarrow> int \<Rightarrow> int \<Rightarrow> int \<Rightarrow> int \<Rightarrow> int result" where
  "ss_computeOutAmountWithoutSlippage ss sourceAmount swapSourceAmount swapDestinationAmount invariantD =
     and_then (bnOfNumber (this_amp ss)) (\<lambda>A.
     let a = A * 16; b = a; c = invariantD * 4 - invariantD * A * 16;
         numerator = (2 * a * swapSourceAmount + b * swapDestinationAmount + c) * swapDestinationAmount;
         denominator = (a * swapSourceAmount + (2 * b * swapDestinationAmount + c)) * swapSourceAmount
     in trunc_div (sourceAmount * numerator) denominator)"

definition ss_outAmount ::
  "int \<Rightarrow> int \<Rightarrow> int \<Rightarrow> trade_direction \<Rightarrow> stable_swap \<Rightarrow> out_result result" where
  "ss_outAmount sourceAmount swapSourceAmount swapDestinationAmount tradeDirection ss =
     (let (upscaledSourceAmount, upscaledSwapSourceAmount, upscaledSwapDestinationAmount) =
        (if tradeDirection = AToB
         then (upscaleTokenA ss sourceAmount, upscaleTokenA ss swapSourceAmount,
               upscaleTokenB ss swapDestinationAmount)
         else (upscaleTokenB ss sourceAmount, upscaleTokenB ss swapSourceAmount,
               upscaleTokenA ss swapDestinationAmount)) in
      and_then (computeD (this_amp ss) upscaledSwapSourceAmount upscaledSwapDestinationAmount)
        (\<lambda>invariantD.
      let newSwapSourceAmount = upscaledSwapSourceAmount + upscaledSourceAmount in
      and_then (computeY (this_amp ss) newSwapSourceAmount invariantD) (\<lambda>newSwapDestinationAmount.
      let out = upscaledSwapDestinationAmount - newSwapDestinationAmount - 1 in
      and_then (ss_computeOutAmountWithoutSlippage ss upscaledSourceAmount upscaledSwapSourceAmount
          upscaledSwapDestinationAmount invariantD) (\<lambda>outWithoutSlippage.
      let downscale = (if tradeDirection = AToB then downscaleTokenB ss else downscaleTokenA ss) in
      and_then (downscale out) (\<lambda>outAmt.
      and_then (downscale outWithoutSlippage) (\<lambda>outAmtWithoutSlippage.
        Inr \<lparr>outAmount = outAmt, outPriceImpact = getPriceImpact outAmt outAmtWithoutSlippage\<rparr>))))))"

definition ss_computeOutAmount :: "externals \<Rightarrow> int \<Rightarrow> int \<Rightarrow> int \<Rightarrow> trade_direction \<Rightarrow>
    stable_swap \<Rightarrow> out_result result \<times> stable_swap" where
  "ss_computeOutAmount X sourceAmount swapSourceAmount swapDestinationAmount tradeDirection =
     refreshed X (ss_outAmount sourceAmount swapSourceAmount swapDestinationAmount tradeDirection)"

definition ss_invariantD :: "int \<Rightarrow> int \<Rightarrow> stable_swap \<Rightarrow> int result" where
  "ss_invariantD amountA amountB ss =
     and_then (computeD (this_amp ss) (upscaleTokenA ss amountA) (upscaleTokenB ss amountB))
       (\<lambda>invariantD.
     if depegType (this_depeg ss) \<noteq> DepegNone then trunc_div invariantD PRECISION else Inr invariantD)"

definition ss_computeD :: "externals \<Rightarrow> int \<Rightarrow> int \<Rightarrow> stable_swap \<Rightarrow> int result \<times> stable_swap" where
  "ss_computeD X amountA amountB = refreshed X (ss_invariantD amountA amountB)"

text \<open>
  \<open>computeInAmount\<close> subtracts the source reserve itself, not its upscaled value, from the
  upscaled new reserve, as the source does.
\<close>

definition ss_inAmount ::
  "int \<Rightarrow> int \<Rightarrow> int \<Rightarrow> trade_direction \<Rightarrow> stable_swap \<Rightarrow> int result" where
  "ss_inAmount destAmount swapSourceAmount swapDestinationAmount tradeDirection ss =
     (let (upscaledDestAmount, upscaledSwapSourceAmount, upscaledSwapDestinationAmount) =
        (if tradeDirection = AToB
         then (upscaleTokenB ss destAmount, upscaleTokenA ss swapSourceAmount,
               upscaleTokenB ss swapDestinationAmount)
         else (upscaleTokenA ss destAmount, upscaleTokenB ss swapSourceAmount,
               upscaleTokenA ss swapDestinationAmount)) in
      and_then (computeD (this_amp ss) upscaledSwapSourceAmount upscaledSwapDestinationAmount)
        (\<lambda>invariantD.
      let newSwapDestAmount = upscaledSwapDestinationAmount - upscaledDestAmount in
      and_then (computeY (this_amp ss) newSwapDestAmount invariantD) (\<lambda>newSwapSourceAmount.
      let inAmount = newSwapSourceAmount - swapSourceAmount in
      if tradeDirection = AToB then downscaleTokenA ss inAmount else downscaleTokenB ss inAmount)))"

definition ss_computeInAmount :: "externals \<Rightarrow> int \<Rightarrow> int \<Rightarrow> int \<Rightarrow> trade_direction \<Rightarrow>
    stable_swap \<Rightarrow> int result \<times> stable_swap" where
  "ss_computeInAmount X destAmount swapSourceAmount swapDestinationAmount tradeDirection =
     refreshed X (ss_inAmount destAmount swapSourceAmount swapDestinationAmount tradeDirection)"

section \<open>Fees as fractions\<close>

text \<open>
  A \<open>token-math\<close> Fraction is its value, \<open>None\<close> when its denominator is zero; arithmetic
  carries a zero denominator along, and \<open>toFixed(0)\<close> of such a fraction raises.
\<close>

type_synonym fraction = "rat option"

definition mkFraction :: "int \<Rightarrow> int \<Rightarrow> fraction" where
  "mkFraction n d = (if d = 0 then None else Some (Fract n d))"

definition liftFraction :: "(rat \<Rightarrow> rat \<Rightarrow> rat) \<Rightarrow> fraction \<Rightarrow> fraction \<Rightarrow> fraction" where
  "liftFraction f x y = (case (x, y) of (Some p, Some q) \<Rightarrow> Some (f p q) | _ \<Rightarrow> None)"

definition fractionMultiply :: "fraction \<Rightarrow> fraction \<Rightarrow> fraction" where
  "fractionMultiply = liftFraction (*)"

definition fractionSubtract :: "fraction \<Rightarrow> fraction \<Rightarrow> fraction" where
  "fractionSubtract = liftFraction (-)"

definition fractionToFixed :: "externals \<Rightarrow> fraction \<Rightarrow> int result" where
  "fractionToFixed X x = (case x of None \<Rightarrow> Inl DivisionByZero | Some q \<Rightarrow> Inr (toFixed0 X q))"

record saber_fees =
  feeTrade :: fraction
  feeWithdraw :: fraction
  feeAdminTrade :: fraction
  feeAdminWithdraw :: fraction

definition toFees :: "pool_fees \<Rightarrow> saber_fees" where
  "toFees f =
     \<lparr>feeTrade = mkFraction (tradeFeeNumerator f) (tradeFeeDenominator f),
      feeWithdraw = mkFraction 0 100,
      feeAdminTrade = mkFraction (protocolTradeFeeNumerator f) (protocolTradeFeeDenominator f),
      feeAdminWithdraw = mkFraction 0 100\<rparr>"

definition normalizedTradeFee :: "saber_fees \<Rightarrow> int \<Rightarrow> int \<Rightarrow> fraction" where
  "normalizedTradeFee f n_coins amount =
     (let adjustedTradeFee = mkFraction n_coins ((n_coins - 1) * 4) in
      fractionMultiply (fractionMultiply (mkFraction amount 1) (feeTrade f)) adjustedTradeFee)"

section \<open>The estimators\<close>

record withdraw_one =
  withdrawAmount :: int
  withdrawAmountBeforeFees :: int
  wSwapFee :: int
  wWithdrawFee :: int
  lpSwapFee :: int
  lpWithdrawFee :: int
  adminSwapFee :: int
  adminWithdrawFee :: int

definition calculateEstimatedWithdrawOneAmount ::
  "externals \<Rightarrow> int \<Rightarrow> saber_fees \<Rightarrow> int \<Rightarrow> int \<times> int \<Rightarrow> int \<Rightarrow> trade_direction \<Rightarrow> withdraw_one result" where
  "calculateEstimatedWithdrawOneAmount X ampFactor feeInfo lpTotalSupply reserves poolTokenAmount
     tradeDirection =
     (if poolTokenAmount = 0 then
        Inr \<lparr>withdrawAmount = 0, withdrawAmountBeforeFees = 0, wSwapFee = 0, wWithdrawFee = 0,
             lpSwapFee = 0, lpWithdrawFee = 0, adminSwapFee = 0, adminWithdrawFee = 0\<rparr>
      else
     (let (baseReserves, quoteReserves) =
        (if tradeDirection = BToA then (fst reserves, snd reserves) else (snd reserves, fst reserves)) in
      and_then (computeD ampFactor baseReserves quoteReserves) (\<lambda>d_0.
      and_then (trunc_div (poolTokenAmount * d_0) lpTotalSupply) (\<lambda>q.
      let d_1 = d_0 - q in
      and_then (computeY ampFactor quoteReserves d_1) (\<lambda>new_y.
      and_then (trunc_div (baseReserves * d_1) d_0) (\<lambda>base_1.
      let expected_base_amount = base_1 - new_y in
      and_then (trunc_div (quoteReserves * d_1) d_0) (\<lambda>quote_1.
      let expected_quote_amount = quoteReserves - quote_1;
          new_base_amount = fractionSubtract (mkFraction baseReserves 1)
            (normalizedTradeFee feeInfo N_COINS expected_base_amount);
          new_quote_amount = fractionSubtract (mkFraction quoteReserves 1)
            (normalizedTradeFee feeInfo N_COINS expected_quote_amount) in
      and_then (fractionToFixed X new_quote_amount) (\<lambda>new_quote.
      and_then (computeY ampFactor new_quote d_1) (\<lambda>y.
      let dy = fractionSubtract new_base_amount (mkFraction y 1);
          dy_0 = baseReserves - new_y;
          swapFee = fractionSubtract (mkFraction dy_0 1) dy;
          withdrawFee = fractionMultiply dy (feeWithdraw feeInfo);
          adminSwap = fractionMultiply swapFee (feeAdminTrade feeInfo);
          adminWithdraw = fractionMultiply withdrawFee (feeAdminWithdraw feeInfo);
          lpSwap = fractionSubtract swapFee adminSwap;
          lpWithdraw = fractionSubtract withdrawFee adminWithdraw;
          amount = fractionSubtract (fractionSubtract dy withdrawFee) swapFee in
      and_then (fractionToFixed X amount) (\<lambda>v1.
      and_then (fractionToFixed X dy) (\<lambda>v2.
      and_then (fractionToFixed X swapFee) (\<lambda>v3.
      and_then (fractionToFixed X withdrawFee) (\<lambda>v4.
      and_then (fractionToFixed X lpSwap) (\<lambda>v5.
      and_then (fractionToFixed X lpWithdraw) (\<lambda>v6.
      and_then (fractionToFixed X adminSwap) (\<lambda>v7.
      and_then (fractionToFixed X adminWithdraw) (\<lambda>v8.
        Inr \<lparr>withdrawAmount = v1, withdrawAmountBeforeFees = v2, wSwapFee = v3, wWithdrawFee = v4,
             lpSwapFee = v5, lpWithdrawFee = v6, adminSwapFee = v7, adminWithdrawFee = v8\<rparr>)))))))))))))))))"

record mint_amounts =
  mintAmount :: int
  mintAmountBeforeFees :: int
  mintFees :: int

text \<open>One entry of \<open>adjustedBalances\<close>: the new balance less the fee on its distance from ideal.\<close>

definition adjustedBalance ::
  "externals \<Rightarrow> saber_fees \<Rightarrow> int \<Rightarrow> int \<Rightarrow> int \<Rightarrow> int \<Rightarrow> int result" where
  "adjustedBalance X feeInfo d0 d1 oldBalance newBalance =
     (let idealBalance = fractionMultiply (mkFraction d1 d0) (mkFraction oldBalance 1);
          difference = fractionSubtract idealBalance (mkFraction newBalance 1);
          diffAbs = map_option (\<lambda>q. if q > 0 then q else q * (-1)) difference in
      and_then (fractionToFixed X diffAbs) (\<lambda>diffFixed.
      let fee = normalizedTradeFee feeInfo N_COINS diffFixed in
      and_then (fractionToFixed X fee) (\<lambda>feeFixed. Inr (newBalance - feeFixed))))"

definition calculateEstimatedMintAmount ::
  "externals \<Rightarrow> int \<Rightarrow> saber_fees \<Rightarrow> int \<Rightarrow> int \<times> int \<Rightarrow> int \<Rightarrow> int \<Rightarrow> mint_amounts result" where
  "calculateEstimatedMintAmount X ampFactor feeInfo lpTotalSupply reserves depositAmountA depositAmountB =
     (if depositAmountA = 0 \<and> depositAmountB = 0
      then Inr \<lparr>mintAmount = 0, mintAmountBeforeFees = 0, mintFees = 0\<rparr>
      else
     (let reserveA = fst reserves; reserveB = snd reserves in
      and_then (computeD ampFactor reserveA reserveB) (\<lambda>d0.
      and_then (computeD ampFactor (reserveA + depositAmountA) (reserveB + depositAmountB)) (\<lambda>d1.
      if d1 < d0 then Inl (Thrown ''New D cannot be less than previous D'')
      else
      and_then (adjustedBalance X feeInfo d0 d1 reserveA (reserveA + depositAmountA)) (\<lambda>adjustedA.
      and_then (adjustedBalance X feeInfo d0 d1 reserveB (reserveB + depositAmountB)) (\<lambda>adjustedB.
      and_then (computeD ampFactor adjustedA adjustedB) (\<lambda>d2.
      and_then (trunc_div (lpTotalSupply * (d2 - d0)) d0) (\<lambda>mintAmountRaw.
      and_then (trunc_div (lpTotalSupply * (d1 - d0)) d0) (\<lambda>mintAmountRawBeforeFees.
        Inr \<lparr>mintAmount = mintAmountRaw, mintAmountBeforeFees = mintAmountRawBeforeFees,
             mintFees = mintAmountRawBeforeFees - mintAmountRaw\<rparr>)))))))))"

definition ss_imbalanceDeposit ::
  "externals \<Rightarrow> int \<Rightarrow> int \<Rightarrow> int \<Rightarrow> int \<Rightarrow> int \<Rightarrow> pool_fees \<Rightarrow> stable_swap \<Rightarrow> int result" where
  "ss_imbalanceDeposit X depositAAmount depositBAmount swapTokenAAmount swapTokenBAmount lpSupply
     poolFees ss =
     and_then (calculateEstimatedMintAmount X (this_amp ss) (toFees poolFees) lpSupply
        (upscaleTokenA ss swapTokenAAmount, upscaleTokenB ss swapTokenBAmount)
        (upscaleTokenA ss depositAAmount) (upscaleTokenB ss depositBAmount))
       (\<lambda>m. Inr (mintAmount m))"

definition ss_computeImbalanceDeposit :: "externals \<Rightarrow> int \<Rightarrow> int \<Rightarrow> int \<Rightarrow> int \<Rightarrow> int \<Rightarrow> pool_fees \<Rightarrow>
    stable_swap \<Rightarrow> int result \<times> stable_swap" where
  "ss_computeImbalanceDeposit X depositAAmount depositBAmount swapTokenAAmount swapTokenBAmount
     lpSupply poolFees =
     refreshed X (ss_imbalanceDeposit X depositAAmount depositBAmount swapTokenAAmount
       swapTokenBAmount lpSupply poolFees)"

definition ss_withdrawOne ::
  "externals \<Rightarrow> int \<Rightarrow> int \<Rightarrow> int \<Rightarrow> int \<Rightarrow> pool_fees \<Rightarrow> trade_direction \<Rightarrow> stable_swap \<Rightarrow> int result" where
  "ss_withdrawOne X lpAmount lpSupply swapTokenAAmount swapTokenBAmount poolFees tradeDirection ss =
     and_then (calculateEstimatedWithdrawOneAmount X (this_amp ss) (toFees poolFees) lpSupply
        (upscaleTokenA ss swapTokenAAmount, upscaleTokenB ss swapTokenBAmount) lpAmount tradeDirection)
       (\<lambda>w. if tradeDirection = AToB then downscaleTokenB ss (withdrawAmountBeforeFees w)
            else downscaleTokenA ss (withdrawAmountBeforeFees w))"

definition ss_computeWithdrawOne :: "externals \<Rightarrow> int \<Rightarrow> int \<Rightarrow> int \<Rightarrow> int \<Rightarrow> pool_fees \<Rightarrow> trade_direction \<Rightarrow>
    stable_swap \<Rightarrow> int result \<times> stable_swap" where
  "ss_computeWithdrawOne X lpAmount lpSupply swapTokenAAmount swapTokenBAmount poolFees tradeDirection =
     refreshed X (ss_withdrawOne X lpAmount lpSupply swapTokenAAmount swapTokenBAmount poolFees
       tradeDirection)"

text \<open>Accounts a transaction has to name besides its own, all read-only and not signing.\<close>

record account_meta =
  metaPubkey :: pubkey
  isWritable :: bool
  isSigner :: bool

definition readOnly :: "pubkey \<Rightarrow> account_meta" where
  "readOnly k = \<lparr>metaPubkey = k, isWritable = False, isSigner = False\<rparr>"

definition ss_getRemainingAccounts :: "stable_swap \<Rightarrow> account_meta list" where
  "ss_getRemainingAccounts ss =
     (if depegType (this_depeg ss) = DepegMarinade then [readOnly CURVE_TYPE_ACCOUNTS_marinade] else []) @
     (if depegType (this_depeg ss) = DepegLido then [readOnly CURVE_TYPE_ACCOUNTS_lido] else []) @
     (if stakePoolPubkey ss \<noteq> PublicKey_default then [readOnly (stakePoolPubkey ss)] else [])"

section \<open>The price cache\<close>

lemma refreshed_state: "snd (refreshed X f ss) = snd (updateDepegInfoIfExpired X ss)"
  by (auto simp: refreshed_def split: prod.splits sum.splits)

lemma refreshed_result:
  "fst (refreshed X f ss) =
    and_then (fst (updateDepegInfoIfExpired X ss)) (\<lambda>_. f (snd (updateDepegInfoIfExpired X ss)))"
  by (auto simp: refreshed_def split: prod.splits sum.splits)

lemma updateDepeg_frame:
  "this_amp (snd (updateDepegInfoIfExpired X ss)) = this_amp ss"
  "this_tokenMultiplier (snd (updateDepegInfoIfExpired X ss)) = this_tokenMultiplier ss"
  "depegType (this_depeg (snd (updateDepegInfoIfExpired X ss))) = depegType (this_depeg ss)"
  "extraAccounts (snd (updateDepegInfoIfExpired X ss)) = extraAccounts ss"
  "onChainTime (snd (updateDepegInfoIfExpired X ss)) = onChainTime ss"
  "stakePoolPubkey (snd (updateDepegInfoIfExpired X ss)) = stakePoolPubkey ss"
  by (auto simp: updateDepegInfoIfExpired_def split: sum.splits)

lemma updateDepeg_fails: "fst (updateDepegInfoIfExpired X ss) = Inl e \<Longrightarrow> snd (updateDepegInfoIfExpired X ss) = ss"
  by (auto simp: updateDepegInfoIfExpired_def split: sum.splits if_splits)

lemma cacheExpired_eq_Inr_iff:
  "cacheExpired ss = Inr e \<longleftrightarrow> \<bar>onChainTime ss\<bar> < 2 ^ 53 \<and>
    \<bar>baseCacheUpdated (this_depeg ss) + BASE_CACHE_EXPIRE\<bar> < 2 ^ 53 \<and>
    e = (baseCacheUpdated (this_depeg ss) + BASE_CACHE_EXPIRE < onChainTime ss)"
  by (auto simp: cacheExpired_def and_then_eq_Inr_iff toNumber_eq_Inr_iff)

lemma updateDepeg_ok:
  assumes "fst (updateDepegInfoIfExpired X ss) = Inr u" and "depegType (this_depeg ss) \<noteq> DepegNone"
  shows "cacheExpired ss = Inr False \<and> updateDepegInfoIfExpired X ss = (Inr (), ss) \<or>
    cacheExpired ss = Inr True \<and> (\<exists>price.
      getBasePoolVirtualPrice X ss (depegType (this_depeg ss)) = Inr price \<and>
      updateDepegInfoIfExpired X ss = (Inr (), ss\<lparr>this_depeg := (this_depeg ss)
         \<lparr>baseVirtualPrice := price, baseCacheUpdated := onChainTime ss\<rparr>\<rparr>))"
proof (cases "cacheExpired ss")
  case (Inl e)
  with assms show ?thesis by (simp add: updateDepegInfoIfExpired_def)
next
  case (Inr expired)
  with assms show ?thesis
    by (cases expired; cases "getBasePoolVirtualPrice X ss (depegType (this_depeg ss))")
      (simp_all add: updateDepegInfoIfExpired_def)
qed

lemma updateDepeg_fresh:
  assumes "fst (updateDepegInfoIfExpired X ss) = Inr u" and "depegType (this_depeg ss) \<noteq> DepegNone"
  shows "onChainTime ss \<le> baseCacheUpdated (this_depeg (snd (updateDepegInfoIfExpired X ss))) + BASE_CACHE_EXPIRE"
  using updateDepeg_ok [OF assms] by (auto simp: cacheExpired_eq_Inr_iff BASE_CACHE_EXPIRE_def)

text \<open>The clock is far enough from the safe integers for the expiry of a new cache entry.\<close>

definition timely :: "stable_swap \<Rightarrow> bool" where
  "timely ss \<longleftrightarrow> \<bar>onChainTime ss + BASE_CACHE_EXPIRE\<bar> < 2 ^ 53"

text \<open>A refreshed cache is not refreshed again, and a failed refresh fails again.\<close>

lemma updateDepeg_again:
  assumes "timely ss"
  shows "updateDepegInfoIfExpired X (snd (updateDepegInfoIfExpired X ss)) = updateDepegInfoIfExpired X ss"
proof (cases "depegType (this_depeg ss) = DepegNone")
  case True
  then show ?thesis by (simp add: updateDepegInfoIfExpired_def)
next
  case False
  show ?thesis
  proof (cases "fst (updateDepegInfoIfExpired X ss)")
    case (Inl e)
    then show ?thesis by (simp add: updateDepeg_fails)
  next
    case (Inr u)
    from updateDepeg_ok [OF Inr False] show ?thesis
    proof
      assume "cacheExpired ss = Inr False \<and> updateDepegInfoIfExpired X ss = (Inr (), ss)"
      then show ?thesis by simp
    next
      assume refreshed: "cacheExpired ss = Inr True \<and> (\<exists>price.
        getBasePoolVirtualPrice X ss (depegType (this_depeg ss)) = Inr price \<and>
        updateDepegInfoIfExpired X ss = (Inr (), ss\<lparr>this_depeg := (this_depeg ss)
           \<lparr>baseVirtualPrice := price, baseCacheUpdated := onChainTime ss\<rparr>\<rparr>))"
      then obtain price where upd: "updateDepegInfoIfExpired X ss = (Inr (), ss\<lparr>this_depeg := (this_depeg ss)
           \<lparr>baseVirtualPrice := price, baseCacheUpdated := onChainTime ss\<rparr>\<rparr>)" by blast
      from refreshed assms
      have "cacheExpired (snd (updateDepegInfoIfExpired X ss)) = Inr False"
        by (auto simp: upd cacheExpired_eq_Inr_iff timely_def BASE_CACHE_EXPIRE_def)
      with upd False show ?thesis by (simp add: updateDepegInfoIfExpired_def)
    qed
  qed
qed

section \<open>Scaling round trips and bounds\<close>

text \<open>
  \<open>well_scaled\<close>: the amplification, both multipliers and, in a depeg pool, the cached price are
  positive. The factors are what an amount is multiplied with on its way up.
\<close>

definition well_scaled :: "stable_swap \<Rightarrow> bool" where
  "well_scaled ss \<longleftrightarrow> 0 < this_amp ss \<and> 0 < tokenAMultiplier (this_tokenMultiplier ss) \<and>
     0 < tokenBMultiplier (this_tokenMultiplier ss) \<and>
     (depegType (this_depeg ss) \<noteq> DepegNone \<longrightarrow> 0 < baseVirtualPrice (this_depeg ss))"

definition factorA :: "stable_swap \<Rightarrow> int" where
  "factorA ss = upscaleTokenA ss 1"

definition factorB :: "stable_swap \<Rightarrow> int" where
  "factorB ss = upscaleTokenB ss 1"

lemma upscale_factor:
  "upscaleTokenA ss a = a * factorA ss" "upscaleTokenB ss b = b * factorB ss"
  by (auto simp: upscaleTokenA_def upscaleTokenB_def factorA_def factorB_def Let_def)

lemma factor_pos: "well_scaled ss \<Longrightarrow> 0 < factorA ss" "well_scaled ss \<Longrightarrow> 0 < factorB ss"
  by (auto simp: well_scaled_def factorA_def factorB_def upscaleTokenA_def upscaleTokenB_def
      PRECISION_def Let_def)

lemma div_div_eq: "0 \<le> m \<Longrightarrow> (x::int) div k div m = x div (k * m)"
  by (simp add: zdiv_zmult2_eq)

lemma downscale_nonneg:
  assumes "well_scaled ss" and "0 \<le> x"
  shows "downscaleTokenA ss x = Inr (x div factorA ss)" "downscaleTokenB ss x = Inr (x div factorB ss)"
proof -
  have "0 \<le> x div k" if "0 < k" for k using assms(2) that by (simp add: pos_imp_zdiv_nonneg_iff)
  with assms show "downscaleTokenA ss x = Inr (x div factorA ss)"
    "downscaleTokenB ss x = Inr (x div factorB ss)"
    by (auto simp: downscaleTokenA_def downscaleTokenB_def factorA_def factorB_def upscaleTokenA_def
        upscaleTokenB_def well_scaled_def trunc_div_pos PRECISION_def div_div_eq Let_def)
qed

lemma downscale_nonpos:
  assumes "well_scaled ss" and "x \<le> 0"
  shows "downscaleTokenA ss x = Inr v \<Longrightarrow> v \<le> 0" "downscaleTokenB ss x = Inr v \<Longrightarrow> v \<le> 0"
  using assms
  by (auto simp: downscaleTokenA_def downscaleTokenB_def well_scaled_def trunc_div_eq_Inr_iff
      PRECISION_def sdiv_nonpos split: if_splits)

section \<open>The swap\<close>

text \<open>The factors and the scaling of the two sides of a trade.\<close>

definition factorSource :: "trade_direction \<Rightarrow> stable_swap \<Rightarrow> int" where
  "factorSource dir ss = (if dir = AToB then factorA ss else factorB ss)"

definition factorDest :: "trade_direction \<Rightarrow> stable_swap \<Rightarrow> int" where
  "factorDest dir ss = (if dir = AToB then factorB ss else factorA ss)"

definition downscaleDest :: "trade_direction \<Rightarrow> stable_swap \<Rightarrow> int \<Rightarrow> int result" where
  "downscaleDest dir ss = (if dir = AToB then downscaleTokenB ss else downscaleTokenA ss)"

lemma factor_sides_pos:
  "well_scaled ss \<Longrightarrow> 0 < factorSource dir ss" "well_scaled ss \<Longrightarrow> 0 < factorDest dir ss"
  by (simp_all add: factorSource_def factorDest_def factor_pos)

lemma downscaleDest_value:
  "well_scaled ss \<Longrightarrow> 0 \<le> x \<Longrightarrow> downscaleDest dir ss x = Inr (x div factorDest dir ss)"
  by (simp add: downscaleDest_def factorDest_def downscale_nonneg)

lemma downscaleDest_nonpos: "well_scaled ss \<Longrightarrow> x \<le> 0 \<Longrightarrow> downscaleDest dir ss x = Inr v \<Longrightarrow> v \<le> 0"
  unfolding downscaleDest_def using downscale_nonpos [of ss x v] by presburger

lemma ss_outAmount_Inr:
  assumes "ss_outAmount i s d dir ss = Inr r"
  obtains D y where "computeD (this_amp ss) (s * factorSource dir ss) (d * factorDest dir ss) = Inr D"
    and "computeY (this_amp ss) ((s + i) * factorSource dir ss) D = Inr y"
    and "downscaleDest dir ss (d * factorDest dir ss - y - 1) = Inr (outAmount r)"
  using assms
  by (cases dir) (auto simp: ss_outAmount_def upscale_factor factorSource_def factorDest_def
      downscaleDest_def distrib_right Let_def)

lemma computeD_ge_2:
  assumes "computeD ampFactor a b = Inr D" and "0 < ampFactor" and "0 < a" and "0 < b"
  shows "2 \<le> D"
proof (cases "a * b = 1")
  case True
  with assms have one: "a = 1" "b = 1" by (auto simp: zmult_eq_1_iff)
  with assms computeD_same [of ampFactor 1] show ?thesis by simp
next
  case False
  from computeD_good [OF assms(2-4)] assms(1)
  have "1 \<le> D" and geo: "4 * (a * b) \<le> (D + 1) * (D + 1)" by (auto simp: goodD_def)
  have "1 * 1 \<le> a * b" using assms by (intro mult_mono) auto
  with False have "2 \<le> a * b" by linarith
  with geo have "8 \<le> (D + 1) * (D + 1)" by linarith
  show ?thesis
  proof (rule ccontr)
    assume "\<not> 2 \<le> D"
    with \<open>1 \<le> D\<close> have "D = 1" by simp
    with \<open>8 \<le> (D + 1) * (D + 1)\<close> show False by simp
  qed
qed

lemma quadratic_mono:
  assumes "0 \<le> c" and "c < (y + 1) * (y + 1) + b * (y + 1)" and "0 \<le> y" and "y + 1 \<le> R"
  shows "c < R * R + b * (R::int)"
proof -
  have "0 < (y + 1) * (y + 1 + b)" using assms by (simp add: distrib_left mult.commute)
  then have pos: "0 < y + 1 + b" using assms by (simp add: zero_less_mult_iff)
  have "(y + 1) * (y + 1 + b) \<le> R * (R + b)" using assms pos by (intro mult_mono) auto
  with assms show ?thesis by (simp add: distrib_left mult.commute)
qed

lemma ss_swap_bounds:
  assumes "ss_outAmount i s d dir ss = Inr r" and "well_scaled ss" and "0 < s" and "0 < d" and "0 \<le> i"
  shows "outAmount r < d \<and> (\<exists>D. computeD (this_amp ss) (s * factorSource dir ss) (d * factorDest dir ss) = Inr D \<and>
    (0 < outAmount r \<longrightarrow> (let R = (d - outAmount r) * factorDest dir ss; x = (s + i) * factorSource dir ss in
      coeffC (this_amp ss) x D < R * R + coeffB (this_amp ss) x D * R)))"
proof -
  let ?fs = "factorSource dir ss" and ?fd = "factorDest dir ss"
  from assms(2) have amp: "0 < this_amp ss" by (simp add: well_scaled_def)
  note fs = factor_sides_pos(1) [OF assms(2), of dir] and fd = factor_sides_pos(2) [OF assms(2), of dir]
  from assms fs fd have pos: "0 < s * ?fs" "0 < d * ?fd" "0 < (s + i) * ?fs" by auto
  obtain D y where D: "computeD (this_amp ss) (s * ?fs) (d * ?fd) = Inr D"
    and y: "computeY (this_amp ss) ((s + i) * ?fs) D = Inr y"
    and down: "downscaleDest dir ss (d * ?fd - y - 1) = Inr (outAmount r)"
    using ss_outAmount_Inr [OF assms(1)] by blast
  have D2: "2 \<le> D" using computeD_ge_2 [OF D amp pos(1,2)] .
  from computeY_good [OF amp pos(3) D2] y have y0: "0 \<le> y"
    and above: "coeffC (this_amp ss) ((s + i) * ?fs) D < (y + 1) * (y + 1) +
      coeffB (this_amp ss) ((s + i) * ?fs) D * (y + 1)"
    by (auto simp: goodY_def)
  have c0: "0 \<le> coeffC (this_amp ss) ((s + i) * ?fs) D"
    using coeffC_nonneg amp pos(3) D2 by simp
  show ?thesis
  proof (cases "d * ?fd - y - 1 \<le> 0")
    case True
    with downscaleDest_nonpos [OF assms(2) True down] assms D show ?thesis by auto
  next
    case False
    with down downscaleDest_value [OF assms(2)] have out: "outAmount r = (d * ?fd - y - 1) div ?fd" by auto
    have "outAmount r < d" unfolding out using fd y0 by (intro div_lt_of_lt_mult) auto
    moreover have "y + 1 \<le> (d - outAmount r) * ?fd"
      using div_times_le [OF fd, of "d * ?fd - y - 1"] by (simp add: out left_diff_distrib)
    ultimately show ?thesis using D quadratic_mono [OF c0 above y0] by (auto simp: Let_def)
  qed
qed

section \<open>Deposits in proportion\<close>

text \<open>
  What the sources rely on of \<open>toFixed(0)\<close>: the integer nearest to the value, whatever the
  rule for ties.
\<close>

definition rounds_to_nearest :: "externals \<Rightarrow> bool" where
  "rounds_to_nearest X \<longleftrightarrow> (\<forall>q. 2 * \<bar>of_int (toFixed0 X q) - q\<bar> \<le> 1)"

lemma toFixed0_of_int:
  assumes "rounds_to_nearest X"
  shows "toFixed0 X (of_int n) = n"
proof -
  let ?k = "toFixed0 X (of_int n) - n"
  from assms have "2 * \<bar>of_int (toFixed0 X (of_int n)) - (of_int n :: rat)\<bar> \<le> 1"
    by (simp add: rounds_to_nearest_def)
  then have "(of_int (2 * \<bar>?k\<bar>) :: rat) \<le> of_int 1" by simp
  then have "2 * \<bar>?k\<bar> \<le> 1" by (simp only: of_int_le_iff)
  then show ?thesis by presburger
qed

lemma adjustedBalance_proportional:
  assumes "rounds_to_nearest X" and "d0 \<noteq> 0" and "d1 * old = d0 * new" and "feeTrade f \<noteq> None"
  shows "adjustedBalance X f d0 d1 old new = Inr new"
proof -
  from assms(4) obtain t where t: "feeTrade f = Some t" by auto
  have "Fract d1 d0 * Fract old 1 = Fract new 1"
    using assms(2,3) by (simp add: eq_rat)
  moreover have "toFixed0 X 0 = 0" using toFixed0_of_int [OF assms(1), of 0] by simp
  ultimately show ?thesis using assms(2) t
    by (simp add: adjustedBalance_def mkFraction_def fractionMultiply_def fractionSubtract_def
        liftFraction_def fractionToFixed_def normalizedTradeFee_def N_COINS_def Let_def
        Zero_rat_def [symmetric])
qed

lemma calculateEstimatedMintAmount_balanced:
  assumes "rounds_to_nearest X" and "0 < ampFactor" and "0 < x" and "0 \<le> t" and "0 \<le> lp"
    and "feeTrade f \<noteq> None"
  shows "calculateEstimatedMintAmount X ampFactor f lp (x, x) t t =
    Inr \<lparr>mintAmount = (lp * t) div x, mintAmountBeforeFees = (lp * t) div x, mintFees = 0\<rparr>"
proof (cases "t = 0")
  case True
  then show ?thesis by (simp add: calculateEstimatedMintAmount_def)
next
  case False
  note balanced = computeD_same [OF assms(2)]
  have adjusted: "adjustedBalance X f (2 * x) (2 * x + 2 * t) x (x + t) = Inr (x + t)"
    using assms by (intro adjustedBalance_proportional) (auto simp: algebra_simps)
  have "(lp * (2 * (x + t) - 2 * x)) div (2 * x) = (lp * t) div x"
    by (metis add_diff_cancel_left' mult.left_commute right_diff_distrib' div_mult_mult1
        zero_neq_numeral)
  with False assms show ?thesis
    by (simp add: calculateEstimatedMintAmount_def balanced adjusted trunc_div_pos Let_def)
qed

section \<open>Properties\<close>

text \<open>
  C3: A stable swap that returns pays less than the destination reserve. When it pays anything, the
  upscaled reserve that remains lies strictly above the curve the code solves for: the
  quadratic of \<open>computeY\<close> at the new source reserve and the invariant of the old reserves.
\<close>

theorem ss_swap_keeps_curve:
  assumes "ss_outAmount i s d dir ss = Inr r" and "well_scaled ss" and "0 < s" and "0 < d" and "0 \<le> i"
  shows "outAmount r < d \<and> (\<exists>D. computeD (this_amp ss) (s * factorSource dir ss) (d * factorDest dir ss) = Inr D \<and>
    (0 < outAmount r \<longrightarrow> (let R = (d - outAmount r) * factorDest dir ss; x = (s + i) * factorSource dir ss in
      coeffC (this_amp ss) x D < R * R + coeffB (this_amp ss) x D * R)))"
  using assms by (rule ss_swap_bounds)

definition example_ss :: stable_swap where
  "example_ss = \<lparr>this_amp = 100,
     this_tokenMultiplier = \<lparr>tokenAMultiplier = 1000, tokenBMultiplier = 1, precisionFactor = 9\<rparr>,
     this_depeg = \<lparr>baseVirtualPrice = 0, baseCacheUpdated = 0, depegType = DepegNone\<rparr>,
     extraAccounts = Map.empty, onChainTime = 1700000000, stakePoolPubkey = PublicKey_default\<rparr>"

lemma example_ss_well_scaled: "well_scaled example_ss"
  by (simp add: well_scaled_def example_ss_def)

theorem ss_swap_keeps_curve_witness:
  "\<exists>r. ss_outAmount 5000 1000000 1000000000 AToB example_ss = Inr r \<and> 0 < outAmount r \<and>
    outAmount r < 1000000000"
proof -
  have "fst (case ss_outAmount 5000 1000000 1000000000 AToB example_ss of
      Inl e \<Rightarrow> (False, 0) | Inr r \<Rightarrow> (0 < outAmount r, outAmount r))"
    by code_simp
  then obtain r where run: "ss_outAmount 5000 1000000 1000000000 AToB example_ss = Inr r"
    and pos: "0 < outAmount r"
    by (auto split: sum.splits)
  from ss_swap_keeps_curve [OF run example_ss_well_scaled] run pos show ?thesis by simp
qed

text \<open>
  C31: After a method of a depeg pool has refreshed its object, the cached price is at most ten
  minutes older than the clock, and it is either the price that was cached or the one the
  stake account gives; nothing else of the object changes.
\<close>

theorem depeg_cache_fresh:
  assumes "updateDepegInfoIfExpired X ss = (Inr u, ss')" and "depegType (this_depeg ss) \<noteq> DepegNone"
  shows "onChainTime ss' \<le> baseCacheUpdated (this_depeg ss') + BASE_CACHE_EXPIRE \<and>
    (ss' = ss \<or> getBasePoolVirtualPrice X ss (depegType (this_depeg ss)) =
        Inr (baseVirtualPrice (this_depeg ss')) \<and> baseCacheUpdated (this_depeg ss') = onChainTime ss) \<and>
    ss'\<lparr>this_depeg := this_depeg ss\<rparr> = ss \<and> depegType (this_depeg ss') = depegType (this_depeg ss)"
  using updateDepeg_ok [of X ss u] updateDepeg_fresh [of X ss u] updateDepeg_frame [of X ss] assms
  by (auto simp: BASE_CACHE_EXPIRE_def)

text \<open>A Lido account that holds supply 1000000000 and balance 1100000000 at its two offsets.\<close>

definition example_lido :: "byte list" where
  "example_lido = replicate 73 0 @ leBytes 8 1000000000 @ leBytes 8 1100000000"

definition example_depeg_ss :: stable_swap where
  "example_depeg_ss = example_ss\<lparr>
     this_depeg := \<lparr>baseVirtualPrice = 1000000, baseCacheUpdated = 1699990000, depegType = DepegLido\<rparr>,
     extraAccounts := [CURVE_TYPE_ACCOUNTS_lido \<mapsto> example_lido]\<rparr>"

theorem depeg_cache_fresh_witness:
  "\<forall>X. \<exists>ss'. updateDepegInfoIfExpired X example_depeg_ss = (Inr (), ss') \<and>
    onChainTime ss' \<le> baseCacheUpdated (this_depeg ss') + BASE_CACHE_EXPIRE"
proof
  fix X
  have price: "getBasePoolVirtualPrice X example_depeg_ss DepegLido = Inr 1100000"
  proof -
    have "readBigInt64LE example_lido 73 = Inr 1000000000" "readBigInt64LE example_lido 81 = Inr 1100000000"
      by code_simp+
    then show ?thesis
      by (simp add: example_depeg_ss_def accountData_def trunc_div_pos PRECISION_def)
  qed
  have expired: "cacheExpired example_depeg_ss = Inr True"
    by (simp add: cacheExpired_eq_Inr_iff example_depeg_ss_def example_ss_def BASE_CACHE_EXPIRE_def)
  define ss' where "ss' = example_depeg_ss\<lparr>this_depeg := (this_depeg example_depeg_ss)
     \<lparr>baseVirtualPrice := 1100000, baseCacheUpdated := onChainTime example_depeg_ss\<rparr>\<rparr>"
  have lido: "depegType (this_depeg example_depeg_ss) = DepegLido"
    by (simp add: example_depeg_ss_def)
  have run: "updateDepegInfoIfExpired X example_depeg_ss = (Inr (), ss')"
    using price expired by (simp add: updateDepegInfoIfExpired_def lido ss'_def)
  from depeg_cache_fresh [OF run] run lido
  show "\<exists>ss'. updateDepegInfoIfExpired X example_depeg_ss = (Inr (), ss') \<and>
    onChainTime ss' \<le> baseCacheUpdated (this_depeg ss') + BASE_CACHE_EXPIRE" by auto
qed

text \<open>
  What is scaled up and down again is unchanged, for both tokens, in plain and in depeg pools.
\<close>

lemma scaling_roundtrip:
  assumes "well_scaled ss" and "0 \<le> a"
  shows "downscaleTokenA ss (upscaleTokenA ss a) = Inr a \<and> downscaleTokenB ss (upscaleTokenB ss a) = Inr a"
  using assms factor_pos [OF assms(1)] by (simp add: downscale_nonneg upscale_factor)

text \<open>
  A deposit that keeps a balanced stable pool balanced is charged no imbalance fee: it mints the
  depositor's share of the supply rounded down, whatever the trade fee, provided \<open>toFixed(0)\<close>
  rounds to a nearest integer.
\<close>

lemma balanced_deposit_mints_share:
  assumes "rounds_to_nearest X" and "well_scaled ss" and "tradeFeeDenominator f \<noteq> 0" and "0 \<le> lp"
    and "0 < a" and "upscaleTokenA ss a = upscaleTokenB ss b"
    and "0 \<le> da" and "upscaleTokenA ss da = upscaleTokenB ss db"
  shows "ss_imbalanceDeposit X da db a b lp f ss =
    Inr ((lp * upscaleTokenA ss da) div upscaleTokenA ss a)"
proof -
  have pos: "0 < upscaleTokenA ss a" "0 \<le> upscaleTokenA ss da"
    unfolding upscale_factor using assms(5,7) factor_pos(1) [OF assms(2)] by simp_all
  have fee: "feeTrade (toFees f) \<noteq> None" using assms(3) by (simp add: toFees_def mkFraction_def)
  have amp: "0 < this_amp ss" using assms(2) by (simp add: well_scaled_def)
  show ?thesis
    unfolding ss_imbalanceDeposit_def assms(6,8) [symmetric]
      calculateEstimatedMintAmount_balanced [OF assms(1) amp pos assms(4) fee] by simp
qed

definition example_externals :: externals where
  "example_externals =
     \<lparr>decodeMsolPrice = (\<lambda>data. Inr (leValue data)),
      structDecode = (\<lambda>l data. Inr (\<lambda>f. map_option (\<lambda>off. leValue (take 8 (drop off data))) (offsetOf l f))),
      bnSqrt = (\<lambda>n. Inr (isqrt n)),
      toFixed0 = (\<lambda>q. \<lfloor>q + 1 / 2\<rfloor>),
      bnDivRound = (\<lambda>a b. (2 * a + b) div (2 * b)),
      vsWithdrawable = (\<lambda>now v. Inr (totalAmount v)),
      vsAmountByShare = (\<lambda>share amount supply. if supply = 0 then Inr 0 else trunc_div (share * amount) supply),
      vsUnmintAmount = (\<lambda>amount total supply. trunc_div (amount * supply) total)\<rparr>"

lemma example_externals_rounds: "rounds_to_nearest example_externals"
proof -
  have "2 * \<bar>of_int \<lfloor>q + 1 / 2\<rfloor> - q\<bar> \<le> 1" for q :: rat
  proof -
    have "of_int \<lfloor>q + 1 / 2\<rfloor> \<le> q + 1 / 2" "q + 1 / 2 < of_int (\<lfloor>q + 1 / 2\<rfloor> + 1)"
      using floor_correct [of "q + 1 / 2"] by blast+
    then have "of_int \<lfloor>q + 1 / 2\<rfloor> - q \<le> 1 / 2" "- (1 / 2) < of_int \<lfloor>q + 1 / 2\<rfloor> - q"
      by (simp_all only: of_int_add of_int_1)
    then have "\<bar>of_int \<lfloor>q + 1 / 2\<rfloor> - q\<bar> \<le> 1 / 2" by (intro abs_leI) linarith+
    then show ?thesis by simp
  qed
  then show ?thesis by (simp add: rounds_to_nearest_def example_externals_def)
qed

definition example_fees :: pool_fees where
  "example_fees = \<lparr>tradeFeeNumerator = 250, tradeFeeDenominator = 100000,
     protocolTradeFeeNumerator = 20000, protocolTradeFeeDenominator = 100000\<rparr>"

text \<open>
  \<open>computeInAmount\<close> of the stable curve overstates the input. It subtracts the plain source
  reserve \<open>s\<close> from the upscaled new reserve \<open>y\<close>; compared with subtracting the upscaled reserve,
  the answer is too large by at least \<open>s - s div k - 1\<close> for a scale factor \<open>k\<close> of the source
  token, which is almost the whole source reserve whenever \<open>k\<close> is not one.
\<close>

lemma ss_computeInAmount_overstates:
  assumes "ss_inAmount out s d dir ss = Inr v" and "well_scaled ss" and "0 \<le> s"
    and "computeD (this_amp ss) (s * factorSource dir ss) (d * factorDest dir ss) = Inr D"
    and "computeY (this_amp ss) ((d - out) * factorDest dir ss) D = Inr y"
    and "s * factorSource dir ss \<le> y"
  shows "(y - s * factorSource dir ss) div factorSource dir ss + (s - s div factorSource dir ss - 1) \<le> v"
proof -
  let ?k = "factorSource dir ss"
  have k: "0 < ?k" using assms(2) by (rule factor_sides_pos)
  then have "1 * s \<le> ?k * s" using assms(3) by (intro mult_right_mono) auto
  then have le: "s \<le> y" using assms(6) by (simp add: mult.commute)
  have "v = (y - s) div ?k"
  proof (cases dir)
    case AToB
    with assms le downscale_nonneg(1) [OF assms(2), of "y - s"] show ?thesis
      by (auto simp: ss_inAmount_def upscale_factor factorSource_def factorDest_def left_diff_distrib Let_def)
  next
    case BToA
    with assms le downscale_nonneg(2) [OF assms(2), of "y - s"] show ?thesis
      by (auto simp: ss_inAmount_def upscale_factor factorSource_def factorDest_def left_diff_distrib Let_def)
  qed
  moreover have "y div ?k - s div ?k - 1 \<le> (y - s) div ?k"
  proof (rule le_div_of_mult_le [OF k])
    have "(y div ?k - s div ?k - 1) * ?k = y div ?k * ?k - (s div ?k + 1) * ?k" by (simp add: algebra_simps)
    also have "\<dots> \<le> y - s" using div_times_le [OF k, of y] lt_Suc_div_times [OF k, of s] by linarith
    finally show "(y div ?k - s div ?k - 1) * ?k \<le> y - s" .
  qed
  moreover have "(y - s * ?k) div ?k = y div ?k - s"
    using k div_mult_self1 [of ?k y "- s"] by simp
  ultimately show ?thesis by linarith
qed

end
