(* ===== verification/ConstantProduct.thy ===== *)
theory ConstantProduct
  imports Layout
begin

text \<open>
  The constant product curve, \<open>ts-client/src/amm/curve/constant-product.ts\<close>: \<open>ceilDiv\<close> and
  the methods of \<open>ConstantProductSwap\<close>. The class has no state. On positive reserves the
  swap is the largest output that keeps the product of the reserves, and \<open>computeInAmount\<close> is
  its adjoint.
\<close>

section \<open>ceilDiv\<close>

definition ceilDiv :: "int \<Rightarrow> int \<Rightarrow> (int \<times> int) result" where
  "ceilDiv lhs rhs =
     and_then (trunc_div lhs rhs) (\<lambda>quotient.
     if quotient = 0 then Inl (Thrown ''ceilDiv result in zero'')
     else and_then (trunc_mod lhs rhs) (\<lambda>remainder.
       if remainder > 0 then
         (let quotient = quotient + 1 in
          and_then (trunc_div lhs quotient) (\<lambda>rhs.
          and_then (trunc_mod lhs quotient) (\<lambda>remainder.
            Inr (quotient, if remainder > 0 then rhs + 1 else rhs))))
       else Inr (quotient, rhs)))"

text \<open>The rounded-up quotient, the specification of \<open>ceilDiv\<close>.\<close>

definition cdiv :: "int \<Rightarrow> int \<Rightarrow> int" where
  "cdiv a b = (a + b - 1) div b"

lemma cdiv_le_iff: "0 < b \<Longrightarrow> cdiv a b \<le> c \<longleftrightarrow> a \<le> c * b"
proof -
  assume b: "0 < b"
  have "cdiv a b \<le> c \<longleftrightarrow> (a + b - 1) div b < c + 1" by (auto simp: cdiv_def)
  also have "\<dots> \<longleftrightarrow> a + b - 1 < (c + 1) * b"
    using b div_lt_of_lt_mult [of b "a + b - 1" "c + 1"] le_div_of_mult_le [of b "c + 1" "a + b - 1"]
    by linarith
  also have "\<dots> \<longleftrightarrow> a \<le> c * b" by (auto simp: distrib_right)
  finally show ?thesis .
qed

lemma cdiv_mult_ge: "0 < b \<Longrightarrow> a \<le> cdiv a b * b"
  using cdiv_le_iff [of b a "cdiv a b"] by simp

lemma lt_of_lt_cdiv: "0 < b \<Longrightarrow> c < cdiv a b \<Longrightarrow> c * b < a"
  using cdiv_le_iff [of b a c] by linarith

lemma cdiv_div: "0 < b \<Longrightarrow> cdiv a b = (if a mod b = 0 then a div b else a div b + 1)"
proof -
  assume b: "0 < b"
  have eq: "a div b * b + a mod b = a" by simp
  show ?thesis
  proof (rule antisym)
    show "cdiv a b \<le> (if a mod b = 0 then a div b else a div b + 1)"
      using b eq lt_Suc_div_times [OF b, of a] by (auto simp: cdiv_le_iff)
    have "cdiv a b \<le> c \<Longrightarrow> (if a mod b = 0 then a div b else a div b + 1) \<le> c" for c
    proof -
      assume "cdiv a b \<le> c"
      with b have le: "a \<le> c * b" by (simp add: cdiv_le_iff)
      show ?thesis
      proof (cases "a mod b = 0")
        case True
        with le b eq have "a div b * b \<le> c * b" by linarith
        with True b show ?thesis by simp
      next
        case False
        with b have "0 < a mod b" by (metis order_less_le pos_mod_sign)
        with le eq have "a div b * b < c * b" by linarith
        with False b show ?thesis by simp
      qed
    qed
    then show "(if a mod b = 0 then a div b else a div b + 1) \<le> cdiv a b" by blast
  qed
qed

lemma cdiv_pos: "0 < b \<Longrightarrow> 0 < a \<Longrightarrow> 0 < cdiv a b"
  using cdiv_le_iff [of b a 0] by linarith

lemma ceilDiv_cdiv:
  assumes "0 \<le> lhs" and "0 < rhs"
  shows "ceilDiv lhs rhs =
    (if lhs < rhs then Inl (Thrown ''ceilDiv result in zero'')
     else Inr (cdiv lhs rhs, cdiv lhs (cdiv lhs rhs)))"
proof (cases "lhs < rhs")
  case True
  with assms show ?thesis by (simp add: ceilDiv_def trunc_div_pos)
next
  case False
  let ?q = "lhs div rhs"
  from False assms have q: "1 \<le> ?q" by (intro le_div_of_mult_le) auto
  have eq: "?q * rhs + lhs mod rhs = lhs" by simp
  have nonneg: "0 \<le> lhs mod rhs" using assms by simp
  show ?thesis
  proof (cases "lhs mod rhs = 0")
    case True
    with eq have lhs: "lhs = rhs * ?q" by (simp add: mult.commute)
    have "cdiv lhs ?q = rhs"
      using q by (subst lhs, subst cdiv_div) auto
    with True False q assms show ?thesis
      by (simp add: ceilDiv_def trunc_div_pos trunc_mod_pos cdiv_div)
  next
    case False
    with nonneg have rem: "0 < lhs mod rhs" by simp
    have "cdiv lhs (?q + 1) = (if 0 < lhs mod (?q + 1) then lhs div (?q + 1) + 1 else lhs div (?q + 1))"
      using q by (cases "lhs mod (?q + 1) = 0") (simp_all add: cdiv_div order_less_le)
    with False rem q \<open>\<not> lhs < rhs\<close> assms show ?thesis
      by (simp add: ceilDiv_def trunc_div_pos trunc_mod_pos cdiv_div [of rhs] Let_def)
  qed
qed

section \<open>ConstantProductSwap\<close>

definition cp_computeOutAmountWithoutSlippage :: "int \<Rightarrow> int \<Rightarrow> int \<Rightarrow> int result" where
  "cp_computeOutAmountWithoutSlippage sourceAmount swapSourceAmount swapDestinationAmount =
     trunc_div (sourceAmount * swapDestinationAmount) swapSourceAmount"

definition cp_computeOutAmount ::
  "int \<Rightarrow> int \<Rightarrow> int \<Rightarrow> trade_direction \<Rightarrow> out_result result" where
  "cp_computeOutAmount sourceAmount swapSourceAmount swapDestinationAmount tradeDirection =
     (let invariantK = swapSourceAmount * swapDestinationAmount in
      and_then (ceilDiv invariantK (swapSourceAmount + sourceAmount))
        (\<lambda>(newSwapDestinationAmount, newSwapSourceAmount).
      let destinationAmountSwapped = swapDestinationAmount - newSwapDestinationAmount in
      if destinationAmountSwapped = 0 then Inl (Thrown ''Swap result in zero'')
      else and_then (cp_computeOutAmountWithoutSlippage sourceAmount swapSourceAmount
              swapDestinationAmount)
        (\<lambda>destinationAmountWithoutSlippage.
        Inr \<lparr>outAmount = destinationAmountSwapped,
             outPriceImpact = getPriceImpact destinationAmountSwapped destinationAmountWithoutSlippage\<rparr>)))"

definition cp_computeD :: "externals \<Rightarrow> int \<Rightarrow> int \<Rightarrow> int result" where
  "cp_computeD X amountA amountB = bnSqrt X (amountA * amountB)"

definition cp_computeInAmount :: "int \<Rightarrow> int \<Rightarrow> int \<Rightarrow> trade_direction \<Rightarrow> int result" where
  "cp_computeInAmount destAmount swapSourceAmount swapDestinationAmount tradeDirection =
     (let invariantK = swapSourceAmount * swapDestinationAmount in
      and_then (ceilDiv invariantK (swapDestinationAmount - destAmount))
        (\<lambda>(newSwapSourceAmount, newSwapDestinationAmount).
      let sourceAmount = newSwapSourceAmount - swapSourceAmount in
      if sourceAmount = 0 then Inl (Thrown ''Swap result in zero'') else Inr sourceAmount))"

definition cp_computeImbalanceDeposit ::
  "int \<Rightarrow> int \<Rightarrow> int \<Rightarrow> int \<Rightarrow> int \<Rightarrow> pool_fees \<Rightarrow> int result" where
  "cp_computeImbalanceDeposit depositAAmount depositBAmount swapTokenAAmount swapTokenBAmount
     lpSupply poolFees = Inl (Thrown ''UnsupportedOperation'')"

definition cp_computeWithdrawOne ::
  "int \<Rightarrow> int \<Rightarrow> int \<Rightarrow> int \<Rightarrow> pool_fees \<Rightarrow> trade_direction \<Rightarrow> int result" where
  "cp_computeWithdrawOne lpAmount lpSupply swapTokenAAmount swapTokenBAmount poolFees tradeDirection =
     Inl (Thrown ''UnsupportedOperation'')"

section \<open>The swap on positive reserves\<close>

text \<open>The output in closed form, and the three outcomes of a swap.\<close>

lemma cdiv_complement:
  assumes "0 < k"
  shows "d - cdiv (s * d) k = ((k - s) * d) div k"
proof (rule antisym)
  have "s * d \<le> cdiv (s * d) k * k" using assms by (rule cdiv_mult_ge)
  then have "(d - cdiv (s * d) k) * k \<le> (k - s) * d" by (simp add: algebra_simps)
  then show "d - cdiv (s * d) k \<le> ((k - s) * d) div k" using assms by (rule le_div_of_mult_le [rotated])
  have "((k - s) * d) div k * k \<le> (k - s) * d" using assms by (rule div_times_le)
  then have "s * d \<le> (d - ((k - s) * d) div k) * k" by (simp add: algebra_simps)
  then have "cdiv (s * d) k \<le> d - ((k - s) * d) div k" using assms by (simp add: cdiv_le_iff)
  then show "((k - s) * d) div k \<le> d - cdiv (s * d) k" by simp
qed

lemma cp_computeOutAmount_eq:
  assumes "0 < s" and "0 < d" and "0 \<le> i"
  shows "cp_computeOutAmount i s d dir =
    (if s * d < s + i then Inl (Thrown ''ceilDiv result in zero'')
     else if (i * d) div (s + i) = 0 then Inl (Thrown ''Swap result in zero'')
     else Inr \<lparr>outAmount = (i * d) div (s + i),
       outPriceImpact = getPriceImpact ((i * d) div (s + i)) ((i * d) div s)\<rparr>)"
proof -
  have out: "d - cdiv (s * d) (s + i) = (i * d) div (s + i)"
    using cdiv_complement [of "s + i" d s] assms by simp
  then have zero: "d = cdiv (s * d) (s + i) \<longleftrightarrow> (i * d) div (s + i) = 0" by linarith
  show ?thesis using assms
    by (simp add: cp_computeOutAmount_def cp_computeOutAmountWithoutSlippage_def Let_def
        ceilDiv_cdiv trunc_div_pos out zero)
qed

lemma cp_computeInAmount_eq:
  assumes "0 < s" and "0 < d" and "out < d"
  shows "cp_computeInAmount out s d dir =
    (if s * d < d - out then Inl (Thrown ''ceilDiv result in zero'')
     else if cdiv (s * d) (d - out) = s then Inl (Thrown ''Swap result in zero'')
     else Inr (cdiv (s * d) (d - out) - s))"
  using assms by (simp add: cp_computeInAmount_def Let_def ceilDiv_cdiv)

lemma out_keeps_product: "0 < s + (i::int) \<Longrightarrow> s * d \<le> (s + i) * (d - (i * d) div (s + i))"
  using div_times_le [of "s + i" "i * d"] by (simp add: algebra_simps)

lemma out_lt_reserve: "0 < (s::int) \<Longrightarrow> 0 < d \<Longrightarrow> 0 \<le> i \<Longrightarrow> (i * d) div (s + i) < d"
  by (rule div_lt_of_lt_mult) (auto simp: distrib_left mult.commute)

lemma keeps_product_iff:
  "0 < s + (i::int) \<Longrightarrow> s * d \<le> (s + i) * (d - x) \<longleftrightarrow> x \<le> (i * d) div (s + i)"
  using le_div_of_mult_le [of "s + i" x "i * d"] div_times_le [of "s + i" "i * d"]
    mult_right_mono [of x "(i * d) div (s + i)" "s + i"]
  by (auto simp: algebra_simps)

lemma cp_computeOutAmount_InrD:
  assumes "cp_computeOutAmount i s d dir = Inr r" and "0 < s" and "0 < d" and "0 \<le> i"
  shows "outAmount r = (i * d) div (s + i)" and "0 < outAmount r"
    and "outPriceImpact r = getPriceImpact (outAmount r) ((i * d) div s)"
proof -
  have "0 \<le> (i * d) div (s + i)" using assms by (simp add: pos_imp_zdiv_nonneg_iff)
  with assms show "outAmount r = (i * d) div (s + i)" "0 < outAmount r"
    "outPriceImpact r = getPriceImpact (outAmount r) ((i * d) div s)"
    by (auto simp: cp_computeOutAmount_eq order_less_le split: if_splits)
qed

lemma cp_computeOutAmount_returns:
  assumes "0 < s" and "0 < d" and "0 \<le> i" and "s + i \<le> s * d" and "0 < x"
    and "s * d \<le> (s + i) * (d - x)"
  shows "\<exists>r. cp_computeOutAmount i s d dir = Inr r \<and> x \<le> outAmount r"
proof -
  from assms have "x \<le> (i * d) div (s + i)" by (subst keeps_product_iff [symmetric]) auto
  with assms show ?thesis by (simp add: cp_computeOutAmount_eq)
qed

section \<open>Properties\<close>

text \<open>
  C6: A constant product swap that returns pays a positive amount below the destination reserve,
  never lowers the product of the reserves, and pays the largest amount that does not.
\<close>

theorem cp_swap_optimal:
  assumes "cp_computeOutAmount i s d dir = Inr r" and "0 < s" and "0 < d" and "0 \<le> i"
  shows "0 < outAmount r \<and> outAmount r < d \<and> s * d \<le> (s + i) * (d - outAmount r) \<and>
    (\<forall>x. s * d \<le> (s + i) * (d - x) \<longrightarrow> x \<le> outAmount r)"
  using cp_computeOutAmount_InrD [OF assms] out_lt_reserve [OF assms(2-4)] assms
    out_keeps_product [of s i d] keeps_product_iff [of s i d]
  by simp

theorem cp_swap_optimal_witness:
  "cp_computeOutAmount 500 10000 20000 AToB =
     Inr \<lparr>outAmount = 952, outPriceImpact = DecimalQuotient 48 1000\<rparr> \<and>
   (0::int) < 952 \<and> (952::int) < 20000 \<and> (10000::int) * 20000 \<le> (10000 + 500) * (20000 - 952)"
proof -
  have run: "cp_computeOutAmount 500 10000 20000 AToB =
     Inr \<lparr>outAmount = 952, outPriceImpact = DecimalQuotient 48 1000\<rparr>"
    by (simp add: cp_computeOutAmount_eq getPriceImpact_def)
  from cp_swap_optimal [OF run] run show ?thesis by simp
qed

text \<open>
  On positive reserves a constant product swap is refused in exactly two cases: the quotient of
  \<open>ceilDiv\<close> is zero when the new source reserve exceeds the product, and the output rounds to
  zero when the input is too small.
\<close>

lemma cp_swap_refused_iff:
  assumes "0 < s" and "0 < d" and "0 \<le> i"
  shows "(cp_computeOutAmount i s d dir = Inl (Thrown ''ceilDiv result in zero'') \<longleftrightarrow> s * d < s + i) \<and>
    (cp_computeOutAmount i s d dir = Inl (Thrown ''Swap result in zero'') \<longleftrightarrow>
      s + i \<le> s * d \<and> i * d < s + i) \<and>
    ((\<exists>r. cp_computeOutAmount i s d dir = Inr r) \<longleftrightarrow> s + i \<le> s * d \<and> s + i \<le> i * d)"
proof -
  have "(i * d) div (s + i) = 0 \<longleftrightarrow> i * d < s + i"
    using assms by (simp add: div_pos_pos_trivial zdiv_eq_0_iff) auto
  with assms show ?thesis by (auto simp: cp_computeOutAmount_eq)
qed

text \<open>
  C33: Splitting a trade never pays more: two swaps in a row, the second on the reserves the first
  leaves, pay together at most what one swap of the whole input pays.
\<close>

theorem cp_no_split_gain:
  assumes "cp_computeOutAmount i s d dir = Inr r" and "cp_computeOutAmount j (s + i) (d - outAmount r) dir = Inr r'"
    and "cp_computeOutAmount (i + j) s d dir = Inr r''" and "0 < s" and "0 < d" and "0 \<le> i" and "0 \<le> j"
  shows "outAmount r + outAmount r' \<le> outAmount r''"
proof -
  have r: "outAmount r = (i * d) div (s + i)" using cp_computeOutAmount_InrD(1) assms by blast
  have rest: "0 < d - outAmount r" using out_lt_reserve [of s d i] r assms by simp
  have r': "outAmount r' = (j * (d - outAmount r)) div (s + i + j)"
    using cp_computeOutAmount_InrD(1) [OF assms(2)] rest assms by simp
  have r'': "outAmount r'' = ((i + j) * d) div (s + (i + j))"
    using cp_computeOutAmount_InrD(1) [OF assms(3)] assms by simp
  have "s * d \<le> (s + i) * (d - outAmount r)" using out_keeps_product [of s i d] r assms by simp
  also have "\<dots> \<le> (s + i + j) * (d - outAmount r - outAmount r')"
    using out_keeps_product [of "s + i" j "d - outAmount r"] r' assms by simp
  finally have "s * d \<le> (s + (i + j)) * (d - (outAmount r + outAmount r'))"
    by (simp add: algebra_simps)
  with assms show ?thesis unfolding r'' by (subst (asm) keeps_product_iff) auto
qed

theorem cp_no_split_gain_witness:
  "\<exists>r r' r''. cp_computeOutAmount 100 1000 1000 AToB = Inr r \<and>
    cp_computeOutAmount 100 1100 (1000 - outAmount r) AToB = Inr r' \<and>
    cp_computeOutAmount 200 1000 1000 AToB = Inr r'' \<and> outAmount r + outAmount r' \<le> outAmount r''"
proof -
  define r where "r = \<lparr>outAmount = 90, outPriceImpact = getPriceImpact 90 100\<rparr>"
  define r' where "r' = \<lparr>outAmount = 75, outPriceImpact = getPriceImpact 75 82\<rparr>"
  define r'' where "r'' = \<lparr>outAmount = 166, outPriceImpact = getPriceImpact 166 200\<rparr>"
  have 1: "cp_computeOutAmount 100 1000 1000 AToB = Inr r"
    by (simp add: cp_computeOutAmount_eq r_def)
  have 2: "cp_computeOutAmount 100 (1000 + 100) (1000 - outAmount r) AToB = Inr r'"
    by (simp add: cp_computeOutAmount_eq r_def r'_def)
  have 3: "cp_computeOutAmount (100 + 100) 1000 1000 AToB = Inr r''"
    by (simp add: cp_computeOutAmount_eq r''_def)
  from cp_no_split_gain [OF 1 2 3] 1 2 3 show ?thesis by auto
qed

text \<open>
  C32: \<open>computeInAmount\<close> is the adjoint of the swap: the input it returns buys at least the wanted
  amount, and no smaller input does.
\<close>

theorem cp_computeInAmount_adjoint:
  assumes "cp_computeInAmount out s d dir = Inr i" and "0 < s" and "0 < d" and "0 \<le> out" and "out < d"
  shows "0 < i \<and> (\<exists>r. cp_computeOutAmount i s d dir = Inr r \<and> out \<le> outAmount r) \<and>
    (\<forall>j r. 0 \<le> j \<longrightarrow> cp_computeOutAmount j s d dir = Inr r \<longrightarrow> out \<le> outAmount r \<longrightarrow> i \<le> j)"
proof -
  from assms have i: "s + i = cdiv (s * d) (d - out)" and "i \<noteq> 0" and pos: "0 < d - out"
    by (auto simp: cp_computeInAmount_eq split: if_splits)
  have keeps: "s * d \<le> (s + i) * (d - out)" using cdiv_mult_ge [OF pos] i by simp
  have least: "i \<le> j" if "s * d \<le> (s + j) * (d - out)" for j
    using cdiv_le_iff [OF pos, of "s * d" "s + j"] that i by simp
  have "0 \<le> i"
  proof (rule ccontr)
    assume "\<not> 0 \<le> i"
    then have "(s + i) * (d - out) < s * (d - out)" using pos by (intro mult_strict_right_mono) auto
    also have "\<dots> \<le> s * d" using assms by (intro mult_left_mono) auto
    finally show False using keeps by simp
  qed
  with \<open>i \<noteq> 0\<close> have ipos: "0 < i" by simp
  have "0 < out"
  proof (rule ccontr)
    assume "\<not> 0 < out"
    with assms have "out = 0" by simp
    with least [of 0] ipos show False by simp
  qed
  have "s + i \<le> s * d"
    unfolding i cdiv_le_iff [OF pos] using pos assms mult_left_mono [of 1 "d - out" "s * d"] by simp
  with assms ipos keeps \<open>0 < out\<close>
  have "\<exists>r. cp_computeOutAmount i s d dir = Inr r \<and> out \<le> outAmount r"
    by (intro cp_computeOutAmount_returns) auto
  moreover have "i \<le> j" if "0 \<le> j" "cp_computeOutAmount j s d dir = Inr r" "out \<le> outAmount r" for j r
    using that cp_computeOutAmount_InrD(1) [OF that(2)] keeps_product_iff [of s j d out] assms least
    by simp
  ultimately show ?thesis using ipos by blast
qed

theorem cp_computeInAmount_adjoint_witness:
  "cp_computeInAmount 952 10000 20000 AToB = Inr 500 \<and>
   (\<exists>r. cp_computeOutAmount 500 10000 20000 AToB = Inr r \<and> 952 \<le> outAmount r)"
proof -
  have run: "cp_computeInAmount 952 10000 20000 AToB = Inr 500"
    by (simp add: cp_computeInAmount_eq cdiv_def)
  from cp_computeInAmount_adjoint [OF run] run show ?thesis by simp
qed

end
