(* ===== verification/Curves.thy ===== *)
theory Curves
  imports StableSwap ConstantProduct
begin

text \<open>
  The interface \<open>SwapCurve\<close> of \<open>ts-client/src/amm/curve/index.ts\<close> and its two classes.
  A curve object is a constructor of \<open>swap_curve\<close>; each method dispatches to the class. The
  locale \<open>curve_object\<close> states what the clients of a curve rely on: calls only refresh the
  object, and asking again gives the same answers.
\<close>

section \<open>The interface and its implementations\<close>

datatype swap_curve = CurveConstantProduct | CurveStable stable_swap

text \<open>A method of the class \<open>StableSwap\<close> run on a curve object.\<close>

definition onStable :: "('a result \<times> stable_swap) \<Rightarrow> 'a result \<times> swap_curve" where
  "onStable rs = (fst rs, CurveStable (snd rs))"

fun curve_computeOutAmount ::
  "externals \<Rightarrow> int \<Rightarrow> int \<Rightarrow> int \<Rightarrow> trade_direction \<Rightarrow> (swap_curve, out_result) action" where
  "curve_computeOutAmount X sourceAmount swapSourceAmount swapDestinationAmount tradeDirection
     CurveConstantProduct =
     (cp_computeOutAmount sourceAmount swapSourceAmount swapDestinationAmount tradeDirection,
      CurveConstantProduct)"
| "curve_computeOutAmount X sourceAmount swapSourceAmount swapDestinationAmount tradeDirection
     (CurveStable ss) =
     onStable (ss_computeOutAmount X sourceAmount swapSourceAmount swapDestinationAmount tradeDirection ss)"

fun curve_computeD :: "externals \<Rightarrow> int \<Rightarrow> int \<Rightarrow> (swap_curve, int) action" where
  "curve_computeD X amountA amountB CurveConstantProduct =
     (cp_computeD X amountA amountB, CurveConstantProduct)"
| "curve_computeD X amountA amountB (CurveStable ss) = onStable (ss_computeD X amountA amountB ss)"

fun curve_computeInAmount ::
  "externals \<Rightarrow> int \<Rightarrow> int \<Rightarrow> int \<Rightarrow> trade_direction \<Rightarrow> (swap_curve, int) action" where
  "curve_computeInAmount X destAmount swapSourceAmount swapDestinationAmount tradeDirection
     CurveConstantProduct =
     (cp_computeInAmount destAmount swapSourceAmount swapDestinationAmount tradeDirection,
      CurveConstantProduct)"
| "curve_computeInAmount X destAmount swapSourceAmount swapDestinationAmount tradeDirection
     (CurveStable ss) =
     onStable (ss_computeInAmount X destAmount swapSourceAmount swapDestinationAmount tradeDirection ss)"

fun curve_computeImbalanceDeposit ::
  "externals \<Rightarrow> int \<Rightarrow> int \<Rightarrow> int \<Rightarrow> int \<Rightarrow> int \<Rightarrow> pool_fees \<Rightarrow> (swap_curve, int) action" where
  "curve_computeImbalanceDeposit X depositAAmount depositBAmount swapTokenAAmount swapTokenBAmount
     lpSupply poolFees CurveConstantProduct =
     (cp_computeImbalanceDeposit depositAAmount depositBAmount swapTokenAAmount swapTokenBAmount
        lpSupply poolFees, CurveConstantProduct)"
| "curve_computeImbalanceDeposit X depositAAmount depositBAmount swapTokenAAmount swapTokenBAmount
     lpSupply poolFees (CurveStable ss) =
     onStable (ss_computeImbalanceDeposit X depositAAmount depositBAmount swapTokenAAmount
        swapTokenBAmount lpSupply poolFees ss)"

fun curve_computeWithdrawOne :: "externals \<Rightarrow> int \<Rightarrow> int \<Rightarrow> int \<Rightarrow> int \<Rightarrow> pool_fees \<Rightarrow> trade_direction \<Rightarrow>
    (swap_curve, int) action" where
  "curve_computeWithdrawOne X lpAmount lpSupply swapTokenAAmount swapTokenBAmount poolFees
     tradeDirection CurveConstantProduct =
     (cp_computeWithdrawOne lpAmount lpSupply swapTokenAAmount swapTokenBAmount poolFees
        tradeDirection, CurveConstantProduct)"
| "curve_computeWithdrawOne X lpAmount lpSupply swapTokenAAmount swapTokenBAmount poolFees
     tradeDirection (CurveStable ss) =
     onStable (ss_computeWithdrawOne X lpAmount lpSupply swapTokenAAmount swapTokenBAmount poolFees
        tradeDirection ss)"

fun curve_getRemainingAccounts :: "swap_curve \<Rightarrow> account_meta list" where
  "curve_getRemainingAccounts CurveConstantProduct = []"
| "curve_getRemainingAccounts (CurveStable ss) = ss_getRemainingAccounts ss"

text \<open>The member \<open>depeg?\<close> of the interface: only the stable curve has one.\<close>

fun curve_depeg :: "swap_curve \<Rightarrow> depeg option" where
  "curve_depeg CurveConstantProduct = None"
| "curve_depeg (CurveStable ss) = Some (this_depeg ss)"

section \<open>The contract of a curve object\<close>

text \<open>
  \<open>refresh\<close> is what every method does to the object. The laws: a method leaves the object as
  \<open>refresh\<close> does, \<open>refresh\<close> is idempotent, and a method answers on the refreshed object
  what it answers on the object. Then the answers of any sequence of calls are those of the
  calls made alone.
\<close>

locale curve_object =
  fixes call :: "'q \<Rightarrow> 'c \<Rightarrow> 'a \<times> 'c"
    and refresh :: "'c \<Rightarrow> 'c"
    and steady :: "'c \<Rightarrow> bool"
  assumes call_state: "snd (call q c) = refresh c"
    and refresh_refresh: "steady c \<Longrightarrow> refresh (refresh c) = refresh c"
    and call_refresh: "steady c \<Longrightarrow> fst (call q (refresh c)) = fst (call q c)"
    and steady_refresh: "steady c \<Longrightarrow> steady (refresh c)"
begin

lemma asks_refreshed:
  assumes "steady c" and "refresh c = c"
  shows "asks call qs c = (map (\<lambda>q. fst (call q c)) qs, c)"
  using assms
proof (induction qs)
  case Nil
  then show ?case by simp
next
  case (Cons q qs)
  then show ?case by (simp add: asks_Cons call_state del: asks.simps)
qed

lemma asks_alone:
  assumes "steady c"
  shows "asks call qs c = (map (\<lambda>q. fst (call q c)) qs, if qs = [] then c else refresh c)"
proof (cases qs)
  case (Cons q qs')
  show ?thesis
    using asks_refreshed [OF steady_refresh [OF assms] refresh_refresh [OF assms], of qs']
    by (simp add: Cons asks_Cons call_state call_refresh [OF assms] del: asks.simps)
qed simp

end

text \<open>The calls a client can make, with their answers.\<close>

datatype curve_call =
    CallOut int int int trade_direction
  | CallD int int
  | CallIn int int int trade_direction
  | CallDeposit int int int int int pool_fees
  | CallWithdraw int int int int pool_fees trade_direction

datatype curve_answer = AnswerOut "out_result result" | AnswerAmount "int result"

definition answered :: "('a \<Rightarrow> 'b) \<Rightarrow> 'a \<times> 'c \<Rightarrow> 'b \<times> 'c" where
  "answered f rc = (f (fst rc), snd rc)"

fun curve_perform :: "externals \<Rightarrow> curve_call \<Rightarrow> swap_curve \<Rightarrow> curve_answer \<times> swap_curve" where
  "curve_perform X (CallOut i s d dir) c = answered AnswerOut (curve_computeOutAmount X i s d dir c)"
| "curve_perform X (CallD a b) c = answered AnswerAmount (curve_computeD X a b c)"
| "curve_perform X (CallIn out s d dir) c = answered AnswerAmount (curve_computeInAmount X out s d dir c)"
| "curve_perform X (CallDeposit da db a b lp f) c =
     answered AnswerAmount (curve_computeImbalanceDeposit X da db a b lp f c)"
| "curve_perform X (CallWithdraw lp supply a b f dir) c =
     answered AnswerAmount (curve_computeWithdrawOne X lp supply a b f dir c)"

fun curve_refresh :: "externals \<Rightarrow> swap_curve \<Rightarrow> swap_curve" where
  "curve_refresh X CurveConstantProduct = CurveConstantProduct"
| "curve_refresh X (CurveStable ss) = CurveStable (snd (updateDepegInfoIfExpired X ss))"

fun curve_steady :: "swap_curve \<Rightarrow> bool" where
  "curve_steady CurveConstantProduct = True"
| "curve_steady (CurveStable ss) = timely ss"

lemmas ss_methods = ss_computeOutAmount_def ss_computeD_def ss_computeInAmount_def
  ss_computeImbalanceDeposit_def ss_computeWithdrawOne_def

lemma refreshed_again:
  "timely ss \<Longrightarrow> fst (refreshed X f (snd (updateDepegInfoIfExpired X ss))) = fst (refreshed X f ss)"
  by (simp add: refreshed_result updateDepeg_again)

lemma timely_refresh: "timely ss \<Longrightarrow> timely (snd (updateDepegInfoIfExpired X ss))"
  by (simp add: timely_def updateDepeg_frame)

interpretation curve: curve_object "curve_perform X" "curve_refresh X" curve_steady for X
proof (unfold_locales, goal_cases)
  case (1 q c)
  show ?case by (cases q; cases c) (simp_all add: answered_def onStable_def ss_methods refreshed_state)
next
  case (2 c)
  then show ?case by (cases c) (simp_all add: updateDepeg_again)
next
  case (3 c q)
  then show ?case
    by (cases q; cases c) (simp_all add: answered_def onStable_def ss_methods refreshed_again)
next
  case (4 c)
  then show ?case by (cases c) (simp_all add: timely_refresh)
qed

section \<open>Properties\<close>

text \<open>
  The answers of any sequence of calls on a curve object are those of the calls made alone on
  the original object: the price cache, which the calls share and mutate, is never observable,
  and after the first call the object is the refreshed one.
\<close>

lemma curve_calls_independent:
  assumes "curve_steady c" and "qs \<noteq> []"
  shows "asks (curve_perform X) qs c = (map (\<lambda>q. fst (curve_perform X q c)) qs, curve_refresh X c)"
  using curve.asks_alone [OF assms(1), of X qs] assms(2) by simp

end
