(* ===== verification/SwapQuote.thy ===== *)
theory SwapQuote
  imports Curves
begin

text \<open>
  Quotes from fetched state, \<open>ts-client/src/amm/utils.ts\<close>: the fee and pool-information
  helpers, \<open>calculateMaxSwapOutAmount\<close>, and \<open>calculateSwapQuote\<close>. The vault SDK's share
  arithmetic is a parameter; \<open>vault_sdk_laws\<close> states what is documented of it.
\<close>

section \<open>Fees\<close>

definition calculateProtocolTradingFee :: "int \<Rightarrow> pool_state \<Rightarrow> int result" where
  "calculateProtocolTradingFee amount poolState =
     (let f = fees poolState in
      trunc_div (amount * protocolTradeFeeNumerator f) (protocolTradeFeeDenominator f))"

definition calculateTradingFee :: "int \<Rightarrow> pool_state \<Rightarrow> int result" where
  "calculateTradingFee amount poolState =
     (let f = fees poolState in trunc_div (amount * tradeFeeNumerator f) (tradeFeeDenominator f))"

definition calculateUnclaimedLockEscrowFee :: "int \<Rightarrow> int \<Rightarrow> int \<Rightarrow> int \<Rightarrow> int result" where
  "calculateUnclaimedLockEscrowFee totalLockedAmount lpPerToken unclaimedFeePending
     currentVirtualPrice =
     (if currentVirtualPrice = 0 then Inr 0
      else and_then (trunc_div (totalLockedAmount * (currentVirtualPrice - lpPerToken))
          currentVirtualPrice) (\<lambda>newFee. Inr (newFee + unclaimedFeePending)))"

section \<open>Vault deposits and pool information\<close>

definition computeActualDepositAmount :: "int \<Rightarrow> int \<Rightarrow> int \<Rightarrow> int \<Rightarrow> int \<Rightarrow> int result" where
  "computeActualDepositAmount depositAmount beforeAmount vaultLpBalance vaultLpSupply vaultTotalAmount =
     (if depositAmount = 0 then Inr depositAmount
      else and_then (trunc_div (depositAmount * vaultLpSupply) vaultTotalAmount) (\<lambda>vaultLpMinted.
        let vaultLpSupply = vaultLpSupply + vaultLpMinted;
            vaultTotalAmount = vaultTotalAmount + depositAmount;
            vaultLpBalance = vaultLpBalance + vaultLpMinted in
        and_then (trunc_div (vaultLpBalance * vaultTotalAmount) vaultLpSupply) (\<lambda>afterAmount.
          Inr (afterAmount - beforeAmount))))"

definition VIRTUAL_PRICE_PRECISION :: int where
  "VIRTUAL_PRICE_PRECISION = 100000000"

text \<open>The curve is mutated by \<open>computeD\<close>, so the function acts on it.\<close>

definition calculatePoolInfo :: "externals \<Rightarrow> int \<Rightarrow> int \<Rightarrow> int \<Rightarrow> int \<Rightarrow> int \<Rightarrow> int \<Rightarrow>
    vault_state \<Rightarrow> vault_state \<Rightarrow> (swap_curve, pool_information) action" where
  "calculatePoolInfo X currentTimestamp poolALp poolBLp supplyA supplyB
     lpTotal vaultA vaultB =
     then_do (pure_step (
       and_then (toNumber currentTimestamp) (\<lambda>now.
       and_then (vsWithdrawable X now vaultA) (\<lambda>vaultAWithdrawableAmount.
       and_then (vsWithdrawable X now vaultB) (\<lambda>vaultBWithdrawableAmount.
       and_then (vsAmountByShare X poolALp vaultAWithdrawableAmount supplyA) (\<lambda>amountA.
       and_then (vsAmountByShare X poolBLp vaultBWithdrawableAmount supplyB) (\<lambda>amountB.
         Inr (amountA, amountB))))))))
     (\<lambda>(amountA, amountB).
     then_do (curve_computeD X amountA amountB) (\<lambda>d.
     pure_step (
       and_then (if lpTotal = 0 then Inr 0
           else trunc_div (d * VIRTUAL_PRICE_PRECISION) lpTotal) (\<lambda>virtualPriceBigNum.
       and_then (if lpTotal = 0 then Inr 0
           else trunc_div (1 * 2 ^ 64 * d) lpTotal) (\<lambda>raw.
         Inr \<lparr>tokenAAmount = amountA, tokenBAmount = amountB,
              virtualPrice = DecimalQuotient virtualPriceBigNum VIRTUAL_PRICE_PRECISION,
              virtualPriceRaw = raw\<rparr>)))))"

definition calculateMaxSwapOutAmount ::
  "pubkey \<Rightarrow> pubkey \<Rightarrow> pubkey \<Rightarrow> int \<Rightarrow> int \<Rightarrow> int \<Rightarrow> int \<Rightarrow> int result" where
  "calculateMaxSwapOutAmount tokenMint mintA mintB amountA amountB reserveA reserveB =
     and_then (invariant (tokenMint = mintA \<or> tokenMint = mintB) ''Invalid mint'') (\<lambda>_.
     let (outTotalAmount, outReserveBalance) =
       (if tokenMint = mintA then (amountA, reserveA) else (amountB, reserveB)) in
     Inr (if outTotalAmount > outReserveBalance then outReserveBalance else outTotalAmount))"

section \<open>calculateSwapQuote\<close>

text \<open>
  The parameters of \<open>SwapQuoteParam\<close> other than \<open>poolState\<close>, which is the state the quote
  acts on: the curve object it builds shares the \<open>depeg\<close> object of the pool state, so a
  refresh of the price cache shows there.
\<close>

record swap_quote_param =
  paramVaultA :: vault_state
  paramVaultB :: vault_state
  paramPoolVaultALp :: int
  paramPoolVaultBLp :: int
  paramVaultALpSupply :: int
  paramVaultBLpSupply :: int
  paramVaultAReserve :: int
  paramVaultBReserve :: int
  paramCurrentTime :: int
  paramCurrentSlot :: int
  paramDepegAccounts :: "pubkey \<rightharpoonup> byte list"

text \<open>\<open>new StableSwap(...)\<close> on the parameters of a stable pool.\<close>

definition newStableSwap ::
  "int \<Rightarrow> stable_params \<Rightarrow> (pubkey \<rightharpoonup> byte list) \<Rightarrow> int \<Rightarrow> pubkey \<Rightarrow> stable_swap" where
  "newStableSwap ampNumber p depegAccounts now stakeKey =
     \<lparr>this_amp = ampNumber, this_tokenMultiplier = tokenMultiplier p, this_depeg = depegInfo p,
      extraAccounts = depegAccounts, onChainTime = now, stakePoolPubkey = stakeKey\<rparr>"

fun storeDepeg :: "swap_curve \<Rightarrow> pool_state \<Rightarrow> pool_state" where
  "storeDepeg CurveConstantProduct ps = ps"
| "storeDepeg (CurveStable ss) ps =
     (case curveType ps of
        ConstantProductCurve \<Rightarrow> ps
      | StableSwapCurve p \<Rightarrow> ps\<lparr>curveType := StableSwapCurve (p\<lparr>depegInfo := this_depeg ss\<rparr>)\<rparr>)"

definition onCurve :: "swap_curve \<Rightarrow> (swap_curve, 'a) action \<Rightarrow> (pool_state, 'a) action" where
  "onCurve c m ps = (fst (m c), storeDepeg (snd (m c)) ps)"

definition quoteCurve ::
  "swap_quote_param \<Rightarrow> pubkey option \<Rightarrow> pool_state \<Rightarrow> swap_curve result" where
  "quoteCurve params swapInitiator poolState =
     (case curveType poolState of
       StableSwapCurve p \<Rightarrow>
         and_then (toNumber (amp p)) (\<lambda>ampNumber.
         and_then (bnOfNumber (paramCurrentTime params)) (\<lambda>now.
           Inr (CurveStable (newStableSwap ampNumber p (paramDepegAccounts params) now
             (stake poolState)))))
     | ConstantProductCurve \<Rightarrow>
         and_then (if activationType (bootstrapping poolState) = activationTypeCode Timestamp
           then bnOfNumber (paramCurrentTime params) else bnOfNumber (paramCurrentSlot params))
           (\<lambda>currentPoint.
         let canQuoteEarlier = (case swapInitiator of
             Some initiator \<Rightarrow> initiator = whitelistedVault (bootstrapping poolState)
           | None \<Rightarrow> False) in
         and_then (if \<not> canQuoteEarlier
           then invariant (currentPoint \<ge> activationPoint (bootstrapping poolState)) ''Swap is disabled''
           else Inr ()) (\<lambda>_. Inr CurveConstantProduct)))"

definition calculateSwapQuote :: "externals \<Rightarrow> pubkey \<Rightarrow> int \<Rightarrow> swap_quote_param \<Rightarrow> pubkey option \<Rightarrow>
    (pool_state, swap_result) action" where
  "calculateSwapQuote X inTokenMint inAmountLamport params swapInitiator poolState =
     (let mintA = tokenAMint poolState; mintB = tokenBMint poolState;
          now = paramCurrentTime params in
      then_do (pure_step (
        and_then (invariant (inTokenMint = mintA \<or> inTokenMint = mintB) ''Invalid mint'') (\<lambda>_.
        and_then (invariant (enabled poolState) ''Pool disabled'') (\<lambda>_.
        and_then (quoteCurve params swapInitiator poolState) (\<lambda>swapCurve.
        and_then (vsWithdrawable X now (paramVaultA params)) (\<lambda>vaultAWithdrawableAmount.
        and_then (vsWithdrawable X now (paramVaultB params)) (\<lambda>vaultBWithdrawableAmount.
        and_then (vsAmountByShare X (paramPoolVaultALp params) vaultAWithdrawableAmount
          (paramVaultALpSupply params)) (\<lambda>amountA.
        and_then (vsAmountByShare X (paramPoolVaultBLp params) vaultBWithdrawableAmount
          (paramVaultBLpSupply params)) (\<lambda>amountB.
          Inr (swapCurve, amountA, amountB))))))))))
      (\<lambda>(swapCurve, amountA, amountB).
      let isFromAToB = (inTokenMint = mintA);
          (sourceAmount, swapSourceVaultLpAmount, swapSourceAmount, swapDestinationAmount,
           swapSourceVault, swapDestinationVault, swapSourceVaultLpSupply,
           swapDestinationVaultLpSupply, tradeDirection) =
            (if isFromAToB
             then (inAmountLamport, paramPoolVaultALp params, amountA, amountB, paramVaultA params,
                   paramVaultB params, paramVaultALpSupply params, paramVaultBLpSupply params, AToB)
             else (inAmountLamport, paramPoolVaultBLp params, amountB, amountA, paramVaultB params,
                   paramVaultA params, paramVaultBLpSupply params, paramVaultALpSupply params, BToA)) in
      then_do (pure_step (
        and_then (calculateTradingFee sourceAmount poolState) (\<lambda>tradeFee.
        and_then (calculateProtocolTradingFee tradeFee poolState) (\<lambda>protocolFee.
        let tradeFeeAfterProtocolFee = tradeFee - protocolFee in
        and_then (vsWithdrawable X now swapSourceVault) (\<lambda>sourceVaultWithdrawableAmount.
        let beforeSwapSourceAmount = swapSourceAmount;
            sourceAmountLessProtocolFee = sourceAmount - protocolFee in
        and_then (vsUnmintAmount X sourceAmountLessProtocolFee sourceVaultWithdrawableAmount
          swapSourceVaultLpSupply) (\<lambda>sourceVaultLp.
        let sourceVaultTotalAmount = sourceVaultWithdrawableAmount + sourceAmountLessProtocolFee in
        and_then (vsAmountByShare X (sourceVaultLp + swapSourceVaultLpAmount) sourceVaultTotalAmount
          (swapSourceVaultLpSupply + sourceVaultLp)) (\<lambda>afterSwapSourceAmount.
        let actualSourceAmount = afterSwapSourceAmount - beforeSwapSourceAmount in
          Inr (actualSourceAmount - tradeFeeAfterProtocolFee, tradeFeeAfterProtocolFee))))))))
      (\<lambda>(sourceAmountWithFee, tradeFeeAfterProtocolFee).
      then_do (onCurve swapCurve
        (curve_computeOutAmount X sourceAmountWithFee swapSourceAmount swapDestinationAmount tradeDirection))
      (\<lambda>destination.
      let destinationAmount = outAmount destination; priceImpact = outPriceImpact destination in
      pure_step (
        and_then (vsWithdrawable X now swapDestinationVault) (\<lambda>destinationVaultWithdrawableAmount.
        and_then (vsUnmintAmount X destinationAmount destinationVaultWithdrawableAmount
          swapDestinationVaultLpSupply) (\<lambda>destinationVaultLp.
        and_then (vsAmountByShare X destinationVaultLp destinationVaultWithdrawableAmount
          swapDestinationVaultLpSupply) (\<lambda>actualDestinationAmount.
        and_then (calculateMaxSwapOutAmount (if tradeDirection = AToB then mintB else mintA)
          mintA mintB amountA amountB (paramVaultAReserve params) (paramVaultBReserve params))
          (\<lambda>maxSwapOutAmount.
        and_then (invariant (actualDestinationAmount < maxSwapOutAmount) ''Out amount > vault reserve'')
          (\<lambda>_.
          Inr \<lparr>amountOut = actualDestinationAmount, swapFee = tradeFeeAfterProtocolFee,
               swapPriceImpact = priceImpact\<rparr>)))))))))
      poolState)"

section \<open>A quote that succeeds\<close>

text \<open>The two sides of a swap.\<close>

definition sideVault :: "bool \<Rightarrow> swap_quote_param \<Rightarrow> vault_state" where
  "sideVault isA params = (if isA then paramVaultA params else paramVaultB params)"

definition sideLp :: "bool \<Rightarrow> swap_quote_param \<Rightarrow> int" where
  "sideLp isA params = (if isA then paramPoolVaultALp params else paramPoolVaultBLp params)"

definition sideSupply :: "bool \<Rightarrow> swap_quote_param \<Rightarrow> int" where
  "sideSupply isA params = (if isA then paramVaultALpSupply params else paramVaultBLpSupply params)"

definition sideReserve :: "bool \<Rightarrow> swap_quote_param \<Rightarrow> int" where
  "sideReserve isA params = (if isA then paramVaultAReserve params else paramVaultBReserve params)"

definition sideDirection :: "bool \<Rightarrow> trade_direction" where
  "sideDirection isA = (if isA then AToB else BToA)"

lemmas side_defs = sideVault_def sideLp_def sideSupply_def sideReserve_def sideDirection_def

text \<open>The amount of a token the pool owns in its vault.\<close>

definition sideAmount :: "externals \<Rightarrow> bool \<Rightarrow> swap_quote_param \<Rightarrow> int result" where
  "sideAmount X isA params =
     and_then (vsWithdrawable X (paramCurrentTime params) (sideVault isA params)) (\<lambda>w.
       vsAmountByShare X (sideLp isA params) w (sideSupply isA params))"

text \<open>
  What a deposit of an amount adds to it, and what is paid out of the vault for an amount that leaves
  the curve.
\<close>

definition creditedAmount :: "externals \<Rightarrow> bool \<Rightarrow> int \<Rightarrow> swap_quote_param \<Rightarrow> int result" where
  "creditedAmount X isA amount params =
     and_then (vsWithdrawable X (paramCurrentTime params) (sideVault isA params)) (\<lambda>w.
     and_then (vsAmountByShare X (sideLp isA params) w (sideSupply isA params)) (\<lambda>before.
     and_then (vsUnmintAmount X amount w (sideSupply isA params)) (\<lambda>lp.
     and_then (vsAmountByShare X (lp + sideLp isA params) (w + amount) (sideSupply isA params + lp)) (\<lambda>after.
       Inr (after - before)))))"

definition paidOut :: "externals \<Rightarrow> bool \<Rightarrow> int \<Rightarrow> swap_quote_param \<Rightarrow> int result" where
  "paidOut X isA amount params =
     and_then (vsWithdrawable X (paramCurrentTime params) (sideVault isA params)) (\<lambda>w.
     and_then (vsUnmintAmount X amount w (sideSupply isA params)) (\<lambda>lp.
       vsAmountByShare X lp w (sideSupply isA params)))"

lemma onCurve_eq: "onCurve c m ps = (r, ps') \<longleftrightarrow> fst (m c) = r \<and> ps' = storeDepeg (snd (m c)) ps"
  by (auto simp: onCurve_def)

lemma swap_quote_cases:
  assumes "calculateSwapQuote X mint x params who ps = (Inr r, ps')"
    and "tokenAMint ps \<noteq> tokenBMint ps" and "fromA = (mint = tokenAMint ps)"
  obtains c Ws Wd s d tf pf m after out lp where
    "mint = tokenAMint ps \<or> mint = tokenBMint ps" and "enabled ps"
    and "quoteCurve params who ps = Inr c"
    and "vsWithdrawable X (paramCurrentTime params) (sideVault fromA params) = Inr Ws"
    and "vsWithdrawable X (paramCurrentTime params) (sideVault (\<not> fromA) params) = Inr Wd"
    and "vsAmountByShare X (sideLp fromA params) Ws (sideSupply fromA params) = Inr s"
    and "vsAmountByShare X (sideLp (\<not> fromA) params) Wd (sideSupply (\<not> fromA) params) = Inr d"
    and "calculateTradingFee x ps = Inr tf" and "calculateProtocolTradingFee tf ps = Inr pf"
    and "vsUnmintAmount X (x - pf) Ws (sideSupply fromA params) = Inr m"
    and "vsAmountByShare X (m + sideLp fromA params) (Ws + (x - pf)) (sideSupply fromA params + m) = Inr after"
    and "fst (curve_computeOutAmount X (after - s - (tf - pf)) s d (sideDirection fromA) c) = Inr out"
    and "vsUnmintAmount X (outAmount out) Wd (sideSupply (\<not> fromA) params) = Inr lp"
    and "vsAmountByShare X lp Wd (sideSupply (\<not> fromA) params) = Inr (amountOut r)"
    and "amountOut r < d" and "amountOut r < sideReserve (\<not> fromA) params"
    and "swapFee r = tf - pf" and "swapPriceImpact r = outPriceImpact out"
    and "ps' = storeDepeg (snd (curve_computeOutAmount X (after - s - (tf - pf)) s d (sideDirection fromA) c)) ps"
proof (cases "mint = tokenAMint ps")
  case True
  with assms(3) have fromA: "fromA" by simp
  from assms(1) True obtain c WA WB s d tf pf m after out lp mx where
    facts: "enabled ps" "quoteCurve params who ps = Inr c"
    "vsWithdrawable X (paramCurrentTime params) (paramVaultA params) = Inr WA"
    "vsWithdrawable X (paramCurrentTime params) (paramVaultB params) = Inr WB"
    "vsAmountByShare X (paramPoolVaultALp params) WA (paramVaultALpSupply params) = Inr s"
    "vsAmountByShare X (paramPoolVaultBLp params) WB (paramVaultBLpSupply params) = Inr d"
    "calculateTradingFee x ps = Inr tf" "calculateProtocolTradingFee tf ps = Inr pf"
    "vsUnmintAmount X (x - pf) WA (paramVaultALpSupply params) = Inr m"
    "vsAmountByShare X (m + paramPoolVaultALp params) (WA + (x - pf)) (paramVaultALpSupply params + m) = Inr after"
    "fst (curve_computeOutAmount X (after - s - (tf - pf)) s d AToB c) = Inr out"
    "ps' = storeDepeg (snd (curve_computeOutAmount X (after - s - (tf - pf)) s d AToB c)) ps"
    "vsUnmintAmount X (outAmount out) WB (paramVaultBLpSupply params) = Inr lp"
    "vsAmountByShare X lp WB (paramVaultBLpSupply params) = Inr (amountOut r)"
    "calculateMaxSwapOutAmount (tokenBMint ps) (tokenAMint ps) (tokenBMint ps) s d
      (paramVaultAReserve params) (paramVaultBReserve params) = Inr mx" "amountOut r < mx"
    "swapFee r = tf - pf" "swapPriceImpact r = outPriceImpact out"
    by (auto simp: calculateSwapQuote_def Let_def onCurve_eq)
  moreover have "amountOut r < d" "amountOut r < paramVaultBReserve params"
    using facts(15,16) assms(2) by (auto simp: calculateMaxSwapOutAmount_def split: if_splits)
  ultimately show ?thesis
    using True by (intro that [of c WA WB s d tf pf m after out lp]) (auto simp: side_defs fromA)
next
  case False
  with assms(3) have fromA: "\<not> fromA" by simp
  from assms(1) False obtain c WA WB s d tf pf m after out lp mx where
    facts: "mint = tokenBMint ps" "enabled ps" "quoteCurve params who ps = Inr c"
    "vsWithdrawable X (paramCurrentTime params) (paramVaultA params) = Inr WA"
    "vsWithdrawable X (paramCurrentTime params) (paramVaultB params) = Inr WB"
    "vsAmountByShare X (paramPoolVaultALp params) WA (paramVaultALpSupply params) = Inr d"
    "vsAmountByShare X (paramPoolVaultBLp params) WB (paramVaultBLpSupply params) = Inr s"
    "calculateTradingFee x ps = Inr tf" "calculateProtocolTradingFee tf ps = Inr pf"
    "vsUnmintAmount X (x - pf) WB (paramVaultBLpSupply params) = Inr m"
    "vsAmountByShare X (m + paramPoolVaultBLp params) (WB + (x - pf)) (paramVaultBLpSupply params + m) = Inr after"
    "fst (curve_computeOutAmount X (after - s - (tf - pf)) s d BToA c) = Inr out"
    "ps' = storeDepeg (snd (curve_computeOutAmount X (after - s - (tf - pf)) s d BToA c)) ps"
    "vsUnmintAmount X (outAmount out) WA (paramVaultALpSupply params) = Inr lp"
    "vsAmountByShare X lp WA (paramVaultALpSupply params) = Inr (amountOut r)"
    "calculateMaxSwapOutAmount (tokenAMint ps) (tokenAMint ps) (tokenBMint ps) d s
      (paramVaultAReserve params) (paramVaultBReserve params) = Inr mx" "amountOut r < mx"
    "swapFee r = tf - pf" "swapPriceImpact r = outPriceImpact out"
    by (auto simp: calculateSwapQuote_def Let_def onCurve_eq)
  moreover have "amountOut r < d" "amountOut r < paramVaultAReserve params"
    using facts(16,17) by (auto simp: calculateMaxSwapOutAmount_def split: if_splits)
  ultimately show ?thesis
    by (intro that [of c WB WA s d tf pf m after out lp]) (auto simp: side_defs fromA)
qed

section \<open>Vault rounding and fees\<close>

text \<open>
  What the vault SDK documents of its share arithmetic: both conversions are the exact quotient
  truncated, and a vault without shares pays nothing.
\<close>

definition vault_sdk_laws :: "externals \<Rightarrow> bool" where
  "vault_sdk_laws X \<longleftrightarrow>
     (\<forall>share amount. vsAmountByShare X share amount 0 = Inr 0) \<and>
     (\<forall>share amount supply. 0 < supply \<longrightarrow>
        vsAmountByShare X share amount supply = Inr ((share * amount) sdiv supply)) \<and>
     (\<forall>amount total supply. 0 < total \<longrightarrow>
        vsUnmintAmount X amount total supply = Inr ((amount * supply) sdiv total))"

definition valid_fees :: "pool_fees \<Rightarrow> bool" where
  "valid_fees f \<longleftrightarrow> 0 < tradeFeeDenominator f \<and> 0 \<le> tradeFeeNumerator f \<and>
     tradeFeeNumerator f \<le> tradeFeeDenominator f \<and> 0 < protocolTradeFeeDenominator f \<and>
     0 \<le> protocolTradeFeeNumerator f \<and> protocolTradeFeeNumerator f \<le> protocolTradeFeeDenominator f"

text \<open>
  A pool that holds \<open>l\<close> of the \<open>sup\<close> shares of a vault with \<open>w\<close> tokens and deposits \<open>x\<close>
  gains between nothing and \<open>x\<close>, and afterwards owns at least \<open>x\<close> when it held a share.
\<close>

lemma mul_div_bounds:
  assumes "0 \<le> n" and "n \<le> (m::int)" and "0 < m" and "0 \<le> a"
  shows "0 \<le> (a * n) div m" "(a * n) div m \<le> a"
proof -
  show "0 \<le> (a * n) div m" using assms by (simp add: pos_imp_zdiv_nonneg_iff)
  have "a * n \<le> a * m" using assms by (intro mult_left_mono) auto
  then have "(a * n) div m \<le> (a * m) div m" using assms by (intro zdiv_mono1) auto
  then show "(a * n) div m \<le> a" using assms by simp
qed

lemma vault_deposit_le:
  fixes l sup w x :: int
  assumes "0 < sup" and "0 < w" and "0 \<le> l" and "l \<le> sup" and "0 \<le> x"
  defines "m \<equiv> (x * sup) div w"
  shows "((l + m) * (w + x)) div (sup + m) \<le> (l * w) div sup + x"
proof -
  let ?after = "((l + m) * (w + x)) div (sup + m)"
  have m: "0 \<le> m" unfolding m_def using assms by (simp add: pos_imp_zdiv_nonneg_iff)
  have mw: "m * w \<le> x * sup" unfolding m_def using assms(2) by (rule div_times_le)
  have "0 \<le> (sup - l) * (x * sup - m * w)" using assms mw by simp
  then have key: "(l + m) * (w + x) * sup \<le> (l * w + x * sup) * (sup + m)"
    by (simp add: algebra_simps)
  have "?after * (sup + m) * sup \<le> (l + m) * (w + x) * sup"
    using div_times_le [of "sup + m" "(l + m) * (w + x)"] m assms by (intro mult_right_mono) auto
  with key have "(?after * sup) * (sup + m) \<le> (l * w + x * sup) * (sup + m)"
    by (simp add: algebra_simps)
  then have "?after * sup \<le> l * w + x * sup" using m assms by (simp add: mult_le_cancel_right)
  then have "(?after - x) * sup \<le> l * w" by (simp add: left_diff_distrib)
  then have "?after - x \<le> (l * w) div sup" using assms(1) by (rule le_div_of_mult_le [rotated])
  then show ?thesis by simp
qed

lemma vault_deposit_ge:
  fixes l sup w x :: int
  assumes "0 < sup" and "0 < w" and "0 \<le> l" and "l \<le> sup" and "0 \<le> x"
  defines "m \<equiv> (x * sup) div w"
  shows "(l * w) div sup \<le> ((l + m) * (w + x)) div (sup + m)"
proof -
  let ?q = "(l * w) div sup"
  have m: "0 \<le> m" unfolding m_def using assms by (simp add: pos_imp_zdiv_nonneg_iff)
  have q: "?q * sup \<le> l * w" using assms(1) by (rule div_times_le)
  have "?q \<le> w" using mul_div_bounds(2) [of l sup w] assms by (simp add: mult.commute)
  then have "?q * m \<le> w * m" using m by (rule mult_right_mono)
  then have "?q * (sup + m) \<le> w * (l + m)" using q by (simp add: algebra_simps)
  also have "\<dots> \<le> (w + x) * (l + m)" using assms m by (intro mult_right_mono) auto
  finally have "?q * (sup + m) \<le> (l + m) * (w + x)" by (simp add: mult.commute)
  then show ?thesis using m assms by (intro le_div_of_mult_le) auto
qed

lemma vault_deposit_covers:
  fixes l sup w x :: int
  assumes "0 < sup" and "0 < w" and "1 \<le> l" and "0 \<le> x"
  defines "m \<equiv> (x * sup) div w"
  shows "x \<le> ((l + m) * (w + x)) div (sup + m)"
proof -
  have m: "0 \<le> m" unfolding m_def using assms by (simp add: pos_imp_zdiv_nonneg_iff)
  have "x * sup \<le> (m + 1) * w"
    unfolding m_def using lt_Suc_div_times [OF assms(2), of "x * sup"] by simp
  then have "x * (sup + m) \<le> (1 + m) * (w + x)" using assms by (simp add: algebra_simps)
  also have "\<dots> \<le> (l + m) * (w + x)" using assms by (intro mult_right_mono) auto
  finally show ?thesis using m assms by (intro le_div_of_mult_le) auto
qed

lemma trading_fee_bounds:
  assumes "calculateTradingFee x ps = Inr tf" and "valid_fees (fees ps)" and "0 \<le> x"
  shows "0 \<le> tf" "tf \<le> x"
  using assms mul_div_bounds [of "tradeFeeNumerator (fees ps)" "tradeFeeDenominator (fees ps)" x]
  by (auto simp: calculateTradingFee_def Let_def valid_fees_def trunc_div_pos)

lemma protocol_fee_bounds:
  assumes "calculateProtocolTradingFee x ps = Inr pf" and "valid_fees (fees ps)" and "0 \<le> x"
  shows "0 \<le> pf" "pf \<le> x"
  using assms
    mul_div_bounds [of "protocolTradeFeeNumerator (fees ps)" "protocolTradeFeeDenominator (fees ps)" x]
  by (auto simp: calculateProtocolTradingFee_def Let_def valid_fees_def trunc_div_pos)

section \<open>The product of the reserves\<close>

lemma cp_out_keeps_product:
  assumes "cp_computeOutAmount i s d dir = Inr out" and "0 \<le> s" and "0 \<le> d" and "0 \<le> s + i"
  shows "s * d \<le> (s + i) * (d - outAmount out)" "0 < s * d" "0 < s + i"
proof -
  show pos: "0 < s + i"
    using assms(1,4) by (cases "s + i = 0") (auto simp: cp_computeOutAmount_def ceilDiv_def Let_def)
  have k: "0 \<le> s * d" using assms by simp
  from assms(1) pos k have big: "s + i \<le> s * d" and out: "outAmount out = d - cdiv (s * d) (s + i)"
    by (auto simp: cp_computeOutAmount_def ceilDiv_cdiv Let_def split: if_splits)
  show "s * d \<le> (s + i) * (d - outAmount out)"
    unfolding out using cdiv_mult_ge [OF pos, of "s * d"] by (simp add: mult.commute)
  show "0 < s * d" using big pos by simp
qed

lemma product_mono:
  fixes s d i g :: int
  assumes "s * d \<le> (s + i) * (d - o1)" and "0 < s" and "0 < d" and "0 < s + i" and "i \<le> g"
    and "0 \<le> g" and "o2 \<le> o1 \<or> o2 \<le> 0"
  shows "s * d \<le> (s + g) * (d - o2)"
proof (cases "o2 \<le> 0")
  case True
  then show ?thesis using assms by (intro mult_mono) auto
next
  case False
  with assms have le: "o2 \<le> o1" by simp
  have "0 < s * d" using assms by simp
  with assms(1) have "0 < (s + i) * (d - o1)" by linarith
  with assms(4) have "0 < d - o1" by (simp add: zero_less_mult_iff)
  then have "(s + i) * (d - o1) \<le> (s + g) * (d - o2)" using assms le by (intro mult_mono) auto
  with assms(1) show ?thesis by linarith
qed

text \<open>A side of the pool in order: the vault has tokens and shares, and the pool owns some of them.\<close>

definition healthy_side :: "externals \<Rightarrow> bool \<Rightarrow> swap_quote_param \<Rightarrow> bool" where
  "healthy_side X isA params \<longleftrightarrow>
     (case vsWithdrawable X (paramCurrentTime params) (sideVault isA params) of
        Inl e \<Rightarrow> False
      | Inr w \<Rightarrow> 0 < w \<and> 0 < sideSupply isA params \<and> 0 \<le> sideLp isA params \<and>
          sideLp isA params \<le> sideSupply isA params)"

lemma sdiv_nonneg_int: "0 \<le> a \<Longrightarrow> 0 \<le> b \<Longrightarrow> 0 \<le> (a::int) sdiv b"
  by (cases "b = 0") (simp_all add: pos_imp_zdiv_nonneg_iff)

lemma withdraw_roundtrip:
  fixes out w sup :: int
  assumes "0 < w" and "0 < sup"
  defines "back \<equiv> (((out * sup) sdiv w) * w) sdiv sup"
  shows "back \<le> out \<or> back \<le> 0"
proof (cases "0 \<le> out")
  case True
  then have n: "0 \<le> out * sup" using assms by simp
  then have q: "0 \<le> (out * sup) div w" using assms by (simp add: pos_imp_zdiv_nonneg_iff)
  have "back = ((out * sup) div w * w) div sup" unfolding back_def using n q assms by simp
  moreover have "(out * sup) div w * w \<le> out * sup" using assms(1) by (rule div_times_le)
  then have "((out * sup) div w * w) div sup \<le> (out * sup) div sup" using assms(2) by (rule zdiv_mono1)
  ultimately show ?thesis using assms(2) by simp
next
  case False
  then have "out * sup \<le> 0" using assms by (simp add: mult_le_0_iff)
  then have "(out * sup) sdiv w \<le> 0" using assms by (intro sdiv_nonpos) auto
  then have "(out * sup) sdiv w * w \<le> 0" using assms by (simp add: mult_le_0_iff)
  then have "back \<le> 0" unfolding back_def using assms by (intro sdiv_nonpos) auto
  then show ?thesis ..
qed

lemma quote_source_amounts:
  assumes "vault_sdk_laws X" and "healthy_side X isA params"
    and "vsWithdrawable X (paramCurrentTime params) (sideVault isA params) = Inr w"
    and "vsAmountByShare X (sideLp isA params) w (sideSupply isA params) = Inr s"
    and "vsUnmintAmount X x w (sideSupply isA params) = Inr m"
    and "vsAmountByShare X (m + sideLp isA params) (w + x) (sideSupply isA params + m) = Inr after"
    and "0 \<le> x"
  shows "0 \<le> s" "s \<le> after" "after \<le> s + x" "0 < s \<Longrightarrow> x \<le> after"
proof -
  let ?l = "sideLp isA params" and ?sup = "sideSupply isA params"
  from assms(2,3) have side: "0 < w" "0 < ?sup" "0 \<le> ?l" "?l \<le> ?sup" by (auto simp: healthy_side_def)
  then have s: "s = (?l * w) div ?sup" using assms(1,4) by (simp add: vault_sdk_laws_def)
  have m: "m = (x * ?sup) div w" using side assms(1,5,7) by (simp add: vault_sdk_laws_def)
  then have "0 \<le> m" using side assms(7) by (simp add: pos_imp_zdiv_nonneg_iff)
  then have after: "after = ((?l + m) * (w + x)) div (?sup + m)"
    using side assms(1,6,7) by (simp add: vault_sdk_laws_def add.commute)
  show "0 \<le> s" unfolding s using side by (simp add: pos_imp_zdiv_nonneg_iff)
  show "s \<le> after" unfolding s after m using side assms(7) by (intro vault_deposit_ge) auto
  show "after \<le> s + x" unfolding s after m using side assms(7) by (intro vault_deposit_le) auto
  assume "0 < s"
  then have "?l \<noteq> 0" unfolding s by auto
  then show "x \<le> after" unfolding after m using side assms(7) by (intro vault_deposit_covers) auto
qed

lemma quote_product:
  assumes quote: "calculateSwapQuote X mint x params who ps = (Inr r, ps')"
    and mints: "tokenAMint ps \<noteq> tokenBMint ps" and fromA: "fromA = (mint = tokenAMint ps)"
    and laws: "vault_sdk_laws X" and cp: "curveType ps = ConstantProductCurve"
    and valid: "valid_fees (fees ps)" and x: "0 \<le> x"
    and sides: "healthy_side X fromA params" "healthy_side X (\<not> fromA) params"
  shows "\<exists>s d fee. sideAmount X fromA params = Inr s \<and> sideAmount X (\<not> fromA) params = Inr d \<and>
    calculateTradingFee x ps = Inr fee \<and> 0 \<le> fee \<and> fee \<le> x \<and>
    s * d \<le> (s + (x - fee)) * (d - amountOut r)"
proof -
  from quote mints fromA obtain c Ws Wd s d tf pf m after out lp where
    c: "quoteCurve params who ps = Inr c" and
    w: "vsWithdrawable X (paramCurrentTime params) (sideVault fromA params) = Inr Ws"
    "vsWithdrawable X (paramCurrentTime params) (sideVault (\<not> fromA) params) = Inr Wd" and
    s: "vsAmountByShare X (sideLp fromA params) Ws (sideSupply fromA params) = Inr s" and
    d: "vsAmountByShare X (sideLp (\<not> fromA) params) Wd (sideSupply (\<not> fromA) params) = Inr d" and
    fee: "calculateTradingFee x ps = Inr tf" "calculateProtocolTradingFee tf ps = Inr pf" and
    m: "vsUnmintAmount X (x - pf) Ws (sideSupply fromA params) = Inr m" and
    after: "vsAmountByShare X (m + sideLp fromA params) (Ws + (x - pf)) (sideSupply fromA params + m) = Inr after" and
    out: "fst (curve_computeOutAmount X (after - s - (tf - pf)) s d (sideDirection fromA) c) = Inr out" and
    lp: "vsUnmintAmount X (outAmount out) Wd (sideSupply (\<not> fromA) params) = Inr lp" and
    r: "vsAmountByShare X lp Wd (sideSupply (\<not> fromA) params) = Inr (amountOut r)"
    by (rule swap_quote_cases)
  from c cp have "c = CurveConstantProduct" by (auto simp: quoteCurve_def split: if_splits)
  with out have cpo: "cp_computeOutAmount (after - s - (tf - pf)) s d (sideDirection fromA) = Inr out"
    by simp
  note tf = trading_fee_bounds [OF fee(1) valid x]
  note pf = protocol_fee_bounds [OF fee(2) valid tf(1)]
  have xpf: "0 \<le> x - pf" using tf pf by simp
  note src = quote_source_amounts [OF laws sides(1) w(1) s m after xpf]
  from sides(2) w(2) have side: "0 < Wd" "0 < sideSupply (\<not> fromA) params" "0 \<le> sideLp (\<not> fromA) params"
    by (auto simp: healthy_side_def)
  then have "d = (sideLp (\<not> fromA) params * Wd) div sideSupply (\<not> fromA) params"
    using laws d by (simp add: vault_sdk_laws_def)
  then have dnn: "0 \<le> d" using side by (simp add: pos_imp_zdiv_nonneg_iff)
  have snz: "0 < s"
    using src(1) cpo
    by (cases "s = 0") (auto simp: cp_computeOutAmount_def ceilDiv_def trunc_div_def Let_def split: if_splits)
  have pos: "0 \<le> s + (after - s - (tf - pf))" using src(4) [OF snz] tf pf by linarith
  note prod = cp_out_keeps_product [OF cpo src(1) dnn pos]
  have dpos: "0 < d" using prod(2) snz by (simp add: zero_less_mult_iff)
  have "amountOut r \<le> outAmount out \<or> amountOut r \<le> 0"
    using withdraw_roundtrip [OF side(1,2), of "outAmount out"] laws lp r side
    by (auto simp: vault_sdk_laws_def)
  then have "s * d \<le> (s + (x - tf)) * (d - amountOut r)"
    using src(3) tf pf by (intro product_mono [OF prod(1) snz dpos prod(3)]) auto
  then show ?thesis using s d w fee tf by (auto simp: sideAmount_def)
qed

section \<open>Asking again\<close>

lemma storeDepeg_fields [simp]:
  "tokenAMint (storeDepeg c ps) = tokenAMint ps" "tokenBMint (storeDepeg c ps) = tokenBMint ps"
  "enabled (storeDepeg c ps) = enabled ps" "fees (storeDepeg c ps) = fees ps"
  "stake (storeDepeg c ps) = stake ps" "bootstrapping (storeDepeg c ps) = bootstrapping ps"
  by (cases c; cases "curveType ps"; simp)+

lemma fee_of_storeDepeg [simp]:
  "calculateTradingFee x (storeDepeg c ps) = calculateTradingFee x ps"
  "calculateProtocolTradingFee x (storeDepeg c ps) = calculateProtocolTradingFee x ps"
  by (simp_all add: calculateTradingFee_def calculateProtocolTradingFee_def)

lemma updateDepeg_record:
  "snd (updateDepegInfoIfExpired X ss) = ss\<lparr>this_depeg := this_depeg (snd (updateDepegInfoIfExpired X ss))\<rparr>"
  by (simp add: updateDepeg_frame)

lemma quoteCurve_refresh:
  assumes "quoteCurve params who ps = Inr c"
  shows "quoteCurve params who (storeDepeg (curve_refresh X c) ps) = Inr (curve_refresh X c)"
proof (cases "curveType ps")
  case ConstantProductCurve
  with assms have "c = CurveConstantProduct" by (auto simp: quoteCurve_def split: if_splits)
  with assms show ?thesis by simp
next
  case (StableSwapCurve p)
  let ?ss = "newStableSwap (amp p) p (paramDepegAccounts params) (paramCurrentTime params) (stake ps)"
  let ?ss' = "snd (updateDepegInfoIfExpired X ?ss)"
  from assms StableSwapCurve have c: "c = CurveStable ?ss" and
    nums: "toNumber (amp p) = Inr (amp p)" "bnOfNumber (paramCurrentTime params) = Inr (paramCurrentTime params)"
    by (auto simp: quoteCurve_def toNumber_eq_Inr_iff bnOfNumber_eq_Inr_iff)
  have "newStableSwap (amp p) (p\<lparr>depegInfo := this_depeg ?ss'\<rparr>) (paramDepegAccounts params)
      (paramCurrentTime params) (stake ps) = ?ss'"
    by (subst (2) updateDepeg_record) (simp add: newStableSwap_def)
  with c nums StableSwapCurve show ?thesis by (simp add: quoteCurve_def)
qed

lemma quoteCurve_steady:
  assumes "quoteCurve params who ps = Inr c" and "\<bar>paramCurrentTime params + BASE_CACHE_EXPIRE\<bar> < 2 ^ 53"
  shows "curve_steady c"
  using assms
  by (auto simp: quoteCurve_def newStableSwap_def timely_def bnOfNumber_eq_Inr_iff
      split: curve_type.splits)

lemma computeOut_state: "snd (curve_computeOutAmount X i s d dir c) = curve_refresh X c"
  using curve.call_state [of X "CallOut i s d dir" c] by (simp add: answered_def)

lemma computeOut_refresh:
  "curve_steady c \<Longrightarrow>
    fst (curve_computeOutAmount X i s d dir (curve_refresh X c)) = fst (curve_computeOutAmount X i s d dir c)"
  using curve.call_refresh [of c X "CallOut i s d dir"] by (simp add: answered_def)

lemma storeDepeg_again: "storeDepeg c (storeDepeg c ps) = storeDepeg c ps"
  by (cases c; cases "curveType ps") simp_all

lemma swap_quote_state:
  "snd (calculateSwapQuote X mint x params who ps) = ps \<or>
    (\<exists>c. quoteCurve params who ps = Inr c \<and>
      snd (calculateSwapQuote X mint x params who ps) = storeDepeg (curve_refresh X c) ps)"
  by (auto simp: calculateSwapQuote_def Let_def snd_then_do onCurve_def computeOut_state and_then_eq_Inr_iff
      split: sum.splits prod.splits)

lemma swap_quote_refreshed:
  assumes "quoteCurve params who ps = Inr c" and "curve_steady c"
  shows "fst (calculateSwapQuote X mint x params who (storeDepeg (curve_refresh X c) ps)) =
    fst (calculateSwapQuote X mint x params who ps)"
  using quoteCurve_refresh [OF assms(1), of X] assms computeOut_refresh [OF assms(2), of X]
  by (cases "mint = tokenAMint ps")
    (simp_all add: calculateSwapQuote_def Let_def fst_then_do onCurve_def and_then_assoc)

lemma swap_quote_again:
  assumes "\<bar>paramCurrentTime params + BASE_CACHE_EXPIRE\<bar> < 2 ^ 53"
    and "calculateSwapQuote X mint x params who ps = (r, ps')"
  shows "calculateSwapQuote X mint x params who ps' = (r, ps')"
proof (cases "ps' = ps")
  case False
  with assms(2) swap_quote_state [of X mint x params who ps] obtain c where
    c: "quoteCurve params who ps = Inr c" and ps': "ps' = storeDepeg (curve_refresh X c) ps" by auto
  note steady = quoteCurve_steady [OF c assms(1)]
  have "fst (calculateSwapQuote X mint x params who ps') = r"
    using swap_quote_refreshed [OF c steady, of X mint x] assms(2) by (simp add: ps')
  moreover have "snd (calculateSwapQuote X mint x params who ps') = ps'"
    using swap_quote_state [of X mint x params who ps'] quoteCurve_refresh [OF c, of X]
    by (auto simp: ps' curve.refresh_refresh [OF steady] storeDepeg_again)
  ultimately show ?thesis by (metis prod.collapse)
qed (use assms in simp)

section \<open>Refusals\<close>

text \<open>Whether a constant product pool is open for the initiator.\<close>

definition activated :: "swap_quote_param \<Rightarrow> pubkey option \<Rightarrow> pool_state \<Rightarrow> bool" where
  "activated params who ps \<longleftrightarrow>
     who = Some (whitelistedVault (bootstrapping ps)) \<or>
     activationPoint (bootstrapping ps) \<le>
       (if activationType (bootstrapping ps) = activationTypeCode Timestamp
        then paramCurrentTime params else paramCurrentSlot params)"

definition safe_clock :: "swap_quote_param \<Rightarrow> bool" where
  "safe_clock params \<longleftrightarrow> \<bar>paramCurrentTime params\<bar> < 2 ^ 53 \<and> \<bar>paramCurrentSlot params\<bar> < 2 ^ 53"

lemma quoteCurve_constant_product:
  assumes "curveType ps = ConstantProductCurve" and "safe_clock params"
  shows "quoteCurve params who ps =
    (if activated params who ps then Inr CurveConstantProduct
     else Inl (InvariantViolation ''Swap is disabled''))"
proof -
  have numbers: "bnOfNumber (paramCurrentTime params) = Inr (paramCurrentTime params)"
    "bnOfNumber (paramCurrentSlot params) = Inr (paramCurrentSlot params)"
    using assms(2) by (simp_all add: safe_clock_def bnOfNumber_def)
  show ?thesis
  proof (cases "activationType (bootstrapping ps) = activationTypeCode Timestamp")
    case True
    then show ?thesis using assms(1) numbers
      by (cases who) (simp_all add: quoteCurve_def activated_def invariant_def)
  next
    case False
    then show ?thesis using assms(1) numbers
      by (cases who) (simp_all add: quoteCurve_def activated_def invariant_def)
  qed
qed

section \<open>Properties\<close>

text \<open>
  C1: On a constant product pool with sound fees and healthy vaults, a quote never lets the
  product of the reserves fall: paying out the quoted amount against the input less the whole
  trade fee keeps at least the product before the swap, through all roundings of fees, vault
  shares and curve.
\<close>

theorem swap_quote_keeps_product:
  assumes "calculateSwapQuote X mint x params who ps = (Inr r, ps')"
    and "tokenAMint ps \<noteq> tokenBMint ps" and "vault_sdk_laws X"
    and "curveType ps = ConstantProductCurve" and "valid_fees (fees ps)" and "0 \<le> x"
    and "healthy_side X True params" and "healthy_side X False params"
  shows "\<exists>s d fee. sideAmount X (mint = tokenAMint ps) params = Inr s \<and>
    sideAmount X (mint \<noteq> tokenAMint ps) params = Inr d \<and>
    calculateTradingFee x ps = Inr fee \<and> 0 \<le> fee \<and> fee \<le> x \<and>
    s * d \<le> (s + (x - fee)) * (d - amountOut r)"
proof -
  have "healthy_side X (mint = tokenAMint ps) params" "healthy_side X (\<not> mint = tokenAMint ps) params"
    using assms(7,8) by (cases "mint = tokenAMint ps"; simp)+
  from quote_product [OF assms(1,2) refl assms(3-6) this] show ?thesis .
qed

definition key :: "byte \<Rightarrow> pubkey" where
  "key b = PublicKey (replicate 32 b)"

definition example_pool :: "curve_type \<Rightarrow> pool_state" where
  "example_pool ct = \<lparr>lpMint = key 1, tokenAMint = key 2, tokenBMint = key 3, aVault = key 4,
     bVault = key 5, aVaultLp = key 6, bVaultLp = key 7, aVaultLpBump = 255, enabled = True,
     protocolTokenAFee = key 8, protocolTokenBFee = key 9, feeLastUpdatedAt = 0,
     fees = example_fees, poolType = Permissionless, stake = PublicKey_default, totalLockedLp = 0,
     bootstrapping = \<lparr>activationPoint = 500, whitelistedVault = key 10, poolCreator = key 11,
       activationType = 1\<rparr>, curveType = ct\<rparr>"

definition example_vault :: "int \<Rightarrow> vault_state" where
  "example_vault n = \<lparr>totalAmount = n, tokenVault = key 12, vaultLpMint = key 13, vaultRest = []\<rparr>"

definition example_params :: swap_quote_param where
  "example_params = \<lparr>paramVaultA = example_vault 3000000, paramVaultB = example_vault 7000000,
     paramPoolVaultALp = 1000000, paramPoolVaultBLp = 2000000, paramVaultALpSupply = 2500000,
     paramVaultBLpSupply = 6500000, paramVaultAReserve = 2900000, paramVaultBReserve = 6900000,
     paramCurrentTime = 1000, paramCurrentSlot = 300, paramDepegAccounts = Map.empty\<rparr>"

lemma example_externals_vault: "vault_sdk_laws example_externals"
  by (simp add: vault_sdk_laws_def example_externals_def trunc_div_def)

lemma example_healthy: "healthy_side example_externals isA example_params"
  by (simp add: healthy_side_def side_defs example_params_def example_externals_def example_vault_def)

lemma example_valid_fees: "valid_fees example_fees"
  by (simp add: valid_fees_def example_fees_def)

lemma example_quote:
  "fst (calculateSwapQuote example_externals (key 2) 10000 example_params None (example_pool ConstantProductCurve)) =
    Inr \<lparr>amountOut = 17753, swapFee = 20, swapPriceImpact = DecimalQuotient 148 17902\<rparr>"
  by code_simp

lemma example_quote_run:
  obtains ps' where "calculateSwapQuote example_externals (key 2) 10000 example_params None
      (example_pool ConstantProductCurve) =
    (Inr \<lparr>amountOut = 17753, swapFee = 20, swapPriceImpact = DecimalQuotient 148 17902\<rparr>, ps')"
  using example_quote by (metis prod.collapse)

lemma example_mints: "tokenAMint (example_pool c) \<noteq> tokenBMint (example_pool c)"
  by (simp add: example_pool_def key_def)

theorem swap_quote_keeps_product_witness:
  "\<exists>s d. sideAmount example_externals True example_params = Inr s \<and>
    sideAmount example_externals False example_params = Inr d \<and>
    s * d \<le> (s + (10000 - 25)) * (d - 17753)"
proof -
  obtain ps' where "calculateSwapQuote example_externals (key 2) 10000 example_params None
      (example_pool ConstantProductCurve) =
    (Inr \<lparr>amountOut = 17753, swapFee = 20, swapPriceImpact = DecimalQuotient 148 17902\<rparr>, ps')"
    by (rule example_quote_run)
  from swap_quote_keeps_product [OF this example_mints example_externals_vault _ _ _
      example_healthy example_healthy]
  show ?thesis
    using example_valid_fees
    by (simp add: example_pool_def calculateTradingFee_def example_fees_def trunc_div_pos)
qed

text \<open>
  C2: A quote that succeeds was allowed and can be paid: the pool is enabled, the mint is one of
  its two tokens, a constant product pool is open for the initiator, the output is below both the
  reserve of the destination vault and the pool's own part of it, and the fee is the trade fee
  less the protocol's cut.
\<close>

theorem swap_quote_limits:
  assumes "calculateSwapQuote X mint x params who ps = (Inr r, ps')"
    and "tokenAMint ps \<noteq> tokenBMint ps" and "safe_clock params"
  shows "enabled ps \<and> (mint = tokenAMint ps \<or> mint = tokenBMint ps) \<and>
    (curveType ps = ConstantProductCurve \<longrightarrow> activated params who ps) \<and>
    amountOut r < sideReserve (mint \<noteq> tokenAMint ps) params \<and>
    (\<exists>d. sideAmount X (mint \<noteq> tokenAMint ps) params = Inr d \<and> amountOut r < d) \<and>
    (\<exists>tf pf. calculateTradingFee x ps = Inr tf \<and> calculateProtocolTradingFee tf ps = Inr pf \<and>
      swapFee r = tf - pf)"
proof -
  have "curveType ps = ConstantProductCurve \<longrightarrow> activated params who ps"
    if "quoteCurve params who ps = Inr c" for c
    using that quoteCurve_constant_product [OF _ assms(3), of ps who] by (auto split: if_splits)
  then show ?thesis
    by (rule_tac swap_quote_cases [OF assms(1,2) refl]) (auto simp: sideAmount_def)
qed

theorem swap_quote_limits_witness:
  "activated example_params None (example_pool ConstantProductCurve) \<and>
    17753 < sideReserve False example_params"
proof -
  obtain ps' where run: "calculateSwapQuote example_externals (key 2) 10000 example_params None
      (example_pool ConstantProductCurve) =
    (Inr \<lparr>amountOut = 17753, swapFee = 20, swapPriceImpact = DecimalQuotient 148 17902\<rparr>, ps')"
    by (rule example_quote_run)
  have "safe_clock example_params" by (simp add: safe_clock_def example_params_def)
  from swap_quote_limits [OF run example_mints this] show ?thesis by (simp add: example_pool_def)
qed

definition example_lst_pool :: pool_state where
  "example_lst_pool = example_pool (StableSwapCurve \<lparr>amp = 100,
     tokenMultiplier = \<lparr>tokenAMultiplier = 1, tokenBMultiplier = 1, precisionFactor = 9\<rparr>,
     depegInfo = \<lparr>baseVirtualPrice = 1000000, baseCacheUpdated = 100, depegType = DepegLido\<rparr>,
     lastAmpUpdatedTimestamp = 0\<rparr>)"

text \<open>
  What a quote comes to before its last guard: the curve it built, what the curve is asked, the
  amount that would be paid, and the limit, which is the reserve of the destination vault or the
  pool's part of it, whichever is less.
\<close>

definition quotedPayout :: "externals \<Rightarrow> pubkey \<Rightarrow> int \<Rightarrow> swap_quote_param \<Rightarrow> pubkey option \<Rightarrow> pool_state \<Rightarrow>
    (swap_curve \<times> int \<times> int) result" where
  "quotedPayout X mint x params who ps =
     (let fromA = (mint = tokenAMint ps) in
      and_then (quoteCurve params who ps) (\<lambda>c.
      and_then (sideAmount X fromA params) (\<lambda>s.
      and_then (sideAmount X (\<not> fromA) params) (\<lambda>d.
      and_then (calculateTradingFee x ps) (\<lambda>tf.
      and_then (calculateProtocolTradingFee tf ps) (\<lambda>pf.
      and_then (creditedAmount X fromA (x - pf) params) (\<lambda>credit.
      and_then (fst (curve_computeOutAmount X (credit - (tf - pf)) s d (sideDirection fromA) c)) (\<lambda>out.
      and_then (paidOut X (\<not> fromA) (outAmount out) params) (\<lambda>payout.
        Inr (c, payout, min d (sideReserve (\<not> fromA) params)))))))))))"

lemma quotedPayout_InrE:
  assumes "quotedPayout X mint x params who ps = Inr (c, payout, limit)" and "fromA = (mint = tokenAMint ps)"
  obtains Ws Wd s d tf pf m after out lp where
    "quoteCurve params who ps = Inr c"
    and "vsWithdrawable X (paramCurrentTime params) (sideVault fromA params) = Inr Ws"
    and "vsWithdrawable X (paramCurrentTime params) (sideVault (\<not> fromA) params) = Inr Wd"
    and "vsAmountByShare X (sideLp fromA params) Ws (sideSupply fromA params) = Inr s"
    and "vsAmountByShare X (sideLp (\<not> fromA) params) Wd (sideSupply (\<not> fromA) params) = Inr d"
    and "calculateTradingFee x ps = Inr tf" and "calculateProtocolTradingFee tf ps = Inr pf"
    and "vsUnmintAmount X (x - pf) Ws (sideSupply fromA params) = Inr m"
    and "vsAmountByShare X (m + sideLp fromA params) (Ws + (x - pf)) (sideSupply fromA params + m) = Inr after"
    and "fst (curve_computeOutAmount X (after - s - (tf - pf)) s d (sideDirection fromA) c) = Inr out"
    and "vsUnmintAmount X (outAmount out) Wd (sideSupply (\<not> fromA) params) = Inr lp"
    and "vsAmountByShare X lp Wd (sideSupply (\<not> fromA) params) = Inr payout"
    and "limit = min d (sideReserve (\<not> fromA) params)"
  using assms(1) unfolding quotedPayout_def Let_def assms(2) [symmetric]
  by (auto simp: sideAmount_def creditedAmount_def paidOut_def intro!: that)

lemma swap_quote_payout:
  assumes "quotedPayout X mint x params who ps = Inr (c, payout, limit)"
    and "mint = tokenAMint ps \<or> mint = tokenBMint ps" and "enabled ps" and "tokenAMint ps \<noteq> tokenBMint ps"
  shows "snd (calculateSwapQuote X mint x params who ps) = storeDepeg (curve_refresh X c) ps"
    and "payout < limit \<Longrightarrow> \<exists>r. fst (calculateSwapQuote X mint x params who ps) = Inr r \<and> amountOut r = payout"
    and "limit \<le> payout \<Longrightarrow>
      fst (calculateSwapQuote X mint x params who ps) = Inl (InvariantViolation ''Out amount > vault reserve'')"
proof -
  define fromA where "fromA = (mint = tokenAMint ps)"
  from quotedPayout_InrE [OF assms(1) fromA_def] obtain Ws Wd s d tf pf m after out lp where
    parts: "quoteCurve params who ps = Inr c"
    "vsWithdrawable X (paramCurrentTime params) (sideVault fromA params) = Inr Ws"
    "vsWithdrawable X (paramCurrentTime params) (sideVault (\<not> fromA) params) = Inr Wd"
    "vsAmountByShare X (sideLp fromA params) Ws (sideSupply fromA params) = Inr s"
    "vsAmountByShare X (sideLp (\<not> fromA) params) Wd (sideSupply (\<not> fromA) params) = Inr d"
    "calculateTradingFee x ps = Inr tf" "calculateProtocolTradingFee tf ps = Inr pf"
    "vsUnmintAmount X (x - pf) Ws (sideSupply fromA params) = Inr m"
    "vsAmountByShare X (m + sideLp fromA params) (Ws + (x - pf)) (sideSupply fromA params + m) = Inr after"
    "fst (curve_computeOutAmount X (after - s - (tf - pf)) s d (sideDirection fromA) c) = Inr out"
    "vsUnmintAmount X (outAmount out) Wd (sideSupply (\<not> fromA) params) = Inr lp"
    "vsAmountByShare X lp Wd (sideSupply (\<not> fromA) params) = Inr payout" and
    limit: "limit = min d (sideReserve (\<not> fromA) params)" by metis
  have "calculateSwapQuote X mint x params who ps =
    (if payout < limit
     then (Inr \<lparr>amountOut = payout, swapFee = tf - pf, swapPriceImpact = outPriceImpact out\<rparr>,
       storeDepeg (curve_refresh X c) ps)
     else (Inl (InvariantViolation ''Out amount > vault reserve''), storeDepeg (curve_refresh X c) ps))"
  proof (cases "mint = tokenAMint ps")
    case True
    note parts = parts [unfolded fromA_def side_defs True, simplified]
    show ?thesis
      using assms(3,4) True limit parts computeOut_state [of X "after - s - (tf - pf)" s d AToB c]
      by (auto simp: calculateSwapQuote_def Let_def prod_eq_iff fst_then_do snd_then_do onCurve_def
          calculateMaxSwapOutAmount_def fromA_def side_defs invariant_def)
  next
    case False
    with assms(2) have mint: "mint = tokenBMint ps" "tokenBMint ps \<noteq> tokenAMint ps" using assms(4) by auto
    note parts = parts [unfolded fromA_def side_defs, simplified False, simplified]
    show ?thesis
      using assms(3) False mint limit parts computeOut_state [of X "after - s - (tf - pf)" s d BToA c]
      by (auto simp: calculateSwapQuote_def Let_def prod_eq_iff fst_then_do snd_then_do onCurve_def
          calculateMaxSwapOutAmount_def fromA_def side_defs invariant_def)
  qed
  then show "snd (calculateSwapQuote X mint x params who ps) = storeDepeg (curve_refresh X c) ps"
    "payout < limit \<Longrightarrow> \<exists>r. fst (calculateSwapQuote X mint x params who ps) = Inr r \<and> amountOut r = payout"
    "limit \<le> payout \<Longrightarrow>
      fst (calculateSwapQuote X mint x params who ps) = Inl (InvariantViolation ''Out amount > vault reserve'')"
    by simp_all
qed

text \<open>
  C24: The guards of a quote refuse in the order of the source. The first three leave the pool state
  alone: a foreign mint, then a disabled pool, then a constant product pool that is not open for the
  initiator, by time or by slot as the pool says. The last one comes after the curve was asked: when
  everything before it is computed, the quote is refused exactly when the payout reaches the limit,
  and answered with the payout otherwise; in both cases the price cache of the pool state has been
  refreshed and nothing else. Whatever the answer, no quote changes anything but that cache.
\<close>

theorem swap_quote_refusals:
  assumes "safe_clock params" and "tokenAMint ps \<noteq> tokenBMint ps"
  shows "(mint \<noteq> tokenAMint ps \<and> mint \<noteq> tokenBMint ps \<longrightarrow>
      calculateSwapQuote X mint x params who ps = (Inl (InvariantViolation ''Invalid mint''), ps)) \<and>
    (mint = tokenAMint ps \<or> mint = tokenBMint ps \<longrightarrow> \<not> enabled ps \<longrightarrow>
      calculateSwapQuote X mint x params who ps = (Inl (InvariantViolation ''Pool disabled''), ps)) \<and>
    (mint = tokenAMint ps \<or> mint = tokenBMint ps \<longrightarrow> enabled ps \<longrightarrow>
      curveType ps = ConstantProductCurve \<longrightarrow> \<not> activated params who ps \<longrightarrow>
      calculateSwapQuote X mint x params who ps = (Inl (InvariantViolation ''Swap is disabled''), ps)) \<and>
    (\<forall>c payout limit. mint = tokenAMint ps \<or> mint = tokenBMint ps \<longrightarrow> enabled ps \<longrightarrow>
      quotedPayout X mint x params who ps = Inr (c, payout, limit) \<longrightarrow>
      snd (calculateSwapQuote X mint x params who ps) = storeDepeg (curve_refresh X c) ps \<and>
      (payout < limit \<longrightarrow> (\<exists>r. fst (calculateSwapQuote X mint x params who ps) = Inr r \<and> amountOut r = payout)) \<and>
      (limit \<le> payout \<longrightarrow> fst (calculateSwapQuote X mint x params who ps) =
        Inl (InvariantViolation ''Out amount > vault reserve''))) \<and>
    (snd (calculateSwapQuote X mint x params who ps) = ps \<or>
      (\<exists>c. snd (calculateSwapQuote X mint x params who ps) = storeDepeg (curve_refresh X c) ps))"
  using quoteCurve_constant_product [OF _ assms(1), of ps who] swap_quote_payout [OF _ _ _ assms(2)]
    swap_quote_state [of X mint x params who ps]
  by (auto simp: calculateSwapQuote_def)

theorem swap_quote_refusals_witness:
  "fst (calculateSwapQuote example_externals (key 3) 5 (example_params\<lparr>paramCurrentTime := 499\<rparr>) (Some (key 9))
     (example_pool ConstantProductCurve)) = Inl (InvariantViolation ''Swap is disabled'') \<and>
   fst (calculateSwapQuote example_externals (key 2) 10000 (example_params\<lparr>paramVaultBReserve := 17753\<rparr>) None
     (example_pool ConstantProductCurve)) = Inl (InvariantViolation ''Out amount > vault reserve'')"
proof
  let ?pool = "example_pool ConstantProductCurve" and ?low = "example_params\<lparr>paramVaultBReserve := 17753\<rparr>"
  show "fst (calculateSwapQuote example_externals (key 3) 5 (example_params\<lparr>paramCurrentTime := 499\<rparr>) (Some (key 9))
     ?pool) = Inl (InvariantViolation ''Swap is disabled'')"
    using swap_quote_refusals [of "example_params\<lparr>paramCurrentTime := 499\<rparr>" ?pool "key 3" example_externals 5
        "Some (key 9)"] example_mints
    by (simp add: safe_clock_def example_params_def example_pool_def activated_def key_def)
  have "(case quotedPayout example_externals (key 2) 10000 ?low None ?pool of
      Inl e \<Rightarrow> False | Inr (c, payout, limit) \<Rightarrow> payout = 17753 \<and> limit = 17753)" by code_simp
  then obtain c where "quotedPayout example_externals (key 2) 10000 ?low None ?pool = Inr (c, 17753, 17753)"
    by (auto split: sum.splits)
  with swap_quote_refusals [of ?low ?pool "key 2" example_externals 10000 None] example_mints
  show "fst (calculateSwapQuote example_externals (key 2) 10000 ?low None ?pool) =
     Inl (InvariantViolation ''Out amount > vault reserve'')"
    by (simp add: safe_clock_def example_params_def example_pool_def)
qed

text \<open>
  Trade fees round in the trader's favour by at most one unit: splitting an input in two never
  raises the total trade fee and lowers it by at most one, and the fee and the protocol's cut of
  it stay between nothing and the amount.
\<close>

lemma trade_fee_split:
  assumes "valid_fees (fees ps)" and "0 \<le> a" and "0 \<le> b"
  shows "\<exists>fa fb fab cut. calculateTradingFee a ps = Inr fa \<and> calculateTradingFee b ps = Inr fb \<and>
    calculateTradingFee (a + b) ps = Inr fab \<and> calculateProtocolTradingFee fab ps = Inr cut \<and>
    fa + fb \<le> fab \<and> fab \<le> fa + fb + 1 \<and> 0 \<le> cut \<and> cut \<le> fab \<and> fab \<le> a + b"
proof -
  let ?n = "tradeFeeNumerator (fees ps)" and ?d = "tradeFeeDenominator (fees ps)"
  let ?fa = "(a * ?n) div ?d" and ?fb = "(b * ?n) div ?d" and ?fab = "((a + b) * ?n) div ?d"
  from assms(1) have d: "0 < ?d" and n: "0 \<le> ?n" by (auto simp: valid_fees_def)
  have fee: "calculateTradingFee z ps = Inr ((z * ?n) div ?d)" if "0 \<le> z" for z
    using that d n by (simp add: calculateTradingFee_def Let_def trunc_div_pos)
  have "(?fa + ?fb) * ?d \<le> (a + b) * ?n"
    using div_times_le [OF d, of "a * ?n"] div_times_le [OF d, of "b * ?n"] by (simp add: distrib_right)
  then have low: "?fa + ?fb \<le> ?fab" using d by (intro le_div_of_mult_le)
  have "(a + b) * ?n < (?fa + ?fb + 2) * ?d"
    using lt_Suc_div_times [OF d, of "a * ?n"] lt_Suc_div_times [OF d, of "b * ?n"]
    by (simp add: distrib_right)
  then have high: "?fab < ?fa + ?fb + 2" using d by (intro div_lt_of_lt_mult)
  have sum: "0 \<le> a + b" using assms by simp
  note fab = trading_fee_bounds [OF fee [OF sum] assms(1) sum]
  from assms(1) have "protocolTradeFeeDenominator (fees ps) \<noteq> 0" by (auto simp: valid_fees_def)
  then obtain cut where cut: "calculateProtocolTradingFee ?fab ps = Inr cut"
    by (simp add: calculateProtocolTradingFee_def trunc_div_def Let_def)
  from low high fab protocol_fee_bounds [OF cut assms(1) fab(1)] cut fee assms(2,3) sum
  show ?thesis by auto
qed

text \<open>
  A deposit into a vault is credited to the pool with between nothing and its amount, whatever
  the rounding of the vault's shares.
\<close>

lemma actual_deposit_bounds:
  assumes "0 < vaultSupply" and "0 < vaultTotal" and "0 \<le> poolLp" and "poolLp \<le> vaultSupply"
    and "0 \<le> depositAmount"
  shows "\<exists>v. computeActualDepositAmount depositAmount ((poolLp * vaultTotal) div vaultSupply) poolLp
      vaultSupply vaultTotal = Inr v \<and> 0 \<le> v \<and> v \<le> depositAmount"
proof (cases "depositAmount = 0")
  case False
  have m: "0 \<le> (depositAmount * vaultSupply) div vaultTotal"
    using assms by (simp add: pos_imp_zdiv_nonneg_iff)
  show ?thesis
    using False m assms vault_deposit_le [OF assms] vault_deposit_ge [OF assms]
    by (simp add: computeActualDepositAmount_def trunc_div_pos Let_def)
qed (simp add: computeActualDepositAmount_def)

end
