(* ===== verification/Memecoin.thy ===== *)
theory Memecoin
  imports SwapQuote
begin

text \<open>
  \<open>calculateSwapQuoteForGoingToCreateMemecoinPool\<close> of \<open>ts-client/src/amm/utils.ts\<close>: the quote
  for a pool that does not exist yet, one of whose tokens has a vault. The function deposits into
  copies of the pool's position but into the caller's own vault objects, so it mutates its
  parameters: the state is the pair of the two optional sides.
\<close>

section \<open>State\<close>

text \<open>\<open>VaultAssociatedAccountStates\<close> and the function's \<open>LocalStates\<close>.\<close>

record vault_account_states =
  stVault :: vault_state
  stReserve :: int
  stLpSupply :: int

record local_states =
  lsVaultStates :: vault_account_states
  lsPoolVaultLp :: int

type_synonym sides = "local_states option \<times> local_states option"

record memecoin_quote =
  mqAmountOut :: int
  mqFee :: int

definition onSide :: "bool \<Rightarrow> (local_states option, 'a) action \<Rightarrow> (sides, 'a) action" where
  "onSide isA m st =
     (if isA then (fst (m (fst st)), (snd (m (fst st)), snd st))
      else (fst (m (snd st)), (fst st, snd (m (snd st)))))"

section \<open>Deposits and withdrawals\<close>

text \<open>
  The two local functions differ in the sign of the changes: \<open>delta\<close> adds for a deposit and
  subtracts for a withdrawal. Both return what the pool then owns in the vault.
\<close>

definition afterVaultChange ::
  "(int \<Rightarrow> int \<Rightarrow> int) \<Rightarrow> externals \<Rightarrow> int \<Rightarrow> int \<Rightarrow> (local_states option, int) action" where
  "afterVaultChange delta X now amount st =
     (case st of
        None \<Rightarrow> (Inr amount, st)
      | Some ls \<Rightarrow>
          let vs = lsVaultStates ls in
          (case and_then (vsWithdrawable X now (stVault vs)) (\<lambda>vaultWithdrawableAmount.
                  vsUnmintAmount X amount vaultWithdrawableAmount (stLpSupply vs)) of
             Inl e \<Rightarrow> (Inl e, st)
           | Inr lp \<Rightarrow>
               let vs' = vs\<lparr>stLpSupply := delta (stLpSupply vs) lp,
                     stVault := (stVault vs)\<lparr>totalAmount := delta (totalAmount (stVault vs)) amount\<rparr>\<rparr>;
                   ls' = \<lparr>lsVaultStates = vs', lsPoolVaultLp = delta (lsPoolVaultLp ls) lp\<rparr> in
               (and_then (vsWithdrawable X now (stVault vs')) (\<lambda>w.
                  vsAmountByShare X (lsPoolVaultLp ls') w (stLpSupply vs')), Some ls')))"

definition getTokenAmountAfterDepositVault ::
  "externals \<Rightarrow> int \<Rightarrow> int \<Rightarrow> (local_states option, int) action" where
  "getTokenAmountAfterDepositVault = afterVaultChange (+)"

definition getTokenAmountAfterWithdrawVault ::
  "externals \<Rightarrow> int \<Rightarrow> int \<Rightarrow> (local_states option, int) action" where
  "getTokenAmountAfterWithdrawVault = afterVaultChange (-)"

section \<open>The quote\<close>

definition newSide :: "vault_account_states option \<Rightarrow> local_states option" where
  "newSide v = map_option (\<lambda>vs. \<lparr>lsVaultStates = vs, lsPoolVaultLp = 0\<rparr>) v"

definition memecoinQuote :: "externals \<Rightarrow> int \<Rightarrow> int \<Rightarrow> int \<Rightarrow> bool \<Rightarrow> pool_fees \<Rightarrow> int \<Rightarrow>
    (sides, memecoin_quote) action" where
  "memecoinQuote X inAmountLamport tokenADepositAmount tokenBDepositAmount aToB f now st =
     (let hasVault = (\<lambda>isA. (if isA then fst st else snd st) \<noteq> None) in
      then_do (pure_step (
        and_then (invariant (hasVault True \<or> hasVault False) ''Must one side have vault'') (\<lambda>_.
          invariant (\<not> hasVault True \<or> \<not> hasVault False) ''Must one side have vault''))) (\<lambda>_.
      then_do (onSide True (getTokenAmountAfterDepositVault X now tokenADepositAmount)) (\<lambda>amountA.
      then_do (onSide False (getTokenAmountAfterDepositVault X now tokenBDepositAmount)) (\<lambda>amountB.
      let (sourceAmount, swapSourceAmount, swapDestinationAmount) =
        (if aToB then (inAmountLamport, amountA, amountB) else (inAmountLamport, amountB, amountA)) in
      then_do (pure_step (
        and_then (trunc_div (sourceAmount * tradeFeeNumerator f) (tradeFeeDenominator f)) (\<lambda>tradeFee.
        and_then (trunc_div (tradeFee * protocolTradeFeeNumerator f) (protocolTradeFeeDenominator f))
          (\<lambda>protocolFee. Inr (tradeFee, protocolFee))))) (\<lambda>(tradeFee, protocolFee).
      let sourceAmountLessProtocolFee = sourceAmount - protocolFee;
          beforeSwapSourceAmount = swapSourceAmount in
      then_do (if hasVault aToB
          then onSide aToB (getTokenAmountAfterDepositVault X now sourceAmountLessProtocolFee)
          else pure_step (Inr sourceAmountLessProtocolFee)) (\<lambda>afterSwapSourceAmount.
      let actualSourceAmount = afterSwapSourceAmount - beforeSwapSourceAmount;
          sourceAmountLessFee = actualSourceAmount - (tradeFee - protocolFee) in
      then_do (pure_step (cp_computeOutAmount sourceAmountLessFee swapSourceAmount
          swapDestinationAmount (if aToB then AToB else BToA))) (\<lambda>out.
      let destinationAmount = outAmount out in
      then_do (if hasVault (\<not> aToB)
          then onSide (\<not> aToB) (getTokenAmountAfterWithdrawVault X now destinationAmount)
          else pure_step (Inr destinationAmount)) (\<lambda>afterDestinationAmount.
      pure_step (Inr \<lparr>mqAmountOut = afterDestinationAmount,
        mqFee = sourceAmountLessProtocolFee\<rparr>)))))))) st)"

definition calculateSwapQuoteForGoingToCreateMemecoinPool ::
  "externals \<Rightarrow> int \<Rightarrow> int \<Rightarrow> int \<Rightarrow> bool \<Rightarrow> pool_fees \<Rightarrow> vault_account_states option \<Rightarrow>
   vault_account_states option \<Rightarrow> int \<Rightarrow> memecoin_quote result \<times> sides" where
  "calculateSwapQuoteForGoingToCreateMemecoinPool X inAmountLamport tokenADepositAmount
     tokenBDepositAmount aToB f vaultA vaultB now =
     memecoinQuote X inAmountLamport tokenADepositAmount tokenBDepositAmount aToB f now
       (newSide vaultA, newSide vaultB)"

section \<open>A quote that succeeds\<close>

lemma onSide_eq:
  "onSide isA m st = (r, st') \<longleftrightarrow>
    (if isA then fst (m (fst st)) = r \<and> st' = (snd (m (fst st)), snd st)
     else fst (m (snd st)) = r \<and> st' = (fst st, snd (m (snd st))))"
  by (auto simp: onSide_def)

lemma deposit_None [simp]: "getTokenAmountAfterDepositVault X now amount None = (Inr amount, None)"
  by (simp add: getTokenAmountAfterDepositVault_def afterVaultChange_def)

lemma withdraw_None [simp]: "getTokenAmountAfterWithdrawVault X now amount None = (Inr amount, None)"
  by (simp add: getTokenAmountAfterWithdrawVault_def afterVaultChange_def)

definition sidesOf :: "bool \<Rightarrow> local_states option \<Rightarrow> local_states option \<Rightarrow> sides" where
  "sidesOf aToB source dest = (if aToB then (source, dest) else (dest, source))"

definition depositOf :: "bool \<Rightarrow> int \<Rightarrow> int \<Rightarrow> int" where
  "depositOf isA depositA depositB = (if isA then depositA else depositB)"

text \<open>Fees of the quote: the trade fee and the protocol's cut.\<close>

definition memeFees :: "int \<Rightarrow> pool_fees \<Rightarrow> (int \<times> int) result" where
  "memeFees x f =
     and_then (trunc_div (x * tradeFeeNumerator f) (tradeFeeDenominator f)) (\<lambda>tradeFee.
     and_then (trunc_div (tradeFee * protocolTradeFeeNumerator f) (protocolTradeFeeDenominator f))
       (\<lambda>protocolFee. Inr (tradeFee, protocolFee)))"

lemma memeFees_bounds:
  assumes "memeFees x f = Inr (tf, pf)" and "valid_fees f" and "0 \<le> x"
  shows "0 \<le> tf" "tf \<le> x" "0 \<le> pf" "pf \<le> tf"
proof -
  from assms have tf: "tf = (x * tradeFeeNumerator f) div tradeFeeDenominator f"
    by (auto simp: memeFees_def valid_fees_def trunc_div_pos)
  show t: "0 \<le> tf" "tf \<le> x"
    unfolding tf using assms(2,3) by (auto simp: valid_fees_def intro!: mul_div_bounds)
  from assms t have pf: "pf = (tf * protocolTradeFeeNumerator f) div protocolTradeFeeDenominator f"
    by (auto simp: memeFees_def valid_fees_def trunc_div_pos tf)
  show "0 \<le> pf" "pf \<le> tf"
    unfolding pf using assms(2) t by (auto simp: valid_fees_def intro!: mul_div_bounds)
qed

text \<open>Buying: the token paid in has the vault, the new token has none.\<close>

lemma buy_cases:
  assumes "memecoinQuote X x depA depB aToB f now (sidesOf aToB (Some ls) None) = (Inr q, st')"
  obtains s side tf pf after out where
    "getTokenAmountAfterDepositVault X now (depositOf aToB depA depB) (Some ls) = (Inr s, side)"
    and "memeFees x f = Inr (tf, pf)"
    and "fst (getTokenAmountAfterDepositVault X now (x - pf) side) = Inr after"
    and "cp_computeOutAmount (after - s - (tf - pf)) s (depositOf (\<not> aToB) depA depB)
      (if aToB then AToB else BToA) = Inr out"
    and "mqAmountOut q = outAmount out" and "mqFee q = x - pf"
proof (cases aToB)
  case True
  with assms
  obtain s tf pf after out where
    "fst (getTokenAmountAfterDepositVault X now depA (Some ls)) = Inr s"
    "memeFees x f = Inr (tf, pf)"
    "fst (getTokenAmountAfterDepositVault X now (x - pf)
      (snd (getTokenAmountAfterDepositVault X now depA (Some ls)))) = Inr after"
    "cp_computeOutAmount (after - s - (tf - pf)) s depB AToB = Inr out"
    "mqAmountOut q = outAmount out" "mqFee q = x - pf"
    by (auto simp: memecoinQuote_def sidesOf_def onSide_eq memeFees_def Let_def)
  then show ?thesis using True by (intro that) (auto simp: depositOf_def prod_eq_iff)
next
  case False
  with assms
  obtain s tf pf after out where
    "fst (getTokenAmountAfterDepositVault X now depB (Some ls)) = Inr s"
    "memeFees x f = Inr (tf, pf)"
    "fst (getTokenAmountAfterDepositVault X now (x - pf)
      (snd (getTokenAmountAfterDepositVault X now depB (Some ls)))) = Inr after"
    "cp_computeOutAmount (after - s - (tf - pf)) s depA BToA = Inr out"
    "mqAmountOut q = outAmount out" "mqFee q = x - pf"
    by (auto simp: memecoinQuote_def sidesOf_def onSide_eq memeFees_def Let_def)
  then show ?thesis using False by (intro that) (auto simp: depositOf_def prod_eq_iff)
qed

text \<open>Selling: the new token is paid in, the token paid out has the vault.\<close>

lemma sell_cases:
  assumes "memecoinQuote X x depA depB aToB f now (sidesOf aToB None (Some ls)) = (Inr q, st')"
  obtains d side tf pf out where
    "getTokenAmountAfterDepositVault X now (depositOf (\<not> aToB) depA depB) (Some ls) = (Inr d, side)"
    and "memeFees x f = Inr (tf, pf)"
    and "cp_computeOutAmount (x - pf - depositOf aToB depA depB - (tf - pf)) (depositOf aToB depA depB) d
      (if aToB then AToB else BToA) = Inr out"
    and "fst (getTokenAmountAfterWithdrawVault X now (outAmount out) side) = Inr (mqAmountOut q)"
    and "mqFee q = x - pf"
proof (cases aToB)
  case True
  with assms
  obtain d tf pf out where
    "fst (getTokenAmountAfterDepositVault X now depB (Some ls)) = Inr d"
    "memeFees x f = Inr (tf, pf)"
    "cp_computeOutAmount (x - pf - depA - (tf - pf)) depA d AToB = Inr out"
    "fst (getTokenAmountAfterWithdrawVault X now (outAmount out)
      (snd (getTokenAmountAfterDepositVault X now depB (Some ls)))) = Inr (mqAmountOut q)"
    "mqFee q = x - pf"
    by (auto simp: memecoinQuote_def sidesOf_def onSide_eq memeFees_def Let_def)
  then show ?thesis using True by (intro that) (auto simp: depositOf_def prod_eq_iff)
next
  case False
  with assms
  obtain d tf pf out where
    "fst (getTokenAmountAfterDepositVault X now depA (Some ls)) = Inr d"
    "memeFees x f = Inr (tf, pf)"
    "cp_computeOutAmount (x - pf - depB - (tf - pf)) depB d BToA = Inr out"
    "fst (getTokenAmountAfterWithdrawVault X now (outAmount out)
      (snd (getTokenAmountAfterDepositVault X now depA (Some ls)))) = Inr (mqAmountOut q)"
    "mqFee q = x - pf"
    by (auto simp: memecoinQuote_def sidesOf_def onSide_eq memeFees_def Let_def)
  then show ?thesis using False by (intro that) (auto simp: depositOf_def prod_eq_iff)
qed

section \<open>Deposits in order\<close>

text \<open>
  What the vault SDK documents of the withdrawable amount: it is the total amount less a locked
  profit that depends on the time, so it moves with the total amount.
\<close>

definition vault_total_law :: "externals \<Rightarrow> bool" where
  "vault_total_law X \<longleftrightarrow> (\<forall>now v w a. vsWithdrawable X now v = Inr w \<longrightarrow>
     vsWithdrawable X now (v\<lparr>totalAmount := totalAmount v + a\<rparr>) = Inr (w + a))"

definition sound_side :: "externals \<Rightarrow> int \<Rightarrow> int \<Rightarrow> local_states \<Rightarrow> bool" where
  "sound_side X now w ls \<longleftrightarrow>
     vsWithdrawable X now (stVault (lsVaultStates ls)) = Inr w \<and> 0 < w \<and>
     0 < stLpSupply (lsVaultStates ls) \<and> 0 \<le> lsPoolVaultLp ls \<and>
     lsPoolVaultLp ls \<le> stLpSupply (lsVaultStates ls)"

lemma deposit_step:
  assumes "vault_sdk_laws X" and "vault_total_law X" and "sound_side X now w ls" and "0 \<le> a"
  defines "tot \<equiv> stLpSupply (lsVaultStates ls)" and "l \<equiv> lsPoolVaultLp ls"
  defines "m \<equiv> (a * tot) div w"
  shows "\<exists>ls'. getTokenAmountAfterDepositVault X now a (Some ls) =
      (Inr (((l + m) * (w + a)) div (tot + m)), Some ls') \<and> sound_side X now (w + a) ls' \<and>
      lsPoolVaultLp ls' = l + m \<and> stLpSupply (lsVaultStates ls') = tot + m"
proof -
  from assms(3) have w: "vsWithdrawable X now (stVault (lsVaultStates ls)) = Inr w" "0 < w"
    and tot: "0 < tot" and l: "0 \<le> l" "l \<le> tot" by (auto simp: sound_side_def tot_def l_def)
  have m: "0 \<le> m" unfolding m_def using assms(4) tot w(2) by (simp add: pos_imp_zdiv_nonneg_iff)
  have unmint: "vsUnmintAmount X a w tot = Inr m"
    using assms(1,4) w(2) tot by (simp add: vault_sdk_laws_def m_def)
  have total: "vsWithdrawable X now ((stVault (lsVaultStates ls))
      \<lparr>totalAmount := totalAmount (stVault (lsVaultStates ls)) + a\<rparr>) = Inr (w + a)"
    using assms(2) w(1) by (auto simp: vault_total_law_def)
  have share: "vsAmountByShare X (l + m) (w + a) (tot + m) = Inr (((l + m) * (w + a)) div (tot + m))"
    using assms(1,4) w(2) tot l m by (simp add: vault_sdk_laws_def)
  show ?thesis
    using w unmint total share tot l m assms(4)
    by (auto simp: getTokenAmountAfterDepositVault_def afterVaultChange_def sound_side_def Let_def
        tot_def l_def)
qed

lemma deposit_nonneg:
  assumes "vault_sdk_laws X" and "vault_total_law X" and "sound_side X now w ls" and "0 \<le> a"
    and "getTokenAmountAfterDepositVault X now a (Some ls) = (Inr v, side)"
  shows "0 \<le> v"
proof -
  from assms(3) have "0 < w" "0 < stLpSupply (lsVaultStates ls)" "0 \<le> lsPoolVaultLp ls"
    by (auto simp: sound_side_def)
  moreover from this have "0 \<le> (a * stLpSupply (lsVaultStates ls)) div w"
    using assms(4) by (intro div_nonneg) auto
  ultimately show ?thesis
    using deposit_step [OF assms(1-4)] assms(4,5) by (auto intro!: div_nonneg)
qed

lemma side_amounts:
  assumes "vault_sdk_laws X" and "vault_total_law X" and "sound_side X now w ls"
    and "lsPoolVaultLp ls = 0" and "0 \<le> deposit" and "0 \<le> x"
    and "getTokenAmountAfterDepositVault X now deposit (Some ls) = (Inr s, side)"
    and "fst (getTokenAmountAfterDepositVault X now x side) = Inr after"
  shows "0 \<le> s" "s \<le> deposit" "after \<le> s + x" "0 < s \<Longrightarrow> x \<le> after" "\<exists>ls'. side = Some ls' \<and>
    sound_side X now (w + deposit) ls'"
proof -
  let ?sup = "stLpSupply (lsVaultStates ls)" and ?m = "(deposit * stLpSupply (lsVaultStates ls)) div w"
  from assms(3) have w: "0 < w" "0 < ?sup" by (auto simp: sound_side_def)
  have m: "0 \<le> ?m" using w assms(5) by (simp add: pos_imp_zdiv_nonneg_iff)
  from deposit_step [OF assms(1-3,5)] assms(4,7) obtain ls' where
    s: "s = (?m * (w + deposit)) div (?sup + ?m)" and side: "side = Some ls'" and
    ls': "sound_side X now (w + deposit) ls'" "lsPoolVaultLp ls' = ?m"
      "stLpSupply (lsVaultStates ls') = ?sup + ?m" by auto
  let ?m2 = "(x * (?sup + ?m)) div (w + deposit)"
  from deposit_step [OF assms(1,2) ls'(1) assms(6)] assms(8) side have
    after: "after = ((?m + ?m2) * (w + deposit + x)) div (?sup + ?m + ?m2)" by (auto simp: ls'(2,3))
  show nn: "0 \<le> s" using assms(1-3,5,7) by (rule deposit_nonneg)
  show "s \<le> deposit"
    using vault_deposit_le [of ?sup w 0 deposit] w assms(5) by (simp add: s)
  show "after \<le> s + x" unfolding after s using w m assms(5,6) by (intro vault_deposit_le) auto
  show "\<exists>ls'. side = Some ls' \<and> sound_side X now (w + deposit) ls'" using side ls'(1) by blast
  assume "0 < s"
  then have "?m \<noteq> 0" unfolding s by auto
  then show "x \<le> after" unfolding after using w m assms(5,6) by (intro vault_deposit_covers) auto
qed

section \<open>Properties\<close>

text \<open>
  C34: Buying the new token, where the token paid in has the vault and the token paid out has none,
  the quote keeps the product: against the input less the whole trade fee, the output leaves at
  least the product of the new token's deposit and the vault side's amount, which is at most what
  was deposited. The opposite direction is the next property.
\<close>

theorem memecoin_buy_keeps_product:
  assumes "memecoinQuote X x depA depB aToB f now (sidesOf aToB (Some ls) None) = (Inr q, st')"
    and "vault_sdk_laws X" and "vault_total_law X" and "valid_fees f" and "0 \<le> x"
    and "sound_side X now w ls" and "lsPoolVaultLp ls = 0" and "0 \<le> depA" and "0 \<le> depB"
  shows "\<exists>s fee cut. memeFees x f = Inr (fee, cut) \<and> 0 \<le> fee \<and> fee \<le> x \<and>
    0 \<le> s \<and> s \<le> depositOf aToB depA depB \<and>
    s * depositOf (\<not> aToB) depA depB \<le>
      (s + (x - fee)) * (depositOf (\<not> aToB) depA depB - mqAmountOut q)"
proof -
  let ?d = "depositOf (\<not> aToB) depA depB"
  from assms(1) obtain s side tf pf after out where
    s: "getTokenAmountAfterDepositVault X now (depositOf aToB depA depB) (Some ls) = (Inr s, side)" and
    fees: "memeFees x f = Inr (tf, pf)" and
    after: "fst (getTokenAmountAfterDepositVault X now (x - pf) side) = Inr after" and
    out: "cp_computeOutAmount (after - s - (tf - pf)) s ?d (if aToB then AToB else BToA) = Inr out" and
    q: "mqAmountOut q = outAmount out"
    by (rule buy_cases)
  note fee = memeFees_bounds [OF fees assms(4,5)]
  have d: "0 \<le> ?d" "0 \<le> depositOf aToB depA depB" using assms(8,9) by (simp_all add: depositOf_def)
  have xpf: "0 \<le> x - pf" using fee by simp
  note amounts = side_amounts [OF assms(2,3,6,7) d(2) xpf s after]
  have snz: "0 < s"
    using amounts(1) out
    by (cases "s = 0") (auto simp: cp_computeOutAmount_def ceilDiv_def trunc_div_def Let_def split: if_splits)
  have pos: "0 \<le> s + (after - s - (tf - pf))" using amounts(4) [OF snz] fee by linarith
  note prod = cp_out_keeps_product [OF out amounts(1) d(1) pos]
  have dpos: "0 < ?d" using prod(2) snz by (simp add: zero_less_mult_iff)
  have "s * ?d \<le> (s + (x - tf)) * (?d - mqAmountOut q)"
    using amounts(3) fee q by (intro product_mono [OF prod(1) snz dpos prod(3)]) auto
  with fees fee amounts(1,2) show ?thesis by blast
qed

definition example_side :: local_states where
  "example_side = \<lparr>lsVaultStates = \<lparr>stVault = example_vault 1000000, stReserve = 900000, stLpSupply = 950000\<rparr>,
     lsPoolVaultLp = 0\<rparr>"

lemma example_total_law: "vault_total_law example_externals"
  by (simp add: vault_total_law_def example_externals_def)

lemma example_sound: "sound_side example_externals 1000 1000000 example_side"
  by (simp add: sound_side_def example_side_def example_externals_def example_vault_def)

theorem memecoin_buy_keeps_product_witness:
  "\<exists>q s. fst (memecoinQuote example_externals 10000 5000000 2000000 False example_fees 1000 (None, Some example_side)) =
    Inr q \<and> s * 5000000 \<le> (s + (10000 - 25)) * (5000000 - mqAmountOut q)"
proof -
  have "fst (memecoinQuote example_externals 10000 5000000 2000000 False example_fees 1000 (None, Some example_side)) =
      Inr \<lparr>mqAmountOut = 24811, mqFee = 9995\<rparr>" by code_simp
  then obtain st' where run: "memecoinQuote example_externals 10000 5000000 2000000 False example_fees 1000
      (sidesOf False (Some example_side) None) = (Inr \<lparr>mqAmountOut = 24811, mqFee = 9995\<rparr>, st')"
    unfolding sidesOf_def by (metis prod.collapse)
  have "memeFees 10000 example_fees = Inr (25, 5)"
    by (simp add: memeFees_def example_fees_def trunc_div_pos)
  with memecoin_buy_keeps_product [OF run example_externals_vault example_total_law example_valid_fees _
      example_sound] run
  show ?thesis by (auto simp: example_side_def depositOf_def sidesOf_def)
qed

text \<open>
  C35: Selling the new token, which has no vault, is misquoted. The amount in the vault side is what
  the deposit there is worth; the curve is asked for the output of the input less the trade fee and
  less the whole deposit of the token sold; the answer of the curve is what is withdrawn from the
  vault, and what the pool then owns there is the amount quoted. So for inputs up to the deposit the
  curve is asked with a negative amount and answers with a negative one, and the reported fee is the
  input less the protocol's cut, not a fee.
\<close>

theorem memecoin_sell_misquoted:
  assumes "memecoinQuote X x depA depB aToB f now (sidesOf aToB None (Some ls)) = (Inr q, st')"
    and "vault_sdk_laws X" and "vault_total_law X" and "valid_fees f" and "0 \<le> x"
    and "sound_side X now w ls" and "lsPoolVaultLp ls = 0" and "0 \<le> depA" and "0 \<le> depB"
    and "x \<le> depositOf aToB depA depB"
  shows "\<exists>d side fee cut out.
    getTokenAmountAfterDepositVault X now (depositOf (\<not> aToB) depA depB) (Some ls) = (Inr d, side) \<and>
    memeFees x f = Inr (fee, cut) \<and>
    cp_computeOutAmount (x - fee - depositOf aToB depA depB) (depositOf aToB depA depB) d
      (if aToB then AToB else BToA) = Inr out \<and>
    fst (getTokenAmountAfterWithdrawVault X now (outAmount out) side) = Inr (mqAmountOut q) \<and>
    outAmount out < 0 \<and> mqFee q = x - cut"
proof -
  let ?s = "depositOf aToB depA depB"
  from assms(1) obtain d side tf pf out where
    d: "getTokenAmountAfterDepositVault X now (depositOf (\<not> aToB) depA depB) (Some ls) = (Inr d, side)" and
    fees: "memeFees x f = Inr (tf, pf)" and
    out0: "cp_computeOutAmount (x - pf - ?s - (tf - pf)) ?s d (if aToB then AToB else BToA) = Inr out" and
    q: "fst (getTokenAmountAfterWithdrawVault X now (outAmount out) side) = Inr (mqAmountOut q)" "mqFee q = x - pf"
    by (rule sell_cases)
  have "x - pf - ?s - (tf - pf) = x - tf - ?s" by simp
  with out0 have out: "cp_computeOutAmount (x - tf - ?s) ?s d (if aToB then AToB else BToA) = Inr out"
    by simp
  note fee = memeFees_bounds [OF fees assms(4,5)]
  have nn: "0 \<le> ?s" "0 \<le> depositOf (\<not> aToB) depA depB" using assms(8,9) by (simp_all add: depositOf_def)
  from assms(2,3,6) nn(2) d have "0 \<le> d" by (rule deposit_nonneg)
  note prod = cp_out_keeps_product [OF out nn(1) this]
  have pos: "0 < ?s + (x - tf - ?s)" using prod(3) fee by simp
  have "0 \<le> ?s * d" using \<open>0 \<le> d\<close> nn(1) by simp
  with out pos have o1: "outAmount out = d - cdiv (?s * d) (?s + (x - tf - ?s))" "outAmount out \<noteq> 0"
    by (auto simp: cp_computeOutAmount_def ceilDiv_cdiv Let_def split: if_splits)
  have "x - tf \<le> ?s" using fee assms(10) by linarith
  then have "d * (?s + (x - tf - ?s)) \<le> ?s * d" using \<open>0 \<le> d\<close> by (simp add: mult.commute mult_left_mono)
  then have "d \<le> cdiv (?s * d) (?s + (x - tf - ?s))"
    using lt_of_lt_cdiv cdiv_mult_ge [OF pos, of "?s * d"] mult_le_cancel_right_pos [OF pos] by smt
  with o1 have "outAmount out < 0" by linarith
  with d out fees q show ?thesis by blast
qed

theorem memecoin_sell_misquoted_witness:
  "\<exists>q d out. fst (memecoinQuote example_externals 10000 5000000 2000000 True example_fees 1000 (None, Some example_side)) =
    Inr q \<and> mqFee q = 9995 \<and> mqAmountOut q = 1002506265 \<and>
    cp_computeOutAmount (10000 - 25 - 5000000) 5000000 d AToB = Inr out \<and> outAmount out < 0"
proof -
  have "fst (memecoinQuote example_externals 10000 5000000 2000000 True example_fees 1000 (None, Some example_side)) =
      Inr \<lparr>mqAmountOut = 1002506265, mqFee = 9995\<rparr>" by code_simp
  then obtain st' where run: "memecoinQuote example_externals 10000 5000000 2000000 True example_fees 1000
      (sidesOf True None (Some example_side)) = (Inr \<lparr>mqAmountOut = 1002506265, mqFee = 9995\<rparr>, st')"
    unfolding sidesOf_def by (metis prod.collapse)
  have "memeFees 10000 example_fees = Inr (25, 5)"
    by (simp add: memeFees_def example_fees_def trunc_div_pos)
  with memecoin_sell_misquoted [OF run example_externals_vault example_total_law example_valid_fees _
      example_sound] run
  show ?thesis by (auto simp: example_side_def depositOf_def sidesOf_def)
qed

end
