(* ===== verification/Idl.thy ===== *)
theory Idl
  imports Prelude
begin

text \<open>
  The interface of the on-chain program, the constant \<open>IDL\<close> of \<open>ts-client/src/amm/idl.ts\<close>: the
  accounts and arguments of its instructions, the layouts of its accounts, its types, its events
  and its errors. The documentation strings are left out. The type \<open>Amm\<close> of the same file
  is modelled in \<open>IdlType\<close>.
\<close>

section \<open>The shape of an interface\<close>

datatype idl_type =
    TyU8 | TyU64 | TyU128 | TyF64 | TyBool | TyPublicKey
  | TyOption idl_type
  | TyArray idl_type nat
  | TyDefined string

type_synonym idl_fields = "(string \<times> idl_type) list"

datatype idl_typedef =
    StructType idl_fields
  | EnumType "(string \<times> idl_fields) list"

text \<open>An account of an instruction: its name, \<open>isMut\<close> and \<open>isSigner\<close>.\<close>

datatype idl_account = IdlAccount (accountName: string) (accountMut: bool) (accountSigner: bool)

datatype idl_instruction =
  IdlInstruction (ixName: string) (ixAccounts: "idl_account list") (ixArgs: idl_fields)

datatype idl_error = IdlError (errCode: int) (errName: string) (errMsg: string)

section \<open>Instructions\<close>

definition ixInitializePermissionedPool :: idl_instruction where
  "ixInitializePermissionedPool = IdlInstruction ''initializePermissionedPool''
     [IdlAccount ''pool'' True True, IdlAccount ''lpMint'' True False,
      IdlAccount ''tokenAMint'' False False, IdlAccount ''tokenBMint'' False False,
      IdlAccount ''aVault'' True False, IdlAccount ''bVault'' True False,
      IdlAccount ''aVaultLpMint'' True False, IdlAccount ''bVaultLpMint'' True False,
      IdlAccount ''aVaultLp'' True False, IdlAccount ''bVaultLp'' True False,
      IdlAccount ''adminTokenA'' True False, IdlAccount ''adminTokenB'' True False,
      IdlAccount ''adminPoolLp'' True False, IdlAccount ''protocolTokenAFee'' True False,
      IdlAccount ''protocolTokenBFee'' True False, IdlAccount ''admin'' True True,
      IdlAccount ''feeOwner'' False False, IdlAccount ''rent'' False False,
      IdlAccount ''mintMetadata'' True False, IdlAccount ''metadataProgram'' False False,
      IdlAccount ''vaultProgram'' False False, IdlAccount ''tokenProgram'' False False,
      IdlAccount ''associatedTokenProgram'' False False, IdlAccount ''systemProgram'' False False]
     [(''curveType'', TyDefined ''CurveType'')]"

definition ixInitializePermissionlessPool :: idl_instruction where
  "ixInitializePermissionlessPool = IdlInstruction ''initializePermissionlessPool''
     [IdlAccount ''pool'' True False, IdlAccount ''lpMint'' True False,
      IdlAccount ''tokenAMint'' False False, IdlAccount ''tokenBMint'' False False,
      IdlAccount ''aVault'' True False, IdlAccount ''bVault'' True False,
      IdlAccount ''aTokenVault'' True False, IdlAccount ''bTokenVault'' True False,
      IdlAccount ''aVaultLpMint'' True False, IdlAccount ''bVaultLpMint'' True False,
      IdlAccount ''aVaultLp'' True False, IdlAccount ''bVaultLp'' True False,
      IdlAccount ''payerTokenA'' True False, IdlAccount ''payerTokenB'' True False,
      IdlAccount ''payerPoolLp'' True False, IdlAccount ''protocolTokenAFee'' True False,
      IdlAccount ''protocolTokenBFee'' True False, IdlAccount ''payer'' True True,
      IdlAccount ''feeOwner'' False False, IdlAccount ''rent'' False False,
      IdlAccount ''mintMetadata'' True False, IdlAccount ''metadataProgram'' False False,
      IdlAccount ''vaultProgram'' False False, IdlAccount ''tokenProgram'' False False,
      IdlAccount ''associatedTokenProgram'' False False, IdlAccount ''systemProgram'' False False]
     [(''curveType'', TyDefined ''CurveType''), (''tokenAAmount'', TyU64), (''tokenBAmount'', TyU64)]"

definition ixInitializePermissionlessPoolWithFeeTier :: idl_instruction where
  "ixInitializePermissionlessPoolWithFeeTier = IdlInstruction ''initializePermissionlessPoolWithFeeTier''
     [IdlAccount ''pool'' True False, IdlAccount ''lpMint'' True False,
      IdlAccount ''tokenAMint'' False False, IdlAccount ''tokenBMint'' False False,
      IdlAccount ''aVault'' True False, IdlAccount ''bVault'' True False,
      IdlAccount ''aTokenVault'' True False, IdlAccount ''bTokenVault'' True False,
      IdlAccount ''aVaultLpMint'' True False, IdlAccount ''bVaultLpMint'' True False,
      IdlAccount ''aVaultLp'' True False, IdlAccount ''bVaultLp'' True False,
      IdlAccount ''payerTokenA'' True False, IdlAccount ''payerTokenB'' True False,
      IdlAccount ''payerPoolLp'' True False, IdlAccount ''protocolTokenAFee'' True False,
      IdlAccount ''protocolTokenBFee'' True False, IdlAccount ''payer'' True True,
      IdlAccount ''feeOwner'' False False, IdlAccount ''rent'' False False,
      IdlAccount ''mintMetadata'' True False, IdlAccount ''metadataProgram'' False False,
      IdlAccount ''vaultProgram'' False False, IdlAccount ''tokenProgram'' False False,
      IdlAccount ''associatedTokenProgram'' False False, IdlAccount ''systemProgram'' False False]
     [(''curveType'', TyDefined ''CurveType''), (''tradeFeeBps'', TyU64), (''tokenAAmount'', TyU64),
      (''tokenBAmount'', TyU64)]"

definition ixEnableOrDisablePool :: idl_instruction where
  "ixEnableOrDisablePool = IdlInstruction ''enableOrDisablePool''
     [IdlAccount ''pool'' True False, IdlAccount ''admin'' False True]
     [(''enable'', TyBool)]"

definition ixSwap :: idl_instruction where
  "ixSwap = IdlInstruction ''swap''
     [IdlAccount ''pool'' True False, IdlAccount ''userSourceToken'' True False,
      IdlAccount ''userDestinationToken'' True False, IdlAccount ''aVault'' True False,
      IdlAccount ''bVault'' True False, IdlAccount ''aTokenVault'' True False,
      IdlAccount ''bTokenVault'' True False, IdlAccount ''aVaultLpMint'' True False,
      IdlAccount ''bVaultLpMint'' True False, IdlAccount ''aVaultLp'' True False,
      IdlAccount ''bVaultLp'' True False, IdlAccount ''protocolTokenFee'' True False,
      IdlAccount ''user'' False True, IdlAccount ''vaultProgram'' False False,
      IdlAccount ''tokenProgram'' False False]
     [(''inAmount'', TyU64), (''minimumOutAmount'', TyU64)]"

definition ixRemoveLiquiditySingleSide :: idl_instruction where
  "ixRemoveLiquiditySingleSide = IdlInstruction ''removeLiquiditySingleSide''
     [IdlAccount ''pool'' True False, IdlAccount ''lpMint'' True False,
      IdlAccount ''userPoolLp'' True False, IdlAccount ''aVaultLp'' True False,
      IdlAccount ''bVaultLp'' True False, IdlAccount ''aVault'' True False,
      IdlAccount ''bVault'' True False, IdlAccount ''aVaultLpMint'' True False,
      IdlAccount ''bVaultLpMint'' True False, IdlAccount ''aTokenVault'' True False,
      IdlAccount ''bTokenVault'' True False, IdlAccount ''userDestinationToken'' True False,
      IdlAccount ''user'' False True, IdlAccount ''vaultProgram'' False False,
      IdlAccount ''tokenProgram'' False False]
     [(''poolTokenAmount'', TyU64), (''minimumOutAmount'', TyU64)]"

definition ixAddImbalanceLiquidity :: idl_instruction where
  "ixAddImbalanceLiquidity = IdlInstruction ''addImbalanceLiquidity''
     [IdlAccount ''pool'' True False, IdlAccount ''lpMint'' True False,
      IdlAccount ''userPoolLp'' True False, IdlAccount ''aVaultLp'' True False,
      IdlAccount ''bVaultLp'' True False, IdlAccount ''aVault'' True False,
      IdlAccount ''bVault'' True False, IdlAccount ''aVaultLpMint'' True False,
      IdlAccount ''bVaultLpMint'' True False, IdlAccount ''aTokenVault'' True False,
      IdlAccount ''bTokenVault'' True False, IdlAccount ''userAToken'' True False,
      IdlAccount ''userBToken'' True False, IdlAccount ''user'' False True,
      IdlAccount ''vaultProgram'' False False, IdlAccount ''tokenProgram'' False False]
     [(''minimumPoolTokenAmount'', TyU64), (''tokenAAmount'', TyU64), (''tokenBAmount'', TyU64)]"

definition ixRemoveBalanceLiquidity :: idl_instruction where
  "ixRemoveBalanceLiquidity = IdlInstruction ''removeBalanceLiquidity''
     [IdlAccount ''pool'' True False, IdlAccount ''lpMint'' True False,
      IdlAccount ''userPoolLp'' True False, IdlAccount ''aVaultLp'' True False,
      IdlAccount ''bVaultLp'' True False, IdlAccount ''aVault'' True False,
      IdlAccount ''bVault'' True False, IdlAccount ''aVaultLpMint'' True False,
      IdlAccount ''bVaultLpMint'' True False, IdlAccount ''aTokenVault'' True False,
      IdlAccount ''bTokenVault'' True False, IdlAccount ''userAToken'' True False,
      IdlAccount ''userBToken'' True False, IdlAccount ''user'' False True,
      IdlAccount ''vaultProgram'' False False, IdlAccount ''tokenProgram'' False False]
     [(''poolTokenAmount'', TyU64), (''minimumATokenOut'', TyU64), (''minimumBTokenOut'', TyU64)]"

definition ixAddBalanceLiquidity :: idl_instruction where
  "ixAddBalanceLiquidity = IdlInstruction ''addBalanceLiquidity''
     [IdlAccount ''pool'' True False, IdlAccount ''lpMint'' True False,
      IdlAccount ''userPoolLp'' True False, IdlAccount ''aVaultLp'' True False,
      IdlAccount ''bVaultLp'' True False, IdlAccount ''aVault'' True False,
      IdlAccount ''bVault'' True False, IdlAccount ''aVaultLpMint'' True False,
      IdlAccount ''bVaultLpMint'' True False, IdlAccount ''aTokenVault'' True False,
      IdlAccount ''bTokenVault'' True False, IdlAccount ''userAToken'' True False,
      IdlAccount ''userBToken'' True False, IdlAccount ''user'' False True,
      IdlAccount ''vaultProgram'' False False, IdlAccount ''tokenProgram'' False False]
     [(''poolTokenAmount'', TyU64), (''maximumTokenAAmount'', TyU64),
      (''maximumTokenBAmount'', TyU64)]"

definition ixSetPoolFees :: idl_instruction where
  "ixSetPoolFees = IdlInstruction ''setPoolFees''
     [IdlAccount ''pool'' True False, IdlAccount ''feeOperator'' False True]
     [(''fees'', TyDefined ''PoolFees'')]"

definition ixOverrideCurveParam :: idl_instruction where
  "ixOverrideCurveParam = IdlInstruction ''overrideCurveParam''
     [IdlAccount ''pool'' True False, IdlAccount ''admin'' False True]
     [(''curveType'', TyDefined ''CurveType'')]"

definition ixGetPoolInfo :: idl_instruction where
  "ixGetPoolInfo = IdlInstruction ''getPoolInfo''
     [IdlAccount ''pool'' False False, IdlAccount ''lpMint'' False False,
      IdlAccount ''aVaultLp'' False False, IdlAccount ''bVaultLp'' False False,
      IdlAccount ''aVault'' False False, IdlAccount ''bVault'' False False,
      IdlAccount ''aVaultLpMint'' False False, IdlAccount ''bVaultLpMint'' False False]
     []"

definition ixBootstrapLiquidity :: idl_instruction where
  "ixBootstrapLiquidity = IdlInstruction ''bootstrapLiquidity''
     [IdlAccount ''pool'' True False, IdlAccount ''lpMint'' True False,
      IdlAccount ''userPoolLp'' True False, IdlAccount ''aVaultLp'' True False,
      IdlAccount ''bVaultLp'' True False, IdlAccount ''aVault'' True False,
      IdlAccount ''bVault'' True False, IdlAccount ''aVaultLpMint'' True False,
      IdlAccount ''bVaultLpMint'' True False, IdlAccount ''aTokenVault'' True False,
      IdlAccount ''bTokenVault'' True False, IdlAccount ''userAToken'' True False,
      IdlAccount ''userBToken'' True False, IdlAccount ''user'' False True,
      IdlAccount ''vaultProgram'' False False, IdlAccount ''tokenProgram'' False False]
     [(''tokenAAmount'', TyU64), (''tokenBAmount'', TyU64)]"

definition ixCreateMintMetadata :: idl_instruction where
  "ixCreateMintMetadata = IdlInstruction ''createMintMetadata''
     [IdlAccount ''pool'' False False, IdlAccount ''lpMint'' False False,
      IdlAccount ''aVaultLp'' False False, IdlAccount ''mintMetadata'' True False,
      IdlAccount ''metadataProgram'' False False, IdlAccount ''systemProgram'' False False,
      IdlAccount ''payer'' True True]
     []"

definition ixCreateLockEscrow :: idl_instruction where
  "ixCreateLockEscrow = IdlInstruction ''createLockEscrow''
     [IdlAccount ''pool'' False False, IdlAccount ''lockEscrow'' True False,
      IdlAccount ''owner'' False False, IdlAccount ''lpMint'' False False,
      IdlAccount ''payer'' True True, IdlAccount ''systemProgram'' False False]
     []"

definition ixLock :: idl_instruction where
  "ixLock = IdlInstruction ''lock''
     [IdlAccount ''pool'' True False, IdlAccount ''lpMint'' False False,
      IdlAccount ''lockEscrow'' True False, IdlAccount ''owner'' True True,
      IdlAccount ''sourceTokens'' True False, IdlAccount ''escrowVault'' True False,
      IdlAccount ''tokenProgram'' False False, IdlAccount ''aVault'' False False,
      IdlAccount ''bVault'' False False, IdlAccount ''aVaultLp'' False False,
      IdlAccount ''bVaultLp'' False False, IdlAccount ''aVaultLpMint'' False False,
      IdlAccount ''bVaultLpMint'' False False]
     [(''maxAmount'', TyU64)]"

definition ixClaimFee :: idl_instruction where
  "ixClaimFee = IdlInstruction ''claimFee''
     [IdlAccount ''pool'' True False, IdlAccount ''lpMint'' True False,
      IdlAccount ''lockEscrow'' True False, IdlAccount ''owner'' True True,
      IdlAccount ''sourceTokens'' True False, IdlAccount ''escrowVault'' True False,
      IdlAccount ''tokenProgram'' False False, IdlAccount ''aTokenVault'' True False,
      IdlAccount ''bTokenVault'' True False, IdlAccount ''aVault'' True False,
      IdlAccount ''bVault'' True False, IdlAccount ''aVaultLp'' True False,
      IdlAccount ''bVaultLp'' True False, IdlAccount ''aVaultLpMint'' True False,
      IdlAccount ''bVaultLpMint'' True False, IdlAccount ''userAToken'' True False,
      IdlAccount ''userBToken'' True False, IdlAccount ''vaultProgram'' False False]
     [(''maxAmount'', TyU64)]"

definition ixCreateConfig :: idl_instruction where
  "ixCreateConfig = IdlInstruction ''createConfig''
     [IdlAccount ''config'' True False, IdlAccount ''admin'' True True,
      IdlAccount ''systemProgram'' False False]
     [(''configParameters'', TyDefined ''ConfigParameters'')]"

definition ixCloseConfig :: idl_instruction where
  "ixCloseConfig = IdlInstruction ''closeConfig''
     [IdlAccount ''config'' True False, IdlAccount ''admin'' True True,
      IdlAccount ''rentReceiver'' True False]
     []"

definition ixInitializePermissionlessConstantProductPoolWithConfig :: idl_instruction where
  "ixInitializePermissionlessConstantProductPoolWithConfig = IdlInstruction ''initializePermissionlessConstantProductPoolWithConfig''
     [IdlAccount ''pool'' True False, IdlAccount ''config'' False False,
      IdlAccount ''lpMint'' True False, IdlAccount ''tokenAMint'' False False,
      IdlAccount ''tokenBMint'' False False, IdlAccount ''aVault'' True False,
      IdlAccount ''bVault'' True False, IdlAccount ''aTokenVault'' True False,
      IdlAccount ''bTokenVault'' True False, IdlAccount ''aVaultLpMint'' True False,
      IdlAccount ''bVaultLpMint'' True False, IdlAccount ''aVaultLp'' True False,
      IdlAccount ''bVaultLp'' True False, IdlAccount ''payerTokenA'' True False,
      IdlAccount ''payerTokenB'' True False, IdlAccount ''payerPoolLp'' True False,
      IdlAccount ''protocolTokenAFee'' True False, IdlAccount ''protocolTokenBFee'' True False,
      IdlAccount ''payer'' True True, IdlAccount ''rent'' False False,
      IdlAccount ''mintMetadata'' True False, IdlAccount ''metadataProgram'' False False,
      IdlAccount ''vaultProgram'' False False, IdlAccount ''tokenProgram'' False False,
      IdlAccount ''associatedTokenProgram'' False False, IdlAccount ''systemProgram'' False False]
     [(''tokenAAmount'', TyU64), (''tokenBAmount'', TyU64)]"

definition ixInitializePermissionlessConstantProductPoolWithConfig2 :: idl_instruction where
  "ixInitializePermissionlessConstantProductPoolWithConfig2 = IdlInstruction ''initializePermissionlessConstantProductPoolWithConfig2''
     [IdlAccount ''pool'' True False, IdlAccount ''config'' False False,
      IdlAccount ''lpMint'' True False, IdlAccount ''tokenAMint'' False False,
      IdlAccount ''tokenBMint'' False False, IdlAccount ''aVault'' True False,
      IdlAccount ''bVault'' True False, IdlAccount ''aTokenVault'' True False,
      IdlAccount ''bTokenVault'' True False, IdlAccount ''aVaultLpMint'' True False,
      IdlAccount ''bVaultLpMint'' True False, IdlAccount ''aVaultLp'' True False,
      IdlAccount ''bVaultLp'' True False, IdlAccount ''payerTokenA'' True False,
      IdlAccount ''payerTokenB'' True False, IdlAccount ''payerPoolLp'' True False,
      IdlAccount ''protocolTokenAFee'' True False, IdlAccount ''protocolTokenBFee'' True False,
      IdlAccount ''payer'' True True, IdlAccount ''rent'' False False,
      IdlAccount ''mintMetadata'' True False, IdlAccount ''metadataProgram'' False False,
      IdlAccount ''vaultProgram'' False False, IdlAccount ''tokenProgram'' False False,
      IdlAccount ''associatedTokenProgram'' False False, IdlAccount ''systemProgram'' False False]
     [(''tokenAAmount'', TyU64), (''tokenBAmount'', TyU64), (''activationPoint'', TyOption TyU64)]"

definition ixUpdateActivationPoint :: idl_instruction where
  "ixUpdateActivationPoint = IdlInstruction ''updateActivationPoint''
     [IdlAccount ''pool'' True False, IdlAccount ''admin'' False True]
     [(''newActivationPoint'', TyU64)]"

definition ixWithdrawProtocolFees :: idl_instruction where
  "ixWithdrawProtocolFees = IdlInstruction ''withdrawProtocolFees''
     [IdlAccount ''pool'' False False, IdlAccount ''aVaultLp'' False False,
      IdlAccount ''protocolTokenAFee'' True False, IdlAccount ''protocolTokenBFee'' True False,
      IdlAccount ''treasuryTokenA'' True False, IdlAccount ''treasuryTokenB'' True False,
      IdlAccount ''tokenProgram'' False False]
     []"

definition idl_instructions :: "idl_instruction list" where
  "idl_instructions =
     [ixInitializePermissionedPool, ixInitializePermissionlessPool,
      ixInitializePermissionlessPoolWithFeeTier, ixEnableOrDisablePool, ixSwap,
      ixRemoveLiquiditySingleSide, ixAddImbalanceLiquidity, ixRemoveBalanceLiquidity,
      ixAddBalanceLiquidity, ixSetPoolFees, ixOverrideCurveParam, ixGetPoolInfo,
      ixBootstrapLiquidity, ixCreateMintMetadata, ixCreateLockEscrow, ixLock, ixClaimFee,
      ixCreateConfig, ixCloseConfig, ixInitializePermissionlessConstantProductPoolWithConfig,
      ixInitializePermissionlessConstantProductPoolWithConfig2, ixUpdateActivationPoint,
      ixWithdrawProtocolFees]"

section \<open>Accounts\<close>

definition layoutConfig :: idl_fields where
  "layoutConfig =
     [(''poolFees'', TyDefined ''PoolFees''), (''activationDuration'', TyU64),
      (''vaultConfigKey'', TyPublicKey), (''poolCreatorAuthority'', TyPublicKey),
      (''activationType'', TyU8), (''padding'', TyArray TyU8 227)]"

definition layoutLockEscrow :: idl_fields where
  "layoutLockEscrow =
     [(''pool'', TyPublicKey), (''owner'', TyPublicKey), (''escrowVault'', TyPublicKey),
      (''bump'', TyU8), (''totalLockedAmount'', TyU64), (''lpPerToken'', TyU128),
      (''unclaimedFeePending'', TyU64), (''aFee'', TyU64), (''bFee'', TyU64)]"

definition layoutPool :: idl_fields where
  "layoutPool =
     [(''lpMint'', TyPublicKey), (''tokenAMint'', TyPublicKey), (''tokenBMint'', TyPublicKey),
      (''aVault'', TyPublicKey), (''bVault'', TyPublicKey), (''aVaultLp'', TyPublicKey),
      (''bVaultLp'', TyPublicKey), (''aVaultLpBump'', TyU8), (''enabled'', TyBool),
      (''protocolTokenAFee'', TyPublicKey), (''protocolTokenBFee'', TyPublicKey),
      (''feeLastUpdatedAt'', TyU64), (''padding0'', TyArray TyU8 24),
      (''fees'', TyDefined ''PoolFees''), (''poolType'', TyDefined ''PoolType''),
      (''stake'', TyPublicKey), (''totalLockedLp'', TyU64),
      (''bootstrapping'', TyDefined ''Bootstrapping''), (''padding'', TyDefined ''Padding''),
      (''curveType'', TyDefined ''CurveType'')]"

section \<open>Types\<close>

definition typeTokenMultiplier :: idl_typedef where
  "typeTokenMultiplier = StructType
     [(''tokenAMultiplier'', TyU64), (''tokenBMultiplier'', TyU64), (''precisionFactor'', TyU8)]"

definition typePoolFees :: idl_typedef where
  "typePoolFees = StructType
     [(''tradeFeeNumerator'', TyU64), (''tradeFeeDenominator'', TyU64),
      (''protocolTradeFeeNumerator'', TyU64), (''protocolTradeFeeDenominator'', TyU64)]"

definition typeDepeg :: idl_typedef where
  "typeDepeg = StructType
     [(''baseVirtualPrice'', TyU64), (''baseCacheUpdated'', TyU64),
      (''depegType'', TyDefined ''DepegType'')]"

definition typeConfigParameters :: idl_typedef where
  "typeConfigParameters = StructType
     [(''tradeFeeNumerator'', TyU64), (''protocolTradeFeeNumerator'', TyU64),
      (''activationDuration'', TyU64), (''vaultConfigKey'', TyPublicKey),
      (''poolCreatorAuthority'', TyPublicKey), (''activationType'', TyU8), (''index'', TyU64)]"

definition typePadding :: idl_typedef where
  "typePadding = StructType
     [(''padding0'', TyArray TyU8 14), (''padding'', TyArray TyU128 24)]"

definition typeBootstrapping :: idl_typedef where
  "typeBootstrapping = StructType
     [(''activationPoint'', TyU64), (''whitelistedVault'', TyPublicKey),
      (''poolCreator'', TyPublicKey), (''activationType'', TyU8)]"

definition typeCurveType :: idl_typedef where
  "typeCurveType = EnumType [(''ConstantProduct'', []),
      (''Stable'', [(''amp'', TyU64), (''token_multiplier'', TyDefined ''TokenMultiplier''),
      (''depeg'', TyDefined ''Depeg''), (''last_amp_updated_timestamp'', TyU64)])]"

definition typeDepegType :: idl_typedef where
  "typeDepegType = EnumType [(''None'', []), (''Marinade'', []), (''Lido'', []), (''SplStake'', [])]"

definition typePoolType :: idl_typedef where
  "typePoolType = EnumType [(''Permissioned'', []), (''Permissionless'', [])]"

definition typeActivationType :: idl_typedef where
  "typeActivationType = EnumType [(''Slot'', []), (''Timestamp'', [])]"

definition typeRoundDirection :: idl_typedef where
  "typeRoundDirection = EnumType [(''Floor'', []), (''Ceiling'', [])]"

definition typeTradeDirection :: idl_typedef where
  "typeTradeDirection = EnumType [(''AtoB'', []), (''BtoA'', [])]"

definition typeNewCurveType :: idl_typedef where
  "typeNewCurveType = EnumType [(''ConstantProduct'', []),
      (''Stable'', [(''amp'', TyU64), (''token_multiplier'', TyDefined ''TokenMultiplier''), (''depeg'', TyDefined ''Depeg''),
        (''last_amp_updated_timestamp'', TyU64)]),
      (''NewCurve'', [(''field_one'', TyU64), (''field_two'', TyU64)])]"

definition typeRounding :: idl_typedef where
  "typeRounding = EnumType [(''Up'', []), (''Down'', [])]"

definition idl_types :: "(string \<times> idl_typedef) list" where
  "idl_types =
     [(''TokenMultiplier'', typeTokenMultiplier), (''PoolFees'', typePoolFees),
      (''Depeg'', typeDepeg), (''ConfigParameters'', typeConfigParameters),
      (''Padding'', typePadding), (''Bootstrapping'', typeBootstrapping),
      (''ActivationType'', typeActivationType), (''RoundDirection'', typeRoundDirection),
      (''TradeDirection'', typeTradeDirection), (''NewCurveType'', typeNewCurveType),
      (''CurveType'', typeCurveType), (''DepegType'', typeDepegType), (''Rounding'', typeRounding),
      (''PoolType'', typePoolType)]"

section \<open>Events\<close>

text \<open>The events with their fields; no field is indexed.\<close>

definition eventAddLiquidity :: idl_fields where
  "eventAddLiquidity =
     [(''lpMintAmount'', TyU64), (''tokenAAmount'', TyU64), (''tokenBAmount'', TyU64)]"

definition eventRemoveLiquidity :: idl_fields where
  "eventRemoveLiquidity =
     [(''lpUnmintAmount'', TyU64), (''tokenAOutAmount'', TyU64), (''tokenBOutAmount'', TyU64)]"

definition eventBootstrapLiquidity :: idl_fields where
  "eventBootstrapLiquidity =
     [(''lpMintAmount'', TyU64), (''tokenAAmount'', TyU64), (''tokenBAmount'', TyU64),
      (''pool'', TyPublicKey)]"

definition eventSwap :: idl_fields where
  "eventSwap =
     [(''inAmount'', TyU64), (''outAmount'', TyU64), (''tradeFee'', TyU64),
      (''protocolFee'', TyU64), (''hostFee'', TyU64)]"

definition eventSetPoolFees :: idl_fields where
  "eventSetPoolFees =
     [(''tradeFeeNumerator'', TyU64), (''tradeFeeDenominator'', TyU64),
      (''protocolTradeFeeNumerator'', TyU64), (''protocolTradeFeeDenominator'', TyU64),
      (''pool'', TyPublicKey)]"

definition eventPoolInfo :: idl_fields where
  "eventPoolInfo =
     [(''tokenAAmount'', TyU64), (''tokenBAmount'', TyU64), (''virtualPrice'', TyF64),
      (''currentTimestamp'', TyU64)]"

definition eventTransferAdmin :: idl_fields where
  "eventTransferAdmin =
     [(''admin'', TyPublicKey), (''newAdmin'', TyPublicKey), (''pool'', TyPublicKey)]"

definition eventOverrideCurveParam :: idl_fields where
  "eventOverrideCurveParam =
     [(''newAmp'', TyU64), (''updatedTimestamp'', TyU64), (''pool'', TyPublicKey)]"

definition eventPoolCreated :: idl_fields where
  "eventPoolCreated =
     [(''lpMint'', TyPublicKey), (''tokenAMint'', TyPublicKey), (''tokenBMint'', TyPublicKey),
      (''poolType'', TyDefined ''PoolType''), (''pool'', TyPublicKey)]"

definition eventPoolEnabled :: idl_fields where
  "eventPoolEnabled =
     [(''pool'', TyPublicKey), (''enabled'', TyBool)]"

definition eventMigrateFeeAccount :: idl_fields where
  "eventMigrateFeeAccount =
     [(''pool'', TyPublicKey), (''newAdminTokenAFee'', TyPublicKey),
      (''newAdminTokenBFee'', TyPublicKey), (''tokenAAmount'', TyU64), (''tokenBAmount'', TyU64)]"

definition eventCreateLockEscrow :: idl_fields where
  "eventCreateLockEscrow =
     [(''pool'', TyPublicKey), (''owner'', TyPublicKey)]"

definition eventLock :: idl_fields where
  "eventLock =
     [(''pool'', TyPublicKey), (''owner'', TyPublicKey), (''amount'', TyU64)]"

definition eventClaimFee :: idl_fields where
  "eventClaimFee =
     [(''pool'', TyPublicKey), (''owner'', TyPublicKey), (''amount'', TyU64), (''aFee'', TyU64),
      (''bFee'', TyU64)]"

definition eventCreateConfig :: idl_fields where
  "eventCreateConfig =
     [(''tradeFeeNumerator'', TyU64), (''protocolTradeFeeNumerator'', TyU64),
      (''config'', TyPublicKey)]"

definition eventCloseConfig :: idl_fields where
  "eventCloseConfig =
     [(''config'', TyPublicKey)]"

definition eventWithdrawProtocolFees :: idl_fields where
  "eventWithdrawProtocolFees =
     [(''pool'', TyPublicKey), (''protocolAFee'', TyU64), (''protocolBFee'', TyU64),
      (''protocolAFeeOwner'', TyPublicKey), (''protocolBFeeOwner'', TyPublicKey)]"

definition idl_events :: "(string \<times> idl_fields) list" where
  "idl_events =
     [(''AddLiquidity'', eventAddLiquidity), (''RemoveLiquidity'', eventRemoveLiquidity),
      (''BootstrapLiquidity'', eventBootstrapLiquidity), (''Swap'', eventSwap),
      (''SetPoolFees'', eventSetPoolFees), (''PoolInfo'', eventPoolInfo),
      (''TransferAdmin'', eventTransferAdmin), (''OverrideCurveParam'', eventOverrideCurveParam),
      (''PoolCreated'', eventPoolCreated), (''PoolEnabled'', eventPoolEnabled),
      (''MigrateFeeAccount'', eventMigrateFeeAccount),
      (''CreateLockEscrow'', eventCreateLockEscrow), (''Lock'', eventLock),
      (''ClaimFee'', eventClaimFee), (''CreateConfig'', eventCreateConfig),
      (''CloseConfig'', eventCloseConfig), (''WithdrawProtocolFees'', eventWithdrawProtocolFees)]"

section \<open>Errors\<close>

definition idl_errors_6000 :: "idl_error list" where
  "idl_errors_6000 = [
     IdlError 6000 ''MathOverflow'' ''Math operation overflow'',
     IdlError 6001 ''InvalidFee'' ''Invalid fee setup'',
     IdlError 6002 ''InvalidInvariant'' ''Invalid invariant d'',
     IdlError 6003 ''FeeCalculationFailure'' ''Fee calculation failure'',
     IdlError 6004 ''ExceededSlippage'' ''Exceeded slippage tolerance'',
     IdlError 6005 ''InvalidCalculation'' ''Invalid curve calculation'',
     IdlError 6006 ''ZeroTradingTokens'' ''Given pool token amount results in zero trading tokens'',
     IdlError 6007 ''ConversionError'' ''Math conversion overflow'',
     IdlError 6008 ''FaultyLpMint'' ''LP mint authority must be 'A' vault lp, without freeze authority, and 0 supply'',
     IdlError 6009 ''MismatchedTokenMint'' ''Token mint mismatched'',
     IdlError 6010 ''MismatchedLpMint'' ''LP mint mismatched'',
     IdlError 6011 ''MismatchedOwner'' ''Invalid lp token owner'',
     IdlError 6012 ''InvalidVaultAccount'' ''Invalid vault account'',
     IdlError 6013 ''InvalidVaultLpAccount'' ''Invalid vault lp account'',
     IdlError 6014 ''InvalidPoolLpMintAccount'' ''Invalid pool lp mint account'',
     IdlError 6015 ''PoolDisabled'' ''Pool disabled'',
     IdlError 6016 ''InvalidAdminAccount'' ''Invalid admin account'',
     IdlError 6017 ''InvalidProtocolFeeAccount'' ''Invalid protocol fee account'',
     IdlError 6018 ''SameAdminAccount'' ''Same admin account'',
     IdlError 6019 ''IdenticalSourceDestination'' ''Identical user source and destination token account'',
     IdlError 6020 ''ApyCalculationError'' ''Apy calculation error'',
     IdlError 6021 ''InsufficientSnapshot'' ''Insufficient virtual price snapshot'',
     IdlError 6022 ''NonUpdatableCurve'' ''Current curve is non-updatable'',
     IdlError 6023 ''MisMatchedCurve'' ''New curve is mismatched with old curve'',
     IdlError 6024 ''InvalidAmplification'' ''Amplification is invalid'',
     IdlError 6025 ''UnsupportedOperation'' ''Operation is not supported'',
     IdlError 6026 ''ExceedMaxAChanges'' ''Exceed max amplification changes'',
     IdlError 6027 ''InvalidRemainingAccountsLen'' ''Invalid remaining accounts length'',
     IdlError 6028 ''InvalidRemainingAccounts'' ''Invalid remaining account'',
     IdlError 6029 ''MismatchedDepegMint'' ''Token mint B doesn't matches depeg type token mint'']"

definition idl_errors_6030 :: "idl_error list" where
  "idl_errors_6030 = [
     IdlError 6030 ''InvalidApyAccount'' ''Invalid APY account'',
     IdlError 6031 ''InvalidTokenMultiplier'' ''Invalid token multiplier'',
     IdlError 6032 ''InvalidDepegInformation'' ''Invalid depeg information'',
     IdlError 6033 ''UpdateTimeConstraint'' ''Update time constraint violated'',
     IdlError 6034 ''ExceedMaxFeeBps'' ''Exceeded max fee bps'',
     IdlError 6035 ''InvalidAdmin'' ''Invalid admin'',
     IdlError 6036 ''PoolIsNotPermissioned'' ''Pool is not permissioned'',
     IdlError 6037 ''InvalidDepositAmount'' ''Invalid deposit amount'',
     IdlError 6038 ''InvalidFeeOwner'' ''Invalid fee owner'',
     IdlError 6039 ''NonDepletedPool'' ''Pool is not depleted'',
     IdlError 6040 ''AmountNotPeg'' ''Token amount is not 1:1'',
     IdlError 6041 ''AmountIsZero'' ''Amount is zero'',
     IdlError 6042 ''TypeCastFailed'' ''Type cast error'',
     IdlError 6043 ''AmountIsNotEnough'' ''Amount is not enough'',
     IdlError 6044 ''InvalidActivationDuration'' ''Invalid activation duration'',
     IdlError 6045 ''PoolIsNotLaunchPool'' ''Pool is not launch pool'',
     IdlError 6046 ''UnableToModifyActivationPoint'' ''Unable to modify activation point'',
     IdlError 6047 ''InvalidAuthorityToCreateThePool'' ''Invalid authority to create the pool'',
     IdlError 6048 ''InvalidActivationType'' ''Invalid activation type'',
     IdlError 6049 ''InvalidActivationPoint'' ''Invalid activation point'']"

definition idl_errors :: "idl_error list" where
  "idl_errors = idl_errors_6000 @ idl_errors_6030"

section \<open>Well-formed interfaces\<close>

fun resolves :: "idl_type \<Rightarrow> bool" where
  "resolves (TyOption t) = resolves t"
| "resolves (TyArray t n) = resolves t"
| "resolves (TyDefined name) = (name \<in> fst ` set idl_types)"
| "resolves t = True"

fun typedef_fields :: "idl_typedef \<Rightarrow> idl_fields" where
  "typedef_fields (StructType fs) = fs"
| "typedef_fields (EnumType vs) = concat (map snd vs)"

definition well_formed_instruction :: "idl_instruction \<Rightarrow> bool" where
  "well_formed_instruction ix \<longleftrightarrow> distinct (map accountName (ixAccounts ix)) \<and>
     distinct (map fst (ixArgs ix)) \<and> list_all (\<lambda>(n, t). resolves t) (ixArgs ix)"

definition well_formed_fields :: "idl_fields \<Rightarrow> bool" where
  "well_formed_fields fs \<longleftrightarrow> distinct (map fst fs) \<and> list_all (\<lambda>(n, t). resolves t) fs"

lemma all_well_formed: "list_all well_formed_instruction idl_instructions"
  by code_simp

lemma instruction_names_distinct: "distinct (map ixName idl_instructions)"
  by code_simp

definition findInstruction :: "string \<Rightarrow> idl_instruction option" where
  "findInstruction name = List.find (\<lambda>ix. ixName ix = name) idl_instructions"

lemma find_distinct:
  "distinct (map f xs) \<Longrightarrow> x \<in> set xs \<Longrightarrow> List.find (\<lambda>y. f y = f x) xs = Some x"
  by (induction xs) force+

lemma find_instruction: "ix \<in> set idl_instructions \<Longrightarrow> findInstruction (ixName ix) = Some ix"
  unfolding findInstruction_def by (rule find_distinct [OF instruction_names_distinct])

section \<open>Sizes and offsets\<close>

text \<open>
  The width of a type in the encoding of the program's accounts, which packs the fields in order
  without padding. Enumerations have no fixed width. \<open>fuel\<close> bounds the nesting of the named types:
  no layout needs more than three levels.
\<close>

fun typeSize :: "nat \<Rightarrow> idl_type \<Rightarrow> nat option" where
  "typeSize fuel TyU8 = Some 1"
| "typeSize fuel TyBool = Some 1"
| "typeSize fuel TyU64 = Some 8"
| "typeSize fuel TyU128 = Some 16"
| "typeSize fuel TyF64 = Some 8"
| "typeSize fuel TyPublicKey = Some 32"
| "typeSize fuel (TyOption t) = None"
| "typeSize fuel (TyArray t n) = map_option (\<lambda>k. n * k) (typeSize fuel t)"
| "typeSize 0 (TyDefined name) = None"
| "typeSize (Suc fuel) (TyDefined name) =
     (case map_of idl_types name of
        Some (StructType fs) \<Rightarrow>
          foldr (\<lambda>(n, t) acc. Option.bind acc (\<lambda>k. map_option (\<lambda>j. j + k) (typeSize fuel t))) fs (Some 0)
      | _ \<Rightarrow> None)"

fun fieldOffset :: "idl_fields \<Rightarrow> string \<Rightarrow> nat option" where
  "fieldOffset [] name = None"
| "fieldOffset ((n, t) # fs) name =
     (if n = name then Some 0
      else Option.bind (typeSize 3 t) (\<lambda>k. map_option (\<lambda>j. k + j) (fieldOffset fs name)))"

text \<open>The bytes of a field in the data of an account, after the eight bytes that tag its kind.\<close>

definition fieldBytes :: "idl_fields \<Rightarrow> string \<Rightarrow> nat \<Rightarrow> 'b list \<Rightarrow> 'b list option" where
  "fieldBytes layout name len data =
     map_option (\<lambda>off. take len (drop (8 + off) data)) (fieldOffset layout name)"

lemma offset_tokenAMint: "fieldOffset layoutPool ''tokenAMint'' = Some 32"
  by code_simp

lemma offset_tokenBMint: "fieldOffset layoutPool ''tokenBMint'' = Some 64"
  by code_simp

lemma offset_owner: "fieldOffset layoutLockEscrow ''owner'' = Some 32"
  by code_simp

lemma offset_poolCreatorAuthority: "fieldOffset layoutConfig ''poolCreatorAuthority'' = Some 72"
  by code_simp

lemmas field_offsets = offset_tokenAMint offset_tokenBMint offset_owner offset_poolCreatorAuthority

section \<open>Properties\<close>

text \<open>
  The interface is well formed: instruction names, and the accounts and arguments of every
  instruction, are distinct, every named type of an argument, a layout, an event or another
  type is defined, and a configuration account is 8 + 332 and a lock escrow 8 + 145 bytes long.
\<close>

lemma idl_well_formed:
  "distinct (map ixName idl_instructions) \<and> list_all well_formed_instruction idl_instructions \<and>
   list_all well_formed_fields [layoutConfig, layoutLockEscrow, layoutPool] \<and>
   distinct (map fst idl_types) \<and> list_all (\<lambda>(name, fs). well_formed_fields fs) idl_events \<and>
   list_all (\<lambda>(name, d). well_formed_fields (typedef_fields d)) idl_types \<and>
   sum_list (map (\<lambda>(n, t). case typeSize 3 t of Some k \<Rightarrow> k | None \<Rightarrow> 0) layoutConfig) = 332 \<and>
   sum_list (map (\<lambda>(n, t). case typeSize 3 t of Some k \<Rightarrow> k | None \<Rightarrow> 0) layoutLockEscrow) = 145"
proof -
  have "list_all well_formed_fields [layoutConfig, layoutLockEscrow, layoutPool]" by code_simp
  moreover have "distinct (map fst idl_types)" by code_simp
  moreover have "list_all (\<lambda>(name, fs). well_formed_fields fs) idl_events" by code_simp
  moreover have "list_all (\<lambda>(name, d). well_formed_fields (typedef_fields d)) idl_types" by code_simp
  moreover have "sum_list (map (\<lambda>(n, t). case typeSize 3 t of Some k \<Rightarrow> k | None \<Rightarrow> 0) layoutConfig) = 332 \<and>
     sum_list (map (\<lambda>(n, t). case typeSize 3 t of Some k \<Rightarrow> k | None \<Rightarrow> 0) layoutLockEscrow) = 145"
    by code_simp
  ultimately show ?thesis using instruction_names_distinct all_well_formed by blast
qed

end
