(* ===== verification/PoolKeys.thy ===== *)
theory PoolKeys
  imports Layout
begin

text \<open>
  Addresses and curve types, the second half of \<open>ts-client/src/amm/utils.ts\<close>: the order of the
  two mints of a pool, the seeds of the program addresses the SDK derives, \<open>encodeCurveType\<close>,
  \<open>getTradeFeeBpsBuffer\<close>, \<open>computeTokenMultiplier\<close> and \<open>generateCurveType\<close>. Finding a
  program address is a parameter; \<open>pda_law\<close> states that it does not collide. A base58 string
  of a key is modelled by the key.
\<close>

section \<open>Constants\<close>

definition PROGRAM_ID :: pubkey where
  "PROGRAM_ID = PublicKey
    [204, 248, 2, 212, 204, 204, 132, 215, 251, 33, 181, 247, 59, 73, 216, 26,
     22, 197, 180, 200, 142, 227, 35, 148, 225, 201, 29, 53, 136, 204, 64, 128]"

definition METAPLEX_PROGRAM :: pubkey where
  "METAPLEX_PROGRAM = PublicKey
    [11, 112, 101, 177, 227, 209, 124, 69, 56, 157, 82, 127, 107, 4, 195, 205,
     88, 184, 108, 115, 26, 160, 253, 181, 73, 182, 209, 188, 3, 248, 41, 70]"

definition FEE_OWNER :: pubkey where
  "FEE_OWNER = PublicKey
    [81, 221, 250, 125, 53, 168, 18, 18, 74, 41, 110, 58, 184, 121, 62, 223,
     0, 196, 231, 162, 181, 189, 105, 254, 168, 91, 212, 245, 106, 168, 150, 135]"

definition PERMISSIONLESS_AMP :: int where
  "PERMISSIONLESS_AMP = 100"

definition CONSTANT_PRODUCT_DEFAULT_TRADE_FEE_BPS :: int where
  "CONSTANT_PRODUCT_DEFAULT_TRADE_FEE_BPS = 25"

definition STABLE_SWAP_DEFAULT_TRADE_FEE_BPS :: int where
  "STABLE_SWAP_DEFAULT_TRADE_FEE_BPS = 1"

text \<open>\<open>Buffer.from\<close> of an ASCII string.\<close>

definition bytesOf :: "string \<Rightarrow> byte list" where
  "bytesOf s = map of_char s"

text \<open>The members of \<open>SEEDS\<close>.\<close>

datatype seed = SEED_APY | SEED_FEE | SEED_LP_MINT | SEED_LOCK_ESCROW

fun SEEDS :: "seed \<Rightarrow> string" where
  "SEEDS SEED_APY = ''apy''"
| "SEEDS SEED_FEE = ''fee''"
| "SEEDS SEED_LP_MINT = ''lp_mint''"
| "SEEDS SEED_LOCK_ESCROW = ''lock_escrow''"

section \<open>Program addresses\<close>

text \<open>
  \<open>PublicKey.findProgramAddressSync\<close> (an address and its bump) and
  \<open>getAssociatedTokenAddressSync\<close> with owners off the curve allowed.
\<close>

record address_fns =
  findProgramAddressSync :: "byte list list \<Rightarrow> pubkey \<Rightarrow> pubkey \<times> int"
  getAssociatedTokenAddressSync :: "pubkey \<Rightarrow> pubkey \<Rightarrow> pubkey"

definition bufferCompare :: "byte list \<Rightarrow> byte list \<Rightarrow> int" where
  "bufferCompare buf1 buf2 = (if buf1 < buf2 then - 1 else if buf2 < buf1 then 1 else 0)"

definition getSecondKey :: "pubkey \<Rightarrow> pubkey \<Rightarrow> byte list" where
  "getSecondKey key1 key2 =
     (let buf1 = toBuffer key1; buf2 = toBuffer key2 in
      if bufferCompare buf1 buf2 = 1 then buf2 else buf1)"

definition getFirstKey :: "pubkey \<Rightarrow> pubkey \<Rightarrow> byte list" where
  "getFirstKey key1 key2 =
     (let buf1 = toBuffer key1; buf2 = toBuffer key2 in
      if bufferCompare buf1 buf2 = 1 then buf1 else buf2)"

definition getAssociatedTokenAccount :: "address_fns \<Rightarrow> pubkey \<Rightarrow> pubkey \<Rightarrow> pubkey" where
  "getAssociatedTokenAccount F tokenMint owner = getAssociatedTokenAddressSync F tokenMint owner"

definition deriveLockEscrowPda :: "address_fns \<Rightarrow> pubkey \<Rightarrow> pubkey \<Rightarrow> pubkey \<Rightarrow> pubkey \<times> int" where
  "deriveLockEscrowPda F pool owner ammProgram =
     findProgramAddressSync F [bytesOf (SEEDS SEED_LOCK_ESCROW), toBuffer pool, toBuffer owner] ammProgram"

definition deriveMintMetadata :: "address_fns \<Rightarrow> pubkey \<Rightarrow> pubkey \<times> int" where
  "deriveMintMetadata F lpMintKey =
     findProgramAddressSync F [bytesOf ''metadata'', toBuffer METAPLEX_PROGRAM, toBuffer lpMintKey]
       METAPLEX_PROGRAM"

definition derivePoolAddressWithConfig :: "address_fns \<Rightarrow> pubkey \<Rightarrow> pubkey \<Rightarrow> pubkey \<Rightarrow> pubkey \<Rightarrow> pubkey" where
  "derivePoolAddressWithConfig F tokenA tokenB config programId =
     fst (findProgramAddressSync F
       [getFirstKey tokenA tokenB, getSecondKey tokenA tokenB, toBuffer config] programId)"

definition deriveConfigPda :: "address_fns \<Rightarrow> int \<Rightarrow> pubkey \<Rightarrow> pubkey result" where
  "deriveConfigPda F index programId =
     and_then (toBufferLE index 8) (\<lambda>buf.
       Inr (fst (findProgramAddressSync F [bytesOf ''config'', buf] programId)))"

definition deriveProtocolTokenFee :: "address_fns \<Rightarrow> pubkey \<Rightarrow> pubkey \<Rightarrow> pubkey \<Rightarrow> pubkey" where
  "deriveProtocolTokenFee F poolAddress tokenMint programId =
     fst (findProgramAddressSync F [bytesOf ''fee'', toBuffer tokenMint, toBuffer poolAddress] programId)"

text \<open>
  The two addresses that the pool creation of \<open>index.ts\<close> derives in place: the LP mint of a pool
  and the account that holds the pool's shares of a vault.
\<close>

definition deriveLpMint :: "address_fns \<Rightarrow> pubkey \<Rightarrow> pubkey \<Rightarrow> pubkey" where
  "deriveLpMint F poolPubkey programId =
     fst (findProgramAddressSync F [bytesOf (SEEDS SEED_LP_MINT), toBuffer poolPubkey] programId)"

definition deriveVaultLp :: "address_fns \<Rightarrow> pubkey \<Rightarrow> pubkey \<Rightarrow> pubkey \<Rightarrow> pubkey" where
  "deriveVaultLp F vault poolPubkey programId =
     fst (findProgramAddressSync F [toBuffer vault, toBuffer poolPubkey] programId)"

section \<open>Curve types\<close>

record token_info =
  infoAddress :: pubkey
  infoDecimals :: nat

text \<open>
  \<open>10 ** k\<close> of a natural number \<open>k\<close> is exact below the safe integers, and \<open>new BN\<close> refuses
  it above.
\<close>

definition computeTokenMultiplier :: "nat \<Rightarrow> nat \<Rightarrow> token_multiplier result" where
  "computeTokenMultiplier decimalA decimalB =
     (let factor = max decimalA decimalB in
      and_then (bnOfNumber (10 ^ (factor - decimalA))) (\<lambda>multiplierA.
      and_then (bnOfNumber (10 ^ (factor - decimalB))) (\<lambda>multiplierB.
        Inr \<lparr>tokenAMultiplier = multiplierA, tokenBMultiplier = multiplierB,
             precisionFactor = int factor\<rparr>)))"

definition generateCurveType :: "token_info \<Rightarrow> token_info \<Rightarrow> bool \<Rightarrow> curve_type result" where
  "generateCurveType tokenInfoA tokenInfoB isStable =
     (if isStable then
        and_then (computeTokenMultiplier (infoDecimals tokenInfoA) (infoDecimals tokenInfoB))
          (\<lambda>multiplier. Inr (StableSwapCurve
            \<lparr>amp = PERMISSIONLESS_AMP, tokenMultiplier = multiplier,
             depegInfo = \<lparr>baseVirtualPrice = 0, baseCacheUpdated = 0, depegType = DepegNone\<rparr>,
             lastAmpUpdatedTimestamp = 0\<rparr>))
      else Inr ConstantProductCurve)"

fun encodeCurveType :: "curve_type \<Rightarrow> byte" where
  "encodeCurveType ConstantProductCurve = 0"
| "encodeCurveType (StableSwapCurve p) = 1"

definition getTradeFeeBpsBuffer :: "curve_type \<Rightarrow> int \<Rightarrow> byte list result" where
  "getTradeFeeBpsBuffer curve tradeFeeBps =
     (let defaultFeeBps = (case curve of
          StableSwapCurve p \<Rightarrow> STABLE_SWAP_DEFAULT_TRADE_FEE_BPS
        | ConstantProductCurve \<Rightarrow> CONSTANT_PRODUCT_DEFAULT_TRADE_FEE_BPS) in
      if tradeFeeBps = defaultFeeBps then Inr [] else toBufferLE tradeFeeBps 8)"

text \<open>\<open>createProgram\<close> as far as the address of the program: the given one or the default.\<close>

definition createProgramId :: "pubkey option \<Rightarrow> pubkey" where
  "createProgramId programId = (case programId of Some p \<Rightarrow> p | None \<Rightarrow> PROGRAM_ID)"

definition derivePoolAddress ::
  "address_fns \<Rightarrow> token_info \<Rightarrow> token_info \<Rightarrow> bool \<Rightarrow> int \<Rightarrow> pubkey option \<Rightarrow> pubkey result" where
  "derivePoolAddress F tokenInfoA tokenInfoB isStable tradeFeeBps programId =
     and_then (generateCurveType tokenInfoA tokenInfoB isStable) (\<lambda>curve.
     let mintA = infoAddress tokenInfoA; mintB = infoAddress tokenInfoB in
     and_then (getTradeFeeBpsBuffer curve tradeFeeBps) (\<lambda>feeBuffer.
       Inr (fst (findProgramAddressSync F
         [[encodeCurveType curve], getFirstKey mintA mintB, getSecondKey mintA mintB, feeBuffer]
         (createProgramId programId)))))"

section \<open>The order of the mints\<close>

text \<open>
  Seeds that name an unordered pair of keys: the two parts do not depend on the order of the
  arguments, they determine the pair, and both have 32 bytes.
\<close>

locale pair_seeds =
  fixes part1 part2 :: "pubkey \<Rightarrow> pubkey \<Rightarrow> byte list"
  assumes part1_sym: "part1 a b = part1 b a"
    and part2_sym: "part2 a b = part2 b a"
    and parts_inj: "part1 a b = part1 c d \<Longrightarrow> part2 a b = part2 c d \<Longrightarrow> {a, b} = {c, d}"
    and part1_length: "valid_pubkey a \<Longrightarrow> valid_pubkey b \<Longrightarrow> length (part1 a b) = 32"
    and part2_length: "valid_pubkey a \<Longrightarrow> valid_pubkey b \<Longrightarrow> length (part2 a b) = 32"
begin

lemma seeds_inj:
  assumes "concat [pre, part1 a b, part2 a b, post] = concat [pre', part1 c d, part2 c d, post']"
    and "length pre = length pre'" and "valid_pubkey a" "valid_pubkey b" "valid_pubkey c" "valid_pubkey d"
  shows "pre = pre' \<and> {a, b} = {c, d} \<and> post = post'"
proof -
  have "pre = pre' \<and> part1 a b = part1 c d \<and> part2 a b = part2 c d \<and> post = post'"
    using assms part1_length part2_length by simp
  then show ?thesis using parts_inj by blast
qed

end

lemma first_key_max: "getFirstKey a b = toBuffer (max a b)"
  by (auto simp: getFirstKey_def bufferCompare_def Let_def max_def less_eq_pubkey_def)

lemma second_key_min: "getSecondKey a b = toBuffer (min a b)"
  by (auto simp: getSecondKey_def bufferCompare_def Let_def min_def less_eq_pubkey_def)

lemma max_min_pair: "max a b = max c d \<Longrightarrow> min a b = min c d \<Longrightarrow> {a, b} = {c, d :: pubkey}"
  by (auto simp: max_def min_def split: if_splits)

interpretation mints: pair_seeds getFirstKey getSecondKey
proof unfold_locales
  fix a b c d :: pubkey
  show "getFirstKey a b = getFirstKey b a" by (simp add: first_key_max max.commute)
  show "getSecondKey a b = getSecondKey b a" by (simp add: second_key_min min.commute)
  show "{a, b} = {c, d}" if "getFirstKey a b = getFirstKey c d" "getSecondKey a b = getSecondKey c d"
    using that by (intro max_min_pair) (simp_all add: first_key_max second_key_min pubkey.expand)
  show "length (getFirstKey a b) = 32" if "valid_pubkey a" "valid_pubkey b"
    using that by (simp add: first_key_max max_def valid_pubkey_def)
  show "length (getSecondKey a b) = 32" if "valid_pubkey a" "valid_pubkey b"
    using that by (simp add: second_key_min min_def valid_pubkey_def)
qed

section \<open>Addresses that do not collide\<close>

text \<open>
  What a program address is documented to be: a hash of the seeds, one after the other, and the
  program, taken not to collide.
\<close>

definition pda_law :: "address_fns \<Rightarrow> bool" where
  "pda_law F \<longleftrightarrow> (\<forall>seeds program seeds' program'.
     fst (findProgramAddressSync F seeds program) = fst (findProgramAddressSync F seeds' program') \<longrightarrow>
     concat seeds = concat seeds' \<and> program = program')"

lemma pda_lawD:
  "pda_law F \<Longrightarrow> fst (findProgramAddressSync F seeds program) = fst (findProgramAddressSync F seeds' program') \<Longrightarrow>
    concat seeds = concat seeds' \<and> program = program'"
  unfolding pda_law_def by blast

lemma pda_distinct_lengths:
  "pda_law F \<Longrightarrow> length (concat seeds) \<noteq> length (concat seeds') \<Longrightarrow>
    fst (findProgramAddressSync F seeds program) \<noteq> fst (findProgramAddressSync F seeds' program')"
  using pda_lawD [of F seeds program seeds' program'] by auto

lemma length_bytesOf [simp]: "length (bytesOf s) = length s"
  by (simp add: bytesOf_def)

lemma length_key [simp]: "valid_pubkey k \<Longrightarrow> length (toBuffer k) = 32"
  by (simp add: valid_pubkey_def)

lemma encode_generated:
  "generateCurveType A B isStable = Inr curve \<Longrightarrow> encodeCurveType curve = (if isStable then 1 else 0)"
  by (auto simp: generateCurveType_def split: if_splits)

definition defaultFee :: "bool \<Rightarrow> int" where
  "defaultFee isStable =
     (if isStable then STABLE_SWAP_DEFAULT_TRADE_FEE_BPS else CONSTANT_PRODUCT_DEFAULT_TRADE_FEE_BPS)"

lemma fee_buffer_generated:
  "generateCurveType A B isStable = Inr curve \<Longrightarrow>
    getTradeFeeBpsBuffer curve bps = (if bps = defaultFee isStable then Inr [] else toBufferLE bps 8)"
  by (auto simp: generateCurveType_def getTradeFeeBpsBuffer_def defaultFee_def split: if_splits)

lemma toBufferLE_length: "toBufferLE v n = Inr buf \<Longrightarrow> length buf = n"
  by (auto simp: toBufferLE_def split: if_splits)

lemma toBufferLE_inj:
  "toBufferLE v n = Inr buf \<Longrightarrow> toBufferLE w n = Inr buf \<Longrightarrow> 0 \<le> v \<Longrightarrow> 0 \<le> w \<Longrightarrow> v = w"
  using leBytes_inj [of n v w] by (auto simp: toBufferLE_def split: if_splits)

lemma fee_buffer_inj:
  assumes "generateCurveType A B isStable = Inr curve" and "generateCurveType C D isStable = Inr curve'"
    and "getTradeFeeBpsBuffer curve v = Inr buf" and "getTradeFeeBpsBuffer curve' w = Inr buf"
    and "0 \<le> v" and "0 \<le> w"
  shows "v = w"
  using assms(3-6) toBufferLE_inj [of v 8 buf w] toBufferLE_length [of v 8 buf] toBufferLE_length [of w 8 buf]
  unfolding fee_buffer_generated [OF assms(1)] fee_buffer_generated [OF assms(2)]
  by (auto split: if_splits)

lemma tokenMultiplier_sym:
  "(\<exists>m. computeTokenMultiplier a b = Inr m) = (\<exists>m. computeTokenMultiplier b a = Inr m)"
  "computeTokenMultiplier a b = Inl e \<Longrightarrow> computeTokenMultiplier b a = Inl e"
  by (auto simp: computeTokenMultiplier_def Let_def max.commute bnOfNumber_def and_then_eq_Inr_iff
      split: if_splits)

lemma derivePoolAddress_swap:
  "derivePoolAddress F A B isStable bps p = derivePoolAddress F B A isStable bps p"
proof (cases "generateCurveType A B isStable")
  case (Inl e)
  then have "generateCurveType B A isStable = Inl e"
    using tokenMultiplier_sym(2) [of "infoDecimals A" "infoDecimals B" e]
    by (cases "computeTokenMultiplier (infoDecimals A) (infoDecimals B)")
      (auto simp: generateCurveType_def split: if_splits)
  with Inl show ?thesis by (simp add: derivePoolAddress_def)
next
  case (Inr curve)
  then obtain curve' where swapped: "generateCurveType B A isStable = Inr curve'"
    using tokenMultiplier_sym(1) [of "infoDecimals A" "infoDecimals B"]
    by (auto simp: generateCurveType_def split: if_splits)
  show ?thesis
    using mints.part1_sym [of "infoAddress A" "infoAddress B"]
      mints.part2_sym [of "infoAddress A" "infoAddress B"]
    by (simp add: derivePoolAddress_def Let_def Inr swapped fee_buffer_generated [OF Inr]
        fee_buffer_generated [OF swapped] encode_generated [OF Inr] encode_generated [OF swapped])
qed

section \<open>Properties\<close>

text \<open>
  The address of a pool does not depend on the order in which its two tokens are given, for
  pools with and without a configuration, errors included.
\<close>

lemma pool_address_symmetric:
  "derivePoolAddress F A B isStable bps p = derivePoolAddress F B A isStable bps p \<and>
   derivePoolAddressWithConfig F a b config q = derivePoolAddressWithConfig F b a config q"
  using derivePoolAddress_swap mints.part1_sym [of a b] mints.part2_sym [of a b]
  by (simp add: derivePoolAddressWithConfig_def)

text \<open>
  C36: The address of a pool identifies it: equal addresses come from the same pair of mints, the
  same curve and the same trade fee, although the fee is left out of the seeds when it is the
  default one.
\<close>

theorem pool_address_injective:
  assumes "pda_law F"
    and "derivePoolAddress F A B isStable bps p = Inr k"
    and "derivePoolAddress F C D isStable' bps' p' = Inr k"
    and "valid_pubkey (infoAddress A)" "valid_pubkey (infoAddress B)"
      "valid_pubkey (infoAddress C)" "valid_pubkey (infoAddress D)"
    and "0 \<le> bps" and "0 \<le> bps'"
  shows "{infoAddress A, infoAddress B} = {infoAddress C, infoAddress D} \<and> isStable = isStable' \<and>
    bps = bps' \<and> createProgramId p = createProgramId p'"
proof -
  from assms(2,3) obtain curve curve' buf buf' where
    gen: "generateCurveType A B isStable = Inr curve" "generateCurveType C D isStable' = Inr curve'" and
    fee: "getTradeFeeBpsBuffer curve bps = Inr buf" "getTradeFeeBpsBuffer curve' bps' = Inr buf'" and
    key: "k = fst (findProgramAddressSync F [[encodeCurveType curve],
        getFirstKey (infoAddress A) (infoAddress B), getSecondKey (infoAddress A) (infoAddress B), buf]
        (createProgramId p))"
      "k = fst (findProgramAddressSync F [[encodeCurveType curve'],
        getFirstKey (infoAddress C) (infoAddress D), getSecondKey (infoAddress C) (infoAddress D), buf']
        (createProgramId p'))"
    by (auto simp: derivePoolAddress_def Let_def)
  note same = pda_lawD [OF assms(1) trans [OF key(1) [symmetric] key(2)]]
  have parts: "[encodeCurveType curve] = [encodeCurveType curve'] \<and>
    {infoAddress A, infoAddress B} = {infoAddress C, infoAddress D} \<and> buf = buf'"
    using same assms(4-7) by (intro mints.seeds_inj) auto
  then have stable: "isStable = isStable'"
    using encode_generated [OF gen(1)] encode_generated [OF gen(2)] by (auto split: if_splits)
  then have "bps = bps'"
    using fee_buffer_inj [of A B isStable curve C D curve' bps buf bps'] gen fee parts assms(8,9) by simp
  with parts stable same show ?thesis by simp
qed

text \<open>A finder without collisions: it spells out the program and the seeds.\<close>

definition example_fns :: address_fns where
  "example_fns =
     \<lparr>findProgramAddressSync = (\<lambda>seeds program.
        (PublicKey (replicate (length (toBuffer program)) 1 @ 0 # toBuffer program @ concat seeds), 255)),
      getAssociatedTokenAddressSync = (\<lambda>mint owner. PublicKey (toBuffer mint @ toBuffer owner))\<rparr>"

lemma counted_prefix_inj:
  "replicate n (1 :: byte) @ 0 # xs = replicate m 1 @ 0 # ys \<Longrightarrow> n = m \<and> xs = ys"
proof (induction n arbitrary: m)
  case 0
  then show ?case by (cases m) auto
next
  case (Suc n)
  then show ?case by (cases m) auto
qed

lemma example_fns_law: "pda_law example_fns"
  by (auto simp: pda_law_def example_fns_def pubkey.expand dest!: counted_prefix_inj)

theorem pool_address_injective_witness:
  "\<exists>k. derivePoolAddress example_fns \<lparr>infoAddress = METAPLEX_PROGRAM, infoDecimals = 6\<rparr>
      \<lparr>infoAddress = FEE_OWNER, infoDecimals = 9\<rparr> True 4 None = Inr k \<and>
    derivePoolAddress example_fns \<lparr>infoAddress = METAPLEX_PROGRAM, infoDecimals = 6\<rparr>
      \<lparr>infoAddress = FEE_OWNER, infoDecimals = 9\<rparr> True 1 None \<noteq> Inr k"
proof -
  let ?A = "\<lparr>infoAddress = METAPLEX_PROGRAM, infoDecimals = 6\<rparr>"
  let ?B = "\<lparr>infoAddress = FEE_OWNER, infoDecimals = 9\<rparr>"
  have valid: "valid_pubkey METAPLEX_PROGRAM" "valid_pubkey FEE_OWNER"
    by (simp_all add: valid_pubkey_def METAPLEX_PROGRAM_def FEE_OWNER_def)
  obtain k where k: "derivePoolAddress example_fns ?A ?B True 4 None = Inr k"
    by (auto simp: derivePoolAddress_def generateCurveType_def computeTokenMultiplier_def Let_def
        bnOfNumber_def getTradeFeeBpsBuffer_def STABLE_SWAP_DEFAULT_TRADE_FEE_BPS_def toBufferLE_def)
  have "derivePoolAddress example_fns ?A ?B True 1 None \<noteq> Inr k"
    using pool_address_injective [OF example_fns_law k, of ?A ?B True 1 None] valid by auto
  with k show ?thesis by blast
qed

text \<open>
  Addresses of different kinds never coincide: the lock escrow of a pool, its fee accounts, its
  LP mint, its vault share accounts, configurations, and pools with or without a configuration
  are all distinct, because their seeds have different lengths.
\<close>

lemma pda_kinds_distinct:
  assumes "pda_law F"
    and "\<forall>k \<in> {pool, owner, mint, vault, config, mintA, mintB}. valid_pubkey k"
    and "deriveConfigPda F index program = Inr configPda"
    and "infoAddress A = mintA" and "infoAddress B = mintB"
    and "derivePoolAddress F A B isStable bps (Some program) = Inr poolPda"
  shows "distinct [fst (deriveLockEscrowPda F pool owner program),
    deriveProtocolTokenFee F pool mint program, deriveLpMint F pool program,
    deriveVaultLp F vault pool program, configPda, poolPda,
    derivePoolAddressWithConfig F mintA mintB config program]"
proof -
  from assms(2) have valid: "valid_pubkey pool" "valid_pubkey owner" "valid_pubkey mint"
    "valid_pubkey vault" "valid_pubkey config" "valid_pubkey mintA" "valid_pubkey mintB" by auto
  note pair = mints.part1_length [OF valid(6,7)] mints.part2_length [OF valid(6,7)]
  from assms(6) obtain curve buf where
    gen: "generateCurveType A B isStable = Inr curve" and
    fee: "getTradeFeeBpsBuffer curve bps = Inr buf" and
    poolPda: "poolPda = fst (findProgramAddressSync F [[encodeCurveType curve],
      getFirstKey mintA mintB, getSecondKey mintA mintB, buf] program)"
    by (auto simp: derivePoolAddress_def createProgramId_def Let_def assms(4,5))
  from fee have buf: "length buf = 0 \<or> length buf = 8"
    using toBufferLE_length unfolding fee_buffer_generated [OF gen] by (auto split: if_splits)
  from assms(3) obtain ibuf where
    configPda: "configPda = fst (findProgramAddressSync F [bytesOf ''config'', ibuf] program)"
    and ibuf: "length ibuf = 8"
    using toBufferLE_length by (auto simp: deriveConfigPda_def)
  show ?thesis
    unfolding configPda poolPda deriveLockEscrowPda_def deriveProtocolTokenFee_def deriveLpMint_def
      deriveVaultLp_def derivePoolAddressWithConfig_def distinct.simps list.set insert_iff empty_iff simp_thms de_Morgan_disj
    using buf
    by (intro conjI TrueI pda_distinct_lengths [OF assms(1)])
      (auto simp: valid pair ibuf)
qed

text \<open>
  The multipliers of two tokens bring their amounts to a common scale, that of the token with
  more decimals, and one of them is one; the call refuses exactly when the decimals are more than
  fifteen apart.
\<close>

lemma token_multiplier_scale:
  "(case computeTokenMultiplier a b of
     Inl e \<Rightarrow> e = UnsafeNumber \<and> (15 < a - b \<or> 15 < b - a)
   | Inr m \<Rightarrow> a - b \<le> 15 \<and> b - a \<le> 15 \<and> precisionFactor m = int (max a b) \<and>
       tokenAMultiplier m * 10 ^ a = 10 ^ nat (precisionFactor m) \<and>
       tokenBMultiplier m * 10 ^ b = 10 ^ nat (precisionFactor m) \<and>
       (tokenAMultiplier m = 1 \<or> tokenBMultiplier m = 1))"
proof -
  have safe: "(10 :: int) ^ k < 9007199254740992 \<longleftrightarrow> k \<le> 15" for k :: nat
  proof (cases "k \<le> 15")
    case True
    then have "(10 :: int) ^ k \<le> 10 ^ 15" by (intro power_increasing) auto
    with True show ?thesis by simp
  next
    case False
    then have "(10 :: int) ^ 16 \<le> 10 ^ k" by (intro power_increasing) auto
    with False show ?thesis by simp
  qed
  have scale: "(10 :: int) ^ (max a b - k) * 10 ^ k = 10 ^ max a b" if "k \<le> max a b" for k
    using that by (simp flip: power_add)
  show ?thesis
    using scale [of a] scale [of b]
    by (cases "a \<le> b") (auto simp: computeTokenMultiplier_def bnOfNumber_def Let_def safe max_def)
qed

end
