(* ===== verification/AmmError.thy ===== *)
theory AmmError
  imports Idl PoolKeys
begin

text \<open>
  \<open>DynamicAmmError\<close> of \<open>ts-client/src/amm/error.ts\<close>: what the constructor makes of an error
  object thrown by a transaction, or of a bare error code. Parsing the logs of an error object is
  a parameter, since it is another package's: \<open>AnchorError.parse\<close> of the object's logs.
\<close>

record anchor_error =
  anchorProgram :: pubkey
  anchorNumber :: int
  anchorCode :: string
  anchorMessage :: string

text \<open>The argument: an instance of \<open>Error\<close>, another object, or a number.\<close>

datatype 'e error_source = ErrorObject 'e | OtherObject | ErrorNumber int

record dynamic_amm_error =
  errorCode :: int
  errorName :: string
  errorMessage :: string

definition defaultError :: dynamic_amm_error where
  "defaultError = \<lparr>errorCode = 0, errorName = ''Something went wrong'',
     errorMessage = ''Something went wrong''\<rparr>"

fun newDynamicAmmError ::
  "('e \<Rightarrow> anchor_error option result) \<Rightarrow> 'e error_source \<Rightarrow> dynamic_amm_error result" where
  "newDynamicAmmError parse (ErrorObject e) =
     and_then (parse e) (\<lambda>anchorError. case anchorError of
         None \<Rightarrow> Inr defaultError
       | Some a \<Rightarrow>
           if anchorProgram a = PROGRAM_ID
           then Inr \<lparr>errorCode = anchorNumber a, errorName = anchorCode a, errorMessage = anchorMessage a\<rparr>
           else Inr defaultError)"
| "newDynamicAmmError parse OtherObject = Inr defaultError"
| "newDynamicAmmError parse (ErrorNumber c) =
     (case List.find (\<lambda>err. errCode err = c) idl_errors of
        None \<Rightarrow> Inr defaultError
      | Some e \<Rightarrow> Inr \<lparr>errorCode = errCode e, errorName = errName e, errorMessage = errMsg e\<rparr>)"

lemma error_codes: "map errCode idl_errors = [6000..6049]"
  by code_simp

lemma error_names_distinct: "distinct (map errName idl_errors)"
  by code_simp

lemma nth_of_codes:
  assumes "map f xs = [k..m]" and "j < length xs"
  shows "f (xs ! j) = k + int j"
proof -
  have "j < length [k..m]" using assms by (metis length_map)
  then have "k + int j \<le> m" by simp
  moreover have "f (xs ! j) = [k..m] ! j" using assms by (metis nth_map)
  ultimately show ?thesis by simp
qed

text \<open>A table whose codes are consecutive is looked up by index.\<close>

lemma find_by_index:
  assumes "map f xs = [k..m]"
  shows "List.find (\<lambda>x. f x = c) xs = (if k \<le> c \<and> c \<le> m then Some (xs ! nat (c - k)) else None)"
proof (cases "k \<le> c \<and> c \<le> m")
  case True
  let ?i = "nat (c - k)"
  have "length xs = nat (m - k + 1)" using arg_cong [OF assms, of length] by simp
  then have i: "?i < length xs" using True by (simp add: nat_less_iff)
  have "f (xs ! ?i) = c" using nth_of_codes [OF assms i] True by simp
  moreover have "f (xs ! j) \<noteq> c" if "j < ?i" for j
    using nth_of_codes [OF assms, of j] that i True by simp
  ultimately have "List.find (\<lambda>x. f x = c) xs = Some (xs ! ?i)"
    using i unfolding find_Some_iff by blast
  then show ?thesis using True by simp
next
  case False
  have "set (map f xs) = {k..m}" using assms by simp
  with False have "\<not> (\<exists>x \<in> set xs. f x = c)" by auto
  then have "List.find (\<lambda>x. f x = c) xs = None" unfolding find_None_iff by blast
  then show ?thesis unfolding if_not_P [OF False] .
qed

lemmas find_error = find_by_index [OF error_codes]

lemma unknown_code: "c < 6000 \<or> 6049 < c \<Longrightarrow> List.find (\<lambda>err. errCode err = c) idl_errors = None"
  unfolding find_error by auto

lemma known_error:
  assumes "e \<in> set idl_errors"
  shows "List.find (\<lambda>err. errCode err = errCode e) idl_errors = Some e"
  by (rule find_distinct) (use assms in \<open>simp_all add: error_codes\<close>)

text \<open>
  An error of the program is reported alike however it arrives: thrown with the logs of this
  program, or as its bare code, the result is the row of the interface's error table, whose
  names are distinct. Every number outside the fifty codes from 6000, and every error of another
  program, gives the default error with code zero.
\<close>

lemma program_error_reported:
  assumes "e \<in> set idl_errors"
    and "parse x = Inr (Some \<lparr>anchorProgram = program, anchorNumber = errCode e,
      anchorCode = errName e, anchorMessage = errMsg e\<rparr>)"
  shows "newDynamicAmmError parse (ErrorNumber (errCode e)) =
      Inr \<lparr>errorCode = errCode e, errorName = errName e, errorMessage = errMsg e\<rparr> \<and>
    newDynamicAmmError parse (ErrorObject x) =
      (if program = PROGRAM_ID then newDynamicAmmError parse (ErrorNumber (errCode e)) else Inr defaultError) \<and>
    (c < 6000 \<or> 6049 < c \<longrightarrow> newDynamicAmmError parse (ErrorNumber c) = Inr defaultError) \<and>
    distinct (map errName idl_errors)"
proof -
  have "newDynamicAmmError parse (ErrorNumber (errCode e)) =
      Inr \<lparr>errorCode = errCode e, errorName = errName e, errorMessage = errMsg e\<rparr>"
    by (simp add: known_error [OF assms(1)])
  then show ?thesis using error_names_distinct unknown_code [of c] by (simp add: assms(2))
qed

end
