(* ===== verification/Fetch.thy ===== *)
theory Fetch
  imports SwapQuote PoolKeys "HOL-Library.AList"
begin

text \<open>
  Reading the chain: the chunked fetches and existence checks of \<open>ts-client/src/amm/utils.ts\<close>,
  and the helpers at the top of \<open>index.ts\<close> that fetch pool states and decode account buffers.
  The chain is a parameter: a record of what its RPC calls and the decoders of other packages
  answer. Awaiting is sequencing; the calls only read.
\<close>

section \<open>The chain\<close>

record lock_escrow_account =
  lePool :: pubkey
  leOwner :: pubkey
  leEscrowVault :: pubkey
  leBump :: int
  leTotalLockedAmount :: int
  leLpPerToken :: int
  leUnclaimedFeePending :: int
  leAFee :: int
  leBFee :: int

record config_account =
  cfgPoolFees :: pool_fees
  cfgActivationDuration :: int
  cfgVaultConfigKey :: pubkey
  cfgPoolCreatorAuthority :: pubkey
  cfgActivationType :: int

text \<open>
  The fields of \<open>chain\<close>:
  \<^item> \<open>accountInfo\<close>: the data of an account, when it exists (\<open>getAccountInfo\<close> and the entries of
    \<open>getMultipleAccountsInfo\<close>); \<open>poolAccount\<close>, \<open>lockEscrowAccount\<close>: \<open>fetchNullable\<close>;
  \<^item> \<open>configAccounts\<close>, \<open>lockEscrowAccounts\<close>, \<open>poolAccounts\<close>: every account of the kind, with its
    data, for \<open>all\<close>;
  \<^item> \<open>tokenSupply\<close>, \<open>tokenAccountBalance\<close>: the RPC calls of these names, which may fail;
  \<^item> \<open>parsedTokenAmount\<close>: the token amount of \<open>getParsedAccountInfo\<close>, when the account exists;
  \<^item> \<open>decodeAccountAmount\<close>, \<open>decodeMintSupply\<close>: \<open>AccountLayout.decode(data).amount\<close> and
    \<open>MintLayout.decode(data).supply\<close> of \<open>spl-token\<close>;
  \<^item> \<open>SYSVAR_CLOCK_PUBKEY\<close>: the address of the clock account; \<open>parsedClockTime\<close>: the unix time in its
    \<open>getParsedAccountInfo\<close>, when it exists.
\<close>

record chain =
  accountInfo :: "pubkey \<Rightarrow> byte list option"
  poolAccount :: "pubkey \<Rightarrow> pool_state option"
  lockEscrowAccount :: "pubkey \<Rightarrow> lock_escrow_account option"
  poolAccounts :: "(pubkey \<times> byte list \<times> pool_state) list"
  configAccounts :: "(pubkey \<times> byte list \<times> config_account) list"
  lockEscrowAccounts :: "(pubkey \<times> byte list \<times> lock_escrow_account) list"
  tokenSupply :: "pubkey \<Rightarrow> int result"
  tokenAccountBalance :: "pubkey \<Rightarrow> int result"
  parsedTokenAmount :: "pubkey \<Rightarrow> int option"
  decodeAccountAmount :: "byte list \<Rightarrow> int result"
  decodeMintSupply :: "byte list \<Rightarrow> int result"
  SYSVAR_CLOCK_PUBKEY :: pubkey
  parsedClockTime :: "int option"

text \<open>
  \<open>connection.getMultipleAccountsInfo\<close> is documented to take at most a hundred keys. Anchor's
  \<open>fetchMultiple\<close> answers for each key in order, with null where no account exists.
\<close>

definition getMultipleAccountsInfo :: "chain \<Rightarrow> pubkey list \<Rightarrow> byte list option list result" where
  "getMultipleAccountsInfo C pks =
     (if length pks \<le> 100 then Inr (map (accountInfo C) pks) else Inl (Thrown ''Too many inputs provided''))"

definition fetchMultiplePools :: "chain \<Rightarrow> pubkey list \<Rightarrow> pool_state option list result" where
  "fetchMultiplePools C pks = Inr (map (poolAccount C) pks)"

text \<open>\<open>Promise.all\<close> over a list: the first failure, or all the answers in order.\<close>

fun all_results :: "('a \<Rightarrow> 'b result) \<Rightarrow> 'a list \<Rightarrow> 'b list result" where
  "all_results f [] = Inr []"
| "all_results f (x # xs) = and_then (f x) (\<lambda>y. and_then (all_results f xs) (\<lambda>ys. Inr (y # ys)))"

section \<open>Chunks\<close>

text \<open>\<open>array.slice(from, to)\<close> for indexes that are not negative.\<close>

definition slice :: "'a list \<Rightarrow> nat \<Rightarrow> nat \<Rightarrow> 'a list" where
  "slice array i j = take (j - i) (drop i array)"

text \<open>A chunk size of zero makes the length of \<open>new Array\<close> invalid.\<close>

definition chunks :: "'a list \<Rightarrow> nat \<Rightarrow> 'a list list result" where
  "chunks array n =
     (if n = 0 then Inl RangeError
      else Inr (map (\<lambda>index. slice array (index * n) ((index + 1) * n))
        [0..<(length array + n - 1) div n]))"

definition chunkedFetchMultiplePoolAccount :: "chain \<Rightarrow> pubkey list \<Rightarrow> nat \<Rightarrow> pool_state list result" where
  "chunkedFetchMultiplePoolAccount C pks chunkSize =
     and_then (chunks pks chunkSize) (\<lambda>cs.
     and_then (all_results (fetchMultiplePools C) cs) (\<lambda>accounts.
       Inr (List.map_filter id (concat accounts))))"

definition chunkedGetMultipleAccountInfos ::
  "chain \<Rightarrow> pubkey list \<Rightarrow> nat \<Rightarrow> byte list option list result" where
  "chunkedGetMultipleAccountInfos C pks chunkSize =
     and_then (chunks pks chunkSize) (\<lambda>cs.
     and_then (all_results (getMultipleAccountsInfo C) cs) (\<lambda>infos. Inr (concat infos)))"

text \<open>The null assertion on the clock account raises when the node has none.\<close>

definition getOnchainTime :: "chain \<Rightarrow> int result" where
  "getOnchainTime C = (case parsedClockTime C of None \<Rightarrow> Inl TypeError | Some t \<Rightarrow> Inr t)"

section \<open>Pools\<close>

record token_mints =
  mintOfA :: pubkey
  mintOfB :: pubkey

definition getTokensMintFromPoolAddress :: "chain \<Rightarrow> pubkey \<Rightarrow> token_mints option" where
  "getTokensMintFromPoolAddress C poolAddress =
     (case poolAccount C poolAddress of
        None \<Rightarrow> None
      | Some acc \<Rightarrow> Some \<lparr>mintOfA = tokenAMint acc, mintOfB = tokenBMint acc\<rparr>)"

definition checkPoolExists :: "chain \<Rightarrow> address_fns \<Rightarrow> token_info \<Rightarrow> token_info \<Rightarrow> bool \<Rightarrow> int \<Rightarrow>
    pubkey option \<Rightarrow> pubkey option result" where
  "checkPoolExists C F tokenInfoA tokenInfoB isStable tradeFeeBps programId =
     and_then (derivePoolAddress F tokenInfoA tokenInfoB isStable tradeFeeBps programId) (\<lambda>poolPubkey.
     case poolAccount C poolPubkey of None \<Rightarrow> Inr None | Some acc \<Rightarrow> Inr (Some poolPubkey))"

definition checkPoolWithConfigsExists ::
  "chain \<Rightarrow> address_fns \<Rightarrow> pubkey \<Rightarrow> pubkey \<Rightarrow> pubkey list \<Rightarrow> pubkey option \<Rightarrow> pubkey option result" where
  "checkPoolWithConfigsExists C F tokenA tokenB configs programId =
     (let poolsPubkey =
        map (\<lambda>config. derivePoolAddressWithConfig F tokenA tokenB config (createProgramId programId)) configs in
      and_then (fetchMultiplePools C poolsPubkey) (\<lambda>poolsAccount.
      if list_all (\<lambda>account. account = None) poolsAccount then Inr None
      else
        let poolAccountIndex = length (takeWhile (\<lambda>account. account = None) poolsAccount) in
        Inr (Some (poolsPubkey ! poolAccountIndex))))"

definition getPoolState :: "chain \<Rightarrow> pubkey \<Rightarrow> (pool_state \<times> int) result" where
  "getPoolState C poolMint =
     (case poolAccount C poolMint of
        None \<Rightarrow> Inl (InvariantViolation ''Pool not found'')
      | Some poolState \<Rightarrow>
          and_then (tokenSupply C (lpMint poolState)) (\<lambda>supply. Inr (poolState, supply)))"

text \<open>\<open>getAllPoolState\<close>: every pool state with the supply read from its LP mint account.\<close>

definition withLpSupply :: "chain \<Rightarrow> pool_state \<times> byte list option \<Rightarrow> (pool_state \<times> int) result" where
  "withLpSupply C sa =
     (case snd sa of
        None \<Rightarrow> Inl (InvariantViolation ''Account not found'')
      | Some data \<Rightarrow> and_then (decodeMintSupply C data) (\<lambda>supply. Inr (fst sa, supply)))"

definition getAllPoolState :: "chain \<Rightarrow> pubkey list \<Rightarrow> (pool_state \<times> int) list result" where
  "getAllPoolState C poolMints =
     and_then (chunkedFetchMultiplePoolAccount C poolMints 100) (\<lambda>poolStates.
     and_then (invariant (length poolStates = length poolMints) ''Some of the pool state not found'') (\<lambda>_.
     let poolLpMints = map lpMint poolStates in
     and_then (chunkedGetMultipleAccountInfos C poolLpMints 100) (\<lambda>lpMintAccounts.
       all_results (withLpSupply C) (zip poolStates lpMintAccounts))))"

section \<open>Depeg accounts\<close>

definition getStakePubkey :: "pool_state \<Rightarrow> pubkey option" where
  "getStakePubkey poolState =
     (case curveType poolState of
        ConstantProductCurve \<Rightarrow> None
      | StableSwapCurve p \<Rightarrow>
          (case depegType (depegInfo p) of
             DepegNone \<Rightarrow> None
           | DepegMarinade \<Rightarrow> Some CURVE_TYPE_ACCOUNTS_marinade
           | DepegLido \<Rightarrow> Some CURVE_TYPE_ACCOUNTS_lido
           | DepegSplStake \<Rightarrow> Some (stake poolState)))"

text \<open>
  The source collects the keys in a set of key objects, which are compared by reference; a key
  that is fetched twice gives the same entry of the map, so a list does.
\<close>

fun setDepegAccounts :: "(pubkey \<times> byte list option) list \<Rightarrow> (pubkey \<rightharpoonup> byte list) \<Rightarrow> (pubkey \<rightharpoonup> byte list)" where
  "setDepegAccounts [] m = m"
| "setDepegAccounts ((k, None) # kas) m = setDepegAccounts kas m"
| "setDepegAccounts ((k, Some data) # kas) m = setDepegAccounts kas (m(k \<mapsto> data))"

definition getDepegAccounts :: "chain \<Rightarrow> pool_state list \<Rightarrow> (pubkey \<rightharpoonup> byte list) result" where
  "getDepegAccounts C poolsState =
     (let stakePoolKeys = List.map_filter getStakePubkey poolsState in
      and_then (chunkedGetMultipleAccountInfos C stakePoolKeys 100) (\<lambda>accountBuffers.
        Inr (setDepegAccounts (zip stakePoolKeys accountBuffers) Map.empty)))"

section \<open>Account buffers\<close>

datatype account_type =
    APY | VAULT_A_RESERVE | VAULT_B_RESERVE | VAULT_A_LP | VAULT_B_LP
  | POOL_VAULT_A_LP | POOL_VAULT_B_LP | POOL_LP_MINT | SYSVAR_CLOCK

text \<open>\<open>APY\<close> has no decoder: the lookup gives \<open>undefined\<close>, and calling it is a type error.\<close>

fun decodeAccountTypeMapper :: "chain \<Rightarrow> account_type \<Rightarrow> byte list \<Rightarrow> int result" where
  "decodeAccountTypeMapper C APY data = Inl TypeError"
| "decodeAccountTypeMapper C VAULT_A_RESERVE data = decodeAccountAmount C data"
| "decodeAccountTypeMapper C VAULT_B_RESERVE data = decodeAccountAmount C data"
| "decodeAccountTypeMapper C VAULT_A_LP data = decodeMintSupply C data"
| "decodeAccountTypeMapper C VAULT_B_LP data = decodeMintSupply C data"
| "decodeAccountTypeMapper C POOL_VAULT_A_LP data = decodeAccountAmount C data"
| "decodeAccountTypeMapper C POOL_VAULT_B_LP data = decodeAccountAmount C data"
| "decodeAccountTypeMapper C POOL_LP_MINT data = decodeMintSupply C data"
| "decodeAccountTypeMapper C SYSVAR_CLOCK data = readBigInt64LE data 32"

text \<open>A JavaScript map keeps its insertion order: an association list updated in place.\<close>

type_synonym buffer_map = "(pubkey \<times> account_type \<times> byte list option) list"

definition getAccountsBuffer :: "chain \<Rightarrow> (pubkey \<times> account_type) list \<Rightarrow> buffer_map result" where
  "getAccountsBuffer C accountsToFetch =
     and_then (chunkedGetMultipleAccountInfos C (map fst accountsToFetch) 100) (\<lambda>accounts.
       Inr (fold (\<lambda>((k, ty), account) accMap. AList.update k (ty, account) accMap)
         (zip accountsToFetch accounts) []))"

fun deserializeAccountsBuffer :: "chain \<Rightarrow> buffer_map \<Rightarrow> (pubkey \<times> int) list result" where
  "deserializeAccountsBuffer C [] = Inr []"
| "deserializeAccountsBuffer C ((k, ty, account) # rest) =
     (case account of
        None \<Rightarrow> Inl TypeError
      | Some data \<Rightarrow>
          and_then (decodeAccountTypeMapper C ty data) (\<lambda>v.
          and_then (deserializeAccountsBuffer C rest) (\<lambda>m. Inr ((k, v) # m))))"

text \<open>\<open>deserializeAccount\<close>, as far as the amount its callers read.\<close>

definition deserializeAccount :: "chain \<Rightarrow> byte list option \<Rightarrow> int option result" where
  "deserializeAccount C data =
     (case data of
        None \<Rightarrow> Inr None
      | Some bytes \<Rightarrow>
          if length bytes = 0 then Inr None
          else and_then (decodeAccountAmount C bytes) (\<lambda>amount. Inr (Some amount)))"

definition fetchMultipleUserBalance ::
  "chain \<Rightarrow> address_fns \<Rightarrow> pubkey list \<Rightarrow> pubkey \<Rightarrow> int list result" where
  "fetchMultipleUserBalance C F lpMintList owner =
     (let ataAccounts = map (\<lambda>mint. getAssociatedTokenAccount F mint owner) lpMintList in
      and_then (chunkedGetMultipleAccountInfos C ataAccounts 100) (\<lambda>infos.
      all_results (\<lambda>info. case info of
          None \<Rightarrow> Inr 0
        | Some data \<Rightarrow> and_then (deserializeAccount C (Some data)) (\<lambda>balance. case balance of
              None \<Rightarrow> Inl (Thrown ''Failed to parse user account for LP token.'')
            | Some amount \<Rightarrow> Inr amount)) infos))"

section \<open>Chunked requests\<close>

lemma all_results_Inr_iff:
  "all_results f xs = Inr ys \<longleftrightarrow> length xs = length ys \<and> (\<forall>i < length xs. f (xs ! i) = Inr (ys ! i))"
proof (induction xs arbitrary: ys)
  case Nil
  then show ?case by auto
next
  case (Cons x xs)
  show ?case
    by (cases ys) (auto simp: and_then_eq_Inr_iff Cons.IH nth_Cons all_conj_distrib less_Suc_eq_0_disj
        split: nat.splits)
qed

lemma all_results_map:
  assumes "\<And>x. x \<in> set xs \<Longrightarrow> f x = Inr (g x)"
  shows "all_results f xs = Inr (map g xs)"
  using assms by (induction xs) auto

lemma concat_slices:
  assumes "0 < n"
  shows "concat (map (\<lambda>i. slice xs (i * n) ((i + 1) * n)) [0..<m]) = take (m * n) xs"
proof (induction m)
  case 0
  then show ?case by simp
next
  case (Suc m)
  have "take (m * n) xs @ take n (drop (m * n) xs) = take (n + m * n) xs"
    by (metis add.commute take_add)
  with Suc show ?case by (simp add: slice_def)
qed

lemma chunk_count:
  assumes "0 < n"
  shows "len \<le> (len + n - 1) div n * n" "i < (len + n - 1) div n \<Longrightarrow> i * n < (len :: nat)"
proof -
  have "len + n - 1 < (len + n - 1) div n * n + n"
    using dividend_less_div_times [OF assms, of "len + n - 1"] by (simp add: add.commute)
  then show "len \<le> (len + n - 1) div n * n" using assms by simp
  assume "i < (len + n - 1) div n"
  then have "(i + 1) * n \<le> len + n - 1"
    by (metis Suc_eq_plus1 Suc_leI assms less_eq_div_iff_mult_less_eq)
  then show "i * n < len" using assms by simp
qed

lemma chunks_facts:
  assumes "0 < n"
  obtains cs where "chunks xs n = Inr cs" and "concat cs = xs"
    and "\<And>c. c \<in> set cs \<Longrightarrow> 0 < length c \<and> length c \<le> n"
proof (rule that)
  let ?cs = "map (\<lambda>i. slice xs (i * n) ((i + 1) * n)) [0..<(length xs + n - 1) div n]"
  show "chunks xs n = Inr ?cs" using assms by (simp add: chunks_def)
  show "concat ?cs = xs"
    using concat_slices [OF assms, of xs "(length xs + n - 1) div n"] chunk_count(1) [OF assms, of "length xs"]
    by simp
  fix c assume "c \<in> set ?cs"
  then show "0 < length c \<and> length c \<le> n"
  proof -
    from \<open>c \<in> set ?cs\<close> obtain i where i: "i < (length xs + n - 1) div n"
      and c: "c = slice xs (i * n) ((i + 1) * n)" by auto
    show ?thesis using chunk_count(2) [OF assms i] assms unfolding c slice_def by simp
  qed
qed

text \<open>
  A client that asks in chunks: any request that answers a list of keys pointwise and accepts up to
  \<open>limit\<close> keys.
\<close>

locale limited_request =
  fixes request :: "'k list \<Rightarrow> 'v list result"
    and answer :: "'k \<Rightarrow> 'v"
    and limit :: nat
  assumes pointwise: "length ks \<le> limit \<Longrightarrow> request ks = Inr (map answer ks)"
begin

lemma chunked:
  assumes "0 < n" and "n \<le> limit"
  shows "and_then (chunks ks n) (\<lambda>cs. and_then (all_results request cs) (\<lambda>vs. Inr (concat vs))) =
    Inr (map answer ks)"
proof -
  obtain cs where cs: "chunks ks n = Inr cs" "concat cs = ks" "\<And>c. c \<in> set cs \<Longrightarrow> length c \<le> n"
    using assms(1) by (metis chunks_facts)
  have "all_results request cs = Inr (map (map answer) cs)"
    using cs(3) assms(2) by (intro all_results_map pointwise) (meson le_trans)
  then show ?thesis using cs(1,2) by (simp flip: map_concat)
qed

end

interpretation infos: limited_request "getMultipleAccountsInfo C" "accountInfo C" 100 for C
  by unfold_locales (simp add: getMultipleAccountsInfo_def)

interpretation pools: limited_request "fetchMultiplePools C" "poolAccount C" 100 for C
  by unfold_locales (simp add: fetchMultiplePools_def)

lemma chunked_infos:
  "0 < n \<Longrightarrow> n \<le> 100 \<Longrightarrow> chunkedGetMultipleAccountInfos C pks n = Inr (map (accountInfo C) pks)"
  using infos.chunked [of n pks C] by (simp add: chunkedGetMultipleAccountInfos_def)

lemma filter_fetched: "List.map_filter id (map f xs) = List.map_filter f xs"
  by (induction xs) (auto simp: List.map_filter_simps split: option.splits)

lemma chunked_pools:
  assumes "0 < n" and "n \<le> 100"
  shows "chunkedFetchMultiplePoolAccount C pks n = Inr (List.map_filter (poolAccount C) pks)"
proof -
  have "chunkedFetchMultiplePoolAccount C pks n =
    and_then (and_then (chunks pks n) (\<lambda>cs. and_then (all_results (fetchMultiplePools C) cs)
      (\<lambda>vs. Inr (concat vs)))) (\<lambda>accounts. Inr (List.map_filter id accounts))"
    by (simp add: chunkedFetchMultiplePoolAccount_def and_then_assoc)
  then show ?thesis using pools.chunked [OF assms, of pks C] by (simp add: filter_fetched)
qed

section \<open>Account buffers hold what the chain holds\<close>

definition put_buffer :: "(pubkey \<times> account_type) \<times> byte list option \<Rightarrow> buffer_map \<Rightarrow> buffer_map" where
  "put_buffer = (\<lambda>((k, ty), account) accMap. AList.update k (ty, account) accMap)"

lemma map_of_fold_put:
  "map_of (fold put_buffer kas m) k =
    (case map_of (rev (map (\<lambda>((k, ty), account). (k, ty, account)) kas)) k of
       None \<Rightarrow> map_of m k | Some v \<Rightarrow> Some v)"
  by (induction kas arbitrary: m)
    (auto simp: put_buffer_def update_conv' map_add_def split: option.splits)

lemma distinct_fold_put: "distinct (map fst m) \<Longrightarrow> distinct (map fst (fold put_buffer kas m))"
  by (induction kas arbitrary: m) (auto simp: put_buffer_def distinct_update)

lemma getAccountsBuffer_eq:
  "getAccountsBuffer C l =
    Inr (fold put_buffer (zip l (map (accountInfo C) (map fst l))) [])"
  by (simp add: getAccountsBuffer_def chunked_infos put_buffer_def)

lemma zip_infos:
  "map (\<lambda>((k, ty), account). (k, ty, account)) (zip l (map f (map fst l))) = map (\<lambda>(k, ty). (k, ty, f k)) l"
  by (induction l) auto

lemma buffer_entry:
  assumes "getAccountsBuffer C l = Inr m" and "(k, ty) \<in> set l"
  shows "\<exists>ty'. (k, ty') \<in> set l \<and> map_of m k = Some (ty', accountInfo C k)"
proof -
  let ?entries = "map (\<lambda>(k, ty). (k, ty, accountInfo C k)) l"
  have m: "map_of m k = map_of (rev ?entries) k"
  proof -
    have "m = fold put_buffer (zip l (map (accountInfo C) (map fst l))) []"
      using assms(1) unfolding getAccountsBuffer_eq by simp
    then show ?thesis by (simp only: map_of_fold_put zip_infos) (simp split: option.split)
  qed
  have "k \<in> fst ` set (rev ?entries)" using assms(2) by force
  then have "map_of (rev ?entries) k \<noteq> None" unfolding map_of_eq_None_iff by blast
  then obtain v where v: "map_of (rev ?entries) k = Some v" by blast
  then have "(k, v) \<in> set (rev ?entries)" by (rule map_of_SomeD)
  then have "(k, v) \<in> set ?entries" by (simp only: set_rev)
  then obtain ty' where "(k, ty') \<in> set l" "v = (ty', accountInfo C k)" by auto
  with m v show ?thesis by auto
qed

lemma buffer_entries:
  assumes "getAccountsBuffer C l = Inr m" and "(k, ty, account) \<in> set m"
  shows "(k, ty) \<in> set l \<and> account = accountInfo C k"
proof -
  have m: "m = fold put_buffer (zip l (map (accountInfo C) (map fst l))) []"
    using assms(1) by (simp add: getAccountsBuffer_eq)
  have "distinct (map fst m)" unfolding m by (rule distinct_fold_put) simp
  then have "map_of m k = Some (ty, account)" using assms(2) by (simp add: map_of_eq_Some_iff)
  then have "map_of (rev (map (\<lambda>(k, ty). (k, ty, accountInfo C k)) l)) k = Some (ty, account)"
    unfolding m by (simp only: map_of_fold_put zip_infos) (simp split: option.splits)
  then have "(k, ty, account) \<in> set (rev (map (\<lambda>(k, ty). (k, ty, accountInfo C k)) l))"
    by (rule map_of_SomeD)
  then show ?thesis by auto
qed

lemma deserialize_entry:
  assumes "deserializeAccountsBuffer C m = Inr vs" and "map_of m k = Some (ty, account)"
  shows "\<exists>data v. account = Some data \<and> decodeAccountTypeMapper C ty data = Inr v \<and> map_of vs k = Some v"
  using assms
proof (induction m arbitrary: vs)
  case Nil
  then show ?case by simp
next
  case (Cons x m)
  then show ?case by (cases x) (auto split: option.splits if_splits)
qed

text \<open>Accounts that are both read for their amount, or both for their supply, decode alike.\<close>

fun decoderOf :: "account_type \<Rightarrow> nat" where
  "decoderOf APY = 0"
| "decoderOf VAULT_A_RESERVE = 1"
| "decoderOf VAULT_B_RESERVE = 1"
| "decoderOf POOL_VAULT_A_LP = 1"
| "decoderOf POOL_VAULT_B_LP = 1"
| "decoderOf VAULT_A_LP = 2"
| "decoderOf VAULT_B_LP = 2"
| "decoderOf POOL_LP_MINT = 2"
| "decoderOf SYSVAR_CLOCK = 3"

lemma decoderOf_same:
  "decoderOf ty = decoderOf ty' \<Longrightarrow> decodeAccountTypeMapper C ty data = decodeAccountTypeMapper C ty' data"
  by (cases ty; cases ty') auto

lemma account_value:
  assumes "getAccountsBuffer C l = Inr m" and "deserializeAccountsBuffer C m = Inr vs"
    and "(k, ty) \<in> set l"
    and "\<And>ty'. (k, ty') \<in> set l \<Longrightarrow> decoderOf ty' = decoderOf ty"
  shows "\<exists>data v. accountInfo C k = Some data \<and> decodeAccountTypeMapper C ty data = Inr v \<and>
    map_of vs k = Some v"
proof -
  obtain ty' where ty': "(k, ty') \<in> set l" "map_of m k = Some (ty', accountInfo C k)"
    using buffer_entry [OF assms(1,3)] by blast
  with deserialize_entry [OF assms(2)] decoderOf_same [OF assms(4)] show ?thesis by metis
qed

section \<open>Depeg accounts\<close>

lemma setDepegAccounts_lookup:
  assumes "\<And>k a. (k, a) \<in> set kas \<Longrightarrow> a = f k"
  shows "setDepegAccounts kas m k = (if k \<in> fst ` set kas \<and> f k \<noteq> None then f k else m k)"
  using assms
proof (induction kas m rule: setDepegAccounts.induct)
  case (1 m)
  then show ?case by simp
next
  case (2 k' kas m)
  then have "f k' = None" by fastforce
  with 2 show ?case by auto
next
  case (3 k' data kas m)
  then have fk: "f k' = Some data" by fastforce
  have "setDepegAccounts kas (m(k' \<mapsto> data)) k =
      (if k \<in> fst ` set kas \<and> f k \<noteq> None then f k else (m(k' \<mapsto> data)) k)"
    using 3(2) by (intro 3(1)) simp
  with fk show ?case by (cases "k = k'") auto
qed

lemma getDepegAccounts_lookup:
  assumes "getDepegAccounts C ps = Inr m" and "p \<in> set ps" and "getStakePubkey p = Some k"
  shows "m k = accountInfo C k"
proof -
  let ?ks = "List.map_filter getStakePubkey ps"
  have k: "k \<in> set ?ks"
    using assms(2,3) by (induction ps) (auto simp: List.map_filter_simps split: option.splits)
  have m: "m = setDepegAccounts (zip ?ks (map (accountInfo C) ?ks)) Map.empty"
    using assms(1) by (simp add: getDepegAccounts_def chunked_infos Let_def)
  have "a = accountInfo C k'" if "(k', a) \<in> set (zip ?ks (map (accountInfo C) ?ks))" for k' a
    using that by (auto simp: set_zip)
  note lookup = setDepegAccounts_lookup [of "zip ?ks (map (accountInfo C) ?ks)" "accountInfo C" Map.empty k, OF this]
  have "k \<in> fst ` set (zip ?ks (map (accountInfo C) ?ks))"
    using k by (simp flip: set_map)
  with lookup show ?thesis unfolding m by auto
qed

section \<open>All pool states\<close>

lemma getAllPoolState_order:
  "(\<forall>rs. getAllPoolState C ks = Inr rs \<longrightarrow> length rs = length ks \<and>
     (\<forall>i < length ks. poolAccount C (ks ! i) = Some (fst (rs ! i)) \<and>
       (\<exists>data. accountInfo C (lpMint (fst (rs ! i))) = Some data \<and>
         decodeMintSupply C data = Inr (snd (rs ! i))))) \<and>
   ((\<exists>k \<in> set ks. poolAccount C k = None) \<longrightarrow>
     getAllPoolState C ks = Inl (InvariantViolation ''Some of the pool state not found''))"
proof -
  let ?states = "List.map_filter (poolAccount C) ks"
  have states: "length ?states \<le> length ks \<and> (length ?states = length ks \<longrightarrow>
      map (poolAccount C) ks = map Some ?states) \<and>
      ((\<exists>k \<in> set ks. poolAccount C k = None) \<longrightarrow> length ?states < length ks)"
    by (induction ks) (auto simp: List.map_filter_simps split: option.splits)
  have run: "getAllPoolState C ks = and_then (invariant (length ?states = length ks) ''Some of the pool state not found'')
      (\<lambda>_. all_results (withLpSupply C) (zip ?states (map (accountInfo C) (map lpMint ?states))))"
    by (simp add: getAllPoolState_def chunked_pools chunked_infos Let_def)
  have "poolAccount C (ks ! i) = Some (fst (rs ! i)) \<and>
      (\<exists>data. accountInfo C (lpMint (fst (rs ! i))) = Some data \<and> decodeMintSupply C data = Inr (snd (rs ! i)))"
    if rs: "getAllPoolState C ks = Inr rs" and i: "i < length ks" for rs i
  proof -
    from rs have len: "length ?states = length ks" and
      all: "all_results (withLpSupply C) (zip ?states (map (accountInfo C) (map lpMint ?states))) = Inr rs"
      unfolding run by auto
    have "withLpSupply C (?states ! i, accountInfo C (lpMint (?states ! i))) = Inr (rs ! i)"
      using all len i by (simp add: all_results_Inr_iff)
    moreover have "poolAccount C (ks ! i) = Some (?states ! i)"
      using states len i by (metis length_map nth_map)
    ultimately show ?thesis
      by (cases "rs ! i") (auto simp: withLpSupply_def split: option.splits)
  qed
  moreover have "length rs = length ks" if "getAllPoolState C ks = Inr rs" for rs
    using that unfolding run by (auto simp: all_results_Inr_iff)
  ultimately show ?thesis using states by (auto simp: run)
qed

section \<open>Properties\<close>

text \<open>
  Chunked requests lose and reorder nothing: with chunks of one to a hundred keys no request
  exceeds the limit of the RPC call, account infos come back key by key in order, and pool
  accounts come back in order with the missing ones left out.
\<close>

lemma chunked_fetch_complete:
  assumes "0 < n" and "n \<le> 100"
  shows "chunkedGetMultipleAccountInfos C pks n = Inr (map (accountInfo C) pks) \<and>
    chunkedFetchMultiplePoolAccount C pks n = Inr (List.map_filter (poolAccount C) pks) \<and>
    (\<exists>cs. chunks pks n = Inr cs \<and> concat cs = pks \<and> (\<forall>c \<in> set cs. 0 < length c \<and> length c \<le> n))"
  using chunked_infos [OF assms, of C pks] chunked_pools [OF assms, of C pks]
    chunks_facts [OF assms(1), of pks] by metis

definition example_chain :: chain where
  "example_chain = \<lparr>
     accountInfo = (\<lambda>k. if k = key 13 then Some (leBytes 8 4000) else if k = key 1 then Some (leBytes 8 77) else None),
     poolAccount = (\<lambda>k. if k = key 20 then Some (example_pool ConstantProductCurve) else None),
     lockEscrowAccount = Map.empty, poolAccounts = [], configAccounts = [], lockEscrowAccounts = [],
     tokenSupply = (\<lambda>k. Inr 0), tokenAccountBalance = (\<lambda>k. Inr 0), parsedTokenAmount = Map.empty,
     decodeAccountAmount = (\<lambda>data. Inr (leValue data)), decodeMintSupply = (\<lambda>data. Inr (leValue data)),
     SYSVAR_CLOCK_PUBKEY = key 99, parsedClockTime = None\<rparr>"

text \<open>
  \<open>getAllPoolState\<close> answers for every pool asked, in the order asked, with the supply decoded
  from that pool's own LP mint account; a single missing pool makes it raise.
\<close>

lemma all_pool_states_in_order:
  "(\<forall>rs. getAllPoolState C ks = Inr rs \<longrightarrow> length rs = length ks \<and>
     (\<forall>i < length ks. poolAccount C (ks ! i) = Some (fst (rs ! i)) \<and>
       (\<exists>data. accountInfo C (lpMint (fst (rs ! i))) = Some data \<and>
         decodeMintSupply C data = Inr (snd (rs ! i))))) \<and>
   ((\<exists>k \<in> set ks. poolAccount C k = None) \<longrightarrow>
     getAllPoolState C ks = Inl (InvariantViolation ''Some of the pool state not found''))"
  by (rule getAllPoolState_order)

text \<open>
  Reading a list of typed accounts into buffers and decoding them gives for every entry the
  value its own type decodes from the chain's data, also when a key occurs twice, provided its
  types read the same field; an entry whose account does not exist makes the decoding raise.
\<close>

lemma account_buffers_decode:
  assumes "getAccountsBuffer C l = Inr m" and "deserializeAccountsBuffer C m = Inr vs"
    and "(k, ty) \<in> set l" and "\<forall>ty'. (k, ty') \<in> set l \<longrightarrow> decoderOf ty' = decoderOf ty"
  shows "\<exists>data v. accountInfo C k = Some data \<and> decodeAccountTypeMapper C ty data = Inr v \<and>
    map_of vs k = Some v"
  using account_value [OF assms(1-3)] assms(4) by blast

end
