(* ===== verification/JsNumber.thy ===== *)
theory JsNumber
  imports AmmTypes "HOL-Library.Log_Nat"
begin

text \<open>
  Double precision numbers, and the slippage helpers of \<open>ts-client/src/amm/utils.ts\<close> that
  compute with them. A double is the rational number it stands for; an operation rounds the exact
  result to 53 significant bits, ties to even. The exponent range is left out: the numbers here
  are percentages between nothing and ten thousand and their quotients.
\<close>

section \<open>Rounding to a double\<close>

definition pow2 :: "int \<Rightarrow> rat" where
  "pow2 e = (if 0 \<le> e then 2 ^ nat e else 1 / 2 ^ nat (- e))"

definition round_half_even :: "rat \<Rightarrow> int" where
  "round_half_even q =
     (let f = \<lfloor>q\<rfloor>; r = q - of_int f in
      if r < 1 / 2 then f else if 1 / 2 < r then f + 1 else if even f then f else f + 1)"

text \<open>The exponent of the last bit of the double nearest to a positive number.\<close>

definition lastBit :: "rat \<Rightarrow> int" where
  "lastBit q =
     (let (n, d) = quotient_of q; e = bitlen n - bitlen d - 53 in
      if q < pow2 (e + 53) then e else e + 1)"

definition roundPos :: "rat \<Rightarrow> rat" where
  "roundPos q = of_int (round_half_even (q / pow2 (lastBit q))) * pow2 (lastBit q)"

definition toDouble :: "rat \<Rightarrow> rat" where
  "toDouble q = (if q = 0 then 0 else if 0 < q then roundPos q else - roundPos (- q))"

lemma pow2_pos [simp]: "0 < pow2 e"
  by (simp add: pow2_def)

lemma pow2_nonzero [simp]: "pow2 e \<noteq> 0"
  using pow2_pos [of e] by linarith

lemma pow2_add: "pow2 (a + b) = pow2 a * pow2 b"
proof -
  have p: "pow2 e = 2 powi e" for e
    by (auto simp: pow2_def power_int_def power_one_over)
  show ?thesis by (simp add: p power_int_add)
qed

lemma pow2_nat: "pow2 (int n) = 2 ^ n"
  by (simp add: pow2_def)

lemma half_cases:
  fixes r :: rat and f :: int
  defines "v \<equiv> (if r < 1 / 2 then f else if 1 / 2 < r then f + 1 else if even f then f else f + 1)"
  shows "v = f \<and> r \<le> 1 / 2 \<or> v = f + 1 \<and> 1 / 2 \<le> r"
  unfolding v_def by (cases "r < 1 / 2"; cases "1 / 2 < r"; cases "even f") simp_all

lemma round_half_even_near: "2 * \<bar>of_int (round_half_even q) - q\<bar> \<le> 1"
proof -
  have low: "of_int \<lfloor>q\<rfloor> \<le> q" and high: "q < of_int \<lfloor>q\<rfloor> + 1"
    using floor_correct [of q] by simp_all
  consider "round_half_even q = \<lfloor>q\<rfloor>" "q - of_int \<lfloor>q\<rfloor> \<le> 1 / 2"
    | "round_half_even q = \<lfloor>q\<rfloor> + 1" "1 / 2 \<le> q - of_int \<lfloor>q\<rfloor>"
    using half_cases [of "q - of_int \<lfloor>q\<rfloor>" "\<lfloor>q\<rfloor>"] by (auto simp only: round_half_even_def Let_def)
  then have "\<bar>of_int (round_half_even q) - q\<bar> \<le> 1 / 2"
  proof cases
    case 1
    show ?thesis unfolding 1(1) using low 1(2) by (intro abs_leI) linarith+
  next
    case 2
    show ?thesis unfolding 2(1) using high 2(2) by (intro abs_leI) (simp_all, linarith?)
  qed
  then show ?thesis by simp
qed

lemma round_half_even_ge: "of_int n \<le> q \<Longrightarrow> n \<le> round_half_even q"
proof -
  assume "of_int n \<le> q"
  then have "n \<le> \<lfloor>q\<rfloor>" by (simp add: le_floor_iff)
  then show ?thesis by (auto simp: round_half_even_def Let_def)
qed

lemma round_half_even_le: "q \<le> of_int n \<Longrightarrow> round_half_even q \<le> n"
proof -
  assume le: "q \<le> of_int n"
  have "of_int (round_half_even q) \<le> (of_int n :: rat) + 1 / 2"
    using round_half_even_near [of q] le by (auto simp: abs_if split: if_splits)
  then have "(of_int (round_half_even q) :: rat) < of_int (n + 1)" by simp
  then show ?thesis by (simp only: of_int_less_iff)
qed

lemma lastBit_bounds:
  assumes "0 < q"
  shows "2 ^ 52 * pow2 (lastBit q) \<le> q" "q < 2 ^ 53 * pow2 (lastBit q)"
proof -
  obtain n d where nd: "quotient_of q = (n, d)" by fastforce
  have d: "0 < d" using nd by (rule quotient_of_denom_pos)
  have q: "q = of_int n / of_int d" using nd by (rule quotient_of_div)
  with assms d have n: "0 < n" by (simp add: zero_less_divide_iff)
  let ?e = "bitlen n - bitlen d - 53"
  have len: "1 \<le> bitlen k" "pow2 (bitlen k - 1) \<le> of_int k" "of_int k < pow2 (bitlen k)" if "0 < k" for k
  proof -
    show ge: "1 \<le> bitlen k" using that bitlen_nonneg [of k] bitlen_eq_zero_iff [of k] by linarith
    have "2 ^ nat (bitlen k - 1) \<le> k" "k < 2 ^ nat (bitlen k)" using bitlen_bounds [OF that] by auto
    then have "(of_int (2 ^ nat (bitlen k - 1)) :: rat) \<le> of_int k"
      "(of_int k :: rat) < of_int (2 ^ nat (bitlen k))" by (simp_all only: of_int_le_iff of_int_less_iff)
    then show "pow2 (bitlen k - 1) \<le> of_int k" "of_int k < pow2 (bitlen k)"
      using ge by (simp_all add: pow2_def)
  qed
  have "pow2 (?e + 52) * of_int d \<le> pow2 (?e + 52) * pow2 (bitlen d)"
    using len(3) [OF d] by (intro mult_left_mono) (auto simp: less_imp_le)
  also have "\<dots> = pow2 (bitlen n - 1)" by (simp flip: pow2_add)
  also have "\<dots> \<le> of_int n" using n by (rule len)
  finally have low: "pow2 (?e + 52) \<le> q" using d by (simp add: q pos_le_divide_eq)
  have "of_int n < pow2 (bitlen n)" using n by (rule len)
  also have "\<dots> = pow2 (?e + 54) * pow2 (bitlen d - 1)" by (simp flip: pow2_add)
  also have "\<dots> \<le> pow2 (?e + 54) * of_int d"
    using len(2) [OF d] by (intro mult_left_mono) (auto simp: less_imp_le)
  finally have high: "q < pow2 (?e + 54)" using d by (simp add: q pos_divide_less_eq)
  have shift: "pow2 (k + 52) = 2 ^ 52 * pow2 k" "pow2 (k + 53) = 2 ^ 53 * pow2 k" for k
    using pow2_add [of k 52] pow2_add [of k 53] pow2_nat [of 52] pow2_nat [of 53] by simp_all
  have bit: "lastBit q = (if q < pow2 (?e + 53) then ?e else ?e + 1)"
    by (simp add: lastBit_def nd Let_def)
  have "2 ^ 52 * pow2 (lastBit q) \<le> q \<and> q < 2 ^ 53 * pow2 (lastBit q)"
  proof (cases "q < pow2 (?e + 53)")
    case True
    then show ?thesis using low shift [of ?e] by (simp add: bit)
  next
    case False
    then have "lastBit q = ?e + 1" by (simp only: bit if_False)
    moreover have "pow2 (?e + 53) = 2 ^ 52 * pow2 (?e + 1)" "pow2 (?e + 54) = 2 ^ 53 * pow2 (?e + 1)"
      using shift [of "?e + 1"] by (simp_all add: add.assoc)
    ultimately show ?thesis using high False by (simp only: not_less)
  qed
  then show "2 ^ 52 * pow2 (lastBit q) \<le> q" "q < 2 ^ 53 * pow2 (lastBit q)" by auto
qed

text \<open>Rounding moves a positive number by at most one part in \<open>2 ^ 53\<close>.\<close>

lemma roundPos_near:
  assumes "0 < q"
  shows "\<bar>roundPos q - q\<bar> \<le> q / 2 ^ 53"
proof -
  let ?s = "pow2 (lastBit q)" and ?k = "round_half_even (q / pow2 (lastBit q))"
  have "roundPos q - q = (of_int ?k - q / ?s) * ?s"
    by (simp add: roundPos_def left_diff_distrib)
  then have "\<bar>roundPos q - q\<bar> = \<bar>of_int ?k - q / ?s\<bar> * ?s" by (simp add: abs_mult less_imp_le)
  also have "\<dots> \<le> 1 / 2 * ?s"
    using round_half_even_near [of "q / ?s"] by (intro mult_right_mono) (auto simp: less_imp_le)
  also have "\<dots> \<le> q / 2 ^ 53" using lastBit_bounds(1) [OF assms] by simp
  finally show ?thesis .
qed

text \<open>Rounding does not cross a number that a double holds: a multiple of the last bit.\<close>

lemma pow2_integral: "0 \<le> e \<Longrightarrow> pow2 e = of_int (2 ^ nat e)"
  by (simp add: pow2_def)

lemma roundPos_ge:
  assumes "0 < n" and "n \<le> 2 ^ 52" and "of_int n \<le> q"
  shows "of_int n \<le> roundPos q"
proof -
  let ?s = "pow2 (lastBit q)"
  have q: "0 < q" using assms by (meson less_le_trans of_int_0_less_iff)
  show ?thesis
  proof (cases "lastBit q \<le> 0")
    case True
    let ?t = "2 ^ nat (- lastBit q) :: int"
    have st: "?s * of_int ?t = 1"
      using True pow2_add [of "lastBit q" "- lastBit q"] by (simp add: pow2_def)
    then have "of_int (n * ?t) * ?s = of_int n" by (simp add: ac_simps)
    then have eq: "of_int n / ?s = of_int (n * ?t)" by (simp add: field_simps)
    have "of_int n / ?s \<le> q / ?s" using assms by (intro divide_right_mono) (auto simp: less_imp_le)
    then have "n * ?t \<le> round_half_even (q / ?s)" unfolding eq by (rule round_half_even_ge)
    then have "of_int (n * ?t) * ?s \<le> roundPos q"
      unfolding roundPos_def by (intro mult_right_mono) (auto simp: less_imp_le simp del: of_int_mult)
    then show ?thesis unfolding \<open>of_int (n * ?t) * ?s = of_int n\<close> .
  next
    case False
    have "2 ^ 52 \<le> q / ?s" using lastBit_bounds(1) [OF q] by (simp add: pos_le_divide_eq)
    then have "2 ^ 52 \<le> round_half_even (q / ?s)" by (intro round_half_even_ge) simp
    then have "2 ^ 52 * ?s \<le> roundPos q"
      unfolding roundPos_def
      by (intro mult_right_mono) (auto simp: less_imp_le of_int_le_iff [of "2 ^ 52", symmetric])
    moreover have "1 \<le> ?s" using False by (simp add: pow2_def)
    then have "(2 ^ 52 :: rat) * 1 \<le> 2 ^ 52 * ?s" by (intro mult_left_mono) auto
    moreover have "(of_int n :: rat) \<le> of_int (2 ^ 52)" using assms(2) by (simp only: of_int_le_iff)
    ultimately show ?thesis by simp
  qed
qed

lemma roundPos_le:
  assumes "0 < q" and "n \<le> 2 ^ 52" and "q \<le> of_int n"
  shows "roundPos q \<le> of_int n"
proof -
  let ?s = "pow2 (lastBit q)"
  have "2 ^ 52 * ?s \<le> 2 ^ 52 * 1"
  proof -
    have "(of_int n :: rat) \<le> of_int (2 ^ 52)" using assms(2) by (simp only: of_int_le_iff)
    then show ?thesis using lastBit_bounds(1) [OF assms(1)] assms(3) by simp
  qed
  then have "?s \<le> 1" by simp
  moreover have "1 < ?s" if "0 < lastBit q" using that by (simp add: pow2_def)
  ultimately have e: "lastBit q \<le> 0" by fastforce
  let ?t = "2 ^ nat (- lastBit q) :: int"
  have st: "?s * of_int ?t = 1"
    using e pow2_add [of "lastBit q" "- lastBit q"] by (simp add: pow2_def)
  then have n: "of_int (n * ?t) * ?s = of_int n" by (simp add: ac_simps)
  then have eq: "of_int n / ?s = of_int (n * ?t)" by (simp add: field_simps)
  have "q / ?s \<le> of_int n / ?s" using assms by (intro divide_right_mono) (auto simp: less_imp_le)
  then have "round_half_even (q / ?s) \<le> n * ?t" unfolding eq by (rule round_half_even_le)
  then have "roundPos q \<le> of_int (n * ?t) * ?s"
    unfolding roundPos_def by (intro mult_right_mono) (auto simp: less_imp_le simp del: of_int_mult)
  then show ?thesis unfolding n .
qed

section \<open>Slippage\<close>

text \<open>
  \<open>new BN(number)\<close> drops the fraction of a number below \<open>2 ^ 53\<close> and refuses a larger one.
\<close>

definition truncateDouble :: "rat \<Rightarrow> int" where
  "truncateDouble q = (if 0 \<le> q then \<lfloor>q\<rfloor> else - \<lfloor>- q\<rfloor>)"

definition bnOfDouble :: "rat \<Rightarrow> int result" where
  "bnOfDouble q = (if \<bar>q\<bar> < 2 ^ 53 then Inr (truncateDouble q) else Inl UnsafeNumber)"

definition getMaxAmountWithSlippage :: "int \<Rightarrow> rat \<Rightarrow> int result" where
  "getMaxAmountWithSlippage amount slippageRate =
     (let slippage = toDouble (toDouble (toDouble (100 + slippageRate) / 100) * 10000) in
      and_then (bnOfDouble slippage) (\<lambda>s. trunc_div (amount * s) 10000))"

definition getMinAmountWithSlippage :: "int \<Rightarrow> rat \<Rightarrow> int result" where
  "getMinAmountWithSlippage amount slippageRate =
     (let slippage = toDouble (toDouble (toDouble (100 - slippageRate) / 100) * 10000) in
      and_then (bnOfDouble slippage) (\<lambda>s. trunc_div (amount * s) 10000))"

lemma toDouble_near: "0 \<le> q \<Longrightarrow> \<bar>toDouble q - q\<bar> \<le> q / 2 ^ 53"
  using roundPos_near [of q] by (cases "q = 0") (auto simp: toDouble_def)

lemma toDouble_ge: "0 < n \<Longrightarrow> n \<le> 2 ^ 52 \<Longrightarrow> of_int n \<le> q \<Longrightarrow> of_int n \<le> toDouble q"
  using roundPos_ge [of n q] by (auto simp: toDouble_def)

lemma toDouble_le: "0 < n \<Longrightarrow> n \<le> 2 ^ 52 \<Longrightarrow> 0 \<le> q \<Longrightarrow> q \<le> of_int n \<Longrightarrow> toDouble q \<le> of_int n"
  using roundPos_le [of q n] by (cases "q = 0") (auto simp: toDouble_def)

lemma toDouble_nonneg: "0 \<le> q \<Longrightarrow> 0 \<le> toDouble q"
  using lastBit_bounds(1) [of q] round_half_even_ge [of 0 "q / pow2 (lastBit q)"]
  by (cases "q = 0") (auto simp: toDouble_def roundPos_def less_imp_le)

text \<open>The three roundings of a percentage \<open>p\<close> into basis points.\<close>

definition basisPoints :: "rat \<Rightarrow> rat" where
  "basisPoints p = toDouble (toDouble (toDouble p / 100) * 10000)"

lemma basisPoints_near:
  assumes "0 \<le> p" and "p \<le> 200"
  shows "\<bar>basisPoints p - 100 * p\<bar> \<le> 1 / 10 ^ 6"
proof -
  define a where "a = toDouble p"
  define b where "b = toDouble (a / 100)"
  have a: "\<bar>a - p\<bar> \<le> p / 2 ^ 53" "0 \<le> a"
    unfolding a_def using toDouble_near [OF assms(1)] toDouble_nonneg [OF assms(1)] by simp_all
  then have b: "\<bar>b - a / 100\<bar> \<le> a / 100 / 2 ^ 53" "0 \<le> b"
    unfolding b_def by (intro toDouble_near toDouble_nonneg; simp)+
  then have c: "\<bar>basisPoints p - b * 10000\<bar> \<le> b * 10000 / 2 ^ 53"
    unfolding basisPoints_def a_def [symmetric] b_def [symmetric] by (intro toDouble_near) simp
  have pw: "(2 :: rat) ^ 53 = 9007199254740992" by simp
  note near = a(1) [unfolded pw abs_diff_le_iff] b(1) [unfolded pw abs_diff_le_iff]
    c [unfolded pw abs_diff_le_iff]
  have "a \<le> 201" using near(1) assms by linarith
  moreover from this have "b \<le> 3" using near(2) a(2) by linarith
  ultimately show ?thesis
    using near a(2) b(2) assms unfolding abs_diff_le_iff by simp
qed

lemma basisPoints_ge: "100 \<le> p \<Longrightarrow> 10000 \<le> basisPoints p"
proof -
  assume "100 \<le> p"
  then have "100 \<le> toDouble p" using toDouble_ge [of 100 p] by simp
  then have "1 \<le> toDouble (toDouble p / 100)" using toDouble_ge [of 1 "toDouble p / 100"] by simp
  then show ?thesis
    using toDouble_ge [of 10000 "toDouble (toDouble p / 100) * 10000"] by (simp add: basisPoints_def)
qed

lemma basisPoints_le: "0 \<le> p \<Longrightarrow> p \<le> 100 \<Longrightarrow> basisPoints p \<le> 10000"
proof -
  assume p: "0 \<le> p" "p \<le> 100"
  then have "0 \<le> toDouble p" "toDouble p \<le> 100" using toDouble_le [of 100 p] by (simp_all add: toDouble_nonneg)
  then have "0 \<le> toDouble (toDouble p / 100)" "toDouble (toDouble p / 100) \<le> 1"
    using toDouble_le [of 1 "toDouble p / 100"] by (simp_all add: toDouble_nonneg)
  then show ?thesis
    using toDouble_le [of 10000 "toDouble (toDouble p / 100) * 10000"] by (simp add: basisPoints_def)
qed

lemma basisPoints_nonneg: "0 \<le> p \<Longrightarrow> 0 \<le> basisPoints p"
  by (simp add: basisPoints_def toDouble_nonneg)

lemma bnOfDouble_basisPoints:
  assumes "0 \<le> p" and "p \<le> 200"
  shows "bnOfDouble (basisPoints p) = Inr \<lfloor>basisPoints p\<rfloor>"
proof -
  have "basisPoints p \<le> 1 / 10 ^ 6 + 100 * p" using basisPoints_near [OF assms] unfolding abs_diff_le_iff by linarith
  then have "basisPoints p < 2 ^ 53" using assms(2) by simp
  then show ?thesis
    using basisPoints_nonneg [OF assms(1)] by (simp add: bnOfDouble_def truncateDouble_def)
qed

lemma slippage_basisPoints:
  "getMaxAmountWithSlippage amount rate =
     and_then (bnOfDouble (basisPoints (100 + rate))) (\<lambda>s. trunc_div (amount * s) 10000)"
  "getMinAmountWithSlippage amount rate =
     and_then (bnOfDouble (basisPoints (100 - rate))) (\<lambda>s. trunc_div (amount * s) 10000)"
  by (simp_all add: getMaxAmountWithSlippage_def getMinAmountWithSlippage_def basisPoints_def)

lemma min_slippage_le:
  assumes "getMinAmountWithSlippage amount rate = Inr v" and "0 \<le> rate" and "rate \<le> 100" and "0 \<le> amount"
  shows "0 \<le> v" "v \<le> amount"
proof -
  have p: "0 \<le> 100 - rate" "100 - rate \<le> 100" "100 - rate \<le> 200" using assms by simp_all
  let ?f = "\<lfloor>basisPoints (100 - rate)\<rfloor>"
  have f: "0 \<le> ?f" "?f \<le> 10000"
    using basisPoints_nonneg [OF p(1)] basisPoints_le [OF p(1,2)] by (simp_all add: floor_le_iff)
  have "v = (amount * ?f) div 10000"
    using assms(1,4) f by (simp add: slippage_basisPoints bnOfDouble_basisPoints [OF p(1,3)] trunc_div_pos)
  moreover have "amount * ?f \<le> amount * 10000" "0 \<le> amount * ?f"
    using f assms(4) by (auto intro: mult_left_mono)
  ultimately show "0 \<le> v" "v \<le> amount" by auto
qed

lemma max_slippage_ge:
  assumes "getMaxAmountWithSlippage amount rate = Inr v" and "0 \<le> rate" and "rate \<le> 100" and "0 \<le> amount"
  shows "amount \<le> v"
proof -
  have p: "0 \<le> 100 + rate" "100 \<le> 100 + rate" "100 + rate \<le> 200" using assms by simp_all
  let ?f = "\<lfloor>basisPoints (100 + rate)\<rfloor>"
  have f: "10000 \<le> ?f" using basisPoints_ge [OF p(2)] by (simp add: le_floor_iff)
  have "v = (amount * ?f) div 10000"
    using assms(1,4) f by (simp add: slippage_basisPoints bnOfDouble_basisPoints [OF p(1,3)] trunc_div_pos)
  moreover have "amount * 10000 \<le> amount * ?f" using f assms(4) by (intro mult_left_mono) auto
  then have "(amount * 10000) div 10000 \<le> (amount * ?f) div 10000" by (intro zdiv_mono1) auto
  ultimately show ?thesis by simp
qed

section \<open>Properties\<close>

text \<open>
  For slippage rates between nothing and a hundred percent both helpers return, the minimum is
  between nothing and the amount, the maximum is at least the amount, and each applies a factor
  in whole basis points that is the exact one rounded down, up to a millionth, despite the
  double precision arithmetic.
\<close>

lemma slippage_bounds:
  assumes "0 \<le> rate" and "rate \<le> 100" and "0 \<le> amount"
  shows "\<exists>lo hi. getMinAmountWithSlippage amount rate = Inr ((amount * lo) div 10000) \<and>
    getMaxAmountWithSlippage amount rate = Inr ((amount * hi) div 10000) \<and>
    (amount * lo) div 10000 \<le> amount \<and> amount \<le> (amount * hi) div 10000 \<and> 0 \<le> lo \<and>
    100 * (100 - rate) - 1 - 1 / 10 ^ 6 < of_int lo \<and> of_int lo \<le> 100 * (100 - rate) + 1 / 10 ^ 6 \<and>
    100 * (100 + rate) - 1 - 1 / 10 ^ 6 < of_int hi \<and> of_int hi \<le> 100 * (100 + rate) + 1 / 10 ^ 6"
proof -
  let ?lo = "\<lfloor>basisPoints (100 - rate)\<rfloor>" and ?hi = "\<lfloor>basisPoints (100 + rate)\<rfloor>"
  have p: "0 \<le> 100 - rate" "100 - rate \<le> 200" "0 \<le> 100 + rate" "100 + rate \<le> 200"
    using assms by simp_all
  have pos: "0 \<le> ?lo" "0 \<le> ?hi"
    using basisPoints_nonneg [OF p(1)] basisPoints_nonneg [OF p(3)] by simp_all
  have run: "getMinAmountWithSlippage amount rate = Inr ((amount * ?lo) div 10000)"
    "getMaxAmountWithSlippage amount rate = Inr ((amount * ?hi) div 10000)"
    using pos assms(3)
    by (simp_all add: slippage_basisPoints bnOfDouble_basisPoints [OF p(1,2)]
        bnOfDouble_basisPoints [OF p(3,4)] trunc_div_pos)
  note near = basisPoints_near [OF p(1,2)] basisPoints_near [OF p(3,4)]
  have lo: "100 * (100 - rate) - 1 - 1 / 10 ^ 6 < of_int ?lo" "of_int ?lo \<le> 100 * (100 - rate) + 1 / 10 ^ 6"
    using near(1) floor_correct [of "basisPoints (100 - rate)"] unfolding abs_diff_le_iff
    by (simp_all only: of_int_add of_int_1) linarith+
  have hi: "100 * (100 + rate) - 1 - 1 / 10 ^ 6 < of_int ?hi" "of_int ?hi \<le> 100 * (100 + rate) + 1 / 10 ^ 6"
    using near(2) floor_correct [of "basisPoints (100 + rate)"] unfolding abs_diff_le_iff
    by (simp_all only: of_int_add of_int_1) linarith+
  from run lo hi pos min_slippage_le(2) [OF run(1) assms] max_slippage_ge [OF run(2) assms]
  show ?thesis by blast
qed

text \<open>
  At half a percent of slippage the maximum uses 10049 basis points, not 10050: the product
  with ten thousand falls just short of an integer and the fraction is dropped.
\<close>

lemma max_slippage_half_percent:
  "getMaxAmountWithSlippage amount (1 / 2) = trunc_div (amount * 10049) 10000"
proof -
  have "bnOfDouble (toDouble (toDouble (toDouble (100 + 1 / 2) / 100) * 10000)) = Inr 10049"
    by code_simp
  then show ?thesis by (simp add: getMaxAmountWithSlippage_def)
qed

end
