(* ===== verification/AmmImpl.thy ===== *)
theory AmmImpl
  imports Fetch JsNumber
begin

text \<open>
  The pool object, class \<open>AmmImpl\<close> of \<open>ts-client/src/amm/index.ts\<close>: its state, its getters and
  its quotes. The curve object normally shares its \<open>depeg\<close> object with the pool state, so an
  operation that refreshes the price cache through one of them shows in the other. The sharing
  ends when \<open>updateState\<close> has stored a new pool state and not yet built a new curve;
  \<open>ammSharesDepeg\<close> says whether it holds.
\<close>

section \<open>The object\<close>

record mint_info =
  mintAddress :: pubkey
  mintDecimals :: nat

record amm_impl =
  ammAddress :: pubkey
  ammProgramId :: pubkey
  ammTokenAMint :: mint_info
  ammTokenBMint :: mint_info
  ammPoolState :: pool_state
  ammLpSupply :: int
  ammPoolInfo :: pool_information
  ammVaultA :: vault_state
  ammVaultB :: vault_state
  ammAccountsInfo :: accounts_info
  ammSwapCurve :: swap_curve
  ammDepegAccounts :: "pubkey \<rightharpoonup> byte list"
  ammVaultAPda :: pubkey
  ammVaultBPda :: pubkey
  ammSharesDepeg :: bool

definition onSwapCurve :: "(swap_curve, 'a) action \<Rightarrow> (amm_impl, 'a) action" where
  "onSwapCurve m self =
     (fst (m (ammSwapCurve self)),
      self\<lparr>ammSwapCurve := snd (m (ammSwapCurve self)),
           ammPoolState := (if ammSharesDepeg self
             then storeDepeg (snd (m (ammSwapCurve self))) (ammPoolState self) else ammPoolState self)\<rparr>)"

fun loadDepeg :: "pool_state \<Rightarrow> swap_curve \<Rightarrow> swap_curve" where
  "loadDepeg ps CurveConstantProduct = CurveConstantProduct"
| "loadDepeg ps (CurveStable ss) =
     (case curveType ps of
        ConstantProductCurve \<Rightarrow> CurveStable ss
      | StableSwapCurve p \<Rightarrow> CurveStable (ss\<lparr>this_depeg := depegInfo p\<rparr>))"

definition onPoolState :: "(pool_state, 'a) action \<Rightarrow> (amm_impl, 'a) action" where
  "onPoolState m self =
     (fst (m (ammPoolState self)),
      self\<lparr>ammPoolState := snd (m (ammPoolState self)),
           ammSwapCurve := (if ammSharesDepeg self
             then loadDepeg (snd (m (ammPoolState self))) (ammSwapCurve self) else ammSwapCurve self)\<rparr>)"

section \<open>Getters\<close>

definition get_decimals :: "amm_impl \<Rightarrow> nat" where
  "get_decimals self = max (mintDecimals (ammTokenAMint self)) (mintDecimals (ammTokenBMint self))"

definition get_isStablePool :: "amm_impl \<Rightarrow> bool" where
  "get_isStablePool self =
     (case curveType (ammPoolState self) of StableSwapCurve p \<Rightarrow> True | ConstantProductCurve \<Rightarrow> False)"

definition get_isLST :: "amm_impl \<Rightarrow> bool" where
  "get_isLST self =
     (if \<not> get_isStablePool self then False
      else case curve_depeg (ammSwapCurve self) of
        None \<Rightarrow> False
      | Some d \<Rightarrow> depegType d \<noteq> DepegNone)"

definition get_feeBps :: "amm_impl \<Rightarrow> int result" where
  "get_feeBps self =
     trunc_div (tradeFeeNumerator (fees (ammPoolState self)) * 10000)
       (tradeFeeDenominator (fees (ammPoolState self)))"

definition get_depegToken :: "amm_impl \<Rightarrow> mint_info option result" where
  "get_depegToken self =
     (case curveType (ammPoolState self) of
       ConstantProductCurve \<Rightarrow> Inr None
     | StableSwapCurve p \<Rightarrow>
         let amountA = tokenAAmount (ammPoolInfo self); amountB = tokenBAmount (ammPoolInfo self);
             balanceA = amountA * tokenAMultiplier (tokenMultiplier p);
             balanceB = amountB * tokenBMultiplier (tokenMultiplier p);
             totalTokenBalance = balanceA + balanceB in
         if totalTokenBalance = 0 then Inr None
         else
           and_then (trunc_div (amountA * 2) totalTokenBalance) (\<lambda>qa.
           let isTokenADepeg = qa * 100 > 95 in
           and_then (trunc_div (amountB * 2) totalTokenBalance) (\<lambda>qb.
           let isTokenBDepeg = qb * 100 > 95 in
           Inr (if isTokenADepeg then Some (ammTokenAMint self)
                else if isTokenBDepeg then Some (ammTokenBMint self) else None))))"

section \<open>Swap quotes\<close>

text \<open>The parameters of \<open>calculateSwapQuote\<close> other than the pool state.\<close>

definition quoteParams :: "amm_impl \<Rightarrow> swap_quote_param result" where
  "quoteParams self =
     (let info = ammAccountsInfo self in
      and_then (toNumber (currentTime info)) (\<lambda>time.
      and_then (toNumber (currentSlot info)) (\<lambda>slot.
        Inr \<lparr>paramVaultA = ammVaultA self, paramVaultB = ammVaultB self,
             paramPoolVaultALp = poolVaultALp info, paramPoolVaultBLp = poolVaultBLp info,
             paramVaultALpSupply = vaultALpSupply info, paramVaultBLpSupply = vaultBLpSupply info,
             paramVaultAReserve = vaultAReserve info, paramVaultBReserve = vaultBReserve info,
             paramCurrentTime = time, paramCurrentSlot = slot,
             paramDepegAccounts = ammDepegAccounts self\<rparr>)))"

definition getSwapQuote ::
  "externals \<Rightarrow> pubkey \<Rightarrow> int \<Rightarrow> rat \<Rightarrow> pubkey option \<Rightarrow> (amm_impl, swap_quote) action" where
  "getSwapQuote X inTokenMint inAmountLamport slippage swapInitiator self =
     then_do (pure_step (quoteParams self)) (\<lambda>params.
     then_do (onPoolState (calculateSwapQuote X inTokenMint inAmountLamport params swapInitiator)) (\<lambda>q.
     pure_step (
       and_then (getMinAmountWithSlippage (amountOut q) slippage) (\<lambda>minOut.
         Inr \<lparr>swapInAmount = inAmountLamport, swapOutAmount = amountOut q, minSwapOutAmount = minOut,
              quoteFee = swapFee q, quotePriceImpact = swapPriceImpact q\<rparr>)))) self"

definition getMaxSwapOutAmount :: "pubkey \<Rightarrow> amm_impl \<Rightarrow> int result" where
  "getMaxSwapOutAmount tokenMint self =
     calculateMaxSwapOutAmount tokenMint (tokenAMint (ammPoolState self)) (tokenBMint (ammPoolState self))
       (tokenAAmount (ammPoolInfo self)) (tokenBAmount (ammPoolInfo self))
       (vaultAReserve (ammAccountsInfo self)) (vaultBReserve (ammAccountsInfo self))"

definition getMaxSwapInAmount :: "externals \<Rightarrow> pubkey \<Rightarrow> (amm_impl, int) action" where
  "getMaxSwapInAmount X tokenMint self =
     (let ps = ammPoolState self; info = ammPoolInfo self in
      then_do (pure_step (
        and_then (invariant (tokenMint = tokenAMint ps \<or> tokenMint = tokenBMint ps) ''Invalid mint'') (\<lambda>_.
        let (outTokenMint, swapSourceAmount, swapDestAmount, tradeDirection) =
          (if tokenMint = tokenAMint ps
           then (tokenBMint ps, tokenAAmount info, tokenBAmount info, AToB)
           else (tokenAMint ps, tokenBAmount info, tokenAAmount info, BToA)) in
        and_then (getMaxSwapOutAmount outTokenMint self) (\<lambda>maxOutAmount.
        let maxOutAmount = (if maxOutAmount = swapDestAmount then maxOutAmount - 1 else maxOutAmount) in
          Inr (maxOutAmount, swapSourceAmount, swapDestAmount, tradeDirection)))))
      (\<lambda>(maxOutAmount, swapSourceAmount, swapDestAmount, tradeDirection).
      then_do (onSwapCurve
        (curve_computeInAmount X maxOutAmount swapSourceAmount swapDestAmount tradeDirection))
      (\<lambda>maxInAmount.
      pure_step (
        and_then (calculateProtocolTradingFee maxInAmount ps) (\<lambda>adminFee.
        and_then (calculateTradingFee maxInAmount ps) (\<lambda>tradeFee.
          Inr (maxInAmount - adminFee - tradeFee)))))) self)"

section \<open>Shares and amounts\<close>

definition getShareByAmount :: "externals \<Rightarrow> int \<Rightarrow> int \<Rightarrow> int \<Rightarrow> bool \<Rightarrow> int result" where
  "getShareByAmount X amount tokenAmount lpTotal roundUp =
     (if tokenAmount = 0 then Inr 0
      else if roundUp then Inr (bnDivRound X (amount * lpTotal) tokenAmount)
      else trunc_div (amount * lpTotal) tokenAmount)"

definition getAmountByShare :: "externals \<Rightarrow> int \<Rightarrow> int \<Rightarrow> int \<Rightarrow> bool \<Rightarrow> int result" where
  "getAmountByShare X amount tokenAmount lpTotal roundUp =
     (if lpTotal = 0 then Inr 0
      else if roundUp then Inr (bnDivRound X (amount * tokenAmount) lpTotal)
      else trunc_div (amount * tokenAmount) lpTotal)"

definition computeActualInAmount ::
  "externals \<Rightarrow> int \<Rightarrow> int \<Rightarrow> int \<Rightarrow> int \<Rightarrow> int \<Rightarrow> int \<Rightarrow> int \<Rightarrow> int \<Rightarrow> (int \<times> int) result" where
  "computeActualInAmount X poolTokenAmount lpTotal poolALp poolBLp supplyA supplyB
     vaultAWithdrawableAmount vaultBWithdrawableAmount =
     and_then (getShareByAmount X poolTokenAmount lpTotal poolALp True) (\<lambda>aVaultLpMinted.
     and_then (getShareByAmount X poolTokenAmount lpTotal poolBLp True) (\<lambda>bVaultLpMinted.
     and_then (getAmountByShare X aVaultLpMinted vaultAWithdrawableAmount supplyA True) (\<lambda>actualA.
     and_then (getAmountByShare X bVaultLpMinted vaultBWithdrawableAmount supplyB True) (\<lambda>actualB.
       Inr (actualA, actualB)))))"

section \<open>Deposit quotes\<close>

text \<open>The literal \<open>0.998\<close> of \<open>constants.ts\<close>.\<close>

definition UNLOCK_AMOUNT_BUFFER :: rat where
  "UNLOCK_AMOUNT_BUFFER = toDouble (998 / 1000)"

text \<open>The end of both balanced branches for a constant product pool.\<close>

definition constantProductDeposit ::
  "externals \<Rightarrow> amm_impl \<Rightarrow> rat \<Rightarrow> int \<Rightarrow> int \<Rightarrow> int \<Rightarrow> int \<Rightarrow> deposit_quote result" where
  "constantProductDeposit X self slippage poolTokenOut bufferedOut vaultAWithdrawableAmount
     vaultBWithdrawableAmount =
     (let info = ammAccountsInfo self in
      and_then (computeActualInAmount X poolTokenOut (poolLpSupply info) (poolVaultALp info)
        (poolVaultBLp info) (vaultALpSupply info) (vaultBLpSupply info) vaultAWithdrawableAmount
        vaultBWithdrawableAmount) (\<lambda>(actualA, actualB).
      and_then (getMinAmountWithSlippage bufferedOut slippage) (\<lambda>minOut.
      and_then (getMaxAmountWithSlippage actualA slippage) (\<lambda>maxA.
      and_then (getMaxAmountWithSlippage actualB slippage) (\<lambda>maxB.
        Inr \<lparr>poolTokenAmountOut = bufferedOut, minPoolTokenAmountOut = minOut,
             tokenAInAmount = maxA, tokenBInAmount = maxB\<rparr>)))))"

definition getDepositQuote ::
  "externals \<Rightarrow> int \<Rightarrow> int \<Rightarrow> bool \<Rightarrow> rat \<Rightarrow> (amm_impl, deposit_quote) action" where
  "getDepositQuote X inA inB balance slippage self =
     (let info = ammAccountsInfo self; pool = ammPoolInfo self; isStable = get_isStablePool self in
      then_do (pure_step (
        and_then (invariant (\<not> (\<not> isStable \<and> inA \<noteq> 0 \<and> inB \<noteq> 0 \<and> poolLpSupply info \<noteq> 0))
          ''Constant product only supports balanced deposit'') (\<lambda>_.
        invariant (\<not> (inA \<noteq> 0 \<and> inB \<noteq> 0 \<and> balance))
          ''Deposit balance is not possible when both token in amount is non-zero''))) (\<lambda>_.
      if poolLpSupply info = 0 then
        then_do (onSwapCurve (curve_computeD X inA inB)) (\<lambda>out.
        pure_step (Inr \<lparr>poolTokenAmountOut = out, minPoolTokenAmountOut = out,
          tokenAInAmount = inA, tokenBInAmount = inB\<rparr>))
      else
        then_do (pure_step (
          and_then (toNumber (currentTime info)) (\<lambda>now.
          and_then (vsWithdrawable X now (ammVaultA self)) (\<lambda>wA.
          and_then (vsWithdrawable X now (ammVaultB self)) (\<lambda>wB. Inr (wA, wB)))))) (\<lambda>(wA, wB).
        if inA = 0 \<and> balance then
          pure_step (
            and_then (getShareByAmount X inB (tokenBAmount pool) (poolLpSupply info) False) (\<lambda>out.
            and_then (getMinAmountWithSlippage out UNLOCK_AMOUNT_BUFFER) (\<lambda>buffered.
            if isStable then
              and_then (getMinAmountWithSlippage buffered slippage) (\<lambda>minOut.
              and_then (trunc_div (inB * tokenAAmount pool) (tokenBAmount pool)) (\<lambda>matchA.
                Inr \<lparr>poolTokenAmountOut = buffered, minPoolTokenAmountOut = minOut,
                     tokenAInAmount = matchA, tokenBInAmount = inB\<rparr>))
            else constantProductDeposit X self slippage out buffered wA wB)))
        else if inB = 0 \<and> balance then
          pure_step (
            and_then (getShareByAmount X inA (tokenAAmount pool) (poolLpSupply info) False) (\<lambda>out.
            and_then (getMinAmountWithSlippage out UNLOCK_AMOUNT_BUFFER) (\<lambda>buffered.
            if isStable then
              and_then (getMinAmountWithSlippage buffered slippage) (\<lambda>minOut.
              and_then (trunc_div (inA * tokenBAmount pool) (tokenAAmount pool)) (\<lambda>matchB.
                Inr \<lparr>poolTokenAmountOut = buffered, minPoolTokenAmountOut = minOut,
                     tokenAInAmount = inA, tokenBInAmount = matchB\<rparr>))
            else constantProductDeposit X self slippage out buffered wA wB)))
        else
          then_do (pure_step (
            and_then (computeActualDepositAmount inA (tokenAAmount pool) (poolVaultALp info)
              (vaultALpSupply info) wA) (\<lambda>actualA.
            and_then (computeActualDepositAmount inB (tokenBAmount pool) (poolVaultBLp info)
              (vaultBLpSupply info) wB) (\<lambda>actualB. Inr (actualA, actualB))))) (\<lambda>(actualA, actualB).
          then_do (onSwapCurve (curve_computeImbalanceDeposit X actualA actualB (tokenAAmount pool)
            (tokenBAmount pool) (poolLpSupply info) (fees (ammPoolState self)))) (\<lambda>out.
          pure_step (
            and_then (getMinAmountWithSlippage out slippage) (\<lambda>minOut.
              Inr \<lparr>poolTokenAmountOut = out, minPoolTokenAmountOut = minOut,
                   tokenAInAmount = inA, tokenBInAmount = inB\<rparr>)))))) self)"

section \<open>Withdraw quotes\<close>

definition balancedWithdrawQuote ::
  "externals \<Rightarrow> int \<Rightarrow> rat \<Rightarrow> accounts_info \<Rightarrow> int \<Rightarrow> int \<Rightarrow> withdraw_quote result" where
  "balancedWithdrawQuote X withdrawTokenAmount slippage info wA wB =
     and_then (getShareByAmount X withdrawTokenAmount (poolLpSupply info) (poolVaultALp info) False)
       (\<lambda>vaultALpBurn.
     and_then (getShareByAmount X withdrawTokenAmount (poolLpSupply info) (poolVaultBLp info) False)
       (\<lambda>vaultBLpBurn.
     and_then (getAmountByShare X vaultALpBurn wA (vaultALpSupply info) False) (\<lambda>outA.
     and_then (getAmountByShare X vaultBLpBurn wB (vaultBLpSupply info) False) (\<lambda>outB.
     and_then (getMinAmountWithSlippage outA slippage) (\<lambda>minA.
     and_then (getMinAmountWithSlippage outB slippage) (\<lambda>minB.
       Inr \<lparr>poolTokenAmountIn = withdrawTokenAmount, minTokenAOutAmount = minA,
            minTokenBOutAmount = minB, tokenAOutAmount = outA, tokenBOutAmount = outB\<rparr>))))))"

definition getWithdrawQuote ::
  "externals \<Rightarrow> int \<Rightarrow> rat \<Rightarrow> pubkey option \<Rightarrow> (amm_impl, withdraw_quote) action" where
  "getWithdrawQuote X withdrawTokenAmount slippage tokenMint self =
     (let info = ammAccountsInfo self; pool = ammPoolInfo self in
      then_do (pure_step (
        and_then (toNumber (currentTime info)) (\<lambda>now.
        and_then (vsWithdrawable X now (ammVaultA self)) (\<lambda>wA.
        and_then (vsWithdrawable X now (ammVaultB self)) (\<lambda>wB. Inr (wA, wB)))))) (\<lambda>(wA, wB).
      case tokenMint of
        None \<Rightarrow> pure_step (balancedWithdrawQuote X withdrawTokenAmount slippage info wA wB)
      | Some mint \<Rightarrow>
          let isWithdrawingTokenA = (mint = mintAddress (ammTokenAMint self));
              isWithdrawingTokenB = (mint = mintAddress (ammTokenBMint self)) in
          then_do (pure_step (invariant (isWithdrawingTokenA \<or> isWithdrawingTokenB) ''Invalid mint''))
            (\<lambda>_.
          let tradeDirection = (if mint = tokenAMint (ammPoolState self) then BToA else AToB) in
          then_do (onSwapCurve (curve_computeWithdrawOne X withdrawTokenAmount (poolLpSupply info)
            (tokenAAmount pool) (tokenBAmount pool) (fees (ammPoolState self)) tradeDirection)) (\<lambda>out.
          let (supply, vaultTotalAmount) =
            (if tradeDirection = AToB then (vaultBLpSupply info, wB) else (vaultALpSupply info, wA)) in
          pure_step (
            and_then (trunc_div (out * supply) vaultTotalAmount) (\<lambda>vaultLpToBurn.
            and_then (trunc_div (vaultLpToBurn * vaultTotalAmount) supply) (\<lambda>realOutAmount.
            and_then (getMinAmountWithSlippage realOutAmount slippage) (\<lambda>minRealOutAmount.
              Inr \<lparr>poolTokenAmountIn = withdrawTokenAmount,
                   minTokenAOutAmount = (if isWithdrawingTokenA then minRealOutAmount else 0),
                   minTokenBOutAmount = (if isWithdrawingTokenB then minRealOutAmount else 0),
                   tokenAOutAmount = (if isWithdrawingTokenA then realOutAmount else 0),
                   tokenBOutAmount = (if isWithdrawingTokenB then realOutAmount else 0)\<rparr>))))))) self)"

section \<open>Locked liquidity and balances\<close>

definition getLockedAtaAmount :: "chain \<Rightarrow> address_fns \<Rightarrow> amm_impl \<Rightarrow> int" where
  "getLockedAtaAmount C F self =
     (case tokenAccountBalance C (getAssociatedTokenAccount F (lpMint (ammPoolState self)) (ammAddress self)) of
        Inl e \<Rightarrow> 0
      | Inr amount \<Rightarrow> amount)"

definition getLockedLpAmount :: "chain \<Rightarrow> address_fns \<Rightarrow> amm_impl \<Rightarrow> int" where
  "getLockedLpAmount C F self = getLockedAtaAmount C F self + totalLockedLp (ammPoolState self)"

definition getPoolTokenMint :: "amm_impl \<Rightarrow> pubkey" where
  "getPoolTokenMint self = lpMint (ammPoolState self)"

definition getLpSupply :: "chain \<Rightarrow> amm_impl \<Rightarrow> int result" where
  "getLpSupply C self = tokenSupply C (lpMint (ammPoolState self))"

definition getUserBalance :: "chain \<Rightarrow> address_fns \<Rightarrow> pubkey \<Rightarrow> amm_impl \<Rightarrow> int" where
  "getUserBalance C F owner self =
     (case parsedTokenAmount C (getAssociatedTokenAccount F (lpMint (ammPoolState self)) owner) of
        None \<Rightarrow> 0
      | Some amount \<Rightarrow> amount)"

record lock_escrow =
  escrowAddress :: pubkey
  escrowAmount :: int
  claimedTokenA :: int
  claimedTokenB :: int
  unclaimedLp :: int
  unclaimedTokenA :: int
  unclaimedTokenB :: int

definition getUserLockEscrow ::
  "externals \<Rightarrow> chain \<Rightarrow> address_fns \<Rightarrow> pubkey \<Rightarrow> (amm_impl, lock_escrow option) action" where
  "getUserLockEscrow X C F owner self =
     (let lockEscrowPK = fst (deriveLockEscrowPda F (ammAddress self) owner (ammProgramId self)) in
      case lockEscrowAccount C lockEscrowPK of
        None \<Rightarrow> (Inr None, self)
      | Some acc \<Rightarrow>
          then_do (pure_step (
            and_then (tokenAccountBalance C (leEscrowVault acc)) (\<lambda>escrowVaultAmount.
            and_then (calculateUnclaimedLockEscrowFee (leTotalLockedAmount acc) (leLpPerToken acc)
              (leUnclaimedFeePending acc) (virtualPriceRaw (ammPoolInfo self))) (\<lambda>unClaimedFee.
              Inr (if unClaimedFee > escrowVaultAmount then escrowVaultAmount else unClaimedFee)))))
            (\<lambda>unclaimedFeeCap.
          then_do (getWithdrawQuote X unclaimedFeeCap 0 None) (\<lambda>q.
          pure_step (Inr (Some
            \<lparr>escrowAddress = lockEscrowPK, escrowAmount = leTotalLockedAmount acc,
             claimedTokenA = leAFee acc, claimedTokenB = leBFee acc, unclaimedLp = unclaimedFeeCap,
             unclaimedTokenA = tokenAOutAmount q, unclaimedTokenB = tokenBOutAmount q\<rparr>)))) self)"

section \<open>Conversions that round down\<close>

text \<open>
  A conversion of \<open>a\<close> parts of \<open>m\<close> into parts of \<open>n\<close> that rounds down. Shares and amounts of
  pools and vaults and trade fees are all of this kind.
\<close>

locale rounding_down =
  fixes convert :: "int \<Rightarrow> int \<Rightarrow> int \<Rightarrow> int result"
  assumes rounds: "0 \<le> a \<Longrightarrow> 0 \<le> n \<Longrightarrow> 0 < m \<Longrightarrow>
    \<exists>v. convert a n m = Inr v \<and> v * m \<le> a * n \<and> a * n < (v + 1) * m"
begin

lemma convert_exact: "0 \<le> a \<Longrightarrow> 0 \<le> n \<Longrightarrow> 0 < m \<Longrightarrow> convert a n m = Inr ((a * n) div m)"
proof -
  assume "0 \<le> a" "0 \<le> n" and m: "0 < m"
  with rounds obtain v where v: "convert a n m = Inr v" "v * m \<le> a * n" "a * n < (v + 1) * m" by blast
  have "(a * n) div m = v"
    using le_div_of_mult_le [OF m v(2)] div_lt_of_lt_mult [OF m v(3)] by linarith
  with v(1) show ?thesis by simp
qed

lemma convert_bounds:
  assumes "convert a n m = Inr v" and "0 \<le> a" "0 \<le> n" "0 < m"
  shows "0 \<le> v" "v * m \<le> a * n" "n \<le> m \<Longrightarrow> v \<le> a"
proof -
  have v: "v = (a * n) div m" using convert_exact [OF assms(2-4)] assms(1) by simp
  show "0 \<le> v" unfolding v using assms by (intro div_nonneg) auto
  show "v * m \<le> a * n" unfolding v using assms(4) by (rule div_times_le)
  show "v \<le> a" if "n \<le> m" unfolding v using mul_div_bounds(2) [OF assms(3) that assms(4,2)] .
qed

lemma convert_split:
  assumes "convert a n m = Inr u" and "convert b n m = Inr v" and "convert (a + b) n m = Inr w"
    and "0 \<le> a" "0 \<le> b" "0 \<le> n" "0 < m"
  shows "u + v \<le> w" "w \<le> u + v + 1"
proof -
  have uvw: "u = (a * n) div m" "v = (b * n) div m" "w = ((a + b) * n) div m"
    using convert_exact [OF assms(4,6,7)] convert_exact [OF assms(5,6,7)] convert_exact [of "a + b" n m] assms by simp_all
  have "(u + v) * m \<le> (a + b) * n"
    using div_times_le [OF assms(7), of "a * n"] div_times_le [OF assms(7), of "b * n"]
    by (simp add: uvw distrib_right)
  then show "u + v \<le> w" unfolding uvw(3) using assms(7) by (intro le_div_of_mult_le)
  have "(a + b) * n < (u + v + 2) * m"
    using lt_Suc_div_times [OF assms(7), of "a * n"] lt_Suc_div_times [OF assms(7), of "b * n"]
    by (simp add: uvw distrib_right)
  then have "w < u + v + 2" unfolding uvw(3) using assms(7) by (intro div_lt_of_lt_mult)
  then show "w \<le> u + v + 1" by simp
qed

lemma convert_mono:
  assumes "convert a n m = Inr u" and "convert b n m = Inr v" and "0 \<le> a" "a \<le> b" "0 \<le> n" "0 < m"
  shows "u \<le> v"
proof -
  have "a * n \<le> b * n" using assms by (intro mult_right_mono) auto
  then show ?thesis
    using convert_exact [OF assms(3,5,6)] convert_exact [of b n m] assms by (auto intro: zdiv_mono1)
qed

end

lemma floor_bounds: "0 < m \<Longrightarrow> (x :: int) div m * m \<le> x \<and> x < (x div m + 1) * m"
  using div_times_le [of m x] lt_Suc_div_times [of m x] by simp

interpretation poolShare: rounding_down "\<lambda>a n m. getShareByAmount X a m n False" for X
  by unfold_locales (use floor_bounds in \<open>auto simp: getShareByAmount_def trunc_div_pos\<close>)

interpretation shareAmount: rounding_down "\<lambda>a n m. getAmountByShare X a n m False" for X
  by unfold_locales (use floor_bounds in \<open>auto simp: getAmountByShare_def trunc_div_pos\<close>)

interpretation quotient: rounding_down "\<lambda>a n m. trunc_div (a * n) m"
  by unfold_locales (use floor_bounds in \<open>auto simp: trunc_div_pos\<close>)

section \<open>The balanced withdrawal\<close>

text \<open>The accounts of a pool in order: shares have been issued and the pool owns part of both vaults.\<close>

definition sound_accounts :: "accounts_info \<Rightarrow> bool" where
  "sound_accounts info \<longleftrightarrow> 0 < poolLpSupply info \<and>
     0 < vaultALpSupply info \<and> 0 \<le> poolVaultALp info \<and> poolVaultALp info \<le> vaultALpSupply info \<and>
     0 < vaultBLpSupply info \<and> 0 \<le> poolVaultBLp info \<and> poolVaultBLp info \<le> vaultBLpSupply info"

text \<open>
  Neither of the two vaults of the object has locked more profit than it holds: the withdrawable
  amounts that the vault SDK reports for them are not negative.
\<close>

definition solvent_vaults :: "externals \<Rightarrow> amm_impl \<Rightarrow> bool" where
  "solvent_vaults X self \<longleftrightarrow>
     (\<forall>v w. v \<in> {ammVaultA self, ammVaultB self} \<longrightarrow>
        vsWithdrawable X (currentTime (ammAccountsInfo self)) v = Inr w \<longrightarrow> 0 \<le> w)"

text \<open>One side of a balanced withdrawal: pool shares to vault shares to tokens.\<close>

definition withdrawSide :: "externals \<Rightarrow> int \<Rightarrow> int \<Rightarrow> int \<Rightarrow> int \<Rightarrow> int \<Rightarrow> int result" where
  "withdrawSide X amount lpTotal poolLp w supply =
     and_then (getShareByAmount X amount lpTotal poolLp False) (\<lambda>burn.
       getAmountByShare X burn w supply False)"

lemma withdrawSide_value:
  assumes "0 \<le> amount" "0 < lpTotal" "0 \<le> poolLp" "0 \<le> w" "0 < supply"
  shows "withdrawSide X amount lpTotal poolLp w supply =
    Inr (((amount * poolLp) div lpTotal * w) div supply)" "0 \<le> ((amount * poolLp) div lpTotal * w) div supply"
proof -
  have "0 \<le> (amount * poolLp) div lpTotal" using assms by (intro div_nonneg) auto
  then show "withdrawSide X amount lpTotal poolLp w supply =
    Inr (((amount * poolLp) div lpTotal * w) div supply)" "0 \<le> ((amount * poolLp) div lpTotal * w) div supply"
    using poolShare.convert_exact [of amount poolLp lpTotal X] assms
      shareAmount.convert_exact [of "(amount * poolLp) div lpTotal" w "supply" X]
    by (auto simp: withdrawSide_def intro!: div_nonneg)
qed

lemma withdrawSide_fair:
  assumes "withdrawSide X amount lpTotal poolLp w supply = Inr v"
    and "0 \<le> amount" "0 < lpTotal" "0 \<le> poolLp" "0 \<le> w" "0 < supply"
  shows "v * supply * lpTotal \<le> amount * poolLp * w"
proof -
  let ?burn = "(amount * poolLp) div lpTotal"
  have v: "v = (?burn * w) div supply" using withdrawSide_value(1) [OF assms(2-6), of X] assms(1) by simp
  have "v * supply * lpTotal \<le> ?burn * w * lpTotal"
    using div_times_le [OF assms(6), of "?burn * w"] assms(3) v by (intro mult_right_mono) auto
  also have "\<dots> = (?burn * lpTotal) * w" by (simp add: ac_simps)
  also have "\<dots> \<le> amount * poolLp * w"
    using div_times_le [OF assms(3), of "amount * poolLp"] assms(5) by (intro mult_right_mono)
  finally show ?thesis .
qed

lemma withdrawSide_split:
  assumes "withdrawSide X a lpTotal poolLp w supply = Inr u" and "withdrawSide X b lpTotal poolLp w supply = Inr v"
    and "withdrawSide X (a + b) lpTotal poolLp w supply = Inr r"
    and "0 \<le> a" "0 \<le> b" "0 < lpTotal" "0 \<le> poolLp" "0 \<le> w" "0 < supply"
  shows "u + v \<le> r"
proof -
  from assms(1-3) obtain ba bb bab where
    burn: "getShareByAmount X a lpTotal poolLp False = Inr ba"
      "getShareByAmount X b lpTotal poolLp False = Inr bb"
      "getShareByAmount X (a + b) lpTotal poolLp False = Inr bab" and
    out: "getAmountByShare X ba w supply False = Inr u" "getAmountByShare X bb w supply False = Inr v"
      "getAmountByShare X bab w supply False = Inr r"
    by (auto simp: withdrawSide_def)
  have nn: "0 \<le> ba" "0 \<le> bb"
    using poolShare.convert_bounds(1) burn(1,2) assms(4-7) by blast+
  have le: "ba + bb \<le> bab" using poolShare.convert_split(1) [OF burn] assms(4-7) by simp
  obtain s where s: "getAmountByShare X (ba + bb) w supply False = Inr s"
    using shareAmount.convert_exact [of "ba + bb" w "supply" X] nn assms(8,9) by simp
  have "u + v \<le> s" using shareAmount.convert_split(1) [OF out(1,2) s] nn assms(8,9) by simp
  also have "s \<le> r" using shareAmount.convert_mono [OF s out(3)] nn le assms(8,9) by simp
  finally show ?thesis .
qed

lemma balancedWithdraw_cases:
  assumes "getWithdrawQuote X amount slippage None self = (Inr q, self')"
  defines "info \<equiv> ammAccountsInfo self"
  obtains wA wB where "self' = self"
    and "vsWithdrawable X (currentTime info) (ammVaultA self) = Inr wA"
    and "vsWithdrawable X (currentTime info) (ammVaultB self) = Inr wB"
    and "withdrawSide X amount (poolLpSupply info) (poolVaultALp info) wA (vaultALpSupply info) = Inr (tokenAOutAmount q)"
    and "withdrawSide X amount (poolLpSupply info) (poolVaultBLp info) wB (vaultBLpSupply info) = Inr (tokenBOutAmount q)"
    and "getMinAmountWithSlippage (tokenAOutAmount q) slippage = Inr (minTokenAOutAmount q)"
    and "getMinAmountWithSlippage (tokenBOutAmount q) slippage = Inr (minTokenBOutAmount q)"
    and "poolTokenAmountIn q = amount"
  using assms
  by (auto simp: getWithdrawQuote_def balancedWithdrawQuote_def withdrawSide_def Let_def toNumber_eq_Inr_iff)

lemma quoteParams_Inr:
  assumes "quoteParams self = Inr params"
  shows "safe_clock params" "paramCurrentTime params = currentTime (ammAccountsInfo self)"
    "sideReserve isA params = (if isA then vaultAReserve (ammAccountsInfo self) else vaultBReserve (ammAccountsInfo self))"
  using assms by (auto simp: quoteParams_def Let_def toNumber_eq_Inr_iff safe_clock_def sideReserve_def)

lemma getSwapQuote_cases:
  assumes "getSwapQuote X mint x slippage who self = (Inr q, self')"
  obtains params r ps' where "quoteParams self = Inr params"
    and "calculateSwapQuote X mint x params who (ammPoolState self) = (Inr r, ps')"
    and "self' = self\<lparr>ammPoolState := ps',
      ammSwapCurve := (if ammSharesDepeg self then loadDepeg ps' (ammSwapCurve self) else ammSwapCurve self)\<rparr>"
    and "getMinAmountWithSlippage (amountOut r) slippage = Inr (minSwapOutAmount q)"
    and "q = \<lparr>swapInAmount = x, swapOutAmount = amountOut r, minSwapOutAmount = minSwapOutAmount q,
      quoteFee = swapFee r, quotePriceImpact = swapPriceImpact r\<rparr>"
proof -
  from assms obtain params r where "quoteParams self = Inr params"
    "onPoolState (calculateSwapQuote X mint x params who) self = (Inr r, self')"
    "getMinAmountWithSlippage (amountOut r) slippage = Inr (minSwapOutAmount q)"
    "q = \<lparr>swapInAmount = x, swapOutAmount = amountOut r, minSwapOutAmount = minSwapOutAmount q,
      quoteFee = swapFee r, quotePriceImpact = swapPriceImpact r\<rparr>"
    by (auto simp: getSwapQuote_def)
  then show ?thesis by (intro that) (auto simp: onPoolState_def prod_eq_iff)
qed

lemma loadDepeg_again: "loadDepeg ps (loadDepeg ps c) = loadDepeg ps c"
  by (cases c; cases "curveType ps") simp_all

section \<open>Properties\<close>

text \<open>
  C28: A balanced withdrawal pays at most the fair part of both vaults: the withdrawn share of the
  pool's shares of each vault, rounded down at every step; the minimum outputs do not exceed the
  outputs, and the object is unchanged. The two vaults must not have locked more profit than they
  hold.
\<close>

theorem balanced_withdraw_fair:
  assumes "getWithdrawQuote X amount slippage None self = (Inr q, self')"
    and "sound_accounts (ammAccountsInfo self)" and "0 \<le> amount" and "0 \<le> slippage" and "slippage \<le> 100"
    and "solvent_vaults X self"
  shows "self' = self \<and> minTokenAOutAmount q \<le> tokenAOutAmount q \<and> minTokenBOutAmount q \<le> tokenBOutAmount q \<and>
    (let info = ammAccountsInfo self in \<exists>wA wB.
      vsWithdrawable X (currentTime info) (ammVaultA self) = Inr wA \<and>
      vsWithdrawable X (currentTime info) (ammVaultB self) = Inr wB \<and>
      tokenAOutAmount q * vaultALpSupply info * poolLpSupply info \<le> amount * poolVaultALp info * wA \<and>
      tokenBOutAmount q * vaultBLpSupply info * poolLpSupply info \<le> amount * poolVaultBLp info * wB)"
proof -
  let ?info = "ammAccountsInfo self"
  from assms(1) obtain wA wB where self: "self' = self" and
    w: "vsWithdrawable X (currentTime ?info) (ammVaultA self) = Inr wA"
      "vsWithdrawable X (currentTime ?info) (ammVaultB self) = Inr wB" and
    outA: "withdrawSide X amount (poolLpSupply ?info) (poolVaultALp ?info) wA (vaultALpSupply ?info) = Inr (tokenAOutAmount q)" and
    outB: "withdrawSide X amount (poolLpSupply ?info) (poolVaultBLp ?info) wB (vaultBLpSupply ?info) = Inr (tokenBOutAmount q)" and
    mins: "getMinAmountWithSlippage (tokenAOutAmount q) slippage = Inr (minTokenAOutAmount q)"
      "getMinAmountWithSlippage (tokenBOutAmount q) slippage = Inr (minTokenBOutAmount q)"
    by (rule balancedWithdraw_cases)
  from assms(2) have sound: "0 < poolLpSupply ?info" "0 \<le> poolVaultALp ?info" "0 < vaultALpSupply ?info"
    "0 \<le> poolVaultBLp ?info" "0 < vaultBLpSupply ?info" by (auto simp: sound_accounts_def)
  have wnn: "0 \<le> wA" "0 \<le> wB" using assms(6) w unfolding solvent_vaults_def by blast+
  have nn: "0 \<le> tokenAOutAmount q" "0 \<le> tokenBOutAmount q"
    using withdrawSide_value(1) [OF assms(3) sound(1,2) wnn(1) sound(3), of X] outA
      withdrawSide_value(2) [OF assms(3) sound(1,2) wnn(1) sound(3)]
      withdrawSide_value(1) [OF assms(3) sound(1,4) wnn(2) sound(5), of X] outB
      withdrawSide_value(2) [OF assms(3) sound(1,4) wnn(2) sound(5)] by simp_all
  show ?thesis
    using self w withdrawSide_fair [OF outA assms(3) sound(1,2) wnn(1) sound(3)]
      withdrawSide_fair [OF outB assms(3) sound(1,4) wnn(2) sound(5)]
      min_slippage_le(2) [OF mins(1) assms(4,5) nn(1)] min_slippage_le(2) [OF mins(2) assms(4,5) nn(2)]
    by (auto simp: Let_def)
qed

definition example_amm :: "curve_type \<Rightarrow> swap_curve \<Rightarrow> amm_impl" where
  "example_amm ct c = \<lparr>ammAddress = key 20, ammProgramId = PROGRAM_ID,
     ammTokenAMint = \<lparr>mintAddress = key 2, mintDecimals = 6\<rparr>,
     ammTokenBMint = \<lparr>mintAddress = key 3, mintDecimals = 6\<rparr>,
     ammPoolState = example_pool ct, ammLpSupply = 1500000,
     ammPoolInfo = \<lparr>tokenAAmount = 1200000, tokenBAmount = 2153846, virtualPrice = DecimalQuotient 1 1,
       virtualPriceRaw = 2 ^ 64\<rparr>,
     ammVaultA = example_vault 3000000, ammVaultB = example_vault 7000000,
     ammAccountsInfo = \<lparr>vaultAReserve = 2900000, vaultBReserve = 6900000, vaultALpSupply = 2500000,
       vaultBLpSupply = 6500000, poolVaultALp = 1000000, poolVaultBLp = 2000000, poolLpSupply = 1500000,
       currentTime = 1000, currentSlot = 300\<rparr>,
     ammSwapCurve = c, ammDepegAccounts = Map.empty, ammVaultAPda = key 4, ammVaultBPda = key 5,
     ammSharesDepeg = True\<rparr>"

lemma min_one_percent: "getMinAmountWithSlippage amount 1 = trunc_div (amount * 9900) 10000"
proof -
  have "bnOfDouble (toDouble (toDouble (toDouble (100 - 1) / 100) * 10000)) = Inr 9900" by code_simp
  then show ?thesis by (simp add: getMinAmountWithSlippage_def)
qed

lemma max_one_percent: "getMaxAmountWithSlippage amount 1 = trunc_div (amount * 10100) 10000"
proof -
  have "bnOfDouble (toDouble (toDouble (toDouble (100 + 1) / 100) * 10000)) = Inr 10100" by code_simp
  then show ?thesis by (simp add: getMaxAmountWithSlippage_def)
qed

lemma min_unlock_buffer: "getMinAmountWithSlippage amount UNLOCK_AMOUNT_BUFFER = trunc_div (amount * 9900) 10000"
proof -
  have "bnOfDouble (toDouble (toDouble (toDouble (100 - UNLOCK_AMOUNT_BUFFER) / 100) * 10000)) = Inr 9900"
    by code_simp
  then show ?thesis by (simp add: getMinAmountWithSlippage_def)
qed

lemmas example_withdrawal = getWithdrawQuote_def balancedWithdrawQuote_def getShareByAmount_def
  getAmountByShare_def min_one_percent trunc_div_pos toNumber_def example_externals_def example_amm_def
  example_vault_def Let_def

theorem balanced_withdraw_fair_witness:
  "\<exists>q. fst (getWithdrawQuote example_externals 300000 1 None (example_amm ConstantProductCurve CurveConstantProduct)) =
      Inr q \<and> minTokenAOutAmount q \<le> tokenAOutAmount q \<and>
    tokenAOutAmount q * 2500000 * 1500000 \<le> 300000 * 1000000 * (3000000 :: int)"
proof -
  let ?amm = "example_amm ConstantProductCurve CurveConstantProduct"
  let ?q = "\<lparr>poolTokenAmountIn = 300000, minTokenAOutAmount = 237600, minTokenBOutAmount = 426461,
    tokenAOutAmount = 240000, tokenBOutAmount = 430769\<rparr>"
  have "fst (getWithdrawQuote example_externals 300000 1 None ?amm) = Inr ?q"
    by (simp add: example_withdrawal)
  then obtain self' where run: "getWithdrawQuote example_externals 300000 1 None ?amm = (Inr ?q, self')"
    by (metis prod.collapse)
  have "sound_accounts (ammAccountsInfo ?amm)" by (simp add: sound_accounts_def example_amm_def)
  from balanced_withdraw_fair [OF run this] run show ?thesis
    by (auto simp: example_externals_def example_amm_def example_vault_def solvent_vaults_def)
qed

text \<open>
  Splitting a balanced withdrawal in two never pays more of either token than one withdrawal.
\<close>

lemma withdraw_no_split_gain:
  assumes "getWithdrawQuote X a slippage None self = (Inr qa, self1)"
    and "getWithdrawQuote X b slippage None self = (Inr qb, self2)"
    and "getWithdrawQuote X (a + b) slippage None self = (Inr q, self3)"
    and "sound_accounts (ammAccountsInfo self)" and "solvent_vaults X self" and "0 \<le> a" and "0 \<le> b"
  shows "tokenAOutAmount qa + tokenAOutAmount qb \<le> tokenAOutAmount q \<and>
    tokenBOutAmount qa + tokenBOutAmount qb \<le> tokenBOutAmount q"
proof -
  let ?info = "ammAccountsInfo self"
  from assms(4) have sound: "0 < poolLpSupply ?info" "0 \<le> poolVaultALp ?info" "0 < vaultALpSupply ?info"
    "0 \<le> poolVaultBLp ?info" "0 < vaultBLpSupply ?info" by (auto simp: sound_accounts_def)
  have sides: "\<exists>wA wB. vsWithdrawable X (currentTime ?info) (ammVaultA self) = Inr wA \<and>
      vsWithdrawable X (currentTime ?info) (ammVaultB self) = Inr wB \<and>
      withdrawSide X n (poolLpSupply ?info) (poolVaultALp ?info) wA (vaultALpSupply ?info) = Inr (tokenAOutAmount r) \<and>
      withdrawSide X n (poolLpSupply ?info) (poolVaultBLp ?info) wB (vaultBLpSupply ?info) = Inr (tokenBOutAmount r)"
    if "getWithdrawQuote X n slippage None self = (Inr r, self')" for n r self'
    using that by (rule balancedWithdraw_cases) blast
  from sides [OF assms(1)] sides [OF assms(2)] sides [OF assms(3)] obtain wA wB where
    w: "vsWithdrawable X (currentTime ?info) (ammVaultA self) = Inr wA"
      "vsWithdrawable X (currentTime ?info) (ammVaultB self) = Inr wB" and
    A: "withdrawSide X a (poolLpSupply ?info) (poolVaultALp ?info) wA (vaultALpSupply ?info) = Inr (tokenAOutAmount qa)"
      "withdrawSide X b (poolLpSupply ?info) (poolVaultALp ?info) wA (vaultALpSupply ?info) = Inr (tokenAOutAmount qb)"
      "withdrawSide X (a + b) (poolLpSupply ?info) (poolVaultALp ?info) wA (vaultALpSupply ?info) = Inr (tokenAOutAmount q)" and
    B: "withdrawSide X a (poolLpSupply ?info) (poolVaultBLp ?info) wB (vaultBLpSupply ?info) = Inr (tokenBOutAmount qa)"
      "withdrawSide X b (poolLpSupply ?info) (poolVaultBLp ?info) wB (vaultBLpSupply ?info) = Inr (tokenBOutAmount qb)"
      "withdrawSide X (a + b) (poolLpSupply ?info) (poolVaultBLp ?info) wB (vaultBLpSupply ?info) = Inr (tokenBOutAmount q)"
    by auto
  have wnn: "0 \<le> wA" "0 \<le> wB" using assms(5) w unfolding solvent_vaults_def by blast+
  show ?thesis
    using withdrawSide_split [OF A assms(6,7) sound(1,2) wnn(1) sound(3)]
      withdrawSide_split [OF B assms(6,7) sound(1,4) wnn(2) sound(5)] by blast
qed

lemma object_quote:
  assumes "getSwapQuote X mint x slippage who self = (Inr q, self')"
    and "tokenAMint (ammPoolState self) \<noteq> tokenBMint (ammPoolState self)"
    and "0 \<le> slippage" and "slippage \<le> 100"
    and "\<bar>currentTime (ammAccountsInfo self) + BASE_CACHE_EXPIRE\<bar> < 2 ^ 53"
  shows "(0 \<le> swapOutAmount q \<longrightarrow> 0 \<le> minSwapOutAmount q \<and> minSwapOutAmount q \<le> swapOutAmount q) \<and>
    swapOutAmount q < (if mint = tokenAMint (ammPoolState self)
      then vaultBReserve (ammAccountsInfo self) else vaultAReserve (ammAccountsInfo self)) \<and>
    getSwapQuote X mint x slippage who self' = (Inr q, self')"
proof -
  from assms(1) obtain params r ps' where params: "quoteParams self = Inr params" and
    quote: "calculateSwapQuote X mint x params who (ammPoolState self) = (Inr r, ps')" and
    self': "self' = self\<lparr>ammPoolState := ps',
      ammSwapCurve := (if ammSharesDepeg self then loadDepeg ps' (ammSwapCurve self) else ammSwapCurve self)\<rparr>" and
    out: "getMinAmountWithSlippage (amountOut r) slippage = Inr (minSwapOutAmount q)" and
    q: "q = \<lparr>swapInAmount = x, swapOutAmount = amountOut r, minSwapOutAmount = minSwapOutAmount q,
      quoteFee = swapFee r, quotePriceImpact = swapPriceImpact r\<rparr>"
    by (rule getSwapQuote_cases)
  note reserves = quoteParams_Inr [OF params]
  have below: "amountOut r < sideReserve (mint \<noteq> tokenAMint (ammPoolState self)) params"
    by (rule swap_quote_cases [OF quote assms(2) refl])
  have again: "calculateSwapQuote X mint x params who ps' = (Inr r, ps')"
    using swap_quote_again [OF _ quote] assms(5) reserves(2) by simp
  have "quoteParams self' = Inr params" using params by (simp add: quoteParams_def self')
  then have "getSwapQuote X mint x slippage who self' = (Inr q, self')"
    using again out q
    by (simp add: getSwapQuote_def then_do_def onPoolState_def pure_step_def self' loadDepeg_again)
  moreover have "swapOutAmount q = amountOut r" by (subst q) simp
  ultimately show ?thesis
    using below reserves(3) min_slippage_le [OF out assms(3,4)] by auto
qed

text \<open>
  A quote of the object: the minimum output is between nothing and the output (for outputs that
  are not negative), the output is below the reserve of the vault it comes from, and asking again
  on the object the quote leaves gives the same quote and the same object.
\<close>

lemma object_swap_quote:
  assumes "getSwapQuote X mint x slippage who self = (Inr q, self')"
    and "tokenAMint (ammPoolState self) \<noteq> tokenBMint (ammPoolState self)"
    and "0 \<le> slippage" and "slippage \<le> 100"
    and "\<bar>currentTime (ammAccountsInfo self) + BASE_CACHE_EXPIRE\<bar> < 2 ^ 53"
  shows "(0 \<le> swapOutAmount q \<longrightarrow> 0 \<le> minSwapOutAmount q \<and> minSwapOutAmount q \<le> swapOutAmount q) \<and>
    swapOutAmount q < (if mint = tokenAMint (ammPoolState self)
      then vaultBReserve (ammAccountsInfo self) else vaultAReserve (ammAccountsInfo self)) \<and>
    getSwapQuote X mint x slippage who self' = (Inr q, self')"
  by (rule object_quote [OF assms])

lemma example_object_quote:
  obtains self' where "getSwapQuote example_externals (key 2) 10000 1 None
      (example_amm ConstantProductCurve CurveConstantProduct) =
    (Inr \<lparr>swapInAmount = 10000, swapOutAmount = 17753, minSwapOutAmount = 17575, quoteFee = 20,
      quotePriceImpact = DecimalQuotient 148 17902\<rparr>, self')"
proof -
  let ?amm = "example_amm ConstantProductCurve CurveConstantProduct"
  let ?q = "\<lparr>swapInAmount = 10000, swapOutAmount = 17753, minSwapOutAmount = 17575, quoteFee = 20,
    quotePriceImpact = DecimalQuotient 148 17902\<rparr>"
  have params: "quoteParams ?amm = Inr example_params"
    by (simp add: quoteParams_def example_amm_def example_params_def toNumber_def Let_def)
  have state: "ammPoolState ?amm = example_pool ConstantProductCurve" by (simp add: example_amm_def)
  have "fst (calculateSwapQuote example_externals (key 2) 10000 example_params None
      (example_pool ConstantProductCurve)) =
    Inr \<lparr>amountOut = 17753, swapFee = 20, swapPriceImpact = DecimalQuotient 148 17902\<rparr>" by code_simp
  then have "fst (getSwapQuote example_externals (key 2) 10000 1 None ?amm) = Inr ?q"
    by (simp add: getSwapQuote_def params fst_then_do onPoolState_def min_one_percent trunc_div_pos state)
  then show thesis by (metis prod.collapse that)
qed

lemma fair_shares:
  assumes "getShareByAmount X inp tok lp False = Inr out" and "getMinAmountWithSlippage out UNLOCK_AMOUNT_BUFFER = Inr s"
    and "getMinAmountWithSlippage s slippage = Inr m"
    and "0 \<le> inp" and "0 < lp" and "0 < tok" and "0 \<le> slippage" and "slippage \<le> 100"
  shows "0 \<le> m \<and> m \<le> s \<and> s * tok \<le> inp * lp"
proof -
  have lp: "0 \<le> lp" using assms(5) by simp
  note share = poolShare.convert_bounds [OF assms(1,4) lp assms(6)]
  have "0 \<le> UNLOCK_AMOUNT_BUFFER \<and> UNLOCK_AMOUNT_BUFFER \<le> 100" by code_simp
  then have s: "0 \<le> s" "s \<le> out" using min_slippage_le [OF assms(2)] share(1) by auto
  have "s * tok \<le> out * tok" using s(2) assms(6) by (intro mult_right_mono) auto
  then show ?thesis using share(2) min_slippage_le [OF assms(3,7,8) s(1)] by linarith
qed

text \<open>
  C27: A balanced deposit quote is fair and rounds against the depositor, whichever of the two tokens
  it is asked for: the pool shares it promises, even before the slippage, are worth at most the amount
  deposited at the current pool amounts, and on a stable pool the matching amount of the other token
  is in proportion. At most one of the amounts asked may be other than zero, the minimum of shares
  is not above the shares promised, and the object is unchanged.
\<close>

theorem deposit_quote_fair:
  assumes "getDepositQuote X inA inB True slippage self = (Inr q, self')"
    and "0 < poolLpSupply (ammAccountsInfo self)"
    and "0 < tokenAAmount (ammPoolInfo self)" and "0 < tokenBAmount (ammPoolInfo self)"
    and "0 \<le> inA" and "0 \<le> inB" and "0 \<le> slippage" and "slippage \<le> 100"
  shows "self' = self \<and> (inA = 0 \<or> inB = 0) \<and>
    0 \<le> minPoolTokenAmountOut q \<and> minPoolTokenAmountOut q \<le> poolTokenAmountOut q \<and>
    (inA = 0 \<longrightarrow>
      poolTokenAmountOut q * tokenBAmount (ammPoolInfo self) \<le> inB * poolLpSupply (ammAccountsInfo self) \<and>
      (get_isStablePool self \<longrightarrow> tokenBInAmount q = inB \<and>
        tokenAInAmount q * tokenBAmount (ammPoolInfo self) \<le> inB * tokenAAmount (ammPoolInfo self))) \<and>
    (inA \<noteq> 0 \<longrightarrow>
      poolTokenAmountOut q * tokenAAmount (ammPoolInfo self) \<le> inA * poolLpSupply (ammAccountsInfo self) \<and>
      (get_isStablePool self \<longrightarrow> tokenAInAmount q = inA \<and>
        tokenBInAmount q * tokenAAmount (ammPoolInfo self) \<le> inA * tokenBAmount (ammPoolInfo self)))"
proof -
  let ?lp = "poolLpSupply (ammAccountsInfo self)"
  let ?a = "tokenAAmount (ammPoolInfo self)" and ?b = "tokenBAmount (ammPoolInfo self)"
  have one: "inA = 0 \<or> inB = 0"
    using assms(1) by (auto simp: getDepositQuote_def Let_def invariant_def split: if_splits)
  show ?thesis
  proof (cases "inA = 0")
    case True
    with assms(1,2) obtain out where self: "self' = self" and
      out: "getShareByAmount X inB ?b ?lp False = Inr out"
        "getMinAmountWithSlippage out UNLOCK_AMOUNT_BUFFER = Inr (poolTokenAmountOut q)"
        "getMinAmountWithSlippage (poolTokenAmountOut q) slippage = Inr (minPoolTokenAmountOut q)" and
      stable: "get_isStablePool self \<longrightarrow> tokenBInAmount q = inB \<and> trunc_div (inB * ?a) ?b = Inr (tokenAInAmount q)"
      by (auto simp: getDepositQuote_def constantProductDeposit_def Let_def split: if_splits)
    from fair_shares [OF out assms(6,2,4,7,8)] quotient.convert_bounds(2) [of inB ?a ?b "tokenAInAmount q"]
      assms(3,4,6) show ?thesis using self stable True by simp
  next
    case False
    with assms(1,2) one obtain out where self: "self' = self" and
      out: "getShareByAmount X inA ?a ?lp False = Inr out"
        "getMinAmountWithSlippage out UNLOCK_AMOUNT_BUFFER = Inr (poolTokenAmountOut q)"
        "getMinAmountWithSlippage (poolTokenAmountOut q) slippage = Inr (minPoolTokenAmountOut q)" and
      stable: "get_isStablePool self \<longrightarrow> tokenAInAmount q = inA \<and> trunc_div (inA * ?b) ?a = Inr (tokenBInAmount q)"
      by (auto simp: getDepositQuote_def constantProductDeposit_def Let_def split: if_splits)
    from fair_shares [OF out assms(5,2,3,7,8)] quotient.convert_bounds(2) [of inA ?b ?a "tokenBInAmount q"]
      assms(3,4,5) show ?thesis using self stable False one by simp
  qed
qed

theorem deposit_quote_fair_witness:
  "\<exists>q. fst (getDepositQuote example_externals 0 50000 True 1 (example_amm ConstantProductCurve CurveConstantProduct)) =
      Inr q \<and> poolTokenAmountOut q = 34472 \<and> poolTokenAmountOut q * 2153846 \<le> 50000 * (1500000 :: int)"
proof -
  let ?amm = "example_amm ConstantProductCurve CurveConstantProduct"
  let ?q = "\<lparr>poolTokenAmountOut = 34472, minPoolTokenAmountOut = 34127, tokenAInAmount = 28135, tokenBInAmount = 50498\<rparr>"
  have "fst (getDepositQuote example_externals 0 50000 True 1 ?amm) = Inr ?q"
    by (simp add: getDepositQuote_def constantProductDeposit_def computeActualInAmount_def
        get_isStablePool_def example_pool_def min_unlock_buffer max_one_percent example_externals_def
        example_withdrawal)
  then obtain self' where run: "getDepositQuote example_externals 0 50000 True 1 ?amm = (Inr ?q, self')"
    by (metis prod.collapse)
  from deposit_quote_fair [OF run] run show ?thesis by (simp add: example_amm_def)
qed

text \<open>
  \<open>depegToken\<close> does not test for 95 percent: the quotient is an integer before it is scaled, so
  token A is reported depegged as soon as twice its balance reaches the scaled total, an exactly
  balanced pool included, and token B likewise otherwise.
\<close>

lemma depeg_token_threshold:
  assumes "curveType (ammPoolState self) = StableSwapCurve p"
    and "a = tokenAAmount (ammPoolInfo self)" and "b = tokenBAmount (ammPoolInfo self)"
    and "T = a * tokenAMultiplier (tokenMultiplier p) + b * tokenBMultiplier (tokenMultiplier p)"
    and "0 \<le> a" and "0 \<le> b" and "0 < T"
  shows "get_depegToken self =
    Inr (if T \<le> 2 * a then Some (ammTokenAMint self)
         else if T \<le> 2 * b then Some (ammTokenBMint self) else None)"
proof -
  have flag: "95 < (x * 2) div T * 100 \<longleftrightarrow> T \<le> 2 * x" if "0 \<le> x" for x
  proof -
    have "95 < (x * 2) div T * 100 \<longleftrightarrow> 1 \<le> (x * 2) div T" by linarith
    also have "\<dots> \<longleftrightarrow> 1 * T \<le> x * 2"
      using le_div_of_mult_le [OF assms(7), of 1 "x * 2"] div_lt_of_lt_mult [OF assms(7), of "x * 2" 1]
      by linarith
    finally show ?thesis by (simp add: mult.commute)
  qed
  show ?thesis
    using assms flag [OF assms(5)] flag [OF assms(6)]
    by (simp add: get_depegToken_def Let_def trunc_div_pos)
qed

definition example_stable :: stable_params where
  "example_stable = \<lparr>amp = 100,
     tokenMultiplier = \<lparr>tokenAMultiplier = 1, tokenBMultiplier = 1, precisionFactor = 6\<rparr>,
     depegInfo = \<lparr>baseVirtualPrice = 0, baseCacheUpdated = 0, depegType = DepegNone\<rparr>,
     lastAmpUpdatedTimestamp = 0\<rparr>"

text \<open>
  The conversions with \<open>roundUp\<close> do not round up: they round to the nearest integer, so the
  result is below the exact value whenever the remainder is less than half the divisor.
\<close>

definition div_round_law :: "externals \<Rightarrow> bool" where
  "div_round_law X \<longleftrightarrow> (\<forall>a b. 0 \<le> a \<longrightarrow> 0 < b \<longrightarrow> bnDivRound X a b = (2 * a + b) div (2 * b))"

lemma round_up_rounds_down:
  assumes "div_round_law X" and "0 \<le> amount" and "0 \<le> lp" and "0 < t"
  shows "\<exists>v. getShareByAmount X amount t lp True = Inr v \<and> getAmountByShare X amount lp t True = Inr v \<and>
    (v * t < amount * lp \<longleftrightarrow> 0 < (amount * lp) mod t \<and> 2 * ((amount * lp) mod t) < t)"
proof -
  let ?x = "amount * lp" and ?q = "(amount * lp) div t" and ?r = "(amount * lp) mod t"
  let ?v = "(2 * ?x + t) div (2 * t)"
  have x: "?x = ?q * t + ?r" by simp
  have r: "0 \<le> ?r" "?r < t" using assms(4) by simp_all
  have "?q * (2 * t) = 2 * (?q * t)" by (simp only: mult.left_commute)
  with x have "2 * ?x + t = ?q * (2 * t) + (2 * ?r + t)" by linarith
  then have "?v = (2 * ?r + t + ?q * (2 * t)) div (2 * t)" by (simp only: add.commute)
  also have "\<dots> = ?q + (2 * ?r + t) div (2 * t)" using assms(4) by (intro div_mult_self1) simp
  finally have v: "?v = ?q + (2 * ?r + t) div (2 * t)" .
  have "(2 * ?r + t) div (2 * t) = (if 2 * ?r < t then 0 else 1)"
  proof (cases "2 * ?r < t")
    case True
    then show ?thesis using r by (simp add: div_pos_pos_trivial)
  next
    case False
    have "1 \<le> (2 * ?r + t) div (2 * t)" using False assms(4) by (intro le_div_of_mult_le) auto
    moreover have "(2 * ?r + t) div (2 * t) < 2"
    proof (rule div_lt_of_lt_mult)
      show "0 < 2 * t" "2 * ?r + t < 2 * (2 * t)" using r assms(4) by linarith+
    qed
    ultimately show ?thesis using False by simp
  qed
  with v have cases: "?v = (if 2 * ?r < t then ?q else ?q + 1)" by simp
  have below: "(if 2 * r < t then q else q + 1) * t < y \<longleftrightarrow> 0 < r \<and> 2 * r < t"
    if "y = q * t + r" "0 \<le> r" "r < t" for y q r :: int
    using that by (auto simp: distrib_right)
  have "?v * t < ?x \<longleftrightarrow> 0 < ?r \<and> 2 * ?r < t" unfolding cases by (rule below [OF x r])
  moreover have "0 \<le> ?x" using assms by simp
  ultimately show ?thesis
    using assms by (auto simp: getShareByAmount_def getAmountByShare_def div_round_law_def)
qed

text \<open>
  The unclaimed fee of a lock escrow is capped by what its vault holds: a user without an escrow
  gets none, and otherwise the pool shares reported as unclaimed are at most the escrow vault's
  balance and at most the fee computed, and the escrow reported is the derived one.
\<close>

lemma lock_escrow_capped:
  assumes "getUserLockEscrow X C F owner self = (Inr r, self')"
  shows "case lockEscrowAccount C (fst (deriveLockEscrowPda F (ammAddress self) owner (ammProgramId self))) of
      None \<Rightarrow> r = None
    | Some acc \<Rightarrow> \<exists>e balance fee. r = Some e \<and>
        tokenAccountBalance C (leEscrowVault acc) = Inr balance \<and>
        calculateUnclaimedLockEscrowFee (leTotalLockedAmount acc) (leLpPerToken acc)
          (leUnclaimedFeePending acc) (virtualPriceRaw (ammPoolInfo self)) = Inr fee \<and>
        unclaimedLp e = min balance fee \<and> escrowAmount e = leTotalLockedAmount acc \<and>
        escrowAddress e = fst (deriveLockEscrowPda F (ammAddress self) owner (ammProgramId self))"
proof (cases "lockEscrowAccount C (fst (deriveLockEscrowPda F (ammAddress self) owner (ammProgramId self)))")
  case None
  with assms show ?thesis by (simp add: getUserLockEscrow_def)
next
  case (Some acc)
  with assms obtain balance fee e where "r = Some e"
    "tokenAccountBalance C (leEscrowVault acc) = Inr balance"
    "calculateUnclaimedLockEscrowFee (leTotalLockedAmount acc) (leLpPerToken acc)
      (leUnclaimedFeePending acc) (virtualPriceRaw (ammPoolInfo self)) = Inr fee"
    "unclaimedLp e = (if fee > balance then balance else fee)" "escrowAmount e = leTotalLockedAmount acc"
    "escrowAddress e = fst (deriveLockEscrowPda F (ammAddress self) owner (ammProgramId self))"
    by (auto simp: getUserLockEscrow_def Let_def)
  moreover have "(if fee > balance then balance else fee) = min balance fee" by simp
  ultimately show ?thesis using Some by simp
qed

end
