(* ===== verification/Lifecycle.thy ===== *)
theory Lifecycle
  imports AmmImpl
begin

text \<open>
  The life of a pool object: \<open>create\<close>, \<open>createMultiple\<close> and \<open>updateState\<close> of the class
  \<open>AmmImpl\<close> in \<open>ts-client/src/amm/index.ts\<close>. Vault objects come from the vault SDK, a
  parameter. Two objects of one \<open>createMultiple\<close> may share a vault object; the model gives
  each its own copy, since only \<open>updateState\<close> changes a vault object.
\<close>

section \<open>Vault objects\<close>

record vault_impl =
  vaultPda :: pubkey
  vaultTokenMint :: mint_info
  vaultState :: vault_state

text \<open>
  \<^item> \<open>createMultipleWithPda\<close>: \<open>VaultImpl.createMultipleWithPda\<close>, with the optional seed key;
  \<^item> \<open>refreshVaultState\<close>: the state \<open>refreshVaultState\<close> puts into the vault object at an address.
\<close>

record vault_sdk =
  createMultipleWithPda :: "pubkey list \<Rightarrow> pubkey option \<Rightarrow> vault_impl list result"
  refreshVaultState :: "pubkey \<Rightarrow> vault_state result"

section \<open>The accounts of a pool\<close>

definition poolAccountsToFetch :: "vault_state \<Rightarrow> vault_state \<Rightarrow> pool_state \<Rightarrow> (pubkey \<times> account_type) list" where
  "poolAccountsToFetch vaultA vaultB poolState =
     [(tokenVault vaultA, VAULT_A_RESERVE), (tokenVault vaultB, VAULT_B_RESERVE),
      (vaultLpMint vaultA, VAULT_A_LP), (vaultLpMint vaultB, VAULT_B_LP),
      (aVaultLp poolState, POOL_VAULT_A_LP), (bVaultLp poolState, POOL_VAULT_B_LP),
      (lpMint poolState, POOL_LP_MINT)]"

definition decodeClock :: "externals \<Rightarrow> chain \<Rightarrow> buffer_map \<Rightarrow> (string \<rightharpoonup> int) result" where
  "decodeClock X C accountsBufferMap =
     (case map_of accountsBufferMap (SYSVAR_CLOCK_PUBKEY C) of
        None \<Rightarrow> Inl (InvariantViolation ''Clock account not found'')
      | Some (ty, None) \<Rightarrow> Inl TypeError
      | Some (ty, Some data) \<Rightarrow> structDecode X ClockLayout data)"

text \<open>
  One conjunct of the check of all the values: the same error whichever value is missing.
\<close>

definition present :: "int option \<Rightarrow> int result" where
  "present v = (case v of None \<Rightarrow> Inl (InvariantViolation ''Account Info not found'') | Some n \<Rightarrow> Inr n)"

definition readAccountsInfo ::
  "(pubkey \<times> int) list \<Rightarrow> (string \<rightharpoonup> int) \<Rightarrow> vault_state \<Rightarrow> vault_state \<Rightarrow> pool_state \<Rightarrow> accounts_info result" where
  "readAccountsInfo accountsInfoMap clock vaultA vaultB poolState =
     (let get = map_of accountsInfoMap in
      and_then (present (clock ''unixTimestamp'')) (\<lambda>now.
      and_then (present (get (vaultLpMint vaultA))) (\<lambda>lpA.
      and_then (present (get (vaultLpMint vaultB))) (\<lambda>lpB.
      and_then (present (get (tokenVault vaultA))) (\<lambda>reserveA.
      and_then (present (get (tokenVault vaultB))) (\<lambda>reserveB.
      and_then (present (get (aVaultLp poolState))) (\<lambda>poolA.
      and_then (present (get (bVaultLp poolState))) (\<lambda>poolB.
      and_then (present (get (lpMint poolState))) (\<lambda>poolLp.
      and_then (fieldOf clock ''slot'') (\<lambda>slot.
        Inr \<lparr>vaultAReserve = reserveA, vaultBReserve = reserveB, vaultALpSupply = lpA,
             vaultBLpSupply = lpB, poolVaultALp = poolA, poolVaultBLp = poolB,
             poolLpSupply = poolLp, currentTime = now, currentSlot = slot\<rparr>))))))))))"

definition newSwapCurve :: "pool_state \<Rightarrow> (pubkey \<rightharpoonup> byte list) \<Rightarrow> int \<Rightarrow> swap_curve result" where
  "newSwapCurve poolState depegAccounts now =
     (case curveType poolState of
        StableSwapCurve p \<Rightarrow> and_then (toNumber (amp p)) (\<lambda>ampNumber.
          Inr (CurveStable (newStableSwap ampNumber p depegAccounts now (stake poolState))))
      | ConstantProductCurve \<Rightarrow> Inr CurveConstantProduct)"

definition poolInfoOf ::
  "externals \<Rightarrow> accounts_info \<Rightarrow> vault_state \<Rightarrow> vault_state \<Rightarrow> (swap_curve, pool_information) action" where
  "poolInfoOf X info vaultA vaultB =
     calculatePoolInfo X (currentTime info) (poolVaultALp info) (poolVaultBLp info)
       (vaultALpSupply info) (vaultBLpSupply info) (poolLpSupply info) vaultA vaultB"

section \<open>Creating pool objects\<close>

text \<open>\<open>new AmmImpl(...)\<close> after the pool information has been computed on a new curve object.\<close>

definition newAmmImpl :: "externals \<Rightarrow> pubkey \<Rightarrow> pubkey \<Rightarrow> pool_state \<Rightarrow> int \<Rightarrow> vault_impl \<Rightarrow> vault_impl \<Rightarrow>
    accounts_info \<Rightarrow> (pubkey \<rightharpoonup> byte list) \<Rightarrow> amm_impl result" where
  "newAmmImpl X programId pool poolState lpTotal vaultA vaultB info depegAccounts =
     and_then (newSwapCurve poolState depegAccounts (currentTime info)) (\<lambda>swapCurve.
     case poolInfoOf X info (vaultState vaultA) (vaultState vaultB) swapCurve of
       (Inl e, swapCurve') \<Rightarrow> Inl e
     | (Inr poolInfo, swapCurve') \<Rightarrow>
         Inr \<lparr>ammAddress = pool, ammProgramId = programId,
              ammTokenAMint = vaultTokenMint vaultA, ammTokenBMint = vaultTokenMint vaultB,
              ammPoolState = storeDepeg swapCurve' poolState, ammLpSupply = lpTotal,
              ammPoolInfo = poolInfo, ammVaultA = vaultState vaultA, ammVaultB = vaultState vaultB,
              ammAccountsInfo = info, ammSwapCurve = swapCurve', ammDepegAccounts = depegAccounts,
              ammVaultAPda = vaultPda vaultA, ammVaultBPda = vaultPda vaultB, ammSharesDepeg = True\<rparr>)"

definition create :: "externals \<Rightarrow> chain \<Rightarrow> vault_sdk \<Rightarrow> pubkey \<Rightarrow> pubkey option \<Rightarrow> pubkey option \<Rightarrow> amm_impl result" where
  "create X C V pool programId vaultSeedBaseKey =
     and_then (getPoolState C pool) (\<lambda>(poolState, lpTotal).
     and_then (createMultipleWithPda V [aVault poolState, bVault poolState] vaultSeedBaseKey) (\<lambda>vaults.
     case vaults of
       vaultA # vaultB # rest \<Rightarrow>
         and_then (getAccountsBuffer C
           (poolAccountsToFetch (vaultState vaultA) (vaultState vaultB) poolState @
            [(SYSVAR_CLOCK_PUBKEY C, SYSVAR_CLOCK)])) (\<lambda>accountsBufferMap.
         and_then (deserializeAccountsBuffer C accountsBufferMap) (\<lambda>accountsInfoMap.
         and_then (decodeClock X C accountsBufferMap) (\<lambda>clock.
         and_then (readAccountsInfo accountsInfoMap clock (vaultState vaultA) (vaultState vaultB) poolState)
           (\<lambda>accountsInfo.
         and_then (getDepegAccounts C [poolState]) (\<lambda>depegAccounts.
           newAmmImpl X (createProgramId programId) pool poolState lpTotal vaultA vaultB accountsInfo
             depegAccounts)))))
     | _ \<Rightarrow> Inl TypeError))"

text \<open>
  \<open>createMultiple\<close>: \<open>pool_entry\<close> is a value of \<open>poolInfoMap\<close>, which is keyed by the LP mint of
  the pool and keeps the last entry of a key.
\<close>

record pool_entry =
  entryPool :: pubkey
  entryState :: pool_state
  entryLpSupply :: int
  entryVaultA :: vault_impl
  entryVaultB :: vault_impl

definition findVault :: "vault_impl list \<Rightarrow> pubkey \<Rightarrow> vault_impl result" where
  "findVault vaultsImpl k =
     (case List.find (\<lambda>v. vaultPda v = k) vaultsImpl of
        None \<Rightarrow> Inl (InvariantViolation ''Vault not found'')
      | Some v \<Rightarrow> Inr v)"

definition poolEntry :: "vault_impl list \<Rightarrow> pubkey \<times> pool_state \<times> int \<Rightarrow> pool_entry result" where
  "poolEntry vaultsImpl p =
     (case p of (pool, poolState, lpTotal) \<Rightarrow>
      and_then (findVault vaultsImpl (aVault poolState)) (\<lambda>vaultA.
      and_then (findVault vaultsImpl (bVault poolState)) (\<lambda>vaultB.
        Inr \<lparr>entryPool = pool, entryState = poolState, entryLpSupply = lpTotal,
             entryVaultA = vaultA, entryVaultB = vaultB\<rparr>)))"

definition entryAccounts :: "pool_entry \<Rightarrow> (pubkey \<times> account_type) list" where
  "entryAccounts e = poolAccountsToFetch (vaultState (entryVaultA e)) (vaultState (entryVaultB e)) (entryState e)"

definition createFromEntry :: "externals \<Rightarrow> pubkey \<Rightarrow> (pubkey \<times> int) list \<Rightarrow> (string \<rightharpoonup> int) \<Rightarrow>
    (pubkey \<rightharpoonup> byte list) \<Rightarrow> (pubkey \<rightharpoonup> pool_entry) \<Rightarrow> pool_entry \<Rightarrow> amm_impl result" where
  "createFromEntry X programId accountsInfoMap clock depegAccounts poolInfoMap e =
     and_then (readAccountsInfo accountsInfoMap clock (vaultState (entryVaultA e)) (vaultState (entryVaultB e))
       (entryState e)) (\<lambda>accountsInfo.
     case poolInfoMap (lpMint (entryState e)) of
       None \<Rightarrow> Inl (InvariantViolation ''Cannot find pool info'')
     | Some d \<Rightarrow>
         newAmmImpl X programId (entryPool d) (entryState d) (entryLpSupply d) (entryVaultA d)
           (entryVaultB d) accountsInfo depegAccounts)"

definition createMultiple :: "externals \<Rightarrow> chain \<Rightarrow> vault_sdk \<Rightarrow> pubkey list \<Rightarrow> pubkey option \<Rightarrow> amm_impl list result" where
  "createMultiple X C V poolList programId =
     and_then (getAllPoolState C poolList) (\<lambda>poolsState.
     let pdaInfos = concat (map (\<lambda>(ps, lpTotal). [aVault ps, bVault ps]) poolsState) in
     and_then (createMultipleWithPda V pdaInfos None) (\<lambda>vaultsImpl.
     and_then (all_results (poolEntry vaultsImpl) (zip poolList poolsState)) (\<lambda>entries.
     let poolInfoMap = map_of (rev (map (\<lambda>e. (lpMint (entryState e), e)) entries)) in
     and_then (getAccountsBuffer C (concat (map entryAccounts entries) @ [(SYSVAR_CLOCK_PUBKEY C, SYSVAR_CLOCK)]))
       (\<lambda>accountsBufferMap.
     and_then (decodeClock X C accountsBufferMap) (\<lambda>clock.
     and_then (deserializeAccountsBuffer C accountsBufferMap) (\<lambda>accountsInfoMap.
     and_then (getDepegAccounts C (map fst poolsState)) (\<lambda>depegAccounts.
       all_results (createFromEntry X (createProgramId programId) accountsInfoMap clock depegAccounts poolInfoMap)
         entries)))))))"

section \<open>updateState\<close>

text \<open>
  The two vault objects are refreshed while the pool state is fetched, and a failure of one of the
  three calls does not stop the others; the new pool state is stored before the rest is read.
\<close>

definition refreshVaults :: "vault_sdk \<Rightarrow> amm_impl \<Rightarrow> amm_impl" where
  "refreshVaults V self =
     self\<lparr>ammVaultA := (case refreshVaultState V (ammVaultAPda self) of Inl e \<Rightarrow> ammVaultA self | Inr v \<Rightarrow> v),
          ammVaultB := (case refreshVaultState V (ammVaultBPda self) of Inl e \<Rightarrow> ammVaultB self | Inr v \<Rightarrow> v)\<rparr>"

definition assign :: "('s \<Rightarrow> 's) \<Rightarrow> ('s, unit) action" where
  "assign f s = (Inr (), f s)"

definition updateState :: "externals \<Rightarrow> chain \<Rightarrow> vault_sdk \<Rightarrow> (amm_impl, unit) action" where
  "updateState X C V self =
     then_do (assign (refreshVaults V)) (\<lambda>_.
     then_do (pure_step (
       and_then (getPoolState C (ammAddress self)) (\<lambda>r.
       and_then (refreshVaultState V (ammVaultAPda self)) (\<lambda>vaultA.
       and_then (refreshVaultState V (ammVaultBPda self)) (\<lambda>vaultB. Inr (r, vaultA, vaultB))))))
     (\<lambda>((poolState, lpTotal), vaultA, vaultB).
     then_do (assign (\<lambda>self. self\<lparr>ammPoolState := poolState, ammLpSupply := lpTotal, ammSharesDepeg := False\<rparr>)) (\<lambda>_.
     then_do (pure_step (
       and_then (getAccountsBuffer C
         (poolAccountsToFetch vaultA vaultB poolState @ [(SYSVAR_CLOCK_PUBKEY C, SYSVAR_CLOCK)]))
         (\<lambda>accountsBufferMap.
       and_then (deserializeAccountsBuffer C accountsBufferMap) (\<lambda>accountsInfoMap.
       and_then (decodeClock X C accountsBufferMap) (\<lambda>clock.
         readAccountsInfo accountsInfoMap clock vaultA vaultB poolState))))) (\<lambda>accountsInfo.
     then_do (assign (\<lambda>self. self\<lparr>ammAccountsInfo := accountsInfo\<rparr>)) (\<lambda>_.
     then_do (pure_step (getDepegAccounts C [poolState])) (\<lambda>depegAccounts.
     then_do (assign (\<lambda>self. self\<lparr>ammDepegAccounts := depegAccounts\<rparr>)) (\<lambda>_.
     then_do (pure_step (newSwapCurve poolState depegAccounts (currentTime accountsInfo))) (\<lambda>swapCurve.
     then_do (assign (\<lambda>self. self\<lparr>ammSwapCurve := swapCurve, ammSharesDepeg := True\<rparr>)) (\<lambda>_.
     then_do (onSwapCurve (poolInfoOf X accountsInfo vaultA vaultB)) (\<lambda>poolInfo.
       assign (\<lambda>self. self\<lparr>ammPoolInfo := poolInfo\<rparr>))))))))))) self"

section \<open>One curve, not two\<close>

text \<open>
  The object keeps a curve and \<open>getSwapQuote\<close> builds another from the pool state. \<open>coherent\<close>:
  while they share the \<open>depeg\<close> object, both are the curve of the pool state.
\<close>

definition coherent :: "amm_impl \<Rightarrow> bool" where
  "coherent self \<longleftrightarrow> (ammSharesDepeg self \<longrightarrow>
     newSwapCurve (ammPoolState self) (ammDepegAccounts self) (currentTime (ammAccountsInfo self)) =
       Inr (ammSwapCurve self))"

text \<open>What any refresh of the shared price cache does to the object.\<close>

definition refreshObject :: "externals \<Rightarrow> amm_impl \<Rightarrow> amm_impl" where
  "refreshObject X self = snd (onSwapCurve (\<lambda>c. (Inr (), curve_refresh X c)) self)"

lemma newSwapCurve_refresh:
  assumes "newSwapCurve ps m t = Inr c"
  shows "newSwapCurve (storeDepeg (curve_refresh X c) ps) m t = Inr (curve_refresh X c)"
proof (cases "curveType ps")
  case ConstantProductCurve
  with assms show ?thesis by (simp add: newSwapCurve_def)
next
  case (StableSwapCurve p)
  let ?ss = "newStableSwap (amp p) p m t (stake ps)"
  let ?ss' = "snd (updateDepegInfoIfExpired X ?ss)"
  from assms StableSwapCurve have c: "c = CurveStable ?ss" and amp: "toNumber (amp p) = Inr (amp p)"
    by (auto simp: newSwapCurve_def toNumber_eq_Inr_iff)
  have "newStableSwap (amp p) (p\<lparr>depegInfo := this_depeg ?ss'\<rparr>) m t (stake ps) = ?ss'"
    by (subst (2) updateDepeg_record) (simp add: newStableSwap_def)
  with c amp StableSwapCurve show ?thesis by (simp add: newSwapCurve_def)
qed

lemma storeDepeg_same: "newSwapCurve ps m t = Inr c \<Longrightarrow> storeDepeg c ps = ps"
  by (cases "curveType ps") (auto simp: newSwapCurve_def newStableSwap_def)

lemma loadDepeg_same:
  assumes "newSwapCurve ps m t = Inr c"
  shows "loadDepeg (storeDepeg (curve_refresh X c) ps) c = curve_refresh X c"
proof (cases c)
  case (CurveStable ss)
  then obtain p where "curveType ps = StableSwapCurve p"
    using assms by (cases "curveType ps") (auto simp: newSwapCurve_def)
  then show ?thesis using CurveStable by simp (metis updateDepeg_record)
qed simp

lemma loadDepeg_own: "newSwapCurve ps m t = Inr c \<Longrightarrow> loadDepeg ps c = c"
  by (cases "curveType ps") (auto simp: newSwapCurve_def newStableSwap_def)

lemma coherent_refreshObject: "coherent self \<Longrightarrow> coherent (refreshObject X self)"
  by (simp add: coherent_def refreshObject_def onSwapCurve_def newSwapCurve_refresh)

lemma curve_states:
  "snd (curve_computeD X a b c) = curve_refresh X c"
  "snd (curve_computeInAmount X out s d dir c) = curve_refresh X c"
  "snd (curve_computeImbalanceDeposit X da db a b lp f c) = curve_refresh X c"
  "snd (curve_computeWithdrawOne X lp n a b f dir c) = curve_refresh X c"
  using curve.call_state [of X "CallD a b" c] curve.call_state [of X "CallIn out s d dir" c]
    curve.call_state [of X "CallDeposit da db a b lp f" c]
    curve.call_state [of X "CallWithdraw lp n a b f dir" c]
  by (simp_all add: answered_def)

lemma onSwapCurve_states:
  "snd (onSwapCurve (curve_computeD X a b) self) = refreshObject X self"
  "snd (onSwapCurve (curve_computeInAmount X out s d dir) self) = refreshObject X self"
  "snd (onSwapCurve (curve_computeImbalanceDeposit X da db a b lp f) self) = refreshObject X self"
  "snd (onSwapCurve (curve_computeWithdrawOne X lp n a b f dir) self) = refreshObject X self"
  by (simp_all add: onSwapCurve_def refreshObject_def curve_states)

text \<open>Every quote leaves the object as it was or with a refreshed price cache.\<close>

lemma deposit_quote_state:
  assumes same: "self \<in> S" and refresh: "refreshObject X self \<in> S"
  shows "snd (getDepositQuote X inA inB balance slippage self) \<in> S"
  unfolding getDepositQuote_def Let_def
  by (rule snd_then_do_pure)
    (auto split: prod.splits intro!: snd_then_do_pure snd_then_do_in simp: onSwapCurve_states same refresh)

lemma withdraw_quote_state:
  assumes same: "self \<in> S" and refresh: "refreshObject X self \<in> S"
  shows "snd (getWithdrawQuote X n slippage mint self) \<in> S"
  unfolding getWithdrawQuote_def Let_def
  by (rule snd_then_do_pure)
    (auto split: prod.splits option.splits intro!: snd_then_do_pure snd_then_do_in
      simp: onSwapCurve_states same refresh)

lemma max_in_state:
  assumes same: "self \<in> S" and refresh: "refreshObject X self \<in> S"
  shows "snd (getMaxSwapInAmount X mint self) \<in> S"
  unfolding getMaxSwapInAmount_def Let_def
  by (rule snd_then_do_pure) (auto split: prod.splits intro!: snd_then_do_in
    simp: onSwapCurve_states same refresh)

lemma escrow_state:
  assumes same: "self \<in> S" and refresh: "refreshObject X self \<in> S"
  shows "snd (getUserLockEscrow X C F owner self) \<in> S"
  by (auto simp: getUserLockEscrow_def Let_def same split: option.splits
    intro!: snd_then_do_pure snd_then_do_in withdraw_quote_state refresh)

lemma quoteCurve_newSwapCurve:
  assumes "newSwapCurve (ammPoolState self) (ammDepegAccounts self) (currentTime (ammAccountsInfo self)) = Inr c"
    and "quoteParams self = Inr params" and "quoteCurve params who (ammPoolState self) = Inr c'"
  shows "c' = c"
proof -
  have "paramDepegAccounts params = ammDepegAccounts self" "paramCurrentTime params = currentTime (ammAccountsInfo self)"
    using assms(2) by (auto simp: quoteParams_def Let_def toNumber_eq_Inr_iff)
  with assms(1,3) show ?thesis
    by (auto simp: newSwapCurve_def quoteCurve_def toNumber_eq_Inr_iff bnOfNumber_eq_Inr_iff
        split: curve_type.splits if_splits)
qed

lemma swap_quote_object_state:
  "snd (getSwapQuote X mint x slippage who self) = self \<or>
   (\<exists>params. quoteParams self = Inr params \<and>
     snd (getSwapQuote X mint x slippage who self) =
       snd (onPoolState (calculateSwapQuote X mint x params who) self))"
  by (auto simp: getSwapQuote_def snd_then_do split: sum.splits)

lemma coherent_swap_quote:
  assumes "coherent self"
  shows "coherent (snd (getSwapQuote X mint x slippage who self))"
proof (cases "snd (getSwapQuote X mint x slippage who self) = self")
  case False
  then obtain params where params: "quoteParams self = Inr params" and
    run: "snd (getSwapQuote X mint x slippage who self) = snd (onPoolState (calculateSwapQuote X mint x params who) self)"
    using swap_quote_object_state by blast
  show ?thesis
  proof (cases "ammSharesDepeg self")
    case True
    let ?ps = "ammPoolState self"
    from assms True have new: "newSwapCurve ?ps (ammDepegAccounts self) (currentTime (ammAccountsInfo self)) =
      Inr (ammSwapCurve self)" by (simp add: coherent_def)
    have "snd (calculateSwapQuote X mint x params who ?ps) \<in>
        {?ps, storeDepeg (curve_refresh X (ammSwapCurve self)) ?ps}"
      using swap_quote_state [of X mint x params who ?ps] quoteCurve_newSwapCurve [OF new params] by blast
    moreover note loadDepeg_own [OF new]
    ultimately show ?thesis
      using True new newSwapCurve_refresh [OF new, of X] loadDepeg_same [OF new, of X]
      by (auto simp: run coherent_def onPoolState_def)
  qed (simp add: run coherent_def onPoolState_def)
qed (simp add: assms)

lemma poolInfoOf_state:
  assumes "c \<in> S" and "curve_refresh X c \<in> S"
  shows "snd (poolInfoOf X info vA vB c) \<in> S"
  unfolding poolInfoOf_def calculatePoolInfo_def
  by (rule snd_then_do_pure) (auto simp: assms curve_states intro!: snd_then_do_in split: prod.splits)

lemma assign_simps [simp]:
  "assign f s = (Inr (), f s)" "then_do (assign f) g s = g () (f s)"
  by (simp_all add: assign_def then_do_def)

lemma then_do_onSwapCurve:
  assumes "m (ammSwapCurve s) = (Inr x, c)"
  shows "then_do (onSwapCurve m) f s =
    f x (s\<lparr>ammSwapCurve := c, ammPoolState := (if ammSharesDepeg s then storeDepeg c (ammPoolState s) else ammPoolState s)\<rparr>)"
  by (simp add: then_do_def onSwapCurve_def assms)

lemmas then_onSwapCurve = snd_then_do_in [where m = "onSwapCurve m" for m]

lemma coherent_update:
  assumes "coherent self"
  shows "coherent (snd (updateState X C V self))"
proof -
  define S where "S = Collect coherent"
  have vaults: "refreshVaults V self \<in> S"
    using assms by (simp add: S_def coherent_def refreshVaults_def)
  have unshared: "s \<in> S" if "\<not> ammSharesDepeg s" for s using that by (simp add: S_def coherent_def)
  have rebuilt: "s\<lparr>ammSwapCurve := c, ammSharesDepeg := True\<rparr> \<in> S"
    if "newSwapCurve (ammPoolState s) (ammDepegAccounts s) (currentTime (ammAccountsInfo s)) = Inr c" for s c
    using that by (simp add: S_def coherent_def)
  have frame: "s\<lparr>ammPoolInfo := info\<rparr> \<in> S \<longleftrightarrow> s \<in> S" for s info
    by (simp add: S_def coherent_def)
  have curve: "snd (onSwapCurve (poolInfoOf X info vA vB) s) \<in> S" if "s \<in> S" for info vA vB s
  proof -
    have "snd (poolInfoOf X info vA vB (ammSwapCurve s)) \<in> {ammSwapCurve s, curve_refresh X (ammSwapCurve s)}"
      by (rule poolInfoOf_state) simp_all
    with that newSwapCurve_refresh storeDepeg_same show ?thesis
      by (auto simp: S_def coherent_def onSwapCurve_def)
  qed
  have "snd (updateState X C V self) \<in> S"
    unfolding updateState_def
    by (auto simp: vaults unshared rebuilt frame intro!: snd_then_do_pure then_onSwapCurve curve split: prod.splits)
  then show ?thesis by (simp add: S_def)
qed

section \<open>Objects reached by any history\<close>

text \<open>
  An object is born by \<open>create\<close> or \<open>createMultiple\<close>, and lives through calls in any order, whether
  they succeed or raise; between the calls the chain and the vaults may change.
\<close>

inductive amm_quote :: "externals \<Rightarrow> amm_impl \<Rightarrow> amm_impl \<Rightarrow> bool" for X where
  call_swap_quote: "amm_quote X self (snd (getSwapQuote X mint x slippage who self))"
| call_max_in: "amm_quote X self (snd (getMaxSwapInAmount X mint self))"
| call_deposit_quote: "amm_quote X self (snd (getDepositQuote X inA inB balance slippage self))"
| call_withdraw_quote: "amm_quote X self (snd (getWithdrawQuote X n slippage tokenMint self))"
| call_lock_escrow: "amm_quote X self (snd (getUserLockEscrow X C F owner self))"

inductive live_object :: "externals \<Rightarrow> amm_impl \<Rightarrow> bool" for X where
  born: "create X C V pool programId seed = Inr self \<Longrightarrow> live_object X self"
| born_with_others: "createMultiple X C V pools programId = Inr selves \<Longrightarrow> self \<in> set selves \<Longrightarrow> live_object X self"
| quoted: "live_object X self \<Longrightarrow> amm_quote X self self' \<Longrightarrow> live_object X self'"
| updated: "live_object X self \<Longrightarrow> live_object X (snd (updateState X C V self))"

text \<open>An object is settled from its birth, or from an update that succeeded, until the next update.\<close>

inductive settled :: "externals \<Rightarrow> amm_impl \<Rightarrow> bool" for X where
  settled_born: "create X C V pool programId seed = Inr self \<Longrightarrow> settled X self"
| settled_born_with_others:
    "createMultiple X C V pools programId = Inr selves \<Longrightarrow> self \<in> set selves \<Longrightarrow> settled X self"
| settled_quoted: "settled X self \<Longrightarrow> amm_quote X self self' \<Longrightarrow> settled X self'"
| settled_updated: "live_object X self \<Longrightarrow> updateState X C V self = (Inr (), self') \<Longrightarrow> settled X self'"

lemma newAmmImpl_coherent:
  assumes "newAmmImpl X programId pool ps lpTotal vA vB info m = Inr self"
  shows "coherent self"
proof -
  from assms obtain c where c: "newSwapCurve ps m (currentTime info) = Inr c"
    and self: "(case poolInfoOf X info (vaultState vA) (vaultState vB) c of (Inl e, c') \<Rightarrow> Inl e
      | (Inr poolInfo, c') \<Rightarrow> Inr \<lparr>ammAddress = pool, ammProgramId = programId,
              ammTokenAMint = vaultTokenMint vA, ammTokenBMint = vaultTokenMint vB,
              ammPoolState = storeDepeg c' ps, ammLpSupply = lpTotal,
              ammPoolInfo = poolInfo, ammVaultA = vaultState vA, ammVaultB = vaultState vB,
              ammAccountsInfo = info, ammSwapCurve = c', ammDepegAccounts = m,
              ammVaultAPda = vaultPda vA, ammVaultBPda = vaultPda vB, ammSharesDepeg = True\<rparr>) = Inr self"
    by (auto simp: newAmmImpl_def)
  have "snd (poolInfoOf X info (vaultState vA) (vaultState vB) c) \<in> {c, curve_refresh X c}"
    by (rule poolInfoOf_state) simp_all
  with self c newSwapCurve_refresh [OF c, of X] storeDepeg_same [OF c] show ?thesis
    by (auto simp: coherent_def split: prod.splits sum.splits)
qed

lemma createFromEntry_coherent:
  "createFromEntry X programId infos clock m entries e = Inr self \<Longrightarrow> coherent self"
  by (auto simp: createFromEntry_def newAmmImpl_coherent split: option.splits)

lemma create_coherent: "create X C V pool programId seed = Inr self \<Longrightarrow> coherent self"
  by (auto simp: create_def newAmmImpl_coherent split: list.splits)

lemma createMultiple_entry:
  assumes "createMultiple X C V pools programId = Inr selves" and "self \<in> set selves"
  obtains programId' infos clock m es e where "createFromEntry X programId' infos clock m es e = Inr self"
proof -
  from assms(1) obtain programId' infos clock m es entries where
    "all_results (createFromEntry X programId' infos clock m es) entries = Inr selves"
    by (auto simp: createMultiple_def Let_def)
  with assms(2) show ?thesis
    by (auto simp: all_results_Inr_iff in_set_conv_nth intro: that)
qed

lemma createMultiple_coherent:
  "createMultiple X C V pools programId = Inr selves \<Longrightarrow> self \<in> set selves \<Longrightarrow> coherent self"
  by (erule (1) createMultiple_entry) (rule createFromEntry_coherent)

lemma amm_quote_coherent: "amm_quote X self self' \<Longrightarrow> coherent self \<Longrightarrow> coherent self'"
proof (induction rule: amm_quote.induct)
  case (call_swap_quote self mint x slippage who)
  then show ?case by (rule coherent_swap_quote)
next
  case (call_max_in self mint)
  then show ?case using max_in_state [of self "Collect coherent" X mint] coherent_refreshObject by simp
next
  case (call_deposit_quote self inA inB balance slippage)
  then show ?case
    using deposit_quote_state [of self "Collect coherent" X inA inB balance slippage] coherent_refreshObject by simp
next
  case (call_withdraw_quote self n slippage tokenMint)
  then show ?case
    using withdraw_quote_state [of self "Collect coherent" X n slippage tokenMint] coherent_refreshObject by simp
next
  case (call_lock_escrow self C F owner)
  then show ?case using escrow_state [of self "Collect coherent" X C F owner] coherent_refreshObject by simp
qed

lemma live_object_coherent: "live_object X self \<Longrightarrow> coherent self"
proof (induction rule: live_object.induct)
  case (born C V pool programId seed self)
  then show ?case by (rule create_coherent)
next
  case (born_with_others C V pools programId selves self)
  then show ?case by (rule createMultiple_coherent)
next
  case (quoted self self')
  then show ?case by (blast intro: amm_quote_coherent)
next
  case (updated self C V)
  then show ?case by (blast intro: coherent_update)
qed

text \<open>A settled object shares the price cache, so its curve is the curve of its pool state.\<close>

lemma newAmmImpl_shares: "newAmmImpl X programId pool ps lpTotal vA vB info m = Inr self \<Longrightarrow> ammSharesDepeg self"
  by (auto simp: newAmmImpl_def split: prod.splits sum.splits)

lemma amm_quote_shares: "amm_quote X self self' \<Longrightarrow> ammSharesDepeg self' = ammSharesDepeg self"
proof (induction rule: amm_quote.induct)
  case (call_swap_quote self mint x slippage who)
  then show ?case using swap_quote_object_state [of X mint x slippage who self] by (auto simp: onPoolState_def)
next
  case (call_max_in self mint)
  then show ?case
    using max_in_state [of self "{s. ammSharesDepeg s = ammSharesDepeg self}" X mint]
    by (simp add: refreshObject_def onSwapCurve_def)
next
  case (call_deposit_quote self inA inB balance slippage)
  then show ?case
    using deposit_quote_state [of self "{s. ammSharesDepeg s = ammSharesDepeg self}" X inA inB balance slippage]
    by (simp add: refreshObject_def onSwapCurve_def)
next
  case (call_withdraw_quote self n slippage tokenMint)
  then show ?case
    using withdraw_quote_state [of self "{s. ammSharesDepeg s = ammSharesDepeg self}" X n slippage tokenMint]
    by (simp add: refreshObject_def onSwapCurve_def)
next
  case (call_lock_escrow self C F owner)
  then show ?case using escrow_state [of self "{s. ammSharesDepeg s = ammSharesDepeg self}" X C F owner]
    by (simp add: refreshObject_def onSwapCurve_def)
qed

lemma update_shares:
  assumes "updateState X C V self = (Inr (), self')"
  shows "ammSharesDepeg self'"
  using assms by (auto simp: updateState_def onSwapCurve_def)

lemma settled_live: "settled X self \<Longrightarrow> live_object X self"
proof (induction rule: settled.induct)
  case (settled_updated self C V self')
  then show ?case using live_object.updated [of X self C V] by simp
qed (blast intro: live_object.intros)+

lemma settled_shares: "settled X self \<Longrightarrow> ammSharesDepeg self"
proof (induction rule: settled.induct)
  case (settled_born C V pool programId seed self)
  then show ?case by (auto simp: create_def newAmmImpl_shares split: list.splits)
next
  case (settled_born_with_others C V pools programId selves self)
  then show ?case
    by (elim createMultiple_entry) (auto simp: createFromEntry_def newAmmImpl_shares split: option.splits)
next
  case (settled_quoted self self')
  then show ?case by (simp add: amm_quote_shares)
next
  case (settled_updated self C V self')
  then show ?case by (blast intro: update_shares)
qed

section \<open>Refreshing is creating again\<close>

lemma newAmmImpl_fields:
  assumes "newAmmImpl X programId pool ps lpTotal vA vB info m = Inr self"
  obtains c where "newSwapCurve ps m (currentTime info) = Inr c"
    and "poolInfoOf X info (vaultState vA) (vaultState vB) c = (Inr (ammPoolInfo self), ammSwapCurve self)"
    and "self = \<lparr>ammAddress = pool, ammProgramId = programId,
              ammTokenAMint = vaultTokenMint vA, ammTokenBMint = vaultTokenMint vB,
              ammPoolState = storeDepeg (ammSwapCurve self) ps, ammLpSupply = lpTotal,
              ammPoolInfo = ammPoolInfo self, ammVaultA = vaultState vA, ammVaultB = vaultState vB,
              ammAccountsInfo = info, ammSwapCurve = ammSwapCurve self, ammDepegAccounts = m,
              ammVaultAPda = vaultPda vA, ammVaultBPda = vaultPda vB, ammSharesDepeg = True\<rparr>"
  using assms by (auto simp: newAmmImpl_def split: prod.splits sum.splits)

text \<open>The vault SDK loads each vault by its address, and a refresh loads the same state.\<close>

definition vaults_by_address :: "vault_sdk \<Rightarrow> (pubkey \<Rightarrow> vault_impl result) \<Rightarrow> bool" where
  "vaults_by_address V vaultAt \<longleftrightarrow>
     (\<forall>ks seed. createMultipleWithPda V ks seed = all_results vaultAt ks) \<and>
     (\<forall>k v. vaultAt k = Inr v \<longrightarrow> vaultPda v = k \<and> refreshVaultState V k = Inr (vaultState v))"

text \<open>What never changes about an object.\<close>

definition identity :: "amm_impl \<Rightarrow> pubkey \<times> pubkey \<times> mint_info \<times> mint_info \<times> pubkey \<times> pubkey" where
  "identity self = (ammAddress self, ammProgramId self, ammTokenAMint self, ammTokenBMint self,
     ammVaultAPda self, ammVaultBPda self)"

lemma create_cases:
  assumes "create X C V pool programId seed = Inr self" and "vaults_by_address V vaultAt"
  obtains ps lpTotal vA vB buffers infos clock info m where
    "getPoolState C pool = Inr (ps, lpTotal)"
    "vaultAt (aVault ps) = Inr vA" "vaultAt (bVault ps) = Inr vB"
    "getAccountsBuffer C (poolAccountsToFetch (vaultState vA) (vaultState vB) ps @
       [(SYSVAR_CLOCK_PUBKEY C, SYSVAR_CLOCK)]) = Inr buffers"
    "deserializeAccountsBuffer C buffers = Inr infos" "decodeClock X C buffers = Inr clock"
    "readAccountsInfo infos clock (vaultState vA) (vaultState vB) ps = Inr info"
    "getDepegAccounts C [ps] = Inr m"
    "newAmmImpl X (createProgramId programId) pool ps lpTotal vA vB info m = Inr self"
proof -
  from assms(1) obtain ps lpTotal vaults where
    ps: "getPoolState C pool = Inr (ps, lpTotal)" and
    vaults: "createMultipleWithPda V [aVault ps, bVault ps] seed = Inr vaults" and
    rest: "(case vaults of vaultA # vaultB # r \<Rightarrow>
         and_then (getAccountsBuffer C
           (poolAccountsToFetch (vaultState vaultA) (vaultState vaultB) ps @
            [(SYSVAR_CLOCK_PUBKEY C, SYSVAR_CLOCK)])) (\<lambda>accountsBufferMap.
         and_then (deserializeAccountsBuffer C accountsBufferMap) (\<lambda>accountsInfoMap.
         and_then (decodeClock X C accountsBufferMap) (\<lambda>clock.
         and_then (readAccountsInfo accountsInfoMap clock (vaultState vaultA) (vaultState vaultB) ps)
           (\<lambda>accountsInfo.
         and_then (getDepegAccounts C [ps]) (\<lambda>depegAccounts.
           newAmmImpl X (createProgramId programId) pool ps lpTotal vaultA vaultB accountsInfo
             depegAccounts)))))
     | _ \<Rightarrow> Inl TypeError) = Inr self"
    by (auto simp: create_def)
  from vaults assms(2) obtain vA vB where v: "vaultAt (aVault ps) = Inr vA" "vaultAt (bVault ps) = Inr vB"
    "vaults = [vA, vB]" by (auto simp: vaults_by_address_def)
  from rest v(3) show ?thesis by (auto intro!: that [OF ps v(1,2)])
qed

lemma update_after_create:
  assumes "vaults_by_address V vaultAt" and "create X C V pool programId seed = Inr fresh"
    and "identity self = identity fresh"
  shows "updateState X C V self = (Inr (), fresh)"
proof -
  from assms(2,1) obtain ps lpTotal vA vB buffers infos clock info m where
    run: "getPoolState C pool = Inr (ps, lpTotal)"
    "getAccountsBuffer C (poolAccountsToFetch (vaultState vA) (vaultState vB) ps @
       [(SYSVAR_CLOCK_PUBKEY C, SYSVAR_CLOCK)]) = Inr buffers"
    "deserializeAccountsBuffer C buffers = Inr infos" "decodeClock X C buffers = Inr clock"
    "readAccountsInfo infos clock (vaultState vA) (vaultState vB) ps = Inr info"
    "getDepegAccounts C [ps] = Inr m" and
    v: "vaultAt (aVault ps) = Inr vA" "vaultAt (bVault ps) = Inr vB" and
    new: "newAmmImpl X (createProgramId programId) pool ps lpTotal vA vB info m = Inr fresh"
    by (rule create_cases)
  from new obtain c where c: "newSwapCurve ps m (currentTime info) = Inr c"
    "poolInfoOf X info (vaultState vA) (vaultState vB) c = (Inr (ammPoolInfo fresh), ammSwapCurve fresh)" and
    fresh: "fresh = \<lparr>ammAddress = pool, ammProgramId = createProgramId programId,
              ammTokenAMint = vaultTokenMint vA, ammTokenBMint = vaultTokenMint vB,
              ammPoolState = storeDepeg (ammSwapCurve fresh) ps, ammLpSupply = lpTotal,
              ammPoolInfo = ammPoolInfo fresh, ammVaultA = vaultState vA, ammVaultB = vaultState vB,
              ammAccountsInfo = info, ammSwapCurve = ammSwapCurve fresh, ammDepegAccounts = m,
              ammVaultAPda = vaultPda vA, ammVaultBPda = vaultPda vB, ammSharesDepeg = True\<rparr>"
    by (rule newAmmImpl_fields)
  have refreshed: "refreshVaultState V (vaultPda vA) = Inr (vaultState vA)"
      "refreshVaultState V (vaultPda vB) = Inr (vaultState vB)"
    using assms(1) v unfolding vaults_by_address_def by metis+
  have "ammAddress self = pool" "ammProgramId self = createProgramId programId"
    "ammTokenAMint self = vaultTokenMint vA" "ammTokenBMint self = vaultTokenMint vB"
    "ammVaultAPda self = vaultPda vA" "ammVaultBPda self = vaultPda vB"
    using assms(3) by (subst (asm) fresh, simp add: identity_def)+
  note same = this
  show ?thesis
    by (subst fresh, cases self)
      (use same in \<open>simp add: updateState_def refreshVaults_def run refreshed c then_do_onSwapCurve\<close>)
qed

section \<open>A chain with two pools\<close>

definition example_vault_at :: "pubkey \<Rightarrow> vault_impl result" where
  "example_vault_at k =
     (if k = key 4 then Inr \<lparr>vaultPda = key 4, vaultTokenMint = \<lparr>mintAddress = key 2, mintDecimals = 6\<rparr>,
        vaultState = example_vault 3000000\<rparr>
      else if k = key 5 then Inr \<lparr>vaultPda = key 5, vaultTokenMint = \<lparr>mintAddress = key 3, mintDecimals = 6\<rparr>,
        vaultState = \<lparr>totalAmount = 7000000, tokenVault = key 15, vaultLpMint = key 16, vaultRest = []\<rparr>\<rparr>
      else Inl (Thrown ''no vault''))"

definition example_vaults :: vault_sdk where
  "example_vaults = \<lparr>createMultipleWithPda = (\<lambda>ks seed. all_results example_vault_at ks),
     refreshVaultState = (\<lambda>k. and_then (example_vault_at k) (\<lambda>v. Inr (vaultState v)))\<rparr>"

definition example_amounts :: "(pubkey \<times> int) list" where
  "example_amounts = [(key 1, 1500000), (key 17, 1600000), (key 6, 1000000), (key 7, 2000000),
     (key 12, 2900000), (key 13, 2500000), (key 15, 6900000), (key 16, 6500000)]"

definition example_clock :: "byte list" where
  "example_clock = leBytes 8 300 @ leBytes 8 0 @ leBytes 8 0 @ leBytes 8 0 @ leBytes 8 1000"

definition example_account :: "pubkey \<Rightarrow> byte list option" where
  "example_account k =
     (if k = key 99 then Some example_clock
      else case map_of example_amounts k of
        Some n \<Rightarrow> Some (leBytes 8 n)
      | None \<Rightarrow> if k = CURVE_TYPE_ACCOUNTS_lido then Some example_lido else None)"

definition example_pools :: chain where
  "example_pools = example_chain
     \<lparr>accountInfo := example_account,
      poolAccount := (\<lambda>k. if k = key 20 then Some (example_pool ConstantProductCurve)
        else if k = key 21 then Some (example_lst_pool\<lparr>lpMint := key 17\<rparr>) else None),
      tokenSupply := (\<lambda>k. case example_account k of Some data \<Rightarrow> Inr (leValue data) | None \<Rightarrow> Inl (Thrown ''no mint''))\<rparr>"

text \<open>
  Whether the answers of \<open>create\<close> can be quoted on: a quote can build its parameters and its curve.
\<close>

definition quotable :: "amm_impl result \<Rightarrow> bool" where
  "quotable r = (case r of
     Inl e \<Rightarrow> False
   | Inr self \<Rightarrow>
       (case quoteParams self of
          Inl e \<Rightarrow> False
        | Inr params \<Rightarrow>
            (case quoteCurve params None (ammPoolState self) of Inl e \<Rightarrow> False | Inr c \<Rightarrow> True)))"

lemma example_quotable:
  "quotable (create example_externals example_pools example_vaults (key 21) None None)"
  by code_simp

lemma example_created:
  obtains self where "create example_externals example_pools example_vaults (key 21) None None = Inr self"
  using example_quotable by (auto simp: quotable_def split: sum.splits)

lemma example_vaults_law: "vaults_by_address example_vaults example_vault_at"
  by (auto simp: vaults_by_address_def example_vaults_def example_vault_at_def split: if_splits)

section \<open>Properties\<close>

text \<open>
  C18: The curve that \<open>getSwapQuote\<close> builds from the pool state is the curve the object keeps for
  deposits, withdrawals and limits: on an object that was just created, or just updated with success,
  whatever calls it had seen before, failed updates included, and from there through any quotes,
  whether they succeed or raise. The object is in this state but for the time between an update that
  failed and the next one that succeeds.
\<close>

theorem quotes_use_own_curve:
  assumes "settled X self"
    and "quoteParams self = Inr params" and "quoteCurve params who (ammPoolState self) = Inr c"
  shows "c = ammSwapCurve self"
  using quoteCurve_newSwapCurve [OF _ assms(2,3)] live_object_coherent [OF settled_live [OF assms(1)]]
    settled_shares [OF assms(1)]
  by (auto simp: coherent_def)

theorem quotes_use_own_curve_witness:
  "\<exists>self params c. create example_externals example_pools example_vaults (key 21) None None = Inr self \<and>
    quoteParams self = Inr params \<and> quoteCurve params None (ammPoolState self) = Inr c \<and> c = ammSwapCurve self"
proof -
  obtain self where self: "create example_externals example_pools example_vaults (key 21) None None = Inr self"
    by (rule example_created)
  then have "quotable (Inr self)" using example_quotable by simp
  then obtain params c where "quoteParams self = Inr params"
    "quoteCurve params None (ammPoolState self) = Inr c"
    by (auto simp: quotable_def split: sum.splits)
  with self quotes_use_own_curve [OF settled_born [OF self]] show ?thesis by blast
qed

text \<open>
  C17: \<open>updateState\<close> brings any object of a pool, whatever state it was left in, to exactly the object
  that \<open>create\<close> would build from the chain now.
\<close>

theorem update_is_create:
  assumes "vaults_by_address V vaultAt" and "create X C V pool programId seed = Inr fresh"
    and "identity self = identity fresh"
  shows "updateState X C V self = (Inr (), fresh)"
  by (rule update_after_create [OF assms])

theorem update_is_create_witness:
  "\<exists>fresh. create example_externals example_pools example_vaults (key 21) None None = Inr fresh \<and>
    updateState example_externals example_pools example_vaults
      (fresh\<lparr>ammPoolState := example_pool ConstantProductCurve, ammSwapCurve := CurveConstantProduct\<rparr>) =
      (Inr (), fresh)"
proof -
  obtain fresh where "create example_externals example_pools example_vaults (key 21) None None = Inr fresh"
    by (rule example_created)
  with update_is_create [OF example_vaults_law this, of
      "fresh\<lparr>ammPoolState := example_pool ConstantProductCurve, ammSwapCurve := CurveConstantProduct\<rparr>"]
  show ?thesis by (simp add: identity_def)
qed

text \<open>
  \<open>updateState\<close> is not atomic. When reading the accounts fails after the pool state has arrived,
  the object is left with the new pool and vault states beside its old reserves, curve and pool
  information, and the curve no longer shares the price cache of the pool state.
\<close>

lemma failed_update_is_partial:
  assumes "getPoolState C (ammAddress self) = Inr (ps, lpTotal)"
    and "refreshVaultState V (ammVaultAPda self) = Inr vA" and "refreshVaultState V (ammVaultBPda self) = Inr vB"
    and "getAccountsBuffer C (poolAccountsToFetch vA vB ps @ [(SYSVAR_CLOCK_PUBKEY C, SYSVAR_CLOCK)]) = Inr buffers"
    and "deserializeAccountsBuffer C buffers = Inl e"
  shows "updateState X C V self = (Inl e, self\<lparr>ammVaultA := vA, ammVaultB := vB, ammPoolState := ps,
    ammLpSupply := lpTotal, ammSharesDepeg := False\<rparr>)"
  by (simp add: updateState_def refreshVaults_def assms)

end
