(* ===== verification/Batch.thy ===== *)
theory Batch
  imports Lifecycle
begin

text \<open>
  \<open>createMultiple\<close> against \<open>create\<close>: one batched read of the accounts of many pools gives for each
  pool the object that a read of its own accounts gives. The two differ only in the depeg accounts
  they keep, which for the batch are those of all its pools; \<open>ownAccounts\<close> keeps that of the pool.
\<close>

section \<open>Reading part of the accounts\<close>

text \<open>
  Every account has one kind: 1 for a token account, 2 for a mint, 3 for the clock. \<open>typed l\<close>: a
  list of accounts to fetch reads each account as its kind.
\<close>

definition typed :: "(pubkey \<Rightarrow> nat) \<Rightarrow> (pubkey \<times> account_type) list \<Rightarrow> bool" where
  "typed kind l \<longleftrightarrow> (\<forall>k ty. (k, ty) \<in> set l \<longrightarrow> decoderOf ty = kind k)"

lemma getAccountsBuffer_returns: "\<exists>m. getAccountsBuffer C l = Inr m"
  by (simp add: getAccountsBuffer_eq)

lemma deserialize_returns:
  assumes "\<And>k ty account. (k, ty, account) \<in> set m \<Longrightarrow>
    \<exists>data v. account = Some data \<and> decodeAccountTypeMapper C ty data = Inr v"
  shows "\<exists>vs. deserializeAccountsBuffer C m = Inr vs"
  using assms
proof (induction m)
  case (Cons x m)
  obtain k ty account where x: "x = (k, ty, account)" by (cases x)
  from Cons.prems [of k ty account] obtain data v where
    "account = Some data" "decodeAccountTypeMapper C ty data = Inr v" by (auto simp: x)
  moreover from Cons obtain vs where "deserializeAccountsBuffer C m = Inr vs" by fastforce
  ultimately show ?case by (simp add: x)
qed simp

text \<open>The value of an account in any typed read.\<close>

lemma typed_value:
  assumes "getAccountsBuffer C l = Inr m" and "deserializeAccountsBuffer C m = Inr vs"
    and "typed kind l" and "(k, ty) \<in> set l"
  shows "\<exists>data v. accountInfo C k = Some data \<and> decodeAccountTypeMapper C ty data = Inr v \<and> map_of vs k = Some v"
proof (rule account_value [OF assms(1,2,4)])
  show "decoderOf ty' = decoderOf ty" if "(k, ty') \<in> set l" for ty'
    using assms(3,4) that unfolding typed_def by metis
qed

lemma partial_read:
  assumes "getAccountsBuffer C L = Inr M" and "deserializeAccountsBuffer C M = Inr VS"
    and "typed kind L" and "set l \<subseteq> set L" and "getAccountsBuffer C l = Inr m"
  obtains vs where "deserializeAccountsBuffer C m = Inr vs"
    and "\<And>k ty. (k, ty) \<in> set l \<Longrightarrow> map_of vs k = map_of VS k"
proof -
  have typed: "typed kind l" using assms(3,4) by (auto simp: typed_def)
  have "\<exists>data v. account = Some data \<and> decodeAccountTypeMapper C ty data = Inr v"
    if "(k, ty, account) \<in> set m" for k ty account
    using buffer_entries [OF assms(5) that] typed_value [OF assms(1-3), of k ty] assms(4) by auto
  then obtain vs where vs: "deserializeAccountsBuffer C m = Inr vs" using deserialize_returns by blast
  show ?thesis
  proof (rule that [OF vs])
    fix k ty assume k: "(k, ty) \<in> set l"
    with assms(4) have "(k, ty) \<in> set L" by blast
    from typed_value [OF assms(1-3) this] typed_value [OF assms(5) vs typed k]
    show "map_of vs k = map_of VS k" by auto
  qed
qed

lemma decodeClock_value:
  assumes "getAccountsBuffer C l = Inr m" and "(SYSVAR_CLOCK_PUBKEY C, ty) \<in> set l"
  shows "decodeClock X C m = (case accountInfo C (SYSVAR_CLOCK_PUBKEY C) of
    None \<Rightarrow> Inl TypeError | Some data \<Rightarrow> structDecode X ClockLayout data)"
  using buffer_entry [OF assms] by (auto simp: decodeClock_def split: option.splits)

lemma readAccountsInfo_cong:
  assumes "\<And>k ty. (k, ty) \<in> set (poolAccountsToFetch vA vB ps) \<Longrightarrow> map_of vs k = map_of vs' k"
  shows "readAccountsInfo vs clock vA vB ps = readAccountsInfo vs' clock vA vB ps"
proof -
  have "map_of vs k = map_of vs' k"
    if "k \<in> {vaultLpMint vA, vaultLpMint vB, tokenVault vA, tokenVault vB, aVaultLp ps, bVaultLp ps, lpMint ps}"
    for k
    using that assms by (auto simp: poolAccountsToFetch_def)
  then show ?thesis by (simp add: readAccountsInfo_def Let_def)
qed

section \<open>Curves with different depeg accounts\<close>

fun forgetCurve :: "swap_curve \<Rightarrow> swap_curve" where
  "forgetCurve CurveConstantProduct = CurveConstantProduct"
| "forgetCurve (CurveStable ss) = CurveStable (ss\<lparr>extraAccounts := Map.empty\<rparr>)"

definition forgetAccounts :: "amm_impl \<Rightarrow> amm_impl" where
  "forgetAccounts self = self\<lparr>ammDepegAccounts := Map.empty, ammSwapCurve := forgetCurve (ammSwapCurve self)\<rparr>"

text \<open>The two maps have the same account for the pool's own stake key.\<close>

definition same_stake_account :: "pool_state \<Rightarrow> (pubkey \<rightharpoonup> byte list) \<Rightarrow> (pubkey \<rightharpoonup> byte list) \<Rightarrow> bool" where
  "same_stake_account ps m m' \<longleftrightarrow> (\<forall>k. getStakePubkey ps = Some k \<longrightarrow> m k = m' k)"

lemma update_accounts:
  assumes "curveType ps = StableSwapCurve p" and "same_stake_account ps m m'"
    and ss_def: "ss = newStableSwap a p m t (stake ps)"
  shows "updateDepegInfoIfExpired X (ss\<lparr>extraAccounts := m'\<rparr>) =
    (fst (updateDepegInfoIfExpired X ss), (snd (updateDepegInfoIfExpired X ss))\<lparr>extraAccounts := m'\<rparr>)"
proof -
  have price: "getBasePoolVirtualPrice X (ss\<lparr>extraAccounts := m'\<rparr>) (depegType (depegInfo p)) =
      getBasePoolVirtualPrice X ss (depegType (depegInfo p))"
    using assms(1,2)
    by (cases "depegType (depegInfo p)")
      (simp_all add: ss_def newStableSwap_def accountData_def same_stake_account_def getStakePubkey_def)
  have type: "depegType (this_depeg ss) = depegType (depegInfo p)" by (simp add: ss_def newStableSwap_def)
  have expired: "cacheExpired (ss\<lparr>extraAccounts := m'\<rparr>) = cacheExpired ss" by (simp add: cacheExpired_def)
  show ?thesis
    using price
    by (auto simp: updateDepegInfoIfExpired_def type expired split: sum.splits)
qed

lemma invariantD_accounts: "ss_invariantD a b (ss\<lparr>extraAccounts := m'\<rparr>) = ss_invariantD a b ss"
  by (simp add: ss_invariantD_def upscaleTokenA_def upscaleTokenB_def Let_def)

text \<open>Curves made from one pool state with such maps differ in the maps only, also after a call.\<close>

lemma new_curves:
  assumes "newSwapCurve ps m t = Inr c" and "same_stake_account ps m m'"
  obtains c' where "newSwapCurve ps m' t = Inr c'" and "forgetCurve c' = forgetCurve c"
    and "forgetCurve (curve_refresh X c') = forgetCurve (curve_refresh X c)"
    and "\<And>a b. fst (curve_computeD X a b c') = fst (curve_computeD X a b c)"
proof (cases "curveType ps")
  case ConstantProductCurve
  with assms(1) show ?thesis by (intro that [of CurveConstantProduct]) (auto simp: newSwapCurve_def)
next
  case (StableSwapCurve p)
  let ?ss = "newStableSwap (amp p) p m t (stake ps)"
  from assms(1) StableSwapCurve have c: "c = CurveStable ?ss" and amp: "toNumber (amp p) = Inr (amp p)"
    by (auto simp: newSwapCurve_def toNumber_eq_Inr_iff)
  have ss': "newStableSwap (amp p) p m' t (stake ps) = ?ss\<lparr>extraAccounts := m'\<rparr>"
    by (simp add: newStableSwap_def)
  note upd = update_accounts [OF StableSwapCurve assms(2) refl, of X "amp p" t]
  show ?thesis
  proof (rule that [of "CurveStable (?ss\<lparr>extraAccounts := m'\<rparr>)"])
    show "newSwapCurve ps m' t = Inr (CurveStable (?ss\<lparr>extraAccounts := m'\<rparr>))"
      using StableSwapCurve amp by (simp add: newSwapCurve_def ss')
    show "fst (curve_computeD X a b (CurveStable (?ss\<lparr>extraAccounts := m'\<rparr>))) = fst (curve_computeD X a b c)" for a b
      by (simp add: c onStable_def ss_computeD_def refreshed_result upd invariantD_accounts)
  qed (simp_all add: c upd)
qed

lemma poolInfo_of_curves:
  assumes "\<And>a b. fst (curve_computeD X a b c') = fst (curve_computeD X a b c)"
    and "forgetCurve c' = forgetCurve c"
    and "forgetCurve (curve_refresh X c') = forgetCurve (curve_refresh X c)"
  shows "fst (poolInfoOf X info vA vB c') = fst (poolInfoOf X info vA vB c) \<and>
    forgetCurve (snd (poolInfoOf X info vA vB c')) = forgetCurve (snd (poolInfoOf X info vA vB c))"
  using assms
  by (auto simp: poolInfoOf_def calculatePoolInfo_def fst_then_do snd_then_do curve_states
      split: sum.splits prod.splits)

lemma storeDepeg_forget: "storeDepeg (forgetCurve c) ps = storeDepeg c ps"
  by (cases c) (auto split: curve_type.splits)

lemma newAmmImpl_accounts:
  assumes "newAmmImpl X programId pool ps lpTotal vA vB info m = Inr self" and "same_stake_account ps m m'"
  shows "\<exists>self'. newAmmImpl X programId pool ps lpTotal vA vB info m' = Inr self' \<and>
    forgetAccounts self' = forgetAccounts self"
proof -
  from assms(1) obtain c where c: "newSwapCurve ps m (currentTime info) = Inr c" and
    info: "poolInfoOf X info (vaultState vA) (vaultState vB) c = (Inr (ammPoolInfo self), ammSwapCurve self)" and
    self: "self = \<lparr>ammAddress = pool, ammProgramId = programId,
              ammTokenAMint = vaultTokenMint vA, ammTokenBMint = vaultTokenMint vB,
              ammPoolState = storeDepeg (ammSwapCurve self) ps, ammLpSupply = lpTotal,
              ammPoolInfo = ammPoolInfo self, ammVaultA = vaultState vA, ammVaultB = vaultState vB,
              ammAccountsInfo = info, ammSwapCurve = ammSwapCurve self, ammDepegAccounts = m,
              ammVaultAPda = vaultPda vA, ammVaultBPda = vaultPda vB, ammSharesDepeg = True\<rparr>"
    by (rule newAmmImpl_fields)
  obtain c' where c': "newSwapCurve ps m' (currentTime info) = Inr c'" "forgetCurve c' = forgetCurve c"
    "forgetCurve (curve_refresh X c') = forgetCurve (curve_refresh X c)"
    "\<And>a b. fst (curve_computeD X a b c') = fst (curve_computeD X a b c)"
    using new_curves [OF c assms(2), of X] by blast
  from poolInfo_of_curves [OF c'(4,2,3), of info "vaultState vA" "vaultState vB"] info obtain d where
    d: "poolInfoOf X info (vaultState vA) (vaultState vB) c' = (Inr (ammPoolInfo self), d)"
      "forgetCurve d = forgetCurve (ammSwapCurve self)"
    by (metis fst_conv snd_conv prod.collapse)
  have "storeDepeg d ps = storeDepeg (ammSwapCurve self) ps" using d(2) storeDepeg_forget by metis
  then show ?thesis
    by (subst self) (simp add: newAmmImpl_def c'(1) d forgetAccounts_def)
qed

text \<open>
  An object with the depeg account of its own pool only, both in its own map and in the one of its
  curve: the account at the key that \<open>getStakePubkey\<close> gives, when it gives one.
\<close>

fun restrictCurve :: "pubkey set \<Rightarrow> swap_curve \<Rightarrow> swap_curve" where
  "restrictCurve K CurveConstantProduct = CurveConstantProduct"
| "restrictCurve K (CurveStable ss) = CurveStable (ss\<lparr>extraAccounts := extraAccounts ss |` K\<rparr>)"

definition ownAccounts :: "amm_impl \<Rightarrow> amm_impl" where
  "ownAccounts self =
     (let K = set_option (getStakePubkey (ammPoolState self)) in
      self\<lparr>ammDepegAccounts := ammDepegAccounts self |` K, ammSwapCurve := restrictCurve K (ammSwapCurve self)\<rparr>)"

fun curveAccounts :: "swap_curve \<Rightarrow> (pubkey \<rightharpoonup> byte list) option" where
  "curveAccounts CurveConstantProduct = None"
| "curveAccounts (CurveStable ss) = Some (extraAccounts ss)"

lemma restrict_eq:
  assumes "forgetCurve c' = forgetCurve c" and "curveAccounts c' \<in> {None, Some (m |` K)}"
    and "curveAccounts c \<in> {None, Some m}"
  shows "c' = restrictCurve K c"
proof (cases c')
  case (CurveStable ss')
  then obtain ss where c: "c = CurveStable ss" using assms(1) by (cases c) simp_all
  with CurveStable assms have "ss'\<lparr>extraAccounts := Map.empty\<rparr> = ss\<lparr>extraAccounts := Map.empty\<rparr>"
    "extraAccounts ss' = m |` K" "extraAccounts ss = m" by auto
  then show ?thesis unfolding CurveStable c by (cases ss; cases ss') simp
qed (use assms(1) in \<open>cases c; simp\<close>)

lemma newSwapCurve_accounts:
  assumes "newSwapCurve ps m t = Inr c"
  shows "curveAccounts c \<in> {None, Some m} \<and> getStakePubkey (storeDepeg c ps) = getStakePubkey ps"
    "curveAccounts (curve_refresh X c) \<in> {None, Some m} \<and>
      getStakePubkey (storeDepeg (curve_refresh X c) ps) = getStakePubkey ps"
  using assms
  by (auto simp: newSwapCurve_def newStableSwap_def getStakePubkey_def updateDepeg_frame toNumber_eq_Inr_iff
      split: curve_type.splits depeg_type.splits)

lemma newAmmImpl_own:
  assumes "newAmmImpl X programId pool ps lpTotal vA vB info m = Inr self"
  shows "newAmmImpl X programId pool ps lpTotal vA vB info (m |` set_option (getStakePubkey ps)) =
    Inr (ownAccounts self)"
proof -
  let ?K = "set_option (getStakePubkey ps)"
  have facts: "ammDepegAccounts s = m' \<and> curveAccounts (ammSwapCurve s) \<in> {None, Some m'} \<and>
      getStakePubkey (ammPoolState s) = getStakePubkey ps"
    if new: "newAmmImpl X programId pool ps lpTotal vA vB info m' = Inr s" for s m'
  proof -
    from newAmmImpl_fields [OF new] obtain c where c: "newSwapCurve ps m' (currentTime info) = Inr c"
      and info: "poolInfoOf X info (vaultState vA) (vaultState vB) c = (Inr (ammPoolInfo s), ammSwapCurve s)"
      and s: "ammPoolState s = storeDepeg (ammSwapCurve s) ps" "ammDepegAccounts s = m'"
      by (metis amm_impl.select_convs(5,12))
    have "snd (poolInfoOf X info (vaultState vA) (vaultState vB) c) \<in> {c, curve_refresh X c}"
      by (rule poolInfoOf_state) simp_all
    with info s newSwapCurve_accounts(1) [OF c] newSwapCurve_accounts(2) [OF c, of X] show ?thesis by auto
  qed
  have "same_stake_account ps m (m |` ?K)"
    by (simp add: same_stake_account_def)
  from newAmmImpl_accounts [OF assms this] obtain self' where
    self': "newAmmImpl X programId pool ps lpTotal vA vB info (m |` ?K) = Inr self'"
      "forgetAccounts self' = forgetAccounts self" by blast
  note own = facts [OF assms] and own' = facts [OF self'(1)]
  have "forgetCurve (ammSwapCurve self') = forgetCurve (ammSwapCurve self)"
    using self'(2) unfolding forgetAccounts_def by (cases self; cases self') simp
  then have curve: "ammSwapCurve self' = restrictCurve ?K (ammSwapCurve self)"
    using own own' by (intro restrict_eq) auto
  have "self' = self\<lparr>ammDepegAccounts := m |` ?K, ammSwapCurve := restrictCurve ?K (ammSwapCurve self)\<rparr>"
    using self'(2) curve own' unfolding forgetAccounts_def by (cases self; cases self') simp
  also have "\<dots> = ownAccounts self" using own by (simp add: ownAccounts_def Let_def)
  finally show ?thesis using self'(1) by simp
qed

section \<open>One pool of a batch\<close>

text \<open>
  What the two ways rely on: every account of a pool or vault has its kind, and the supply that
  \<open>getTokenSupply\<close> reports is the one in the mint account.
\<close>

definition typed_chain :: "chain \<Rightarrow> (pubkey \<Rightarrow> vault_impl result) \<Rightarrow> (pubkey \<Rightarrow> nat) \<Rightarrow> bool" where
  "typed_chain C vaultAt kind \<longleftrightarrow> kind (SYSVAR_CLOCK_PUBKEY C) = 3 \<and>
     (\<forall>k ps. poolAccount C k = Some ps \<longrightarrow> kind (aVaultLp ps) = 1 \<and> kind (bVaultLp ps) = 1 \<and> kind (lpMint ps) = 2) \<and>
     (\<forall>k v. vaultAt k = Inr v \<longrightarrow> kind (tokenVault (vaultState v)) = 1 \<and> kind (vaultLpMint (vaultState v)) = 2)"

definition supplies_agree :: "chain \<Rightarrow> bool" where
  "supplies_agree C \<longleftrightarrow> (\<forall>k data n. accountInfo C k = Some data \<longrightarrow> decodeMintSupply C data = Inr n \<longrightarrow>
     tokenSupply C k = Inr n)"

lemma typed_pool:
  assumes "typed_chain C vaultAt kind" and "poolAccount C k = Some ps"
    and "vaultAt a = Inr vA" and "vaultAt b = Inr vB"
  shows "typed kind (poolAccountsToFetch (vaultState vA) (vaultState vB) ps)"
  using assms by (auto simp: typed_chain_def typed_def poolAccountsToFetch_def)

lemma findVault_at:
  assumes "vaults_by_address V vaultAt" and "createMultipleWithPda V ks seed = Inr vs" and "k \<in> set ks"
  shows "findVault vs k = vaultAt k"
proof -
  have "all_results vaultAt ks = Inr vs" using assms(1,2) by (simp add: vaults_by_address_def)
  then have len: "length ks = length vs" and at: "\<And>i. i < length ks \<Longrightarrow> vaultAt (ks ! i) = Inr (vs ! i)"
    by (auto simp: all_results_Inr_iff)
  have pda: "vaultPda (vs ! i) = ks ! i" if "i < length ks" for i
    using assms(1) at [OF that] by (simp add: vaults_by_address_def)
  obtain j where j: "j < length ks" "ks ! j = k" using assms(3) by (auto simp: in_set_conv_nth)
  then have "\<exists>v \<in> set vs. vaultPda v = k" using pda [of j] len by (metis nth_mem)
  then obtain v where v: "List.find (\<lambda>v. vaultPda v = k) vs = Some v"
    by (cases "List.find (\<lambda>v. vaultPda v = k) vs") (auto simp: find_None_iff)
  then obtain i where "i < length vs" "vs ! i = v" "vaultPda v = k" by (auto simp: find_Some_iff)
  then have "vaultAt k = Inr v" using at [of i] pda [of i] len by simp
  with v show ?thesis by (simp add: findVault_def)
qed

lemma poolEntry_at:
  assumes "poolEntry vs (pool, ps, lpTotal) = Inr e" and "vaults_by_address V vaultAt"
    and "createMultipleWithPda V ks seed = Inr vs" and "aVault ps \<in> set ks" and "bVault ps \<in> set ks"
  shows "entryPool e = pool \<and> entryState e = ps \<and> entryLpSupply e = lpTotal \<and>
    vaultAt (aVault ps) = Inr (entryVaultA e) \<and> vaultAt (bVault ps) = Inr (entryVaultB e)"
  using assms(1) findVault_at [OF assms(2,3)] assms(4,5) by (auto simp: poolEntry_def)

lemma getDepegAccounts_single:
  "getDepegAccounts C [p] =
    Inr (case getStakePubkey p of None \<Rightarrow> Map.empty
      | Some k \<Rightarrow> (case accountInfo C k of None \<Rightarrow> Map.empty | Some data \<Rightarrow> [k \<mapsto> data]))"
  by (simp add: getDepegAccounts_def chunked_infos Let_def List.map_filter_simps split: option.split)

lemma getDepegAccounts_own:
  assumes "getDepegAccounts C ps = Inr M" and "p \<in> set ps"
  shows "getDepegAccounts C [p] = Inr (M |` set_option (getStakePubkey p))"
proof (cases "getStakePubkey p")
  case (Some k)
  note at = getDepegAccounts_lookup [OF assms Some]
  show ?thesis
    by (rule trans [OF getDepegAccounts_single])
      (auto simp: Some at restrict_map_def fun_eq_iff split: option.split)
qed (simp add: getDepegAccounts_single)

text \<open>One entry of a batch whose reads succeeded can be created alone.\<close>

lemma create_alone:
  assumes law: "vaults_by_address V vaultAt" and typed: "typed_chain C vaultAt kind"
    and pool: "getPoolState C pool = Inr (ps, lpTotal)" "poolAccount C pool = Some ps"
    and vaults: "vaultAt (aVault ps) = Inr vA" "vaultAt (bVault ps) = Inr vB"
    and batch: "getAccountsBuffer C L = Inr M" "deserializeAccountsBuffer C M = Inr VS" "typed kind L"
      "set (poolAccountsToFetch (vaultState vA) (vaultState vB) ps) \<subseteq> set L"
      "(SYSVAR_CLOCK_PUBKEY C, SYSVAR_CLOCK) \<in> set L" "decodeClock X C M = Inr clock"
    and info: "readAccountsInfo VS clock (vaultState vA) (vaultState vB) ps = Inr info"
    and depeg: "getDepegAccounts C all = Inr m" "ps \<in> set all"
    and new: "newAmmImpl X (createProgramId programId) pool ps lpTotal vA vB info m = Inr self"
  shows "create X C V pool programId None = Inr (ownAccounts self)"
proof -
  let ?l = "poolAccountsToFetch (vaultState vA) (vaultState vB) ps"
  let ?l' = "?l @ [(SYSVAR_CLOCK_PUBKEY C, SYSVAR_CLOCK)]"
  obtain m' where m': "getAccountsBuffer C ?l' = Inr m'" using getAccountsBuffer_returns by blast
  have sub: "set ?l' \<subseteq> set L" using batch(4,5) by simp
  obtain vs where vs: "deserializeAccountsBuffer C m' = Inr vs" and
    same: "\<And>k ty. (k, ty) \<in> set ?l' \<Longrightarrow> map_of vs k = map_of VS k"
    using partial_read [OF batch(1,2,3) sub m'] by blast
  have clock: "decodeClock X C m' = Inr clock"
    using decodeClock_value [OF batch(1,5), of X] decodeClock_value [OF m', of SYSVAR_CLOCK X] batch(6) by simp
  have info': "readAccountsInfo vs clock (vaultState vA) (vaultState vB) ps = Inr info"
    unfolding info [symmetric] by (rule readAccountsInfo_cong) (auto intro: same)
  have "createMultipleWithPda V [aVault ps, bVault ps] None = Inr [vA, vB]"
    using law vaults by (simp add: vaults_by_address_def)
  then show ?thesis
    using m' vs clock info' getDepegAccounts_own [OF depeg] newAmmImpl_own [OF new] by (simp add: create_def pool(1))
qed

lemma getAllPoolState_single:
  assumes "getAllPoolState C pools = Inr rs" and "supplies_agree C" and "i < length pools"
  shows "poolAccount C (pools ! i) = Some (fst (rs ! i)) \<and> getPoolState C (pools ! i) = Inr (rs ! i)"
proof -
  from getAllPoolState_order [of C pools] assms(1,3) obtain data where
    i: "poolAccount C (pools ! i) = Some (fst (rs ! i))" and
    data: "accountInfo C (lpMint (fst (rs ! i))) = Some data" "decodeMintSupply C data = Inr (snd (rs ! i))"
    by blast
  then have "tokenSupply C (lpMint (fst (rs ! i))) = Inr (snd (rs ! i))"
    using assms(2) by (auto simp: supplies_agree_def)
  with i show ?thesis by (simp add: getPoolState_def)
qed

lemma batch_length:
  assumes "createMultiple X C V pools programId = Inr selves"
  shows "length selves = length pools"
proof -
  from assms obtain rs vs entries programId' VS clock m es where
    "getAllPoolState C pools = Inr rs" "all_results (poolEntry vs) (zip pools rs) = Inr entries"
    "all_results (createFromEntry X programId' VS clock m es) entries = Inr selves"
    by (auto simp: createMultiple_def Let_def)
  then show ?thesis using getAllPoolState_order [of C pools] by (auto simp: all_results_Inr_iff)
qed

lemma batch_entry:
  assumes "createMultiple X C V pools programId = Inr selves"
    and law: "vaults_by_address V vaultAt" and typed: "typed_chain C vaultAt kind" and "supplies_agree C"
    and distinct: "distinct (map (\<lambda>k. map_option lpMint (poolAccount C k)) pools)" and i: "i < length pools"
  shows "create X C V (pools ! i) programId None = Inr (ownAccounts (selves ! i))"
proof -
  let ?clock = "[(SYSVAR_CLOCK_PUBKEY C, SYSVAR_CLOCK)]"
  from assms(1) obtain rs vs entries M clock VS m where
    rs: "getAllPoolState C pools = Inr rs" and
    vs: "createMultipleWithPda V (concat (map (\<lambda>(ps, lpTotal). [aVault ps, bVault ps]) rs)) None = Inr vs" and
    entries: "all_results (poolEntry vs) (zip pools rs) = Inr entries" and
    reads: "getAccountsBuffer C (concat (map entryAccounts entries) @ ?clock) = Inr M"
      "decodeClock X C M = Inr clock" "deserializeAccountsBuffer C M = Inr VS"
      "getDepegAccounts C (map fst rs) = Inr m" and
    objs: "all_results (createFromEntry X (createProgramId programId) VS clock m
      (map_of (rev (map (\<lambda>e. (lpMint (entryState e), e)) entries)))) entries = Inr selves"
    by (auto simp: createMultiple_def Let_def)
  let ?L = "concat (map entryAccounts entries) @ ?clock"
  let ?vaults = "concat (map (\<lambda>(ps, lpTotal). [aVault ps, bVault ps]) rs)"
  have len: "length rs = length pools" using getAllPoolState_order [of C pools] rs by blast
  note single = getAllPoolState_single [OF rs assms(4)]
  have lens: "length entries = length pools" "length selves = length pools"
    using entries objs len by (auto simp: all_results_Inr_iff)
  have entry: "entryPool (entries ! j) = pools ! j \<and> entryState (entries ! j) = fst (rs ! j) \<and>
      entryLpSupply (entries ! j) = snd (rs ! j) \<and>
      vaultAt (aVault (fst (rs ! j))) = Inr (entryVaultA (entries ! j)) \<and>
      vaultAt (bVault (fst (rs ! j))) = Inr (entryVaultB (entries ! j))" if "j < length pools" for j
  proof (rule poolEntry_at [OF _ law vs])
    show "poolEntry vs (pools ! j, fst (rs ! j), snd (rs ! j)) = Inr (entries ! j)"
      using entries that len by (simp add: all_results_Inr_iff)
    have "rs ! j \<in> set rs" using that len by simp
    then show "aVault (fst (rs ! j)) \<in> set ?vaults" "bVault (fst (rs ! j)) \<in> set ?vaults"
      by (force simp: case_prod_unfold)+
  qed
  have "typed kind (entryAccounts (entries ! j))" if "j < length pools" for j
    using typed_pool [OF typed] single [OF that] entry [OF that] unfolding entryAccounts_def by metis
  then have "typed kind (entryAccounts e)" if "e \<in> set entries" for e
    using that lens(1) by (metis in_set_conv_nth)
  then have "typed kind ?L" using typed by (auto simp: typed_def typed_chain_def)
  let ?e = "entries ! i"
  have "distinct (map (\<lambda>e. lpMint (entryState e)) entries)"
  proof -
    have "map (\<lambda>e. Some (lpMint (entryState e))) entries = map (\<lambda>k. map_option lpMint (poolAccount C k)) pools"
      using lens(1) entry single by (intro nth_equalityI) auto
    with distinct have "distinct (map Some (map (\<lambda>e. lpMint (entryState e)) entries))" by (simp add: comp_def)
    then show ?thesis unfolding distinct_map by blast
  qed
  then have lookup: "map_of (rev (map (\<lambda>e. (lpMint (entryState e), e)) entries)) (lpMint (entryState ?e)) = Some ?e"
    using i lens(1) by (intro map_of_is_SomeI) (auto simp: comp_def rev_map [symmetric] distinct_rev)
  have "createFromEntry X (createProgramId programId) VS clock m
      (map_of (rev (map (\<lambda>e. (lpMint (entryState e), e)) entries))) ?e = Inr (selves ! i)"
    using objs i lens by (simp add: all_results_Inr_iff)
  with lookup obtain info where
    info: "readAccountsInfo VS clock (vaultState (entryVaultA ?e)) (vaultState (entryVaultB ?e)) (fst (rs ! i)) = Inr info" and
    new: "newAmmImpl X (createProgramId programId) (pools ! i) (fst (rs ! i)) (snd (rs ! i)) (entryVaultA ?e)
      (entryVaultB ?e) info m = Inr (selves ! i)"
    using entry [OF i] by (auto simp: createFromEntry_def)
  have "set (entryAccounts ?e) \<subseteq> set ?L" using i lens(1) by force
  then have sub: "set (poolAccountsToFetch (vaultState (entryVaultA ?e)) (vaultState (entryVaultB ?e)) (fst (rs ! i))) \<subseteq> set ?L"
    using entry [OF i] by (simp add: entryAccounts_def)
  show ?thesis
    by (rule create_alone [OF law typed _ _ _ _ reads(1,3) \<open>typed kind ?L\<close> sub _ reads(2) info reads(4) _ new])
      (use single [OF i] entry [OF i] i len in \<open>auto simp: prod_eq_iff\<close>)
qed

section \<open>Properties\<close>

text \<open>
  C19: \<open>createMultiple\<close> implements creating the pools one by one: it gives one object for every pool
  asked, in order, and each, with the depeg accounts of the other pools of the batch taken out, is
  exactly the object that \<open>create\<close> builds for that pool alone: the account of its own stake pool is
  there, and every other field is the same.
\<close>

theorem batch_is_pointwise:
  assumes "createMultiple X C V pools programId = Inr selves"
    and "vaults_by_address V vaultAt" and "typed_chain C vaultAt kind" and "supplies_agree C"
    and "distinct (map (\<lambda>k. map_option lpMint (poolAccount C k)) pools)"
  shows "all_results (\<lambda>pool. create X C V pool programId None) pools = Inr (map ownAccounts selves)"
proof -
  note entry = batch_entry [OF assms] and len = batch_length [OF assms(1)]
  then show ?thesis by (simp add: all_results_Inr_iff)
qed

definition example_kind :: "pubkey \<Rightarrow> nat" where
  "example_kind k = (if k = key 99 then 3 else if k \<in> {key 1, key 13, key 16, key 17} then 2 else 1)"

theorem batch_is_pointwise_witness:
  "\<exists>selves. createMultiple example_externals example_pools example_vaults [key 21, key 20] None = Inr selves \<and>
    all_results (\<lambda>pool. create example_externals example_pools example_vaults pool None None) [key 21, key 20] =
      Inr (map ownAccounts selves)"
proof -
  have "(case createMultiple example_externals example_pools example_vaults [key 21, key 20] None of
      Inl e \<Rightarrow> False | Inr selves \<Rightarrow> True)"
    by code_simp
  then obtain selves where run:
    "createMultiple example_externals example_pools example_vaults [key 21, key 20] None = Inr selves"
    by (auto split: sum.splits)
  have "typed_chain example_pools example_vault_at example_kind"
    by (auto simp: typed_chain_def example_pools_def example_vault_at_def example_kind_def example_chain_def
        example_pool_def example_lst_pool_def example_vault_def key_def split: if_splits)
  moreover have "supplies_agree example_pools"
    by (simp add: supplies_agree_def example_pools_def example_chain_def)
  moreover have "distinct (map (\<lambda>k. map_option lpMint (poolAccount example_pools k)) [key 21, key 20])"
    by (simp add: example_pools_def example_pool_def key_def)
  ultimately show ?thesis
    using batch_is_pointwise [OF run example_vaults_law] run by blast
qed

end
