(* ===== verification/RoundTrip.thy ===== *)
theory RoundTrip
  imports Lifecycle
begin

text \<open>
  A deposit quote followed by the withdrawal quote of the shares it promises, on one object of
  \<open>create\<close> (\<open>index.ts\<close>). The pool information of such an object is computed from the accounts the
  quotes use, so the roundings of \<open>calculatePoolInfo\<close>, \<open>getDepositQuote\<close> and
  \<open>getWithdrawQuote\<close> can be compared.
\<close>

section \<open>The pool information of a created object\<close>

lemma create_newAmmImpl:
  assumes "create X C V pool programId seed = Inr self"
  obtains ps lpTotal vA vB info m where
    "newAmmImpl X (createProgramId programId) pool ps lpTotal vA vB info m = Inr self"
  using assms by (auto simp: create_def split: list.splits prod.splits)

lemma calculatePoolInfo_amounts:
  assumes "calculatePoolInfo X now lpA lpB supplyA supplyB lpTotal vA vB c = (Inr pool, c')"
  obtains wA wB where "vsWithdrawable X now vA = Inr wA" and "vsWithdrawable X now vB = Inr wB"
    and "vsAmountByShare X lpA wA supplyA = Inr (tokenAAmount pool)"
    and "vsAmountByShare X lpB wB supplyB = Inr (tokenBAmount pool)"
  using assms by (auto simp: calculatePoolInfo_def toNumber_eq_Inr_iff)

lemma created_pool_amounts:
  assumes "create X C V pool programId seed = Inr self" and "vault_sdk_laws X"
    and "solvent_vaults X self" and "sound_accounts (ammAccountsInfo self)"
  defines "info \<equiv> ammAccountsInfo self"
  obtains wA wB where "vsWithdrawable X (currentTime info) (ammVaultA self) = Inr wA"
    and "vsWithdrawable X (currentTime info) (ammVaultB self) = Inr wB" and "0 \<le> wA" and "0 \<le> wB"
    and "tokenAAmount (ammPoolInfo self) = (poolVaultALp info * wA) div vaultALpSupply info"
    and "tokenBAmount (ammPoolInfo self) = (poolVaultBLp info * wB) div vaultBLpSupply info"
proof -
  obtain ps lpTotal vA vB i m where
    "newAmmImpl X (createProgramId programId) pool ps lpTotal vA vB i m = Inr self"
    by (rule create_newAmmImpl [OF assms(1)])
  then obtain c where "poolInfoOf X info (ammVaultA self) (ammVaultB self) c = (Inr (ammPoolInfo self), ammSwapCurve self)"
    unfolding info_def by (metis newAmmImpl_fields amm_impl.select_convs)
  then obtain wA wB where w: "vsWithdrawable X (currentTime info) (ammVaultA self) = Inr wA"
      "vsWithdrawable X (currentTime info) (ammVaultB self) = Inr wB" and
    amounts: "vsAmountByShare X (poolVaultALp info) wA (vaultALpSupply info) = Inr (tokenAAmount (ammPoolInfo self))"
      "vsAmountByShare X (poolVaultBLp info) wB (vaultBLpSupply info) = Inr (tokenBAmount (ammPoolInfo self))"
    unfolding poolInfoOf_def by (rule calculatePoolInfo_amounts)
  have nn: "0 \<le> wA" "0 \<le> wB" using assms(3) w by (simp_all add: solvent_vaults_def info_def)
  then show thesis
    using that [OF w nn] amounts assms(2,4)
    by (auto simp: vault_sdk_laws_def sound_accounts_def info_def)
qed

section \<open>What the deposit quote promises\<close>

lemma share_worth_at_most:
  assumes "getShareByAmount X inp tok lp False = Inr out" and "getMinAmountWithSlippage out UNLOCK_AMOUNT_BUFFER = Inr s"
    and "0 \<le> inp" "0 \<le> lp" "0 \<le> tok"
  shows "0 \<le> s" "s * tok \<le> inp * lp"
proof -
  have out: "0 \<le> out \<and> out * tok \<le> inp * lp"
  proof (cases "tok = 0")
    case True
    then show ?thesis using assms by (simp add: getShareByAmount_def)
  next
    case False
    then show ?thesis using poolShare.convert_bounds(1,2) [OF assms(1)] assms(3-5) by simp
  qed
  have "0 \<le> UNLOCK_AMOUNT_BUFFER \<and> UNLOCK_AMOUNT_BUFFER \<le> 100" by code_simp
  then have s: "0 \<le> s" "s \<le> out" using min_slippage_le [OF assms(2)] out by auto
  show "0 \<le> s" by (rule s)
  have "s * tok \<le> out * tok" using s assms(5) by (intro mult_right_mono)
  then show "s * tok \<le> inp * lp" using out by linarith
qed

lemma balanced_deposit_shares:
  assumes "getDepositQuote X inA inB True slippage self = (Inr q, self')"
    and "0 < poolLpSupply (ammAccountsInfo self)"
    and "0 \<le> tokenAAmount (ammPoolInfo self)" and "0 \<le> tokenBAmount (ammPoolInfo self)"
    and "0 \<le> inA" and "0 \<le> inB"
  shows "self' = self" "0 \<le> poolTokenAmountOut q"
    "inA = 0 \<Longrightarrow> poolTokenAmountOut q * tokenBAmount (ammPoolInfo self) \<le> inB * poolLpSupply (ammAccountsInfo self)"
    "inB = 0 \<Longrightarrow> inA \<noteq> 0 \<Longrightarrow>
      poolTokenAmountOut q * tokenAAmount (ammPoolInfo self) \<le> inA * poolLpSupply (ammAccountsInfo self)"
    "inA = 0 \<or> inB = 0"
proof -
  let ?lp = "poolLpSupply (ammAccountsInfo self)" and ?pool = "ammPoolInfo self"
  have lp: "0 \<le> ?lp" using assms(2) by simp
  show one: "inA = 0 \<or> inB = 0"
    using assms(1) by (auto simp: getDepositQuote_def Let_def invariant_def split: if_splits)
  have "self' = self \<and> (\<exists>inp tok out. (inp, tok) = (if inA = 0 then (inB, tokenBAmount ?pool) else (inA, tokenAAmount ?pool)) \<and>
      getShareByAmount X inp tok ?lp False = Inr out \<and>
      getMinAmountWithSlippage out UNLOCK_AMOUNT_BUFFER = Inr (poolTokenAmountOut q))"
    using assms(1,2) one
    by (auto simp: getDepositQuote_def constantProductDeposit_def Let_def split: if_splits)
  then obtain inp tok out where self: "self' = self" and
    side: "(inp, tok) = (if inA = 0 then (inB, tokenBAmount ?pool) else (inA, tokenAAmount ?pool))" and
    out: "getShareByAmount X inp tok ?lp False = Inr out" and
    s: "getMinAmountWithSlippage out UNLOCK_AMOUNT_BUFFER = Inr (poolTokenAmountOut q)" by blast
  have nn: "0 \<le> inp" "0 \<le> tok" using side assms(3-6) by (auto split: if_splits)
  note worth = share_worth_at_most [OF out s nn(1) lp nn(2)]
  show "self' = self" "0 \<le> poolTokenAmountOut q"
    "inA = 0 \<Longrightarrow> poolTokenAmountOut q * tokenBAmount (ammPoolInfo self) \<le> inB * poolLpSupply (ammAccountsInfo self)"
    "inB = 0 \<Longrightarrow> inA \<noteq> 0 \<Longrightarrow>
      poolTokenAmountOut q * tokenAAmount (ammPoolInfo self) \<le> inA * poolLpSupply (ammAccountsInfo self)"
    using self worth side by auto
qed

section \<open>One side of the round trip\<close>

lemma withdrawSide_returns_at_most:
  assumes "withdrawSide X s lp poolLp w supply = Inr out"
    and "0 \<le> s" "s \<le> lp" "0 < lp" "0 \<le> poolLp" "0 \<le> w" "0 < supply"
    and "s * ((poolLp * w) div supply) \<le> inp * lp"
  shows "out \<le> inp"
proof (cases "s = 0")
  case True
  then have "out * (supply * lp) \<le> 0"
    using withdrawSide_fair [OF assms(1,2,4-7)] by (simp add: mult.assoc)
  then have "out \<le> 0" using assms(4,7) by (auto simp: mult_le_0_iff)
  moreover have "0 \<le> inp" using assms(4,8) True by (simp add: zero_le_mult_iff)
  ultimately show ?thesis by simp
next
  case False
  let ?t = "(poolLp * w) div supply"
  have "out * lp * supply = out * supply * lp" by (simp add: ac_simps)
  also have "\<dots> \<le> s * (poolLp * w)" using withdrawSide_fair [OF assms(1,2,4-7)] by (simp add: mult.assoc)
  also have "\<dots> < s * ((?t + 1) * supply)"
    using False assms(2) lt_Suc_div_times [OF assms(7), of "poolLp * w"] by (intro mult_strict_left_mono) auto
  also have "\<dots> = s * (?t + 1) * supply" by (simp only: mult.assoc)
  finally have "out * lp < s * (?t + 1)" using assms(7) by simp
  also have "\<dots> \<le> (inp + 1) * lp" using assms(3,8) by (simp add: distrib_left distrib_right)
  finally show ?thesis using assms(4) by simp
qed

section \<open>A round trip on example accounts\<close>

definition created_example :: "amm_impl result" where
  "created_example = create example_externals example_pools example_vaults (key 20) None None"

definition round_trip :: "int \<Rightarrow> int \<Rightarrow> amm_impl \<Rightarrow> (deposit_quote \<times> withdraw_quote) result" where
  "round_trip inA inB self =
     and_then (fst (getDepositQuote example_externals inA inB True 1 self)) (\<lambda>d.
     and_then (fst (getWithdrawQuote example_externals (poolTokenAmountOut d) 1 None
       (snd (getDepositQuote example_externals inA inB True 1 self)))) (\<lambda>w. Inr (d, w)))"

lemma round_trip_runs:
  "case created_example of Inl e \<Rightarrow> False
   | Inr self \<Rightarrow> sound_accounts (ammAccountsInfo self) \<and>
       0 \<le> totalAmount (ammVaultA self) \<and> 0 \<le> totalAmount (ammVaultB self) \<and>
       (case round_trip 0 50000 self of Inl e \<Rightarrow> False
        | Inr (d, w) \<Rightarrow> poolTokenAmountOut d \<le> poolLpSupply (ammAccountsInfo self) \<and> 40000 \<le> tokenBOutAmount w)"
  by code_simp

lemma round_trip_example:
  obtains self d w self1 self2 where "created_example = Inr self" and "sound_accounts (ammAccountsInfo self)"
    and "solvent_vaults example_externals self"
    and "getDepositQuote example_externals 0 50000 True 1 self = (Inr d, self1)"
    and "getWithdrawQuote example_externals (poolTokenAmountOut d) 1 None self1 = (Inr w, self2)"
    and "poolTokenAmountOut d \<le> poolLpSupply (ammAccountsInfo self)" and "40000 \<le> tokenBOutAmount w"
proof -
  from round_trip_runs obtain self d w where s: "created_example = Inr self"
      "sound_accounts (ammAccountsInfo self)" "solvent_vaults example_externals self"
      "poolTokenAmountOut d \<le> poolLpSupply (ammAccountsInfo self)"
      "40000 \<le> tokenBOutAmount w" and rt: "round_trip 0 50000 self = Inr (d, w)"
    by (auto simp: solvent_vaults_def example_externals_def split: sum.splits)
  from rt have "fst (getDepositQuote example_externals 0 50000 True 1 self) = Inr d"
    "fst (getWithdrawQuote example_externals (poolTokenAmountOut d) 1 None
      (snd (getDepositQuote example_externals 0 50000 True 1 self))) = Inr w"
    by (auto simp: round_trip_def)
  with s that show thesis by (metis prod.collapse)
qed

section \<open>Properties\<close>

text \<open>
  C29: A round trip through a pool gains nothing in the token deposited. The shares that a balanced
  deposit quote of one token promises, quoted for balanced withdrawal on the same object, return at
  most the amount of that token that was quoted for the deposit, for every curve, although the pool
  amounts the deposit is priced with are rounded down. The shares must not exceed those already
  issued, and the two vaults must not have locked more profit than they hold. The object comes out
  of both quotes unchanged.
\<close>

theorem deposit_then_withdraw:
  assumes "create X C V pool programId seed = Inr self"
    and "vault_sdk_laws X" and "solvent_vaults X self" and "sound_accounts (ammAccountsInfo self)"
    and "0 \<le> inA" and "0 \<le> inB"
    and "getDepositQuote X inA inB True slippage self = (Inr d, self1)"
    and "getWithdrawQuote X (poolTokenAmountOut d) slippage' None self1 = (Inr w, self2)"
    and "poolTokenAmountOut d \<le> poolLpSupply (ammAccountsInfo self)"
  shows "self2 = self \<and> (inA = 0 \<longrightarrow> tokenBOutAmount w \<le> inB) \<and> (inB = 0 \<and> inA \<noteq> 0 \<longrightarrow> tokenAOutAmount w \<le> inA)"
proof -
  let ?info = "ammAccountsInfo self"
  obtain wA wB where w: "vsWithdrawable X (currentTime ?info) (ammVaultA self) = Inr wA"
      "vsWithdrawable X (currentTime ?info) (ammVaultB self) = Inr wB" "0 \<le> wA" "0 \<le> wB" and
    amounts: "tokenAAmount (ammPoolInfo self) = (poolVaultALp ?info * wA) div vaultALpSupply ?info"
      "tokenBAmount (ammPoolInfo self) = (poolVaultBLp ?info * wB) div vaultBLpSupply ?info"
    by (rule created_pool_amounts [OF assms(1-4)])
  have sound: "0 < poolLpSupply ?info" "0 \<le> poolVaultALp ?info" "0 < vaultALpSupply ?info"
    "0 \<le> poolVaultBLp ?info" "0 < vaultBLpSupply ?info" using assms(4) by (auto simp: sound_accounts_def)
  have nn: "0 \<le> tokenAAmount (ammPoolInfo self)" "0 \<le> tokenBAmount (ammPoolInfo self)"
    unfolding amounts using sound w(3,4) by (auto intro!: div_nonneg)
  note shares = balanced_deposit_shares [OF assms(7) sound(1) nn assms(5,6)]
  from balancedWithdraw_cases [OF assms(8) [unfolded shares(1)]] w(1,2)
  have self: "self2 = self" and
    outA: "withdrawSide X (poolTokenAmountOut d) (poolLpSupply ?info) (poolVaultALp ?info) wA (vaultALpSupply ?info) = Inr (tokenAOutAmount w)" and
    outB: "withdrawSide X (poolTokenAmountOut d) (poolLpSupply ?info) (poolVaultBLp ?info) wB (vaultBLpSupply ?info) = Inr (tokenBOutAmount w)"
    by auto
  note returns = withdrawSide_returns_at_most [OF _ shares(2) assms(9) sound(1)]
  show ?thesis
    using self returns [OF outA sound(2) w(3) sound(3)] returns [OF outB sound(4) w(4) sound(5)]
      shares(3,4) amounts by simp
qed

theorem deposit_then_withdraw_witness:
  "\<exists>self d w self1 self2. created_example = Inr self \<and>
    getDepositQuote example_externals 0 50000 True 1 self = (Inr d, self1) \<and>
    getWithdrawQuote example_externals (poolTokenAmountOut d) 1 None self1 = (Inr w, self2) \<and>
    40000 \<le> tokenBOutAmount w \<and> tokenBOutAmount w \<le> 50000"
proof -
  obtain self d w self1 self2 where s: "created_example = Inr self" "sound_accounts (ammAccountsInfo self)"
      "solvent_vaults example_externals self"
      "getDepositQuote example_externals 0 50000 True 1 self = (Inr d, self1)"
      "getWithdrawQuote example_externals (poolTokenAmountOut d) 1 None self1 = (Inr w, self2)"
      "poolTokenAmountOut d \<le> poolLpSupply (ammAccountsInfo self)" "40000 \<le> tokenBOutAmount w"
    by (rule round_trip_example)
  from deposit_then_withdraw [OF s(1) [unfolded created_example_def] example_externals_vault s(3,2) _ _ s(4,5,6)] s
  show ?thesis by auto
qed

end
