(* ===== verification/Instructions.thy ===== *)
theory Instructions
  imports Idl AmmImpl
begin

text \<open>
  Instructions and transactions as the SDK hands them on, and the helpers of
  \<open>ts-client/src/amm/utils.ts\<close> that make them. A call of the program is kept as what the sources
  pass to the Anchor method builder: a method, its arguments, its accounts by name and the
  remaining accounts. \<open>conforms\<close> states that such a call fits the interface of \<open>Idl\<close>.
\<close>

section \<open>Instructions\<close>

record config_parameters =
  argTradeFeeNumerator :: int
  argProtocolTradeFeeNumerator :: int
  argVaultConfigKey :: pubkey
  argActivationDuration :: int
  argPoolCreatorAuthority :: pubkey
  argIndex :: int
  argActivationType :: activation_type

datatype idl_value =
    ValBN int
  | ValOptionBN "int option"
  | ValCurveType curve_type
  | ValConfigParameters config_parameters

record program_call =
  callProgram :: pubkey
  callMethod :: string
  callArgs :: "idl_value list"
  callAccounts :: "(string \<times> pubkey) list"
  callRemaining :: "account_meta list"

text \<open>
  \<open>SystemTransfer\<close> is \<open>SystemProgram.transfer\<close>, the next two are the \<open>spl-token\<close> instructions of
  these names, \<open>RawInstruction\<close> is a \<open>new TransactionInstruction\<close>, and \<open>VaultInstruction\<close> stands
  for an instruction that the vault SDK made for a payer and a mint.
\<close>

datatype instruction =
    ProgramCall program_call
  | SystemTransfer pubkey pubkey int
  | CreateAssociatedTokenAccount pubkey pubkey pubkey pubkey
  | CloseAccount pubkey pubkey pubkey
  | RawInstruction "account_meta list" "byte list" pubkey
  | SetComputeUnitLimit int
  | VaultInstruction pubkey pubkey

record transaction =
  feePayer :: pubkey
  recentBlockhash :: string
  instructions :: "instruction list"

record vault_pdas =
  pdaVault :: pubkey
  pdaTokenVault :: pubkey
  pdaLpMint :: pubkey

text \<open>
  What the builders read: the chain, the address functions, the addresses that other packages
  define, the latest block hash, and of the vault SDK \<open>getVaultPdas\<close>, the vault program's
  \<open>account.vault.fetchNullable\<close>, as far as the LP mint it holds, and whether
  \<open>createPermissionlessVaultInstruction\<close> of a mint makes an instruction.
\<close>

record env =
  envChain :: chain
  envFns :: address_fns
  NATIVE_MINT :: pubkey
  TOKEN_PROGRAM_ID :: pubkey
  ASSOCIATED_TOKEN_PROGRAM_ID :: pubkey
  SystemProgram_programId :: pubkey
  SYSVAR_RENT_PUBKEY :: pubkey
  VAULT_PROGRAM_ID :: pubkey
  getLatestBlockhash :: "string result"
  getVaultPdas :: "pubkey \<Rightarrow> vault_pdas"
  fetchVaultLpMint :: "pubkey \<Rightarrow> pubkey option"
  makesVaultInstruction :: "pubkey \<Rightarrow> bool result"

section \<open>Helpers\<close>

text \<open>
  \<open>getOrCreateATAInstruction\<close>: the account and, when it does not exist, the instruction that
  creates it. The optional payer defaults to the owner of the account.
\<close>

definition getOrCreateATAInstruction ::
  "env \<Rightarrow> pubkey \<Rightarrow> pubkey \<Rightarrow> pubkey option \<Rightarrow> pubkey \<times> instruction option" where
  "getOrCreateATAInstruction E tokenMint owner payer =
     (let toAccount = getAssociatedTokenAccount (envFns E) tokenMint owner in
      case accountInfo (envChain E) toAccount of
        None \<Rightarrow> (toAccount, Some (CreateAssociatedTokenAccount
          (case payer of Some p \<Rightarrow> p | None \<Rightarrow> owner) toAccount owner tokenMint))
      | Some data \<Rightarrow> (toAccount, None))"

definition wrapSOLInstruction :: "env \<Rightarrow> pubkey \<Rightarrow> pubkey \<Rightarrow> int \<Rightarrow> instruction list" where
  "wrapSOLInstruction E source dest amount =
     [SystemTransfer source dest amount,
      RawInstruction [\<lparr>metaPubkey = dest, isWritable = True, isSigner = False\<rparr>] [17] (TOKEN_PROGRAM_ID E)]"

definition unwrapSOLInstruction :: "env \<Rightarrow> pubkey \<Rightarrow> instruction option" where
  "unwrapSOLInstruction E owner =
     Some (CloseAccount (getAssociatedTokenAccount (envFns E) (NATIVE_MINT E) owner) owner owner)"

definition createATAPreInstructions :: "env \<Rightarrow> pubkey \<Rightarrow> pubkey list \<Rightarrow> (pubkey \<times> instruction option) list" where
  "createATAPreInstructions E owner mintList = map (\<lambda>mint. getOrCreateATAInstruction E mint owner None) mintList"

lemma createATAPreInstructions_simps [simp]:
  "createATAPreInstructions E owner [] = []"
  "createATAPreInstructions E owner (mint # mints) =
    getOrCreateATAInstruction E mint owner None # createATAPreInstructions E owner mints"
  by (simp_all add: createATAPreInstructions_def)

text \<open>\<open>ix && list.push(ix)\<close>.\<close>

definition push :: "'a option \<Rightarrow> 'a list \<Rightarrow> 'a list" where
  "push x xs = xs @ (case x of None \<Rightarrow> [] | Some y \<Rightarrow> [y])"

text \<open>\<open>new Transaction({feePayer, ...blockhash}).add(...)\<close>.\<close>

definition newTransaction :: "env \<Rightarrow> pubkey \<Rightarrow> instruction list \<Rightarrow> transaction result" where
  "newTransaction E payer ixs =
     and_then (getLatestBlockhash E) (\<lambda>h. Inr \<lparr>feePayer = payer, recentBlockhash = h, instructions = ixs\<rparr>)"

section \<open>Calls that fit the interface\<close>

text \<open>
  The kind of value the interface asks for. Whether a number fits into the 64 bits of its type is not
  asked here: no method checks it, and the encoder, which is Anchor's, refuses what does not fit.
\<close>

fun fits :: "idl_value \<Rightarrow> idl_type \<Rightarrow> bool" where
  "fits (ValBN n) t \<longleftrightarrow> t = TyU64"
| "fits (ValOptionBN n) t \<longleftrightarrow> t = TyOption TyU64"
| "fits (ValCurveType c) t \<longleftrightarrow> t = TyDefined ''CurveType''"
| "fits (ValConfigParameters c) t \<longleftrightarrow> t = TyDefined ''ConfigParameters''"

definition same_names :: "string list \<Rightarrow> idl_account list \<Rightarrow> bool" where
  "same_names names items \<longleftrightarrow> distinct names \<and> list_all (\<lambda>a. accountName a \<in> set names) items \<and>
     length names = length items"

text \<open>
  The method exists, each of its accounts is passed exactly once and nothing else is passed, and
  the arguments have the number and the kinds of its parameters.
\<close>

definition conforms :: "program_call \<Rightarrow> bool" where
  "conforms c \<longleftrightarrow> (case findInstruction (callMethod c) of
       None \<Rightarrow> False
     | Some ix \<Rightarrow> same_names (map fst (callAccounts c)) (ixAccounts ix) \<and>
         list_all2 (\<lambda>v (n, t). fits v t) (callArgs c) (ixArgs ix))"

text \<open>The keys that have to sign an instruction.\<close>

fun signersOf :: "instruction \<Rightarrow> pubkey set" where
  "signersOf (ProgramCall c) = (case findInstruction (callMethod c) of
       None \<Rightarrow> {}
     | Some ix \<Rightarrow> {k. \<exists>a \<in> set (ixAccounts ix). accountSigner a \<and> map_of (callAccounts c) (accountName a) = Some k} \<union>
         {metaPubkey a |a. a \<in> set (callRemaining c) \<and> isSigner a})"
| "signersOf (SystemTransfer source dest amount) = {source}"
| "signersOf (CreateAssociatedTokenAccount payer account owner mint) = {payer}"
| "signersOf (CloseAccount account dest owner) = {owner}"
| "signersOf (RawInstruction metas data program) = {metaPubkey a |a. a \<in> set metas \<and> isSigner a}"
| "signersOf (SetComputeUnitLimit units) = {}"
| "signersOf (VaultInstruction payer mint) = {payer}"

text \<open>The token accounts an instruction creates, and the lamports it moves into an account.\<close>

fun createdBy :: "instruction \<Rightarrow> pubkey list" where
  "createdBy (CreateAssociatedTokenAccount payer account owner mint) = [account]"
| "createdBy ix = []"

definition created :: "instruction list \<Rightarrow> pubkey list" where
  "created ixs = concat (map createdBy ixs)"

fun lamportsBy :: "pubkey \<Rightarrow> instruction \<Rightarrow> int" where
  "lamportsBy k (SystemTransfer source dest amount) = (if dest = k then amount else 0)"
| "lamportsBy k ix = 0"

definition lamportsInto :: "pubkey \<Rightarrow> instruction list \<Rightarrow> int" where
  "lamportsInto k ixs = sum_list (map (lamportsBy k) ixs)"

fun callsBy :: "instruction \<Rightarrow> program_call list" where
  "callsBy (ProgramCall c) = [c]"
| "callsBy ix = []"

definition programCalls :: "instruction list \<Rightarrow> program_call list" where
  "programCalls ixs = concat (map callsBy ixs)"

lemma push_simps [simp]: "push None xs = xs" "push (Some x) xs = xs @ [x]"
  by (simp_all add: push_def)

section \<open>Reading instruction lists\<close>

text \<open>
  What is read off an instruction list part by part: the accounts it creates, the lamports it moves
  and the calls it makes are three such readings, and each distributes over the ways in which the
  builders put lists together.
\<close>

locale reading =
  fixes part :: "instruction \<Rightarrow> 'a" and whole :: "instruction list \<Rightarrow> 'a"
    and join :: "'a \<Rightarrow> 'a \<Rightarrow> 'a" and nothing :: 'a
  assumes whole_Nil: "whole [] = nothing"
    and whole_Cons: "whole (ix # ixs) = join (part ix) (whole ixs)"
    and join_nothing: "join nothing x = x" "join x nothing = x"
    and join_assoc: "join (join x y) z = join x (join y z)"
begin

lemma whole_append: "whole (xs @ ys) = join (whole xs) (whole ys)"
  by (induction xs) (simp_all add: whole_Nil whole_Cons join_nothing join_assoc)

lemma whole_push: "whole (push x xs) = join (whole xs) (case x of None \<Rightarrow> nothing | Some ix \<Rightarrow> part ix)"
  by (cases x) (simp_all add: whole_append whole_Nil whole_Cons join_nothing)

lemmas whole_simps = whole_Nil whole_Cons whole_append whole_push

end

interpretation creations: reading createdBy created "(@)" "[]"
  by unfold_locales (simp_all add: created_def)

interpretation lamports: reading "lamportsBy k" "lamportsInto k" "(+)" 0 for k
  by unfold_locales (simp_all add: lamportsInto_def)

interpretation calls: reading callsBy programCalls "(@)" "[]"
  by unfold_locales (simp_all add: programCalls_def)

named_theorems ix_simps \<open>evaluation of instruction lists\<close>

lemmas readings [ix_simps] = creations.whole_simps lamports.whole_simps calls.whole_simps

end
