(* ===== verification/Transactions.thy ===== *)
theory Transactions
  imports Instructions
begin

text \<open>
  The transactions of a pool object: \<open>swap\<close>, \<open>deposit\<close>, \<open>withdraw\<close>, \<open>lockLiquidity\<close> and
  \<open>claimLockFee\<close> of the class \<open>AmmImpl\<close> in \<open>ts-client/src/amm/index.ts\<close>. A transaction is its
  instruction list: what comes before the call of the program, the call, what comes after.
\<close>

section \<open>Swap\<close>

definition swapCall :: "env \<Rightarrow> pubkey \<Rightarrow> int \<Rightarrow> int \<Rightarrow> pubkey \<Rightarrow> pubkey \<Rightarrow> pubkey \<Rightarrow> account_meta list \<Rightarrow>
    amm_impl \<Rightarrow> program_call" where
  "swapCall E owner inAmountLamport outAmountLamport userSourceToken userDestinationToken protocolTokenFee
     remainingAccounts self =
     (let ps = ammPoolState self in
      \<lparr>callProgram = ammProgramId self, callMethod = ''swap'',
       callArgs = [ValBN inAmountLamport, ValBN outAmountLamport],
       callAccounts =
         [(''aTokenVault'', tokenVault (ammVaultA self)), (''bTokenVault'', tokenVault (ammVaultB self)),
          (''aVault'', aVault ps), (''bVault'', bVault ps), (''aVaultLp'', aVaultLp ps), (''bVaultLp'', bVaultLp ps),
          (''aVaultLpMint'', vaultLpMint (ammVaultA self)), (''bVaultLpMint'', vaultLpMint (ammVaultB self)),
          (''userSourceToken'', userSourceToken), (''userDestinationToken'', userDestinationToken),
          (''user'', owner), (''protocolTokenFee'', protocolTokenFee), (''pool'', ammAddress self),
          (''tokenProgram'', TOKEN_PROGRAM_ID E), (''vaultProgram'', VAULT_PROGRAM_ID E)],
       callRemaining = remainingAccounts\<rparr>)"

definition swap :: "env \<Rightarrow> pubkey \<Rightarrow> pubkey \<Rightarrow> int \<Rightarrow> int \<Rightarrow> pubkey option \<Rightarrow> amm_impl \<Rightarrow> transaction result" where
  "swap E owner inTokenMint inAmountLamport outAmountLamport referralOwner self =
     (let ps = ammPoolState self;
          (sourceToken, destinationToken) = (if mintAddress (ammTokenAMint self) = inTokenMint
            then (tokenAMint ps, tokenBMint ps) else (tokenBMint ps, tokenAMint ps));
          protocolTokenFee = (if mintAddress (ammTokenAMint self) = inTokenMint
            then protocolTokenAFee ps else protocolTokenBFee ps);
          atas = createATAPreInstructions E owner [sourceToken, destinationToken];
          (userSourceToken, createUserSourceIx) = atas ! 0;
          (userDestinationToken, createUserDestinationIx) = atas ! 1;
          preInstructions = push createUserDestinationIx (push createUserSourceIx []);
          preInstructions = (if sourceToken = NATIVE_MINT E
            then preInstructions @ wrapSOLInstruction E owner userSourceToken inAmountLamport else preInstructions);
          postInstructions = (if NATIVE_MINT E = destinationToken then push (unwrapSOLInstruction E owner) [] else []);
          remainingAccounts = curve_getRemainingAccounts (ammSwapCurve self);
          (preInstructions, remainingAccounts) =
            (case referralOwner of
               None \<Rightarrow> (preInstructions, remainingAccounts)
             | Some ref \<Rightarrow>
                 let (referralTokenAccount, createReferralTokenAccountIx) =
                   getOrCreateATAInstruction E inTokenMint ref (Some owner) in
                 (push createReferralTokenAccountIx preInstructions,
                  remainingAccounts @ [\<lparr>metaPubkey = referralTokenAccount, isWritable = True, isSigner = False\<rparr>]))
      in newTransaction E owner
        (preInstructions @
         [ProgramCall (swapCall E owner inAmountLamport outAmountLamport userSourceToken userDestinationToken
           protocolTokenFee remainingAccounts self)] @
         postInstructions))"

section \<open>Deposit\<close>

definition unwrapAfter :: "env \<Rightarrow> pubkey \<Rightarrow> bool \<Rightarrow> instruction list" where
  "unwrapAfter E owner native = (if native then push (unwrapSOLInstruction E owner) [] else [])"

definition depositMethod :: "amm_impl \<Rightarrow> int \<Rightarrow> int \<Rightarrow> int \<Rightarrow> string \<times> idl_value list" where
  "depositMethod self inA inB poolTokenAmount =
     (if ammLpSupply self = 0 then (''bootstrapLiquidity'', [ValBN inA, ValBN inB])
      else if get_isStablePool self then (''addImbalanceLiquidity'', [ValBN poolTokenAmount, ValBN inA, ValBN inB])
      else (''addBalanceLiquidity'', [ValBN poolTokenAmount, ValBN inA, ValBN inB]))"

definition deposit :: "env \<Rightarrow> pubkey \<Rightarrow> int \<Rightarrow> int \<Rightarrow> int \<Rightarrow> amm_impl \<Rightarrow> transaction result" where
  "deposit E owner inA inB poolTokenAmount self =
     (let ps = ammPoolState self;
          atas = createATAPreInstructions E owner [tokenAMint ps, tokenBMint ps, lpMint ps];
          (userAToken, createTokenAIx) = atas ! 0;
          (userBToken, createTokenBIx) = atas ! 1;
          (userPoolLp, createLpMintIx) = atas ! 2;
          preInstructions = push createLpMintIx (push createTokenBIx (push createTokenAIx []));
          preInstructions = (if NATIVE_MINT E = mintAddress (ammTokenAMint self)
            then preInstructions @ wrapSOLInstruction E owner userAToken inA else preInstructions);
          preInstructions = (if NATIVE_MINT E = mintAddress (ammTokenBMint self)
            then preInstructions @ wrapSOLInstruction E owner userBToken inB else preInstructions);
          postInstructions = unwrapAfter E owner
            (NATIVE_MINT E \<in> {mintAddress (ammTokenAMint self), mintAddress (ammTokenBMint self)});
          (method, args) = depositMethod self inA inB poolTokenAmount
      in newTransaction E owner
        (preInstructions @
         [ProgramCall
           \<lparr>callProgram = ammProgramId self, callMethod = method, callArgs = args,
            callAccounts =
              [(''aTokenVault'', tokenVault (ammVaultA self)), (''bTokenVault'', tokenVault (ammVaultB self)),
               (''aVault'', aVault ps), (''bVault'', bVault ps), (''pool'', ammAddress self), (''user'', owner),
               (''userAToken'', userAToken), (''userBToken'', userBToken),
               (''aVaultLp'', aVaultLp ps), (''bVaultLp'', bVaultLp ps),
               (''aVaultLpMint'', vaultLpMint (ammVaultA self)), (''bVaultLpMint'', vaultLpMint (ammVaultB self)),
               (''lpMint'', lpMint ps), (''tokenProgram'', TOKEN_PROGRAM_ID E),
               (''vaultProgram'', VAULT_PROGRAM_ID E), (''userPoolLp'', userPoolLp)],
            callRemaining = curve_getRemainingAccounts (ammSwapCurve self)\<rparr>] @
         postInstructions))"

section \<open>Withdraw\<close>

definition withdrawCall :: "env \<Rightarrow> pubkey \<Rightarrow> int \<Rightarrow> int \<Rightarrow> int \<Rightarrow> pubkey \<Rightarrow> pubkey \<Rightarrow> pubkey \<Rightarrow> amm_impl \<Rightarrow>
    program_call" where
  "withdrawCall E owner lpTokenAmount outA outB userAToken userBToken userPoolLp self =
     (let ps = ammPoolState self in
      if get_isStablePool self \<and> (outA = 0 \<or> outB = 0) then
        \<lparr>callProgram = ammProgramId self, callMethod = ''removeLiquiditySingleSide'',
         callArgs = [ValBN lpTokenAmount, ValBN 0],
         callAccounts =
           [(''aTokenVault'', tokenVault (ammVaultA self)), (''aVault'', aVault ps), (''aVaultLp'', aVaultLp ps),
            (''aVaultLpMint'', vaultLpMint (ammVaultA self)), (''bTokenVault'', tokenVault (ammVaultB self)),
            (''bVault'', bVault ps), (''bVaultLp'', bVaultLp ps), (''bVaultLpMint'', vaultLpMint (ammVaultB self)),
            (''lpMint'', lpMint ps), (''pool'', ammAddress self),
            (''userDestinationToken'', if outB = 0 then userAToken else userBToken),
            (''userPoolLp'', userPoolLp), (''user'', owner), (''tokenProgram'', TOKEN_PROGRAM_ID E),
            (''vaultProgram'', VAULT_PROGRAM_ID E)],
         callRemaining = curve_getRemainingAccounts (ammSwapCurve self)\<rparr>
      else
        \<lparr>callProgram = ammProgramId self, callMethod = ''removeBalanceLiquidity'',
         callArgs = [ValBN lpTokenAmount, ValBN outA, ValBN outB],
         callAccounts =
           [(''pool'', ammAddress self), (''lpMint'', lpMint ps), (''aVault'', aVault ps),
            (''aTokenVault'', tokenVault (ammVaultA self)), (''aVaultLp'', aVaultLp ps),
            (''aVaultLpMint'', vaultLpMint (ammVaultA self)), (''bVault'', bVault ps),
            (''bTokenVault'', tokenVault (ammVaultB self)), (''bVaultLp'', bVaultLp ps),
            (''bVaultLpMint'', vaultLpMint (ammVaultB self)), (''userAToken'', userAToken),
            (''userBToken'', userBToken), (''user'', owner), (''userPoolLp'', userPoolLp),
            (''tokenProgram'', TOKEN_PROGRAM_ID E), (''vaultProgram'', VAULT_PROGRAM_ID E)],
         callRemaining = curve_getRemainingAccounts (ammSwapCurve self)\<rparr>)"

definition withdraw :: "env \<Rightarrow> pubkey \<Rightarrow> int \<Rightarrow> int \<Rightarrow> int \<Rightarrow> amm_impl \<Rightarrow> transaction result" where
  "withdraw E owner lpTokenAmount outA outB self =
     (let ps = ammPoolState self;
          (userAToken, createUserAIx) = getOrCreateATAInstruction E (tokenAMint ps) owner None;
          (userBToken, createUserBIx) = getOrCreateATAInstruction E (tokenBMint ps) owner None;
          (userPoolLp, createLpTokenIx) = getOrCreateATAInstruction E (lpMint ps) owner None;
          preInstructions = push createLpTokenIx (push createUserBIx (push createUserAIx []));
          postInstructions = unwrapAfter E owner
            (NATIVE_MINT E \<in> {mintAddress (ammTokenAMint self), mintAddress (ammTokenBMint self)})
      in newTransaction E owner
        (preInstructions @
         [ProgramCall (withdrawCall E owner lpTokenAmount outA outB userAToken userBToken userPoolLp self)] @
         postInstructions))"

section \<open>Locking and claiming\<close>

definition createLockEscrowCall :: "env \<Rightarrow> pubkey \<Rightarrow> pubkey \<Rightarrow> pubkey \<Rightarrow> pubkey \<Rightarrow> pubkey \<Rightarrow> pubkey \<Rightarrow> program_call" where
  "createLockEscrowCall E programId pool lockEscrow owner lpMintKey payer =
     \<lparr>callProgram = programId, callMethod = ''createLockEscrow'', callArgs = [],
      callAccounts =
        [(''pool'', pool), (''lockEscrow'', lockEscrow), (''owner'', owner), (''lpMint'', lpMintKey),
         (''payer'', payer), (''systemProgram'', SystemProgram_programId E)],
      callRemaining = []\<rparr>"

definition lockLiquidity :: "env \<Rightarrow> pubkey \<Rightarrow> int \<Rightarrow> pubkey option \<Rightarrow> amm_impl \<Rightarrow> transaction result" where
  "lockLiquidity E owner amount feePayerKey self =
     (let ps = ammPoolState self;
          payer = (case feePayerKey of Some p \<Rightarrow> p | None \<Rightarrow> owner);
          lockEscrowPK = fst (deriveLockEscrowPda (envFns E) (ammAddress self) owner (ammProgramId self));
          preInstructions = (case lockEscrowAccount (envChain E) lockEscrowPK of
            None \<Rightarrow> [ProgramCall (createLockEscrowCall E (ammProgramId self) (ammAddress self) lockEscrowPK owner
              (lpMint ps) payer)]
          | Some acc \<Rightarrow> []);
          (userAta, createUserAtaIx) = getOrCreateATAInstruction E (lpMint ps) payer (Some payer);
          (escrowAta, createEscrowAtaIx) = getOrCreateATAInstruction E (lpMint ps) lockEscrowPK (Some payer);
          preInstructions = push createEscrowAtaIx (push createUserAtaIx preInstructions)
      in newTransaction E payer
        (preInstructions @
         [ProgramCall
           \<lparr>callProgram = ammProgramId self, callMethod = ''lock'', callArgs = [ValBN amount],
            callAccounts =
              [(''pool'', ammAddress self), (''lockEscrow'', lockEscrowPK), (''owner'', payer), (''lpMint'', lpMint ps),
               (''sourceTokens'', userAta), (''escrowVault'', escrowAta), (''tokenProgram'', TOKEN_PROGRAM_ID E),
               (''aVault'', aVault ps), (''bVault'', bVault ps), (''aVaultLp'', aVaultLp ps),
               (''bVaultLp'', bVaultLp ps), (''aVaultLpMint'', vaultLpMint (ammVaultA self)),
               (''bVaultLpMint'', vaultLpMint (ammVaultB self))],
            callRemaining = []\<rparr>]))"

definition claimLockFee :: "env \<Rightarrow> pubkey \<Rightarrow> int \<Rightarrow> amm_impl \<Rightarrow> transaction result" where
  "claimLockFee E owner maxAmount self =
     (let ps = ammPoolState self;
          lockEscrowPK = fst (deriveLockEscrowPda (envFns E) (ammAddress self) owner (ammProgramId self));
          (userAta, createUserAtaIx) = getOrCreateATAInstruction E (lpMint ps) owner None;
          (escrowAta, createEscrowAtaIx) = getOrCreateATAInstruction E (lpMint ps) lockEscrowPK None;
          (tokenAAta, createTokenAAtaIx) = getOrCreateATAInstruction E (tokenAMint ps) owner None;
          (tokenBAta, createTokenBAtaIx) = getOrCreateATAInstruction E (tokenBMint ps) owner None;
          preInstructions = push createTokenBAtaIx (push createTokenAAtaIx (push createEscrowAtaIx
            (push createUserAtaIx [])));
          postInstructions = unwrapAfter E owner (NATIVE_MINT E \<in> {tokenAMint ps, tokenBMint ps})
      in newTransaction E owner
        (preInstructions @
         [ProgramCall
           \<lparr>callProgram = ammProgramId self, callMethod = ''claimFee'', callArgs = [ValBN maxAmount],
            callAccounts =
              [(''pool'', ammAddress self), (''lockEscrow'', lockEscrowPK), (''owner'', owner), (''lpMint'', lpMint ps),
               (''sourceTokens'', userAta), (''escrowVault'', escrowAta), (''tokenProgram'', TOKEN_PROGRAM_ID E),
               (''aVault'', aVault ps), (''bVault'', bVault ps), (''aVaultLp'', aVaultLp ps),
               (''bVaultLp'', bVaultLp ps), (''aVaultLpMint'', vaultLpMint (ammVaultA self)),
               (''bVaultLpMint'', vaultLpMint (ammVaultB self)), (''vaultProgram'', VAULT_PROGRAM_ID E),
               (''aTokenVault'', tokenVault (ammVaultA self)), (''bTokenVault'', tokenVault (ammVaultB self)),
               (''userAToken'', tokenAAta), (''userBToken'', tokenBAta)],
            callRemaining = []\<rparr>] @
         postInstructions))"

end
