(* ===== verification/PoolCreation.thy ===== *)
theory PoolCreation
  imports Transactions
begin

text \<open>
  The static methods of the class \<open>AmmImpl\<close> in \<open>ts-client/src/amm/index.ts\<close> that create
  configurations and pools, and the searches among the program's accounts.
\<close>

section \<open>Searching accounts\<close>

text \<open>
  \<open>account.all([{memcmp: {offset, bytes}}])\<close>: the accounts whose data have the bytes at the offset.
\<close>

definition memcmpAll :: "nat \<Rightarrow> byte list \<Rightarrow> (pubkey \<times> byte list \<times> 'a) list \<Rightarrow> (pubkey \<times> byte list \<times> 'a) list" where
  "memcmpAll offset bytes accounts =
     filter (\<lambda>(k, data, account). take (length bytes) (drop offset data) = bytes) accounts"

definition searchPoolsByToken :: "chain \<Rightarrow> pubkey \<Rightarrow> (pubkey \<times> byte list \<times> pool_state) list" where
  "searchPoolsByToken C tokenMint =
     (let poolsForTokenAMint = memcmpAll (8 + 32) (toBuffer tokenMint) (poolAccounts C);
          poolsForTokenBMint = memcmpAll (8 + 32 + 32) (toBuffer tokenMint) (poolAccounts C) in
      poolsForTokenAMint @ poolsForTokenBMint)"

definition getPoolConfigsWithPoolCreatorAuthority ::
  "chain \<Rightarrow> pubkey \<Rightarrow> (pubkey \<times> byte list \<times> config_account) list" where
  "getPoolConfigsWithPoolCreatorAuthority C wallet = memcmpAll (8 + 72) (toBuffer wallet) (configAccounts C)"

definition getPoolConfig :: "chain \<Rightarrow> pubkey \<Rightarrow> config_account result" where
  "getPoolConfig C config =
     (case List.find (\<lambda>(k, data, account). k = config) (configAccounts C) of
        None \<Rightarrow> Inl (Thrown ''Account does not exist or has no data'')
      | Some (k, data, account) \<Rightarrow> Inr account)"

text \<open>A map from pools to escrow accounts, in which the last account of a pool stays.\<close>

definition getLockedLpAmountByUser :: "chain \<Rightarrow> pubkey \<Rightarrow> (pubkey \<rightharpoonup> lock_escrow_account)" where
  "getLockedLpAmountByUser C userPubKey =
     (let lockEscrows = memcmpAll (8 + 32) (toBuffer userPubKey) (lockEscrowAccounts C) in
      fold (\<lambda>(k, data, account) accMap. accMap(lePool account \<mapsto> account)) lockEscrows Map.empty)"

section \<open>Configurations\<close>

record fee_configuration =
  feePublicKey :: pubkey
  feePoolFees :: pool_fees
  feeTradeFeeBps :: int
  feeProtocolTradeFeeBps :: int

definition feeConfiguration :: "pubkey \<times> byte list \<times> config_account \<Rightarrow> fee_configuration result" where
  "feeConfiguration = (\<lambda>(k, data, account).
     let poolFees = cfgPoolFees account in
     and_then (trunc_div (tradeFeeNumerator poolFees * 10000) (tradeFeeDenominator poolFees)) (\<lambda>trade.
     and_then (trunc_div (protocolTradeFeeNumerator poolFees * 10000) (protocolTradeFeeDenominator poolFees))
       (\<lambda>protocol.
       Inr \<lparr>feePublicKey = k, feePoolFees = poolFees, feeTradeFeeBps = trade,
            feeProtocolTradeFeeBps = protocol\<rparr>)))"

definition getFeeConfigurations :: "chain \<Rightarrow> fee_configuration list result" where
  "getFeeConfigurations C = all_results feeConfiguration (configAccounts C)"

text \<open>
  The loop of \<open>createConfig\<close>: the first index whose address no configuration has. \<open>None\<close> would be
  a loop that does not end.
\<close>

definition configPdaAt :: "address_fns \<Rightarrow> pubkey \<Rightarrow> int \<Rightarrow> pubkey result" where
  "configPdaAt F programId index = and_then (bnOfNumber index) (\<lambda>n. deriveConfigPda F n programId)"

partial_function (option) findConfigIndex ::
  "address_fns \<Rightarrow> pubkey list \<Rightarrow> pubkey \<Rightarrow> int \<Rightarrow> (int \<times> pubkey) result option" where
  "findConfigIndex F configs programId index =
     (let pda = configPdaAt F programId index in
      if isl pda then Some (Inl (projl pda))
      else if projr pda \<in> set configs then findConfigIndex F configs programId (index + 1)
      else Some (Inr (index, projr pda)))"

definition createConfig :: "env \<Rightarrow> pubkey \<Rightarrow> int \<Rightarrow> int \<Rightarrow> pubkey \<Rightarrow> int \<Rightarrow> pubkey \<Rightarrow> activation_type \<Rightarrow>
    pubkey option \<Rightarrow> transaction result option" where
  "createConfig E payer tradeFeeBps protocolFeeBps vaultConfigKey activationDuration poolCreatorAuthority
     activation programId =
     (case getFeeConfigurations (envChain E) of
        Inl e \<Rightarrow> Some (Inl e)
      | Inr configs \<Rightarrow>
          map_option (\<lambda>r. and_then r (\<lambda>(index, configPda).
            newTransaction E payer
              [ProgramCall
                \<lparr>callProgram = createProgramId programId, callMethod = ''createConfig'',
                 callArgs = [ValConfigParameters
                   \<lparr>argTradeFeeNumerator = tradeFeeBps * 10, argProtocolTradeFeeNumerator = protocolFeeBps * 10,
                    argVaultConfigKey = vaultConfigKey, argActivationDuration = activationDuration,
                    argPoolCreatorAuthority = poolCreatorAuthority, argIndex = index,
                    argActivationType = activation\<rparr>],
                 callAccounts = [(''config'', configPda), (''systemProgram'', SystemProgram_programId E),
                   (''admin'', payer)],
                 callRemaining = []\<rparr>]))
            (findConfigIndex (envFns E) (map feePublicKey configs) (createProgramId programId) 0))"

section \<open>The parts of a pool creation\<close>

text \<open>The vault of a mint: created when missing, and its LP mint read from the vault otherwise.\<close>

definition setUpVault :: "env \<Rightarrow> pubkey \<Rightarrow> pubkey \<Rightarrow> (vault_pdas \<times> pubkey \<times> instruction option) result" where
  "setUpVault E payer mint =
     (let pdas = getVaultPdas E mint in
      case fetchVaultLpMint E (pdaVault pdas) of
        None \<Rightarrow> and_then (makesVaultInstruction E mint) (\<lambda>made.
          Inr (pdas, pdaLpMint pdas, if made then Some (VaultInstruction payer mint) else None))
      | Some lp \<Rightarrow> Inr (pdas, lp, None))"

text \<open>The addresses that the three methods derive in the same way.\<close>

record new_pool =
  npProgram :: pubkey
  npPayer :: pubkey
  npPool :: pubkey
  npMintA :: pubkey
  npMintB :: pubkey
  npVaultA :: vault_pdas
  npVaultB :: vault_pdas
  npVaultALpMint :: pubkey
  npVaultBLpMint :: pubkey
  npPayerTokenA :: pubkey
  npPayerTokenB :: pubkey

definition npLpMint :: "env \<Rightarrow> new_pool \<Rightarrow> pubkey" where
  "npLpMint E np = deriveLpMint (envFns E) (npPool np) (npProgram np)"

definition npVaultALp :: "env \<Rightarrow> new_pool \<Rightarrow> pubkey" where
  "npVaultALp E np = deriveVaultLp (envFns E) (pdaVault (npVaultA np)) (npPool np) (npProgram np)"

definition npVaultBLp :: "env \<Rightarrow> new_pool \<Rightarrow> pubkey" where
  "npVaultBLp E np = deriveVaultLp (envFns E) (pdaVault (npVaultB np)) (npPool np) (npProgram np)"

definition npPayerPoolLp :: "env \<Rightarrow> new_pool \<Rightarrow> pubkey" where
  "npPayerPoolLp E np = getAssociatedTokenAccount (envFns E) (npLpMint E np) (npPayer np)"

text \<open>
  \<open>protocolTokenAFee\<close> and \<open>protocolTokenBFee\<close> of the creations, derived in place with the seed
  \<open>SEEDS.FEE\<close>.
\<close>

definition npProtocolFee :: "env \<Rightarrow> new_pool \<Rightarrow> pubkey \<Rightarrow> pubkey" where
  "npProtocolFee E np mint =
     fst (findProgramAddressSync (envFns E) [bytesOf (SEEDS SEED_FEE), toBuffer mint, toBuffer (npPool np)]
       (npProgram np))"

definition initializeAccounts :: "env \<Rightarrow> new_pool \<Rightarrow> (string \<times> pubkey) list \<Rightarrow> (string \<times> pubkey) list" where
  "initializeAccounts E np own =
     [(''pool'', npPool np), (''tokenAMint'', npMintA np), (''tokenBMint'', npMintB np),
      (''aVault'', pdaVault (npVaultA np)), (''bVault'', pdaVault (npVaultB np)),
      (''aVaultLpMint'', npVaultALpMint np), (''bVaultLpMint'', npVaultBLpMint np),
      (''aVaultLp'', npVaultALp E np), (''bVaultLp'', npVaultBLp E np), (''lpMint'', npLpMint E np),
      (''payerTokenA'', npPayerTokenA np), (''payerTokenB'', npPayerTokenB np),
      (''protocolTokenAFee'', npProtocolFee E np (npMintA np)),
      (''protocolTokenBFee'', npProtocolFee E np (npMintB np)),
      (''payerPoolLp'', npPayerPoolLp E np), (''aTokenVault'', pdaTokenVault (npVaultA np)),
      (''bTokenVault'', pdaTokenVault (npVaultB np)),
      (''mintMetadata'', fst (deriveMintMetadata (envFns E) (npLpMint E np))),
      (''metadataProgram'', METAPLEX_PROGRAM)] @ own @
     [(''rent'', SYSVAR_RENT_PUBKEY E), (''vaultProgram'', VAULT_PROGRAM_ID E),
      (''tokenProgram'', TOKEN_PROGRAM_ID E), (''systemProgram'', SystemProgram_programId E),
      (''associatedTokenProgram'', ASSOCIATED_TOKEN_PROGRAM_ID E)]"

definition U64_MAX :: int where
  "U64_MAX = 18446744073709551615"

text \<open>The instructions after the creation when the liquidity is locked.\<close>

definition lockNewLiquidity :: "env \<Rightarrow> new_pool \<Rightarrow> instruction list" where
  "lockNewLiquidity E np =
     (let lockEscrowPK = fst (deriveLockEscrowPda (envFns E) (npPool np) (npPayer np) (npProgram np));
          (escrowAta, createEscrowAtaIx) =
            getOrCreateATAInstruction E (npLpMint E np) lockEscrowPK (Some (npPayer np)) in
      push createEscrowAtaIx
        [ProgramCall (createLockEscrowCall E (npProgram np) (npPool np) lockEscrowPK (npPayer np) (npLpMint E np)
          (npPayer np))] @
      [ProgramCall
        \<lparr>callProgram = npProgram np, callMethod = ''lock'', callArgs = [ValBN U64_MAX],
         callAccounts =
           [(''pool'', npPool np), (''lockEscrow'', lockEscrowPK), (''owner'', npPayer np),
            (''lpMint'', npLpMint E np), (''sourceTokens'', npPayerPoolLp E np), (''escrowVault'', escrowAta),
            (''tokenProgram'', TOKEN_PROGRAM_ID E), (''aVault'', pdaVault (npVaultA np)),
            (''bVault'', pdaVault (npVaultB np)), (''aVaultLp'', npVaultALp E np),
            (''bVaultLp'', npVaultBLp E np), (''aVaultLpMint'', npVaultALpMint np),
            (''bVaultLpMint'', npVaultBLpMint np)],
         callRemaining = []\<rparr>])"

text \<open>The swap of token B into the new pool.\<close>

definition swapNewLiquidity :: "env \<Rightarrow> new_pool \<Rightarrow> int \<Rightarrow> int \<Rightarrow> instruction" where
  "swapNewLiquidity E np inAmount minAmountOut = ProgramCall
     \<lparr>callProgram = npProgram np, callMethod = ''swap'', callArgs = [ValBN inAmount, ValBN minAmountOut],
      callAccounts =
        [(''aTokenVault'', pdaTokenVault (npVaultA np)), (''bTokenVault'', pdaTokenVault (npVaultB np)),
         (''aVault'', pdaVault (npVaultA np)), (''bVault'', pdaVault (npVaultB np)),
         (''aVaultLp'', npVaultALp E np), (''bVaultLp'', npVaultBLp E np),
         (''aVaultLpMint'', npVaultALpMint np), (''bVaultLpMint'', npVaultBLpMint np),
         (''userSourceToken'', npPayerTokenB np), (''userDestinationToken'', npPayerTokenA np),
         (''user'', npPayer np),
         (''protocolTokenFee'', deriveProtocolTokenFee (envFns E) (npPool np) (npMintB np) (npProgram np)),
         (''pool'', npPool np), (''tokenProgram'', TOKEN_PROGRAM_ID E), (''vaultProgram'', VAULT_PROGRAM_ID E)],
      callRemaining = []\<rparr>"

section \<open>Creating pools\<close>

text \<open>
  The option object of the two methods with a configuration: \<open>swapLiquidity\<close> is the input and the
  minimum output of a first swap of token B; the activation point is only read by the second
  version and the skip flags only by the first.
\<close>

record pool_options =
  optLockLiquidity :: bool
  optSwapLiquidity :: "(int \<times> int) option"
  optActivationPoint :: "int option"
  optSkipAAta :: bool
  optSkipBAta :: bool

definition wrapFor :: "env \<Rightarrow> pubkey \<Rightarrow> pubkey \<Rightarrow> pubkey \<Rightarrow> int \<Rightarrow> instruction list" where
  "wrapFor E payer mint account amount =
     (if mint = NATIVE_MINT E then wrapSOLInstruction E payer account amount else [])"

text \<open>
  The transactions of a creation: what has to come first when there is anything, the creation, and
  the first swap.
\<close>

definition creationTransactions :: "env \<Rightarrow> pubkey \<Rightarrow> instruction list \<Rightarrow> instruction list \<Rightarrow>
    instruction option \<Rightarrow> transaction list result" where
  "creationTransactions E payer preInstructions mainInstructions swapInstruction =
     and_then (if preInstructions = [] then Inr [] else
       and_then (newTransaction E payer preInstructions) (\<lambda>tx. Inr [tx])) (\<lambda>preTxs.
     and_then (newTransaction E payer mainInstructions) (\<lambda>mainTx.
     and_then (case swapInstruction of None \<Rightarrow> Inr []
       | Some ix \<Rightarrow> and_then (newTransaction E payer [ix]) (\<lambda>tx. Inr [tx])) (\<lambda>swapTxs.
       Inr (preTxs @ [mainTx] @ swapTxs))))"

definition createPermissionlessConstantProductPoolWithConfig2 :: "env \<Rightarrow> pubkey \<Rightarrow> pubkey \<Rightarrow> pubkey \<Rightarrow> int \<Rightarrow>
    int \<Rightarrow> pubkey \<Rightarrow> pubkey option \<Rightarrow> pool_options \<Rightarrow> transaction list result" where
  "createPermissionlessConstantProductPoolWithConfig2 E payer mintA mintB amountA amountB config programId opt =
     (let ammProgram = createProgramId programId in
      and_then (setUpVault E payer mintA) (\<lambda>(vaultA, aLpMint, createVaultAIx).
      and_then (setUpVault E payer mintB) (\<lambda>(vaultB, bLpMint, createVaultBIx).
      let (payerTokenA, createPayerTokenAIx) = getOrCreateATAInstruction E mintA payer None;
          (payerTokenB, createPayerTokenBIx) = getOrCreateATAInstruction E mintB payer None;
          np = \<lparr>npProgram = ammProgram, npPayer = payer,
                npPool = derivePoolAddressWithConfig (envFns E) mintA mintB config ammProgram,
                npMintA = mintA, npMintB = mintB, npVaultA = vaultA, npVaultB = vaultB,
                npVaultALpMint = aLpMint, npVaultBLpMint = bLpMint,
                npPayerTokenA = payerTokenA, npPayerTokenB = payerTokenB\<rparr>;
          preInstructions = push createPayerTokenBIx (push createPayerTokenAIx
            (push createVaultBIx (push createVaultAIx []))) @
            wrapFor E payer mintA payerTokenA amountA @ wrapFor E payer mintB payerTokenB amountB;
          postInstructions = (if optLockLiquidity opt then lockNewLiquidity E np else []);
          createPool = ProgramCall
            \<lparr>callProgram = ammProgram,
             callMethod = ''initializePermissionlessConstantProductPoolWithConfig2'',
             callArgs = [ValBN amountA, ValBN amountB, ValOptionBN (optActivationPoint opt)],
             callAccounts = initializeAccounts E np [(''payer'', payer), (''config'', config)],
             callRemaining = []\<rparr>
      in creationTransactions E payer preInstructions
           ([SetComputeUnitLimit 1400000, createPool] @ postInstructions)
           (map_option (\<lambda>(inAmount, minOut). swapNewLiquidity E np inAmount minOut) (optSwapLiquidity opt)))))"

definition createPermissionlessConstantProductPoolWithConfig :: "env \<Rightarrow> pubkey \<Rightarrow> pubkey \<Rightarrow> pubkey \<Rightarrow> int \<Rightarrow>
    int \<Rightarrow> pubkey \<Rightarrow> pubkey option \<Rightarrow> pool_options \<Rightarrow> transaction list result" where
  "createPermissionlessConstantProductPoolWithConfig E payer mintA mintB amountA amountB config programId opt =
     (let ammProgram = createProgramId programId in
      and_then (setUpVault E payer mintA) (\<lambda>(vaultA, aLpMint, createVaultAIx).
      and_then (setUpVault E payer mintB) (\<lambda>(vaultB, bLpMint, createVaultBIx).
      let (payerTokenA, createPayerTokenAIx) = getOrCreateATAInstruction E mintA payer None;
          (payerTokenB, createPayerTokenBIx) = getOrCreateATAInstruction E mintB payer None;
          np = \<lparr>npProgram = ammProgram, npPayer = payer,
                npPool = derivePoolAddressWithConfig (envFns E) mintA mintB config ammProgram,
                npMintA = mintA, npMintB = mintB, npVaultA = vaultA, npVaultB = vaultB,
                npVaultALpMint = aLpMint, npVaultBLpMint = bLpMint,
                npPayerTokenA = payerTokenA, npPayerTokenB = payerTokenB\<rparr>;
          swapInAmount = (case optSwapLiquidity opt of None \<Rightarrow> 0 | Some (inAmount, minOut) \<Rightarrow> inAmount);
          preInstructions = push (if optSkipBAta opt then None else createPayerTokenBIx)
            (push (if optSkipAAta opt then None else createPayerTokenAIx)
            (push createVaultBIx (push createVaultAIx []))) @
            wrapFor E payer mintA payerTokenA amountA @
            wrapFor E payer mintB payerTokenB (amountB + swapInAmount);
          postInstructions = (if optLockLiquidity opt then lockNewLiquidity E np else []);
          createPool = ProgramCall
            \<lparr>callProgram = ammProgram,
             callMethod = ''initializePermissionlessConstantProductPoolWithConfig'',
             callArgs = [ValBN amountA, ValBN amountB],
             callAccounts = initializeAccounts E np [(''payer'', payer), (''config'', config)],
             callRemaining = []\<rparr>
      in creationTransactions E payer preInstructions
           ([SetComputeUnitLimit 1400000, createPool] @ postInstructions)
           (map_option (\<lambda>(inAmount, minOut). swapNewLiquidity E np inAmount minOut) (optSwapLiquidity opt)))))"

definition createPermissionlessPool :: "env \<Rightarrow> pubkey \<Rightarrow> token_info \<Rightarrow> token_info \<Rightarrow> int \<Rightarrow> int \<Rightarrow> bool \<Rightarrow> int \<Rightarrow>
    pubkey option \<Rightarrow> bool \<Rightarrow> transaction result" where
  "createPermissionlessPool E payer tokenInfoA tokenInfoB amountA amountB isStable tradeFeeBps programId skipAta =
     (let ammProgram = createProgramId programId; mintA = infoAddress tokenInfoA; mintB = infoAddress tokenInfoB in
      and_then (generateCurveType tokenInfoA tokenInfoB isStable) (\<lambda>curve.
      and_then (setUpVault E payer mintA) (\<lambda>(vaultA, aLpMint, createVaultAIx).
      and_then (setUpVault E payer mintB) (\<lambda>(vaultB, bLpMint, createVaultBIx).
      and_then (derivePoolAddress (envFns E) tokenInfoA tokenInfoB isStable tradeFeeBps programId) (\<lambda>poolPubkey.
      let (payerTokenA, createPayerTokenAIx) = getOrCreateATAInstruction E mintA payer None;
          (payerTokenB, createPayerTokenBIx) = getOrCreateATAInstruction E mintB payer None;
          np = \<lparr>npProgram = ammProgram, npPayer = payer, npPool = poolPubkey,
                npMintA = mintA, npMintB = mintB, npVaultA = vaultA, npVaultB = vaultB,
                npVaultALpMint = aLpMint, npVaultBLpMint = bLpMint,
                npPayerTokenA = payerTokenA, npPayerTokenB = payerTokenB\<rparr>;
          preInstructions = push createPayerTokenBIx (push (if skipAta then None else createPayerTokenAIx)
            (push createVaultBIx (push createVaultAIx [SetComputeUnitLimit 600000]))) @
            wrapFor E payer mintA payerTokenA amountA @ wrapFor E payer mintB payerTokenB amountB
      in newTransaction E payer
        (preInstructions @
         [ProgramCall
           \<lparr>callProgram = ammProgram, callMethod = ''initializePermissionlessPoolWithFeeTier'',
            callArgs = [ValCurveType curve, ValBN tradeFeeBps, ValBN amountA, ValBN amountB],
            callAccounts = initializeAccounts E np [(''feeOwner'', FEE_OWNER), (''payer'', payer)],
            callRemaining = []\<rparr>]))))))"

end
