(* ===== verification/Builders.thy ===== *)
theory Builders
  imports PoolCreation
begin

text \<open>
  What the transaction builders of \<open>Transactions\<close> and \<open>PoolCreation\<close> have in common: every call
  they make fits the interface of the program, who has to sign, and which accounts exist when
  the program is called.
\<close>

section \<open>The methods the builders call\<close>

text \<open>
  A method with these parameter types and accounts, of which exactly the named one signs. The tables
  below list the accounts in the order in which the builders pass them.
\<close>

definition signerNames :: "idl_instruction \<Rightarrow> string list" where
  "signerNames ix = map accountName (filter accountSigner (ixAccounts ix))"

definition offers :: "string \<Rightarrow> idl_type list \<Rightarrow> string list \<Rightarrow> string \<Rightarrow> bool" where
  "offers method types names signer \<longleftrightarrow> (case findInstruction method of
       None \<Rightarrow> False
     | Some ix \<Rightarrow> map snd (ixArgs ix) = types \<and> same_names names (ixAccounts ix) \<and> signerNames ix = [signer])"

lemma offers_swap:
  "offers ''swap'' [TyU64, TyU64]
    [''aTokenVault'', ''bTokenVault'', ''aVault'', ''bVault'', ''aVaultLp'', ''bVaultLp'', ''aVaultLpMint'',
     ''bVaultLpMint'', ''userSourceToken'', ''userDestinationToken'', ''user'', ''protocolTokenFee'', ''pool'',
     ''tokenProgram'', ''vaultProgram''] ''user''"
  by code_simp

lemma offers_deposits:
  "offers ''bootstrapLiquidity'' [TyU64, TyU64]
    [''aTokenVault'', ''bTokenVault'', ''aVault'', ''bVault'', ''pool'', ''user'', ''userAToken'', ''userBToken'',
     ''aVaultLp'', ''bVaultLp'', ''aVaultLpMint'', ''bVaultLpMint'', ''lpMint'', ''tokenProgram'', ''vaultProgram'',
     ''userPoolLp''] ''user''"
  "offers ''addImbalanceLiquidity'' [TyU64, TyU64, TyU64]
    [''aTokenVault'', ''bTokenVault'', ''aVault'', ''bVault'', ''pool'', ''user'', ''userAToken'', ''userBToken'',
     ''aVaultLp'', ''bVaultLp'', ''aVaultLpMint'', ''bVaultLpMint'', ''lpMint'', ''tokenProgram'', ''vaultProgram'',
     ''userPoolLp''] ''user''"
  "offers ''addBalanceLiquidity'' [TyU64, TyU64, TyU64]
    [''aTokenVault'', ''bTokenVault'', ''aVault'', ''bVault'', ''pool'', ''user'', ''userAToken'', ''userBToken'',
     ''aVaultLp'', ''bVaultLp'', ''aVaultLpMint'', ''bVaultLpMint'', ''lpMint'', ''tokenProgram'', ''vaultProgram'',
     ''userPoolLp''] ''user''"
  by code_simp+

lemma offers_withdrawals:
  "offers ''removeLiquiditySingleSide'' [TyU64, TyU64]
    [''aTokenVault'', ''aVault'', ''aVaultLp'', ''aVaultLpMint'', ''bTokenVault'', ''bVault'', ''bVaultLp'',
     ''bVaultLpMint'', ''lpMint'', ''pool'', ''userDestinationToken'', ''userPoolLp'', ''user'', ''tokenProgram'',
     ''vaultProgram''] ''user''"
  "offers ''removeBalanceLiquidity'' [TyU64, TyU64, TyU64]
    [''pool'', ''lpMint'', ''aVault'', ''aTokenVault'', ''aVaultLp'', ''aVaultLpMint'', ''bVault'', ''bTokenVault'',
     ''bVaultLp'', ''bVaultLpMint'', ''userAToken'', ''userBToken'', ''user'', ''userPoolLp'', ''tokenProgram'',
     ''vaultProgram''] ''user''"
  by code_simp+

lemma offers_locks:
  "offers ''createLockEscrow'' []
    [''pool'', ''lockEscrow'', ''owner'', ''lpMint'', ''payer'', ''systemProgram''] ''payer''"
  "offers ''lock'' [TyU64]
    [''pool'', ''lockEscrow'', ''owner'', ''lpMint'', ''sourceTokens'', ''escrowVault'', ''tokenProgram'', ''aVault'',
     ''bVault'', ''aVaultLp'', ''bVaultLp'', ''aVaultLpMint'', ''bVaultLpMint''] ''owner''"
  "offers ''claimFee'' [TyU64]
    [''pool'', ''lockEscrow'', ''owner'', ''lpMint'', ''sourceTokens'', ''escrowVault'', ''tokenProgram'', ''aVault'',
     ''bVault'', ''aVaultLp'', ''bVaultLp'', ''aVaultLpMint'', ''bVaultLpMint'', ''vaultProgram'', ''aTokenVault'',
     ''bTokenVault'', ''userAToken'', ''userBToken''] ''owner''"
  by code_simp+

lemma offers_createConfig:
  "offers ''createConfig'' [TyDefined ''ConfigParameters''] [''config'', ''systemProgram'', ''admin''] ''admin''"
  by code_simp

lemma offers_creations:
  "offers ''initializePermissionlessConstantProductPoolWithConfig2'' [TyU64, TyU64, TyOption TyU64]
    [''pool'', ''tokenAMint'', ''tokenBMint'', ''aVault'', ''bVault'', ''aVaultLpMint'', ''bVaultLpMint'', ''aVaultLp'',
     ''bVaultLp'', ''lpMint'', ''payerTokenA'', ''payerTokenB'', ''protocolTokenAFee'', ''protocolTokenBFee'',
     ''payerPoolLp'', ''aTokenVault'', ''bTokenVault'', ''mintMetadata'', ''metadataProgram'', ''payer'', ''config'',
     ''rent'', ''vaultProgram'', ''tokenProgram'', ''systemProgram'', ''associatedTokenProgram''] ''payer''"
  "offers ''initializePermissionlessConstantProductPoolWithConfig'' [TyU64, TyU64]
    [''pool'', ''tokenAMint'', ''tokenBMint'', ''aVault'', ''bVault'', ''aVaultLpMint'', ''bVaultLpMint'', ''aVaultLp'',
     ''bVaultLp'', ''lpMint'', ''payerTokenA'', ''payerTokenB'', ''protocolTokenAFee'', ''protocolTokenBFee'',
     ''payerPoolLp'', ''aTokenVault'', ''bTokenVault'', ''mintMetadata'', ''metadataProgram'', ''payer'', ''config'',
     ''rent'', ''vaultProgram'', ''tokenProgram'', ''systemProgram'', ''associatedTokenProgram''] ''payer''"
  "offers ''initializePermissionlessPoolWithFeeTier'' [TyDefined ''CurveType'', TyU64, TyU64, TyU64]
    [''pool'', ''tokenAMint'', ''tokenBMint'', ''aVault'', ''bVault'', ''aVaultLpMint'', ''bVaultLpMint'', ''aVaultLp'',
     ''bVaultLp'', ''lpMint'', ''payerTokenA'', ''payerTokenB'', ''protocolTokenAFee'', ''protocolTokenBFee'',
     ''payerPoolLp'', ''aTokenVault'', ''bTokenVault'', ''mintMetadata'', ''metadataProgram'', ''feeOwner'', ''payer'',
     ''rent'', ''vaultProgram'', ''tokenProgram'', ''systemProgram'', ''associatedTokenProgram''] ''payer''"
  by code_simp+

lemmas offered = offers_swap offers_deposits offers_withdrawals offers_locks offers_createConfig offers_creations

section \<open>Sound instructions\<close>

text \<open>An instruction that only one key has to sign and that, if it calls the program, fits its interface.\<close>

definition sound :: "pubkey \<Rightarrow> instruction \<Rightarrow> bool" where
  "sound payer ix \<longleftrightarrow> (case ix of ProgramCall c \<Rightarrow> conforms c | _ \<Rightarrow> True) \<and> signersOf ix \<subseteq> {payer}"

lemma sound_call:
  assumes "offers (callMethod c) types (map fst (callAccounts c)) signer"
    and "list_all2 fits (callArgs c) types"
    and "map_of (callAccounts c) signer = Some payer"
    and "\<forall>a \<in> set (callRemaining c). \<not> isSigner a"
  shows "sound payer (ProgramCall c)"
proof -
  obtain ix where ix: "findInstruction (callMethod c) = Some ix" "map snd (ixArgs ix) = types"
    "same_names (map fst (callAccounts c)) (ixAccounts ix)" "signerNames ix = [signer]"
    using assms(1) by (auto simp: offers_def split: option.splits)
  have "list_all2 (\<lambda>v (n, t). fits v t) (callArgs c) (ixArgs ix)"
    using assms(2) unfolding ix(2) [symmetric] by (simp add: list_all2_map2 split_def)
  then have "conforms c" using ix by (simp add: conforms_def)
  have "accountName a = signer" if "a \<in> set (ixAccounts ix)" "accountSigner a" for a
  proof -
    have "accountName a \<in> set (signerNames ix)" using that by (auto simp: signerNames_def)
    with ix(4) show ?thesis by simp
  qed
  then have "signersOf (ProgramCall c) \<subseteq> {payer}" using assms(3,4) ix(1) by auto
  with \<open>conforms c\<close> show ?thesis by (simp add: sound_def)
qed

lemma sound_simps [simp]:
  "sound payer (SystemTransfer source dest amount) \<longleftrightarrow> source = payer"
  "sound payer (CreateAssociatedTokenAccount p account owner mint) \<longleftrightarrow> p = payer"
  "sound payer (CloseAccount account dest owner) \<longleftrightarrow> owner = payer"
  "sound payer (SetComputeUnitLimit units)"
  "sound payer (VaultInstruction p mint) \<longleftrightarrow> p = payer"
  by (auto simp: sound_def)

lemma sound_wrap [simp]: "list_all (sound payer) (wrapSOLInstruction E payer dest amount)"
  by (simp add: wrapSOLInstruction_def sound_def)

lemma sound_wrapFor [simp]: "list_all (sound payer) (wrapFor E payer mint account amount)"
  by (simp add: wrapFor_def)

lemma sound_unwrapAfter [simp]: "list_all (sound payer) (unwrapAfter E payer native)"
  by (simp add: unwrapAfter_def unwrapSOLInstruction_def)

lemma sound_push [simp]: "list_all (sound payer) (push x xs) \<longleftrightarrow> list_all (sound payer) xs \<and> pred_option (sound payer) x"
  by (cases x) auto

lemma sound_ata [simp]:
  "pred_option (sound payer) (snd (getOrCreateATAInstruction E mint owner (Some payer)))"
  "pred_option (sound payer) (snd (getOrCreateATAInstruction E mint payer None))"
  by (simp_all add: getOrCreateATAInstruction_def Let_def split: option.splits)

lemma newTransaction_Inr [simp]:
  "newTransaction E payer ixs = Inr tx \<longleftrightarrow>
    (\<exists>h. getLatestBlockhash E = Inr h \<and> tx = \<lparr>feePayer = payer, recentBlockhash = h, instructions = ixs\<rparr>)"
  by (auto simp: newTransaction_def and_then_eq_Inr_iff)

lemma remaining_unsigned: "\<forall>a \<in> set (curve_getRemainingAccounts curve). \<not> isSigner a"
  by (cases curve) (auto simp: ss_getRemainingAccounts_def readOnly_def)

text \<open>The calls themselves.\<close>

lemma sound_swapCall:
  "\<forall>a \<in> set metas. \<not> isSigner a \<Longrightarrow>
    sound owner (ProgramCall (swapCall E owner inAmount out source dest fee metas self))"
  by (rule sound_call [where signer = "''user''" and types = "[TyU64, TyU64]"])
    (simp_all add: swapCall_def Let_def offers_swap)

lemma sound_withdrawCall:
  "sound owner (ProgramCall (withdrawCall E owner lp outA outB userA userB userLp self))"
proof (cases "get_isStablePool self \<and> (outA = 0 \<or> outB = 0)")
  case True
  then show ?thesis
    by (intro sound_call [where signer = "''user''" and types = "[TyU64, TyU64]"])
      (simp_all add: withdrawCall_def Let_def offers_withdrawals remaining_unsigned)
next
  case False
  then show ?thesis
    by (intro sound_call [where signer = "''user''" and types = "[TyU64, TyU64, TyU64]"])
      (auto simp: withdrawCall_def Let_def offers_withdrawals remaining_unsigned)
qed

lemma sound_createLockEscrow:
  "sound payer (ProgramCall (createLockEscrowCall E program pool escrow owner lp payer))"
  by (rule sound_call [where signer = "''payer''" and types = "[]"])
    (simp_all add: createLockEscrowCall_def offers_locks)

lemma sound_swapNew: "npPayer np = payer \<Longrightarrow> sound payer (swapNewLiquidity E np inAmount minOut)"
  unfolding swapNewLiquidity_def
  by (rule sound_call [where signer = "''user''" and types = "[TyU64, TyU64]"]) (simp_all add: offers_swap)

lemma sound_lock:
  "sound k (ProgramCall
    \<lparr>callProgram = program, callMethod = ''lock'', callArgs = [ValBN n],
     callAccounts = [(''pool'', a1), (''lockEscrow'', a2), (''owner'', k), (''lpMint'', a3),
       (''sourceTokens'', a4), (''escrowVault'', a5), (''tokenProgram'', a6), (''aVault'', a7), (''bVault'', a8),
       (''aVaultLp'', a9), (''bVaultLp'', a10), (''aVaultLpMint'', a11), (''bVaultLpMint'', a12)],
     callRemaining = []\<rparr>)"
  by (rule sound_call [where signer = "''owner''" and types = "[TyU64]"]) (simp_all add: offers_locks)

lemma sound_lockNew: "npPayer np = payer \<Longrightarrow> list_all (sound payer) (lockNewLiquidity E np)"
  by (auto simp: lockNewLiquidity_def Let_def split_def sound_createLockEscrow sound_lock)

section \<open>The transactions\<close>

text \<open>Every instruction of the transaction is sound for its fee payer.\<close>

definition self_contained :: "transaction \<Rightarrow> bool" where
  "self_contained tx \<longleftrightarrow> list_all (sound (feePayer tx)) (instructions tx)"

lemma swap_self_contained: "swap E owner mint inAmount out ref self = Inr tx \<Longrightarrow> self_contained tx"
  by (auto simp: swap_def Let_def split_def self_contained_def unwrapSOLInstruction_def remaining_unsigned
      intro!: sound_swapCall split: option.splits if_splits)

lemma depositMethod_offered:
  "offers (fst (depositMethod self inA inB lp))
    (map (\<lambda>_. TyU64) (snd (depositMethod self inA inB lp)))
    [''aTokenVault'', ''bTokenVault'', ''aVault'', ''bVault'', ''pool'', ''user'', ''userAToken'', ''userBToken'',
     ''aVaultLp'', ''bVaultLp'', ''aVaultLpMint'', ''bVaultLpMint'', ''lpMint'', ''tokenProgram'', ''vaultProgram'',
     ''userPoolLp''] ''user''"
  "list_all2 fits (snd (depositMethod self inA inB lp)) (map (\<lambda>_. TyU64) (snd (depositMethod self inA inB lp)))"
  by (simp_all add: depositMethod_def offers_deposits)

lemma deposit_self_contained:
  assumes "deposit E owner inA inB lp self = Inr tx" shows "self_contained tx"
proof -
  have "sound owner (ProgramCall
    \<lparr>callProgram = p, callMethod = fst (depositMethod self inA inB lp),
     callArgs = snd (depositMethod self inA inB lp),
     callAccounts = [(''aTokenVault'', a1), (''bTokenVault'', a2), (''aVault'', a3), (''bVault'', a4), (''pool'', a5),
       (''user'', owner), (''userAToken'', a6), (''userBToken'', a7), (''aVaultLp'', a8), (''bVaultLp'', a9),
       (''aVaultLpMint'', a10), (''bVaultLpMint'', a11), (''lpMint'', a12), (''tokenProgram'', a13),
       (''vaultProgram'', a14), (''userPoolLp'', a15)],
     callRemaining = curve_getRemainingAccounts (ammSwapCurve self)\<rparr>)"
    for p a1 a2 a3 a4 a5 a6 a7 a8 a9 a10 a11 a12 a13 a14 a15
    by (rule sound_call [where signer = "''user''" and types = "map (\<lambda>_. TyU64) (snd (depositMethod self inA inB lp))"])
      (simp_all add: depositMethod_offered remaining_unsigned)
  with assms show ?thesis by (auto simp: deposit_def Let_def split_def self_contained_def)
qed

lemma withdraw_self_contained: "withdraw E owner lp outA outB self = Inr tx \<Longrightarrow> self_contained tx"
  by (auto simp: withdraw_def Let_def split_def self_contained_def sound_withdrawCall)

lemma lockLiquidity_self_contained:
  "lockLiquidity E owner amount payer self = Inr tx \<Longrightarrow> self_contained tx"
  by (auto simp: lockLiquidity_def Let_def split_def self_contained_def sound_createLockEscrow sound_lock
      split: option.splits)

lemma createConfig_self_contained:
  assumes "createConfig E payer trade protocol vault duration authority activation program = Some (Inr tx)"
  shows "self_contained tx"
proof -
  have "sound payer (ProgramCall
    \<lparr>callProgram = p, callMethod = ''createConfig'', callArgs = [ValConfigParameters params],
     callAccounts = [(''config'', a1), (''systemProgram'', a2), (''admin'', payer)], callRemaining = []\<rparr>)"
    for p params a1 a2
    by (rule sound_call [where signer = "''admin''" and types = "[TyDefined ''ConfigParameters'']"])
      (simp_all add: offers_createConfig)
  with assms show ?thesis
    by (auto simp: createConfig_def self_contained_def and_then_eq_Inr_iff split: sum.splits)
qed

text \<open>The initializations differ in the two accounts between the metadata program and the rent.\<close>

lemma sound_initialize:
  assumes "offers method types (map fst (initializeAccounts E np own)) ''payer''"
    and "list_all2 fits args types" and "map_of own ''payer'' = Some payer"
  shows "sound payer (ProgramCall
    \<lparr>callProgram = program, callMethod = method, callArgs = args, callAccounts = initializeAccounts E np own,
     callRemaining = []\<rparr>)"
  using assms by (intro sound_call [where signer = "''payer''" and types = types])
    (auto simp: initializeAccounts_def map_add_Some_iff)

lemma sound_initializeConfig2:
  "sound payer (ProgramCall
    \<lparr>callProgram = program, callMethod = ''initializePermissionlessConstantProductPoolWithConfig2'',
     callArgs = [ValBN n1, ValBN n2, ValOptionBN point],
     callAccounts = initializeAccounts E np [(''payer'', payer), (''config'', config)], callRemaining = []\<rparr>)"
  by (rule sound_initialize [where types = "[TyU64, TyU64, TyOption TyU64]"])
    (simp_all add: initializeAccounts_def offers_creations)

lemma sound_initializeConfig:
  "sound payer (ProgramCall
    \<lparr>callProgram = program, callMethod = ''initializePermissionlessConstantProductPoolWithConfig'',
     callArgs = [ValBN n1, ValBN n2],
     callAccounts = initializeAccounts E np [(''payer'', payer), (''config'', config)], callRemaining = []\<rparr>)"
  by (rule sound_initialize [where types = "[TyU64, TyU64]"]) (simp_all add: initializeAccounts_def offers_creations)

lemma sound_initializePool:
  "sound payer (ProgramCall
    \<lparr>callProgram = program, callMethod = ''initializePermissionlessPoolWithFeeTier'',
     callArgs = [ValCurveType curve, ValBN n1, ValBN n2, ValBN n3],
     callAccounts = initializeAccounts E np [(''feeOwner'', fee), (''payer'', payer)], callRemaining = []\<rparr>)"
  by (rule sound_initialize [where types = "[TyDefined ''CurveType'', TyU64, TyU64, TyU64]"])
    (simp_all add: initializeAccounts_def offers_creations)

lemmas sound_initializations = sound_initializeConfig2 sound_initializeConfig sound_initializePool

lemma creationTransactions_Inr:
  "creationTransactions E payer pre main first = Inr txs \<longleftrightarrow>
    (\<exists>h. getLatestBlockhash E = Inr h \<and>
      txs = map (\<lambda>ixs. \<lparr>feePayer = payer, recentBlockhash = h, instructions = ixs\<rparr>)
        ((if pre = [] then [] else [pre]) @ [main] @ (case first of None \<Rightarrow> [] | Some ix \<Rightarrow> [[ix]])))"
  by (auto simp: creationTransactions_def and_then_eq_Inr_iff split: option.splits)

lemma creation_self_contained:
  assumes "creationTransactions E payer pre main first = Inr txs" and "tx \<in> set txs"
    and "list_all (sound payer) pre" and "list_all (sound payer) main" and "pred_option (sound payer) first"
  shows "self_contained tx"
  using assms by (auto simp: creationTransactions_Inr self_contained_def split: option.splits if_splits)

lemma sound_setUpVault:
  "setUpVault E payer mint = Inr (pdas, lp, ix) \<Longrightarrow> pred_option (sound payer) ix"
  by (auto simp: setUpVault_def Let_def and_then_eq_Inr_iff split: option.splits if_splits)

lemma config2_self_contained:
  assumes "createPermissionlessConstantProductPoolWithConfig2 E payer mintA mintB amountA amountB config program opt
      = Inr txs" and "tx \<in> set txs"
  shows "self_contained tx"
proof -
  from assms(1) obtain vA lpA ixA vB lpB ixB where
    A: "setUpVault E payer mintA = Inr (vA, lpA, ixA)" and B: "setUpVault E payer mintB = Inr (vB, lpB, ixB)"
    by (auto simp: createPermissionlessConstantProductPoolWithConfig2_def Let_def and_then_eq_Inr_iff)
  show ?thesis
    using assms sound_setUpVault [OF A] sound_setUpVault [OF B]
    unfolding createPermissionlessConstantProductPoolWithConfig2_def Let_def split_def A B and_then_Inr prod.sel
    by (elim creation_self_contained)
      (simp_all add: option.pred_map comp_def split_def option.pred_True sound_lockNew sound_swapNew
        sound_initializations)
qed

lemma config_self_contained:
  assumes "createPermissionlessConstantProductPoolWithConfig E payer mintA mintB amountA amountB config program opt
      = Inr txs" and "tx \<in> set txs"
  shows "self_contained tx"
proof -
  from assms(1) obtain vA lpA ixA vB lpB ixB where
    A: "setUpVault E payer mintA = Inr (vA, lpA, ixA)" and B: "setUpVault E payer mintB = Inr (vB, lpB, ixB)"
    by (auto simp: createPermissionlessConstantProductPoolWithConfig_def Let_def and_then_eq_Inr_iff)
  show ?thesis
    using assms sound_setUpVault [OF A] sound_setUpVault [OF B]
    unfolding createPermissionlessConstantProductPoolWithConfig_def Let_def split_def A B and_then_Inr prod.sel
    by (elim creation_self_contained)
      (simp_all add: option.pred_map comp_def split_def option.pred_True sound_lockNew sound_swapNew
        sound_initializations)
qed

lemma pool_self_contained:
  assumes "createPermissionlessPool E payer infoA infoB amountA amountB isStable fee program skip = Inr tx"
  shows "self_contained tx"
proof -
  from assms obtain vA lpA ixA vB lpB ixB where
    A: "setUpVault E payer (infoAddress infoA) = Inr (vA, lpA, ixA)" and
    B: "setUpVault E payer (infoAddress infoB) = Inr (vB, lpB, ixB)"
    by (auto simp: createPermissionlessPool_def Let_def and_then_eq_Inr_iff)
  show ?thesis
    using assms sound_setUpVault [OF A] sound_setUpVault [OF B]
    by (auto simp: createPermissionlessPool_def Let_def split_def A B and_then_eq_Inr_iff self_contained_def
        sound_initializations)
qed

lemma claim_sound_or_escrow:
  assumes "claimLockFee E owner maxAmount self = Inr tx" and "ix \<in> set (instructions tx)"
  shows "sound owner ix \<or>
    Some ix = snd (getOrCreateATAInstruction E (lpMint (ammPoolState self))
      (fst (deriveLockEscrowPda (envFns E) (ammAddress self) owner (ammProgramId self))) None)"
proof -
  have call: "sound k (ProgramCall
    \<lparr>callProgram = program, callMethod = ''claimFee'', callArgs = [ValBN n],
     callAccounts = [(''pool'', a1), (''lockEscrow'', a2), (''owner'', k), (''lpMint'', a3),
       (''sourceTokens'', a4), (''escrowVault'', a5), (''tokenProgram'', a6), (''aVault'', a7), (''bVault'', a8),
       (''aVaultLp'', a9), (''bVaultLp'', a10), (''aVaultLpMint'', a11), (''bVaultLpMint'', a12),
       (''vaultProgram'', a13), (''aTokenVault'', a14), (''bTokenVault'', a15), (''userAToken'', a16),
       (''userBToken'', a17)],
     callRemaining = []\<rparr>)" for k program n a1 a2 a3 a4 a5 a6 a7 a8 a9 a10 a11 a12 a13 a14 a15 a16 a17
    by (rule sound_call [where signer = "''owner''" and types = "[TyU64]"]) (simp_all add: offers_locks)
  have pushed: "y \<in> set (push x ys) \<longleftrightarrow> y \<in> set ys \<or> x = Some y" for x and y :: instruction and ys
    by (cases x) auto
  have "sound owner y" if "y \<in> set (unwrapAfter E owner native)" for y native
    using that sound_unwrapAfter [of owner E native] by (simp add: list_all_iff)
  moreover have "sound owner y" if "snd (getOrCreateATAInstruction E mint owner None) = Some y" for y mint
    using that sound_ata(2) [of owner E mint] by simp
  ultimately show ?thesis
    using assms by (auto simp: claimLockFee_def Let_def split_def pushed call)
qed

section \<open>All transactions\<close>

text \<open>What a pool object builds, and what the SDK builds.\<close>

inductive pool_transaction :: "env \<Rightarrow> amm_impl \<Rightarrow> transaction \<Rightarrow> bool" for E self where
  of_swap: "swap E owner mint inAmount out ref self = Inr tx \<Longrightarrow> pool_transaction E self tx"
| of_deposit: "deposit E owner inA inB lp self = Inr tx \<Longrightarrow> pool_transaction E self tx"
| of_withdraw: "withdraw E owner lp outA outB self = Inr tx \<Longrightarrow> pool_transaction E self tx"
| of_lock: "lockLiquidity E owner amount payer self = Inr tx \<Longrightarrow> pool_transaction E self tx"
| of_claim: "claimLockFee E owner maxAmount self = Inr tx \<Longrightarrow> pool_transaction E self tx"

inductive built :: "env \<Rightarrow> transaction \<Rightarrow> bool" for E where
  by_pool: "pool_transaction E self tx \<Longrightarrow> built E tx"
| by_createConfig:
    "createConfig E payer trade protocol vault duration authority activation program = Some (Inr tx) \<Longrightarrow>
     built E tx"
| by_config2:
    "createPermissionlessConstantProductPoolWithConfig2 E payer mintA mintB amountA amountB config program opt
       = Inr txs \<Longrightarrow> tx \<in> set txs \<Longrightarrow> built E tx"
| by_config:
    "createPermissionlessConstantProductPoolWithConfig E payer mintA mintB amountA amountB config program opt
       = Inr txs \<Longrightarrow> tx \<in> set txs \<Longrightarrow> built E tx"
| by_pool_creation:
    "createPermissionlessPool E payer infoA infoB amountA amountB isStable fee program skip = Inr tx \<Longrightarrow>
     built E tx"

lemma pool_transaction_sound:
  "pool_transaction E self tx \<Longrightarrow>
    self_contained tx \<or> (\<exists>owner maxAmount. claimLockFee E owner maxAmount self = Inr tx)"
  by (induction rule: pool_transaction.induct)
    (blast intro: swap_self_contained deposit_self_contained withdraw_self_contained lockLiquidity_self_contained)+

lemma built_sound:
  "built E tx \<Longrightarrow> self_contained tx \<or> (\<exists>owner maxAmount self. claimLockFee E owner maxAmount self = Inr tx)"
  by (induction rule: built.induct)
    (blast dest: pool_transaction_sound intro: createConfig_self_contained config2_self_contained
      config_self_contained pool_self_contained)+

lemma claim_fee_payer: "claimLockFee E owner maxAmount self = Inr tx \<Longrightarrow> feePayer tx = owner"
  by (auto simp: claimLockFee_def Let_def split_def)

lemma ata_instruction:
  "Some ix = snd (getOrCreateATAInstruction E mint owner payer) \<Longrightarrow>
    accountInfo (envChain E) (getAssociatedTokenAccount (envFns E) mint owner) = None \<and>
    ix = CreateAssociatedTokenAccount (case payer of Some p \<Rightarrow> p | None \<Rightarrow> owner)
      (getAssociatedTokenAccount (envFns E) mint owner) owner mint"
  by (auto simp: getOrCreateATAInstruction_def Let_def split: option.splits)

lemma in_callsBy [simp]: "c \<in> set (callsBy ix) \<longleftrightarrow> ix = ProgramCall c"
  by (cases ix) auto

lemma programCalls_conform:
  "(\<And>c. ProgramCall c \<in> set ixs \<Longrightarrow> conforms c) \<Longrightarrow> list_all conforms (programCalls ixs)"
  by (auto simp: programCalls_def list_all_iff)

section \<open>Accounts that exist when they are needed\<close>

text \<open>The accounts of a call that hold the tokens of a user or of an escrow.\<close>

definition tokenAccountNames :: "string list" where
  "tokenAccountNames =
     [''userSourceToken'', ''userDestinationToken'', ''userAToken'', ''userBToken'', ''userPoolLp'',
      ''sourceTokens'', ''escrowVault'']"

text \<open>
  Going through the instructions with the accounts made so far: every token account of a call, and
  every writable account that it passes in addition, exists on the chain or has been made.
\<close>

fun accountsReady :: "env \<Rightarrow> pubkey list \<Rightarrow> instruction list \<Rightarrow> bool" where
  "accountsReady E made [] \<longleftrightarrow> True"
| "accountsReady E made (ix # ixs) \<longleftrightarrow>
     (case ix of
        ProgramCall c \<Rightarrow>
          list_all (\<lambda>(n, k). n \<in> set tokenAccountNames \<longrightarrow> accountInfo (envChain E) k \<noteq> None \<or> k \<in> set made)
            (callAccounts c) \<and>
          list_all (\<lambda>a. isWritable a \<longrightarrow> accountInfo (envChain E) (metaPubkey a) \<noteq> None \<or> metaPubkey a \<in> set made)
            (callRemaining c)
      | _ \<Rightarrow> True) \<and>
     accountsReady E (made @ createdBy ix) ixs"

lemma accountsReady_append:
  "accountsReady E made (xs @ ys) \<longleftrightarrow> accountsReady E made xs \<and> accountsReady E (made @ created xs) ys"
  by (induction xs arbitrary: made) (auto simp: created_def)

lemma ready_without_calls: "programCalls xs = [] \<Longrightarrow> accountsReady E made xs"
  by (induction xs arbitrary: made) (auto simp: calls.whole_simps split: instruction.splits)

text \<open>The token account helper as equations: the account, and what its instruction does.\<close>

lemma ata_account [ix_simps]:
  "fst (getOrCreateATAInstruction E mint owner payer) = getAssociatedTokenAccount (envFns E) mint owner"
  by (simp add: getOrCreateATAInstruction_def Let_def split: option.splits)

lemma ata_effect [ix_simps]:
  "(case snd (getOrCreateATAInstruction E mint owner payer) of None \<Rightarrow> [] | Some ix \<Rightarrow> callsBy ix) = []"
  "(case snd (getOrCreateATAInstruction E mint owner payer) of None \<Rightarrow> 0 | Some ix \<Rightarrow> lamportsBy k ix) = 0"
  by (simp_all add: getOrCreateATAInstruction_def Let_def split: option.splits)

lemma wrap_effect [ix_simps]:
  "created (wrapSOLInstruction E source dest amount) = []"
  "programCalls (wrapSOLInstruction E source dest amount) = []"
  "lamportsInto k (wrapSOLInstruction E source dest amount) = (if k = dest then amount else 0)"
  by (auto simp: wrapSOLInstruction_def ix_simps)

lemma unwrap_effect [ix_simps]:
  "created (unwrapAfter E owner native) = []" "programCalls (unwrapAfter E owner native) = []"
  "lamportsInto k (unwrapAfter E owner native) = 0"
  by (auto simp: unwrapAfter_def unwrapSOLInstruction_def ix_simps)

lemma fold_unwrapAfter [ix_simps]:
  "(if native then push (unwrapSOLInstruction E owner) [] else []) = unwrapAfter E owner native"
  by (simp add: unwrapAfter_def)

section \<open>The parts of a transaction\<close>

abbreviation ataOf :: "env \<Rightarrow> pubkey \<Rightarrow> pubkey \<Rightarrow> pubkey" where
  "ataOf E mint owner \<equiv> getAssociatedTokenAccount (envFns E) mint owner"

text \<open>The account when it does not exist.\<close>

definition missing :: "env \<Rightarrow> pubkey \<Rightarrow> pubkey list" where
  "missing E k = (if accountInfo (envChain E) k = None then [k] else [])"

lemma missing_effect [ix_simps]:
  "(case snd (getOrCreateATAInstruction E mint owner payer) of None \<Rightarrow> [] | Some ix \<Rightarrow> createdBy ix) =
    missing E (ataOf E mint owner)"
  by (simp add: getOrCreateATAInstruction_def missing_def Let_def split: option.splits)

lemma set_missing [simp]: "k \<in> set (missing E j) \<longleftrightarrow> k = j \<and> accountInfo (envChain E) k = None"
  by (auto simp: missing_def)

text \<open>The mints that \<open>swap\<close> takes and gives.\<close>

definition swapMints :: "pubkey \<Rightarrow> amm_impl \<Rightarrow> pubkey \<times> pubkey" where
  "swapMints mint self =
     (if mintAddress (ammTokenAMint self) = mint
      then (tokenAMint (ammPoolState self), tokenBMint (ammPoolState self))
      else (tokenBMint (ammPoolState self), tokenAMint (ammPoolState self)))"

definition swapFeeAccount :: "pubkey \<Rightarrow> amm_impl \<Rightarrow> pubkey" where
  "swapFeeAccount mint self =
     (if mintAddress (ammTokenAMint self) = mint
      then protocolTokenAFee (ammPoolState self) else protocolTokenBFee (ammPoolState self))"

text \<open>
  The token accounts that each method of the pool object makes before the call, in order, and the
  lamports it moves into each account.
\<close>

lemma swap_parts:
  assumes "swap E owner mint inAmount out ref self = Inr tx" and "swapMints mint self = (src, dst)"
  obtains pre where
    "instructions tx = pre @ [ProgramCall (swapCall E owner inAmount out (ataOf E src owner) (ataOf E dst owner) (swapFeeAccount mint self)
       (curve_getRemainingAccounts (ammSwapCurve self) @
         (case ref of None \<Rightarrow> []
          | Some k \<Rightarrow> [\<lparr>metaPubkey = ataOf E mint k, isWritable = True, isSigner = False\<rparr>])) self)] @
       unwrapAfter E owner (NATIVE_MINT E = dst)"
    and "feePayer tx = owner" and "programCalls pre = []"
    and "created pre = missing E (ataOf E src owner) @ missing E (ataOf E dst owner) @
       (case ref of None \<Rightarrow> [] | Some k \<Rightarrow> missing E (ataOf E mint k))"
    and "\<And>k. lamportsInto k pre = (if src = NATIVE_MINT E \<and> k = ataOf E src owner then inAmount else 0)"
proof -
  define made where "made = push (snd (getOrCreateATAInstruction E dst owner None))
    (push (snd (getOrCreateATAInstruction E src owner None)) []) @
    (if src = NATIVE_MINT E then wrapSOLInstruction E owner (ataOf E src owner) inAmount else [])"
  define pre where "pre = (case ref of None \<Rightarrow> made
    | Some k \<Rightarrow> push (snd (getOrCreateATAInstruction E mint k (Some owner))) made)"
  show thesis
  proof (rule that [of pre])
    show "instructions tx = pre @ [ProgramCall (swapCall E owner inAmount out (ataOf E src owner) (ataOf E dst owner) (swapFeeAccount mint self)
       (curve_getRemainingAccounts (ammSwapCurve self) @
         (case ref of None \<Rightarrow> []
          | Some k \<Rightarrow> [\<lparr>metaPubkey = ataOf E mint k, isWritable = True, isSigner = False\<rparr>])) self)] @
       unwrapAfter E owner (NATIVE_MINT E = dst)"
      using assms by (auto simp: swap_def swapMints_def Let_def split_def ata_account fold_unwrapAfter pre_def
          made_def swapFeeAccount_def split: option.splits if_splits)
    show "feePayer tx = owner"
      using assms(1) by (auto simp: swap_def Let_def split_def)
    show "programCalls pre = []"
      by (simp add: pre_def made_def ix_simps split: option.split)
    show "created pre = missing E (ataOf E src owner) @ missing E (ataOf E dst owner) @
       (case ref of None \<Rightarrow> [] | Some k \<Rightarrow> missing E (ataOf E mint k))"
      by (simp add: pre_def made_def ix_simps missing_def split: option.split)
    show "lamportsInto k pre = (if src = NATIVE_MINT E \<and> k = ataOf E src owner then inAmount else 0)" for k
      by (simp add: pre_def made_def ix_simps split: option.split)
  qed
qed

lemma deposit_parts:
  assumes "deposit E owner inA inB lp self = Inr tx"
  obtains pre c native where
    "instructions tx = pre @ [ProgramCall c] @ unwrapAfter E owner native"
    and "feePayer tx = owner" and "programCalls pre = []"
    and "created pre = concat (map (\<lambda>mint. missing E (ataOf E mint owner))
       [tokenAMint (ammPoolState self), tokenBMint (ammPoolState self), lpMint (ammPoolState self)])"
    and "\<And>k. lamportsInto k pre =
       (if NATIVE_MINT E = mintAddress (ammTokenAMint self) \<and> k = ataOf E (tokenAMint (ammPoolState self)) owner
        then inA else 0) +
       (if NATIVE_MINT E = mintAddress (ammTokenBMint self) \<and> k = ataOf E (tokenBMint (ammPoolState self)) owner
        then inB else 0)"
    and "callRemaining c = curve_getRemainingAccounts (ammSwapCurve self)"
    and "\<forall>(n, k) \<in> set (callAccounts c). n \<in> set tokenAccountNames \<longrightarrow>
       k \<in> (\<lambda>mint. ataOf E mint owner) `
         {tokenAMint (ammPoolState self), tokenBMint (ammPoolState self), lpMint (ammPoolState self)}"
proof -
  define ps where "ps = ammPoolState self"
  define made where "made = push (snd (getOrCreateATAInstruction E (lpMint ps) owner None))
    (push (snd (getOrCreateATAInstruction E (tokenBMint ps) owner None))
    (push (snd (getOrCreateATAInstruction E (tokenAMint ps) owner None)) []))"
  define pre where "pre = made @
    (if NATIVE_MINT E = mintAddress (ammTokenAMint self)
     then wrapSOLInstruction E owner (ataOf E (tokenAMint ps) owner) inA else []) @
    (if NATIVE_MINT E = mintAddress (ammTokenBMint self)
     then wrapSOLInstruction E owner (ataOf E (tokenBMint ps) owner) inB else [])"
  from assms obtain c where tx: "instructions tx = pre @ [ProgramCall c] @
      unwrapAfter E owner (NATIVE_MINT E \<in> {mintAddress (ammTokenAMint self), mintAddress (ammTokenBMint self)})"
    and payer: "feePayer tx = owner"
    and metas: "callRemaining c = curve_getRemainingAccounts (ammSwapCurve self)"
    and accounts: "\<forall>(n, k) \<in> set (callAccounts c). n \<in> set tokenAccountNames \<longrightarrow>
       k \<in> (\<lambda>mint. ataOf E mint owner) ` {tokenAMint ps, tokenBMint ps, lpMint ps}"
    by (simp add: deposit_def Let_def split_def pre_def made_def ps_def ata_account tokenAccountNames_def)
      (auto simp: ata_account ps_def split: if_splits)
  show thesis
  proof (rule that [OF tx payer])
    show "programCalls pre = []" by (simp add: pre_def made_def ix_simps)
    show "created pre = concat (map (\<lambda>mint. missing E (ataOf E mint owner))
       [tokenAMint (ammPoolState self), tokenBMint (ammPoolState self), lpMint (ammPoolState self)])"
      by (simp add: pre_def made_def ix_simps ps_def)
    show "lamportsInto k pre =
       (if NATIVE_MINT E = mintAddress (ammTokenAMint self) \<and> k = ataOf E (tokenAMint (ammPoolState self)) owner
        then inA else 0) +
       (if NATIVE_MINT E = mintAddress (ammTokenBMint self) \<and> k = ataOf E (tokenBMint (ammPoolState self)) owner
        then inB else 0)" for k
      by (simp add: pre_def made_def ix_simps ps_def)
  qed (use metas accounts in \<open>simp_all add: ps_def\<close>)
qed

lemma withdraw_parts:
  assumes "withdraw E owner lp outA outB self = Inr tx"
  obtains pre c native where
    "instructions tx = pre @ [ProgramCall c] @ unwrapAfter E owner native"
    and "feePayer tx = owner" and "programCalls pre = []"
    and "created pre = concat (map (\<lambda>mint. missing E (ataOf E mint owner))
       [tokenAMint (ammPoolState self), tokenBMint (ammPoolState self), lpMint (ammPoolState self)])"
    and "\<And>k. lamportsInto k pre = 0"
    and "callRemaining c = curve_getRemainingAccounts (ammSwapCurve self)"
    and "\<forall>(n, k) \<in> set (callAccounts c). n \<in> set tokenAccountNames \<longrightarrow>
       k \<in> (\<lambda>mint. ataOf E mint owner) `
         {tokenAMint (ammPoolState self), tokenBMint (ammPoolState self), lpMint (ammPoolState self)}"
proof -
  define ps where "ps = ammPoolState self"
  define pre where "pre = push (snd (getOrCreateATAInstruction E (lpMint ps) owner None))
    (push (snd (getOrCreateATAInstruction E (tokenBMint ps) owner None))
    (push (snd (getOrCreateATAInstruction E (tokenAMint ps) owner None)) []))"
  define c where "c = withdrawCall E owner lp outA outB (ataOf E (tokenAMint ps) owner)
    (ataOf E (tokenBMint ps) owner) (ataOf E (lpMint ps) owner) self"
  have tx: "instructions tx = pre @ [ProgramCall c] @
      unwrapAfter E owner (NATIVE_MINT E \<in> {mintAddress (ammTokenAMint self), mintAddress (ammTokenBMint self)})"
    and payer: "feePayer tx = owner"
    using assms by (auto simp: withdraw_def Let_def split_def pre_def c_def ps_def ata_account)
  show thesis
  proof (rule that [OF tx payer])
    show "programCalls pre = []" by (simp add: pre_def ix_simps)
    show "created pre = concat (map (\<lambda>mint. missing E (ataOf E mint owner))
       [tokenAMint (ammPoolState self), tokenBMint (ammPoolState self), lpMint (ammPoolState self)])"
      by (simp add: pre_def ix_simps ps_def)
    show "lamportsInto k pre = 0" for k by (simp add: pre_def ix_simps)
    show "callRemaining c = curve_getRemainingAccounts (ammSwapCurve self)"
      by (simp add: c_def withdrawCall_def Let_def)
    show "\<forall>(n, k) \<in> set (callAccounts c). n \<in> set tokenAccountNames \<longrightarrow>
       k \<in> (\<lambda>mint. ataOf E mint owner) `
         {tokenAMint (ammPoolState self), tokenBMint (ammPoolState self), lpMint (ammPoolState self)}"
      by (simp add: c_def withdrawCall_def Let_def tokenAccountNames_def ps_def)
  qed
qed

lemma curve_metas_readonly: "\<forall>a \<in> set (curve_getRemainingAccounts curve). \<not> isWritable a"
  by (cases curve) (auto simp: ss_getRemainingAccounts_def readOnly_def)

lemma ready_around_call:
  assumes "programCalls xs = []" and "programCalls ys = []"
  shows "accountsReady E [] (xs @ [ProgramCall c] @ ys) \<longleftrightarrow>
    list_all (\<lambda>(n, k). n \<in> set tokenAccountNames \<longrightarrow> accountInfo (envChain E) k \<noteq> None \<or> k \<in> set (created xs))
      (callAccounts c) \<and>
    list_all (\<lambda>a. isWritable a \<longrightarrow> accountInfo (envChain E) (metaPubkey a) \<noteq> None \<or> metaPubkey a \<in> set (created xs))
      (callRemaining c)"
  using assms by (simp add: accountsReady_append ready_without_calls)

lemma ready_push [simp]:
  "accountsReady E made (push x xs) \<longleftrightarrow>
    accountsReady E made xs \<and> (case x of None \<Rightarrow> True | Some ix \<Rightarrow> accountsReady E (made @ created xs) [ix])"
  by (cases x) (auto simp: accountsReady_append)

lemma ready_ata [simp]:
  "(case snd (getOrCreateATAInstruction E mint owner payer) of None \<Rightarrow> True | Some ix \<Rightarrow> accountsReady E made [ix])"
  by (simp add: getOrCreateATAInstruction_def Let_def split: option.splits)

lemma ready_swap:
  assumes "swap E owner mint inAmount out ref self = Inr tx" shows "accountsReady E [] (instructions tx)"
proof -
  obtain src dst where mints: "swapMints mint self = (src, dst)" by fastforce
  from assms mints show ?thesis
  proof (rule swap_parts)
    fix pre
    let ?c = "swapCall E owner inAmount out (ataOf E src owner) (ataOf E dst owner) (swapFeeAccount mint self)
       (curve_getRemainingAccounts (ammSwapCurve self) @
         (case ref of None \<Rightarrow> []
          | Some k \<Rightarrow> [\<lparr>metaPubkey = ataOf E mint k, isWritable = True, isSigner = False\<rparr>])) self"
    assume tx: "instructions tx = pre @ [ProgramCall ?c] @ unwrapAfter E owner (NATIVE_MINT E = dst)"
      and calls: "programCalls pre = []"
      and made: "created pre = missing E (ataOf E src owner) @ missing E (ataOf E dst owner) @
         (case ref of None \<Rightarrow> [] | Some k \<Rightarrow> missing E (ataOf E mint k))"
    show ?thesis
      unfolding tx using calls curve_metas_readonly [of "ammSwapCurve self"]
      by (subst ready_around_call)
        (auto simp: ix_simps made swapCall_def Let_def tokenAccountNames_def list_all_iff split: option.splits)
  qed
qed

lemma ready_parts:
  assumes "instructions tx = pre @ [ProgramCall c] @ unwrapAfter E owner native" and "programCalls pre = []"
    and "created pre = concat (map (\<lambda>mint. missing E (ataOf E mint owner)) mints)"
    and "\<forall>a \<in> set (callRemaining c). \<not> isWritable a"
    and "\<forall>(n, k) \<in> set (callAccounts c). n \<in> set tokenAccountNames \<longrightarrow> k \<in> (\<lambda>mint. ataOf E mint owner) ` set mints"
  shows "accountsReady E [] (instructions tx)"
  unfolding assms(1)
  using assms(2-5)
  by (subst ready_around_call) (fastforce simp: ix_simps list_all_iff)+

lemma ready_lock:
  assumes "lockLiquidity E owner amount payer self = Inr tx" shows "accountsReady E [] (instructions tx)"
  using assms
  by (auto simp: lockLiquidity_def Let_def split_def accountsReady_append createLockEscrowCall_def ix_simps
      tokenAccountNames_def split: option.splits)

lemma ready_claim:
  assumes "claimLockFee E owner maxAmount self = Inr tx" shows "accountsReady E [] (instructions tx)"
proof -
  have "accountsReady E made (unwrapAfter E owner native)" for made native
    by (rule ready_without_calls) (simp add: ix_simps)
  with assms show ?thesis
    by (auto simp: claimLockFee_def Let_def split_def accountsReady_append ix_simps tokenAccountNames_def
        ready_without_calls)
qed

section \<open>Properties\<close>

text \<open>
  C10: Every call of the program that the SDK puts into a transaction fits the interface: the method
  exists, each of its accounts is passed exactly once and no other, and the arguments are as many as
  its parameters and of their kinds (that a number fits into 64 bits is for the encoder to check,
  which is not part of the SDK). This covers swaps, the three kinds of deposit, both
  kinds of withdrawal, locking and claiming, and the creation of configurations and pools.
\<close>

theorem built_calls_conform:
  assumes "built E tx" shows "list_all conforms (programCalls (instructions tx))"
proof (rule programCalls_conform)
  fix c assume c: "ProgramCall c \<in> set (instructions tx)"
  from built_sound [OF assms] show "conforms c"
  proof
    assume "self_contained tx"
    with c show ?thesis by (auto simp: self_contained_def list_all_iff sound_def)
  next
    assume "\<exists>owner maxAmount self. claimLockFee E owner maxAmount self = Inr tx"
    then obtain owner maxAmount self where "claimLockFee E owner maxAmount self = Inr tx" by blast
    from claim_sound_or_escrow [OF this c] show ?thesis
      by (auto simp: sound_def dest: ata_instruction)
  qed
qed

text \<open>
  C15: One signature, that of the fee payer, suffices for every transaction the SDK builds; the
  only exception is a claim of locked fees for a lock escrow without a token account.
\<close>

theorem one_signature_suffices:
  assumes "built E tx" and "ix \<in> set (instructions tx)" and "k \<in> signersOf ix"
  shows "k = feePayer tx \<or>
    (\<exists>owner maxAmount self. claimLockFee E owner maxAmount self = Inr tx \<and>
      k = fst (deriveLockEscrowPda (envFns E) (ammAddress self) owner (ammProgramId self)) \<and>
      accountInfo (envChain E) (getAssociatedTokenAccount (envFns E) (lpMint (ammPoolState self)) k) = None)"
  using built_sound [OF assms(1)]
proof
  assume "self_contained tx"
  with assms(2,3) show ?thesis by (auto simp: self_contained_def list_all_iff sound_def)
next
  assume "\<exists>owner maxAmount self. claimLockFee E owner maxAmount self = Inr tx"
  then obtain owner maxAmount self where claim: "claimLockFee E owner maxAmount self = Inr tx" by blast
  from claim_sound_or_escrow [OF claim assms(2)] show ?thesis
  proof
    assume "sound owner ix"
    with assms(3) claim_fee_payer [OF claim] show ?thesis by (auto simp: sound_def)
  next
    let ?escrow = "fst (deriveLockEscrowPda (envFns E) (ammAddress self) owner (ammProgramId self))"
    assume "Some ix = snd (getOrCreateATAInstruction E (lpMint (ammPoolState self)) ?escrow None)"
    note made = ata_instruction [OF this]
    then have "k = ?escrow" using assms(3) by simp
    with made claim show ?thesis by blast
  qed
qed

text \<open>
  A claim of locked fees cannot be signed by its owner when the token account of the lock
  escrow does not exist: the instruction that creates this account names the escrow, an address
  without a private key, as its payer.
\<close>

lemma claim_needs_escrow_signature:
  assumes "claimLockFee E owner maxAmount self = Inr tx"
    and "escrow = fst (deriveLockEscrowPda (envFns E) (ammAddress self) owner (ammProgramId self))"
    and "accountInfo (envChain E) (getAssociatedTokenAccount (envFns E) (lpMint (ammPoolState self)) escrow) = None"
  shows "feePayer tx = owner \<and> (\<exists>ix \<in> set (instructions tx). signersOf ix = {escrow})"
proof -
  let ?ix = "CreateAssociatedTokenAccount escrow (ataOf E (lpMint (ammPoolState self)) escrow) escrow
    (lpMint (ammPoolState self))"
  have "snd (getOrCreateATAInstruction E (lpMint (ammPoolState self)) escrow None) = Some ?ix"
    using assms(3) by (simp add: getOrCreateATAInstruction_def Let_def)
  then have "?ix \<in> set (instructions tx)"
    using assms(1) unfolding assms(2) by (auto simp: claimLockFee_def Let_def split_def push_def)
  then show ?thesis using claim_fee_payer [OF assms(1)] by force
qed

text \<open>
  C16: The token accounts of the user and of the lock escrow that a method of the pool object passes
  to the program, the account of a referrer included, exist when the program is called: they are
  on the chain or an earlier instruction of the same transaction creates them.
\<close>

theorem user_accounts_ready:
  assumes "pool_transaction E self tx" shows "accountsReady E [] (instructions tx)"
  using assms
proof (induction rule: pool_transaction.induct)
  case (of_swap owner mint inAmount out ref tx)
  then show ?case by (rule ready_swap)
next
  case (of_deposit owner inA inB lp tx)
  then show ?case
    by (rule deposit_parts) (erule (2) ready_parts, simp_all add: curve_metas_readonly)
next
  case (of_withdraw owner lp outA outB tx)
  then show ?case
    by (rule withdraw_parts) (erule (2) ready_parts, simp_all add: curve_metas_readonly)
next
  case (of_lock owner amount payer tx)
  then show ?case by (rule ready_lock)
next
  case (of_claim owner maxAmount tx)
  then show ?case by (rule ready_claim)
qed

text \<open>What an associated token address is documented to be: a program address of the owner and the mint.\<close>

definition ata_law :: "address_fns \<Rightarrow> bool" where
  "ata_law F \<longleftrightarrow> (\<forall>mint owner mint' owner'.
     getAssociatedTokenAddressSync F mint owner = getAssociatedTokenAddressSync F mint' owner' \<longrightarrow>
     mint = mint' \<and> owner = owner')"

lemma ata_inj: "ata_law F \<Longrightarrow>
    getAssociatedTokenAccount F mint owner = getAssociatedTokenAccount F mint' owner' \<longleftrightarrow> mint = mint' \<and> owner = owner'"
  unfolding ata_law_def getAssociatedTokenAccount_def by blast

text \<open>
  A swap transaction creates the same token account twice, and so fails, exactly when the user
  is his own referrer and has no account for the token he sells; otherwise every account it
  creates is created once.
\<close>

lemma swap_creates_twice_iff:
  assumes "swap E owner mint inAmount out ref self = Inr tx" and "ata_law (envFns E)"
    and "swapMints mint self = (mint, other)" and "mint \<noteq> other"
  shows "\<not> distinct (created (instructions tx)) \<longleftrightarrow>
    ref = Some owner \<and> accountInfo (envChain E) (getAssociatedTokenAccount (envFns E) mint owner) = None"
  using assms(1,3)
proof (rule swap_parts)
  fix pre
  let ?c = "swapCall E owner inAmount out (ataOf E mint owner) (ataOf E other owner) (swapFeeAccount mint self)
     (curve_getRemainingAccounts (ammSwapCurve self) @
       (case ref of None \<Rightarrow> []
        | Some k \<Rightarrow> [\<lparr>metaPubkey = ataOf E mint k, isWritable = True, isSigner = False\<rparr>])) self"
  assume tx: "instructions tx = pre @ [ProgramCall ?c] @ unwrapAfter E owner (NATIVE_MINT E = other)"
    and made: "created pre = missing E (ataOf E mint owner) @ missing E (ataOf E other owner) @
       (case ref of None \<Rightarrow> [] | Some k \<Rightarrow> missing E (ataOf E mint k))"
  have "created (instructions tx) = created pre" by (simp add: tx ix_simps)
  then show ?thesis
    using assms(4) unfolding made missing_def
    by (cases ref) (auto simp: ata_inj [OF assms(2)] disjoint_iff)
qed

text \<open>
  C30: A swap that sells the native token moves exactly the input into the account the program takes
  it from, a deposit exactly the amounts of its native sides, and nothing else is moved; a
  withdrawal moves nothing.
\<close>

theorem wraps_what_it_spends:
  "(swap E owner mint inAmount out ref self = Inr tx \<longrightarrow>
     (\<forall>k. lamportsInto k (instructions tx) =
       (if fst (swapMints mint self) = NATIVE_MINT E \<and> k = getAssociatedTokenAccount (envFns E) (NATIVE_MINT E) owner
        then inAmount else 0))) \<and>
   (deposit E owner inA inB lp self = Inr tx' \<longrightarrow>
     (\<forall>k. lamportsInto k (instructions tx') =
       (if mintAddress (ammTokenAMint self) = NATIVE_MINT E \<and>
           k = getAssociatedTokenAccount (envFns E) (tokenAMint (ammPoolState self)) owner then inA else 0) +
       (if mintAddress (ammTokenBMint self) = NATIVE_MINT E \<and>
           k = getAssociatedTokenAccount (envFns E) (tokenBMint (ammPoolState self)) owner then inB else 0))) \<and>
   (withdraw E owner lp outA outB self = Inr tx'' \<longrightarrow> (\<forall>k. lamportsInto k (instructions tx'') = 0))"
proof (intro conjI impI allI)
  fix k assume "swap E owner mint inAmount out ref self = Inr tx"
  moreover obtain src dst where mints: "swapMints mint self = (src, dst)" by fastforce
  ultimately show "lamportsInto k (instructions tx) =
       (if fst (swapMints mint self) = NATIVE_MINT E \<and> k = getAssociatedTokenAccount (envFns E) (NATIVE_MINT E) owner
        then inAmount else 0)"
    by (rule swap_parts) (auto simp: ix_simps mints)
next
  fix k assume "deposit E owner inA inB lp self = Inr tx'"
  then show "lamportsInto k (instructions tx') =
       (if mintAddress (ammTokenAMint self) = NATIVE_MINT E \<and>
           k = getAssociatedTokenAccount (envFns E) (tokenAMint (ammPoolState self)) owner then inA else 0) +
       (if mintAddress (ammTokenBMint self) = NATIVE_MINT E \<and>
           k = getAssociatedTokenAccount (envFns E) (tokenBMint (ammPoolState self)) owner then inB else 0)"
    by (rule deposit_parts) (auto simp: ix_simps)
next
  fix k assume "withdraw E owner lp outA outB self = Inr tx''"
  then show "lamportsInto k (instructions tx'') = 0"
    by (rule withdraw_parts) (auto simp: ix_simps)
qed

lemma wrapFor_lamports [ix_simps]:
  "lamportsInto k (wrapFor E payer mint account amount) = (if mint = NATIVE_MINT E \<and> k = account then amount else 0)"
  by (auto simp: wrapFor_def ix_simps)

lemma vault_lamports:
  "setUpVault E payer mint = Inr (pdas, lp, ix) \<Longrightarrow> (case ix of None \<Rightarrow> 0 | Some i \<Rightarrow> lamportsBy k i) = 0"
  by (auto simp: setUpVault_def Let_def and_then_eq_Inr_iff split: option.splits if_splits)

lemma lockNew_lamports [ix_simps]: "lamportsInto k (lockNewLiquidity E np) = 0"
  by (simp add: lockNewLiquidity_def Let_def split_def ix_simps)

lemma swapNew_lamports [ix_simps]: "lamportsBy k (swapNewLiquidity E np inAmount minOut) = 0"
  by (simp add: swapNewLiquidity_def)

lemma creation_lamports:
  assumes "creationTransactions E payer pre main first = Inr txs" and "lamportsInto k main = 0"
    and "\<And>ix. first = Some ix \<Longrightarrow> lamportsBy k ix = 0"
  shows "lamportsInto k (concat (map instructions txs)) = lamportsInto k pre"
  using assms by (auto simp: creationTransactions_Inr ix_simps split: option.splits if_splits)

lemma config_lamports:
  assumes "createPermissionlessConstantProductPoolWithConfig E payer mintA mintB amountA amountB config program opt
      = Inr txs"
  shows "lamportsInto k (concat (map instructions txs)) =
    (if mintA = NATIVE_MINT E \<and> k = ataOf E mintA payer then amountA else 0) +
    (if mintB = NATIVE_MINT E \<and> k = ataOf E mintB payer
     then amountB + (case optSwapLiquidity opt of None \<Rightarrow> 0 | Some (inAmount, minOut) \<Rightarrow> inAmount) else 0)"
proof -
  from assms obtain vA lpA ixA vB lpB ixB where
    A: "setUpVault E payer mintA = Inr (vA, lpA, ixA)" and B: "setUpVault E payer mintB = Inr (vB, lpB, ixB)"
    by (auto simp: createPermissionlessConstantProductPoolWithConfig_def Let_def and_then_eq_Inr_iff)
  have skip: "(case if b then None else x of None \<Rightarrow> 0 | Some ix \<Rightarrow> lamportsBy k ix) =
    (if b then 0 else case x of None \<Rightarrow> 0 | Some ix \<Rightarrow> lamportsBy k ix)" for b x by simp
  show ?thesis
    using assms
    unfolding createPermissionlessConstantProductPoolWithConfig_def Let_def split_def A B and_then_Inr prod.sel
    by (subst creation_lamports, assumption)
      (auto simp: ix_simps skip vault_lamports [OF A] vault_lamports [OF B] split: option.splits)
qed

lemma config2_lamports:
  assumes "createPermissionlessConstantProductPoolWithConfig2 E payer mintA mintB amountA amountB config program opt
      = Inr txs"
  shows "lamportsInto k (concat (map instructions txs)) =
    (if mintA = NATIVE_MINT E \<and> k = ataOf E mintA payer then amountA else 0) +
    (if mintB = NATIVE_MINT E \<and> k = ataOf E mintB payer then amountB else 0)"
proof -
  from assms obtain vA lpA ixA vB lpB ixB where
    A: "setUpVault E payer mintA = Inr (vA, lpA, ixA)" and B: "setUpVault E payer mintB = Inr (vB, lpB, ixB)"
    by (auto simp: createPermissionlessConstantProductPoolWithConfig2_def Let_def and_then_eq_Inr_iff)
  show ?thesis
    using assms
    unfolding createPermissionlessConstantProductPoolWithConfig2_def Let_def split_def A B and_then_Inr prod.sel
    by (subst creation_lamports, assumption)
      (auto simp: ix_simps vault_lamports [OF A] vault_lamports [OF B] split: option.splits)
qed

text \<open>
  Creating a pool with a first swap of the native token B: the first version of the method wraps
  the deposit and the input of the swap. The second version wraps the deposit only, although its
  last transaction swaps the same input from the same account.
\<close>

lemma config2_wraps_too_little:
  assumes "createPermissionlessConstantProductPoolWithConfig E payer mintA (NATIVE_MINT E) amountA amountB config
      program opt = Inr txs"
    and "createPermissionlessConstantProductPoolWithConfig2 E payer mintA (NATIVE_MINT E) amountA amountB config
      program opt = Inr txs2"
    and "optSwapLiquidity opt = Some (inAmount, minOut)" and "mintA \<noteq> NATIVE_MINT E"
    and "account = getAssociatedTokenAccount (envFns E) (NATIVE_MINT E) payer"
  shows "lamportsInto account (concat (map instructions txs)) = amountB + inAmount \<and>
    lamportsInto account (concat (map instructions txs2)) = amountB \<and>
    (\<exists>c. ProgramCall c \<in> set (instructions (last txs2)) \<and> callMethod c = ''swap'' \<and>
      callArgs c = [ValBN inAmount, ValBN minOut] \<and>
      map_of (callAccounts c) ''userSourceToken'' = Some account)"
proof -
  from assms(2) obtain vA lpA ixA vB lpB ixB where
    A: "setUpVault E payer mintA = Inr (vA, lpA, ixA)" and B: "setUpVault E payer (NATIVE_MINT E) = Inr (vB, lpB, ixB)"
    by (auto simp: createPermissionlessConstantProductPoolWithConfig2_def Let_def and_then_eq_Inr_iff)
  have "\<exists>c. ProgramCall c \<in> set (instructions (last txs2)) \<and> callMethod c = ''swap'' \<and>
      callArgs c = [ValBN inAmount, ValBN minOut] \<and>
      map_of (callAccounts c) ''userSourceToken'' = Some account"
    using assms(2,3,5)
    unfolding createPermissionlessConstantProductPoolWithConfig2_def Let_def split_def A B and_then_Inr prod.sel
      creationTransactions_Inr
    by (auto simp: swapNewLiquidity_def ata_account)
  with assms show ?thesis
    by (simp add: config_lamports [OF assms(1)] config2_lamports [OF assms(2)])
qed

section \<open>Examples\<close>

text \<open>An environment in which no token account exists, and addresses that do not collide.\<close>

definition example_env :: env where
  "example_env =
     \<lparr>envChain = example_chain\<lparr>accountInfo := Map.empty\<rparr>,
      envFns = example_fns\<lparr>getAssociatedTokenAddressSync := (\<lambda>mint owner.
        PublicKey (replicate (length (toBuffer mint)) 1 @ 0 # toBuffer mint @ toBuffer owner))\<rparr>,
      NATIVE_MINT = key 3, TOKEN_PROGRAM_ID = key 31, ASSOCIATED_TOKEN_PROGRAM_ID = key 32,
      SystemProgram_programId = key 0, SYSVAR_RENT_PUBKEY = key 33, VAULT_PROGRAM_ID = key 34,
      getLatestBlockhash = Inr ''hash'',
      getVaultPdas = (\<lambda>mint. \<lparr>pdaVault = mint, pdaTokenVault = mint, pdaLpMint = mint\<rparr>),
      fetchVaultLpMint = (\<lambda>vault. if vault = key 3 then Some (key 35) else None),
      makesVaultInstruction = (\<lambda>mint. Inr True)\<rparr>"

lemma example_env_laws: "ata_law (envFns example_env)" "pda_law (envFns example_env)"
proof -
  have "findProgramAddressSync (envFns example_env) = findProgramAddressSync example_fns"
    by (simp add: example_env_def)
  then show "pda_law (envFns example_env)" using example_fns_law unfolding pda_law_def by metis
  define f :: "pubkey \<Rightarrow> pubkey \<Rightarrow> pubkey" where "f mint owner =
    PublicKey (replicate (length (toBuffer mint)) 1 @ 0 # toBuffer mint @ toBuffer owner)" for mint owner
  have inj: "mint = mint' \<and> owner = owner'" if "f mint owner = f mint' owner'" for mint mint' owner owner'
    using counted_prefix_inj [of "length (toBuffer mint)" "toBuffer mint @ toBuffer owner"] that
    by (cases mint; cases mint'; cases owner; cases owner') (fastforce simp: f_def)
  have "getAssociatedTokenAddressSync (envFns example_env) = f" by (simp add: example_env_def f_def fun_eq_iff)
  with inj show "ata_law (envFns example_env)" unfolding ata_law_def by blast
qed

lemma example_env_missing: "accountInfo (envChain example_env) (ataOf example_env mint owner) = None"
  by (simp add: example_env_def)

lemma example_escrow_off_curve: "fst (deriveLockEscrowPda (envFns example_env) pool owner program) \<noteq> key 40"
proof
  assume same: "fst (deriveLockEscrowPda (envFns example_env) pool owner program) = key 40"
  have "hd (toBuffer (fst (deriveLockEscrowPda (envFns example_env) pool owner program))) \<in> {0, 1}"
    by (cases "toBuffer program") (simp_all add: deriveLockEscrowPda_def example_env_def example_fns_def)
  moreover have "hd (toBuffer (key 40)) = 40" by (simp add: key_def numeral_eq_Suc)
  ultimately show False unfolding same by simp
qed

lemma example_swap:
  "\<exists>tx. swap example_env owner mint inAmount out ref self = Inr tx"
  by (simp add: swap_def Let_def split_def example_env_def)

lemma example_claim:
  "\<exists>tx. claimLockFee example_env owner maxAmount self = Inr tx"
  by (simp add: claimLockFee_def Let_def split_def example_env_def)

abbreviation example_pool_object :: amm_impl where
  "example_pool_object \<equiv> example_amm ConstantProductCurve CurveConstantProduct"

theorem built_calls_conform_witness:
  "\<exists>tx. swap example_env (key 40) (key 2) 1000 900 (Some (key 41)) example_pool_object = Inr tx \<and>
     list_all conforms (programCalls (instructions tx))"
proof -
  obtain tx where tx: "swap example_env (key 40) (key 2) 1000 900 (Some (key 41)) example_pool_object = Inr tx"
    using example_swap by blast
  from built_calls_conform [OF by_pool [OF of_swap [OF tx]]] tx show ?thesis by blast
qed

theorem one_signature_suffices_witness:
  "\<exists>tx. swap example_env (key 40) (key 2) 1000 900 None example_pool_object = Inr tx \<and>
     signersOf (CreateAssociatedTokenAccount (key 40) (ataOf example_env (key 2) (key 40)) (key 40) (key 2)) =
       {feePayer tx}"
proof -
  obtain tx where tx: "swap example_env (key 40) (key 2) 1000 900 None example_pool_object = Inr tx"
    using example_swap by blast
  let ?ix = "CreateAssociatedTokenAccount (key 40) (ataOf example_env (key 2) (key 40)) (key 40) (key 2)"
  have ix: "?ix \<in> set (instructions tx)"
    using tx example_env_missing [of "key 2" "key 40"]
    by (auto simp: swap_def Let_def split_def getOrCreateATAInstruction_def example_amm_def example_pool_def push_def
        split: option.splits if_splits)
  have "key 40 \<in> signersOf ?ix" by simp
  from one_signature_suffices [OF by_pool [OF of_swap [OF tx]] ix this] have "key 40 = feePayer tx"
    using example_escrow_off_curve by metis
  with tx show ?thesis by auto
qed

theorem user_accounts_ready_witness:
  "\<exists>tx. claimLockFee example_env (key 40) 10 example_pool_object = Inr tx \<and>
     accountsReady example_env [] (instructions tx)"
proof -
  obtain tx where tx: "claimLockFee example_env (key 40) 10 example_pool_object = Inr tx"
    using example_claim by blast
  from user_accounts_ready [OF of_claim [OF tx]] tx show ?thesis by blast
qed

theorem wraps_what_it_spends_witness:
  "\<exists>tx. swap example_env (key 40) (key 3) 1000 900 None example_pool_object = Inr tx \<and>
     lamportsInto (ataOf example_env (key 3) (key 40)) (instructions tx) = 1000"
proof -
  obtain tx where tx: "swap example_env (key 40) (key 3) 1000 900 None example_pool_object = Inr tx"
    using example_swap by blast
  have "fst (swapMints (key 3) example_pool_object) = key 3" "NATIVE_MINT example_env = key 3"
    by (simp_all add: swapMints_def example_amm_def example_pool_def key_def example_env_def)
  with wraps_what_it_spends [of example_env "key 40" "key 3" 1000 900 None example_pool_object tx] tx
  show ?thesis by auto
qed

lemma example_creation:
  "\<exists>txs. createPermissionlessConstantProductPoolWithConfig example_env payer mintA mintB amountA amountB config
    program opt = Inr txs"
  "\<exists>txs. createPermissionlessConstantProductPoolWithConfig2 example_env payer mintA mintB amountA amountB config
    program opt = Inr txs"
  by (simp_all add: createPermissionlessConstantProductPoolWithConfig_def Let_def split_def setUpVault_def
      createPermissionlessConstantProductPoolWithConfig2_def creationTransactions_Inr example_env_def)

end
