(* ===== verification/Configurations.thy ===== *)
theory Configurations
  imports Builders
begin

text \<open>
  Configurations and searches: \<open>createConfig\<close> finds a free index, what it writes reads back, and the
  searches by the bytes of an account find the accounts whose decoded field has the value.
\<close>

section \<open>The search for a free configuration\<close>

definition configAddress :: "address_fns \<Rightarrow> pubkey \<Rightarrow> nat \<Rightarrow> pubkey" where
  "configAddress F programId i = fst (findProgramAddressSync F [bytesOf ''config'', leBytes 8 (int i)] programId)"

lemma configPdaAt_nat:
  assumes "i < 2 ^ 53" shows "configPdaAt F programId (int i) = Inr (configAddress F programId i)"
proof -
  have "int i < 2 ^ 53" using assms by simp
  moreover have "int i < 256 ^ 8" using calculation by simp
  ultimately show ?thesis
    by (simp add: configPdaAt_def bnOfNumber_def deriveConfigPda_def toBufferLE_def configAddress_def)
qed

lemma configAddress_inj:
  assumes "pda_law F" shows "inj_on (configAddress F programId) {..<2 ^ 53}"
proof (rule inj_onI)
  fix i j :: nat
  assume small: "i \<in> {..<2 ^ 53}" "j \<in> {..<2 ^ 53}" and "configAddress F programId i = configAddress F programId j"
  from pda_lawD [OF assms this(3) [unfolded configAddress_def]]
  have "leBytes 8 (int i) = leBytes 8 (int j)" by simp
  then show "i = j" using leBytes_inj [of 8 "int i" "int j"] small by simp
qed

text \<open>Among one address more than there are configurations, one is free.\<close>

lemma free_index:
  assumes "pda_law F" and "length configs < 2 ^ 53"
  shows "\<exists>i \<le> length configs. configAddress F programId i \<notin> set configs"
proof (rule ccontr)
  assume "\<not> ?thesis"
  then have "configAddress F programId ` {..length configs} \<subseteq> set configs" by auto
  then have "card (configAddress F programId ` {..length configs}) \<le> length configs"
    by (meson List.finite_set card_length card_mono order_trans)
  moreover have "inj_on (configAddress F programId) {..length configs}"
    using assms(2) by (intro inj_on_subset [OF configAddress_inj [OF assms(1)]]) auto
  ultimately show False by (simp add: card_image)
qed

lemma findConfigIndex_steps:
  assumes "i < 2 ^ 53" and "configAddress F programId i \<notin> set configs"
    and "\<forall>j < i. configAddress F programId j \<in> set configs" and "j \<le> i"
  shows "findConfigIndex F configs programId (int j) = Some (Inr (int i, configAddress F programId i))"
  using assms(4)
proof (induction rule: inc_induct)
  case base
  then show ?case using assms(2) by (subst findConfigIndex.simps) (simp add: configPdaAt_nat [OF assms(1)] Let_def)
next
  case (step j)
  then have "configPdaAt F programId (int j) = Inr (configAddress F programId j)"
    using assms(1) by (intro configPdaAt_nat) simp
  moreover have "configAddress F programId j \<in> set configs" using assms(3) step.hyps by simp
  ultimately show ?case
    using step.IH by (subst findConfigIndex.simps) (simp add: Let_def add.commute)
qed

lemma findConfigIndex_returns:
  assumes "pda_law F" and "length configs < 2 ^ 53"
  obtains i where "i \<le> length configs" and "configAddress F programId i \<notin> set configs"
    and "\<forall>j < i. configAddress F programId j \<in> set configs"
    and "findConfigIndex F configs programId 0 = Some (Inr (int i, configAddress F programId i))"
proof -
  define i where "i = (LEAST i. configAddress F programId i \<notin> set configs)"
  from free_index [OF assms, of programId] obtain k where
    k: "k \<le> length configs" "configAddress F programId k \<notin> set configs" by blast
  have free: "configAddress F programId i \<notin> set configs"
    unfolding i_def by (rule LeastI [where P = "\<lambda>i. configAddress F programId i \<notin> set configs", OF k(2)])
  have "i \<le> k"
    unfolding i_def by (rule Least_le [where P = "\<lambda>i. configAddress F programId i \<notin> set configs", OF k(2)])
  moreover have used: "\<forall>j < i. configAddress F programId j \<in> set configs" unfolding i_def using not_less_Least by blast
  moreover have "findConfigIndex F configs programId 0 = Some (Inr (int i, configAddress F programId i))"
    using findConfigIndex_steps [OF _ free used, of 0] \<open>i \<le> k\<close> k(1) assms(2) by simp
  ultimately show thesis using that free k(1) by force
qed

lemma fee_keys:
  "getFeeConfigurations C = Inr configs \<Longrightarrow> map feePublicKey configs = map fst (configAccounts C)"
proof -
  have "all_results feeConfiguration xs = Inr ys \<Longrightarrow> map feePublicKey ys = map fst xs" for xs ys
    by (induction xs arbitrary: ys)
      (auto simp: feeConfiguration_def Let_def and_then_eq_Inr_iff)
  then show "getFeeConfigurations C = Inr configs \<Longrightarrow> ?thesis" by (simp add: getFeeConfigurations_def)
qed

section \<open>Properties\<close>

text \<open>
  C20: \<open>createConfig\<close> returns, although its loop has no bound: when the existing configurations can be
  read and a block hash is available, it makes a transaction for the configuration of the first
  index whose address is free, and that index is at most the number of configurations.
\<close>

theorem createConfig_returns:
  assumes "pda_law (envFns E)" and "getFeeConfigurations (envChain E) = Inr configs"
    and "length (configAccounts (envChain E)) < 2 ^ 53" and "getLatestBlockhash E = Inr hash"
  shows "\<exists>i tx c params. createConfig E payer tradeFeeBps protocolFeeBps vault duration authority activation program
      = Some (Inr tx) \<and>
    programCalls (instructions tx) = [c] \<and> callArgs c = [ValConfigParameters params] \<and> argIndex params = int i \<and>
    map_of (callAccounts c) ''config'' = Some (configAddress (envFns E) (createProgramId program) i) \<and>
    configAddress (envFns E) (createProgramId program) i \<notin> fst ` set (configAccounts (envChain E)) \<and>
    (\<forall>j < i. configAddress (envFns E) (createProgramId program) j \<in> fst ` set (configAccounts (envChain E))) \<and>
    i \<le> length (configAccounts (envChain E))"
proof -
  have "length (map feePublicKey configs) < 2 ^ 53" using assms(3) by (simp add: fee_keys [OF assms(2)])
  from assms(1) this obtain i where i: "i \<le> length (map feePublicKey configs)"
      "configAddress (envFns E) (createProgramId program) i \<notin> set (map feePublicKey configs)"
      "\<forall>j < i. configAddress (envFns E) (createProgramId program) j \<in> set (map feePublicKey configs)"
      "findConfigIndex (envFns E) (map feePublicKey configs) (createProgramId program) 0 =
        Some (Inr (int i, configAddress (envFns E) (createProgramId program) i))"
    by (rule findConfigIndex_returns [where programId = "createProgramId program"])
  then show ?thesis
    unfolding createConfig_def assms(2)
    by (intro exI [of _ i]) (simp add: assms(4) newTransaction_def calls.whole_simps fee_keys [OF assms(2)])
qed

text \<open>
  C38: The fees given to \<open>createConfig\<close> in basis points read back unchanged: an account that holds the
  numerators of the call over the denominator 100000 is reported with these fees.
\<close>

theorem fee_config_roundtrip:
  assumes "createConfig E payer tradeFeeBps protocolFeeBps vault duration authority activation program = Some (Inr tx)"
    and "programCalls (instructions tx) = [c]" and "callArgs c = [ValConfigParameters params]"
    and "cfgPoolFees account = \<lparr>tradeFeeNumerator = argTradeFeeNumerator params, tradeFeeDenominator = 100000,
      protocolTradeFeeNumerator = argProtocolTradeFeeNumerator params, protocolTradeFeeDenominator = 100000\<rparr>"
  shows "feeConfiguration (k, data, account) =
    Inr \<lparr>feePublicKey = k, feePoolFees = cfgPoolFees account, feeTradeFeeBps = tradeFeeBps,
         feeProtocolTradeFeeBps = protocolFeeBps\<rparr>"
proof -
  have "argTradeFeeNumerator params = tradeFeeBps * 10 \<and> argProtocolTradeFeeNumerator params = protocolFeeBps * 10"
    using assms(1-3) by (auto simp: createConfig_def and_then_eq_Inr_iff calls.whole_simps split: sum.splits)
  moreover have "trunc_div (x * 10 * 10000) 100000 = Inr x" for x
  proof -
    have "x * 10 * 10000 = x * 100000" by simp
    then show ?thesis
      by (simp add: trunc_div_def signed_divide_int_def abs_mult sgn_mult div_mult_self_is_m mult_sgn_abs)
  qed
  ultimately show ?thesis by (simp add: feeConfiguration_def assms(4) Let_def)
qed

text \<open>
  What the decoded accounts are documented to be: the values at the places that the interface gives
  their fields.
\<close>

definition decoded_by_interface :: "chain \<Rightarrow> bool" where
  "decoded_by_interface C \<longleftrightarrow>
     (\<forall>(k, data, ps) \<in> set (poolAccounts C).
        fieldBytes layoutPool ''tokenAMint'' 32 data = Some (toBuffer (tokenAMint ps)) \<and>
        fieldBytes layoutPool ''tokenBMint'' 32 data = Some (toBuffer (tokenBMint ps))) \<and>
     (\<forall>(k, data, cfg) \<in> set (configAccounts C).
        fieldBytes layoutConfig ''poolCreatorAuthority'' 32 data = Some (toBuffer (cfgPoolCreatorAuthority cfg))) \<and>
     (\<forall>(k, data, le) \<in> set (lockEscrowAccounts C).
        fieldBytes layoutLockEscrow ''owner'' 32 data = Some (toBuffer (leOwner le)))"

lemma memcmp_field:
  assumes "fieldOffset layout name = Some off" and "valid_pubkey v"
    and "\<forall>(k, data, x) \<in> set accounts. fieldBytes layout name 32 data = Some (toBuffer (f x))"
  shows "memcmpAll (8 + off) (toBuffer v) accounts = filter (\<lambda>(k, data, x). f x = v) accounts"
  unfolding memcmpAll_def
  using assms by (intro filter_cong) (auto simp: fieldBytes_def valid_pubkey_def pubkey.expand)

lemma find_Some_in: "List.find P xs = Some x \<Longrightarrow> x \<in> set xs \<and> P x"
  by (induction xs) (auto split: if_splits)

lemma fold_escrows:
  "fold (\<lambda>(k, data, account) m. m(lePool account \<mapsto> account)) xs m p =
    (case List.find (\<lambda>(k, data, account). lePool account = p) (rev xs) of
       Some (k, data, account) \<Rightarrow> Some account | None \<Rightarrow> m p)"
  by (induction xs arbitrary: m rule: rev_induct) auto

text \<open>
  C37: The searches find exactly the accounts they are for: the byte offsets they compare at are those
  of the fields in the interface. A search by token gives the pools with the mint on side A and
  then those with it on side B, a search by authority the configurations of that authority, and
  the escrows of a user are one escrow for every pool in which the user has one.
\<close>

theorem searches_read_fields:
  assumes "decoded_by_interface C" and "valid_pubkey v"
  shows "searchPoolsByToken C v =
      filter (\<lambda>(k, data, ps). tokenAMint ps = v) (poolAccounts C) @
      filter (\<lambda>(k, data, ps). tokenBMint ps = v) (poolAccounts C) \<and>
    getPoolConfigsWithPoolCreatorAuthority C v =
      filter (\<lambda>(k, data, cfg). cfgPoolCreatorAuthority cfg = v) (configAccounts C) \<and>
    (\<forall>p. case getLockedLpAmountByUser C v p of
       Some le \<Rightarrow> lePool le = p \<and> leOwner le = v \<and> (\<exists>k data. (k, data, le) \<in> set (lockEscrowAccounts C))
     | None \<Rightarrow> \<not> (\<exists>k data le. (k, data, le) \<in> set (lockEscrowAccounts C) \<and> lePool le = p \<and> leOwner le = v))"
proof -
  note D = assms(1) [unfolded decoded_by_interface_def]
  have A: "memcmpAll (8 + 32) (toBuffer v) (poolAccounts C) =
      filter (\<lambda>(k, data, ps). tokenAMint ps = v) (poolAccounts C)"
    by (rule memcmp_field [OF offset_tokenAMint assms(2)]) (use D in auto)
  have B: "memcmpAll (8 + 64) (toBuffer v) (poolAccounts C) =
      filter (\<lambda>(k, data, ps). tokenBMint ps = v) (poolAccounts C)"
    by (rule memcmp_field [OF offset_tokenBMint assms(2)]) (use D in auto)
  have configs: "memcmpAll (8 + 72) (toBuffer v) (configAccounts C) =
      filter (\<lambda>(k, data, cfg). cfgPoolCreatorAuthority cfg = v) (configAccounts C)"
    by (rule memcmp_field [OF offset_poolCreatorAuthority assms(2)]) (use D in auto)
  have escrows: "memcmpAll (8 + 32) (toBuffer v) (lockEscrowAccounts C) =
      filter (\<lambda>(k, data, le). leOwner le = v) (lockEscrowAccounts C)"
    by (rule memcmp_field [OF offset_owner assms(2)]) (use D in auto)
  let ?mine = "filter (\<lambda>(k, data, le). leOwner le = v) (lockEscrowAccounts C)"
  have found: "getLockedLpAmountByUser C v p =
    map_option (\<lambda>(k, data, le). le) (List.find (\<lambda>(k, data, le). lePool le = p) (rev ?mine))" for p
    unfolding getLockedLpAmountByUser_def Let_def escrows fold_escrows by (auto split: option.splits)
  show ?thesis
  proof (intro conjI allI)
    show "searchPoolsByToken C v = filter (\<lambda>(k, data, ps). tokenAMint ps = v) (poolAccounts C) @
      filter (\<lambda>(k, data, ps). tokenBMint ps = v) (poolAccounts C)"
      using A B by (simp add: searchPoolsByToken_def)
    show "getPoolConfigsWithPoolCreatorAuthority C v =
      filter (\<lambda>(k, data, cfg). cfgPoolCreatorAuthority cfg = v) (configAccounts C)"
      using configs by (simp add: getPoolConfigsWithPoolCreatorAuthority_def)
    fix p
    show "case getLockedLpAmountByUser C v p of
       Some le \<Rightarrow> lePool le = p \<and> leOwner le = v \<and> (\<exists>k data. (k, data, le) \<in> set (lockEscrowAccounts C))
     | None \<Rightarrow> \<not> (\<exists>k data le. (k, data, le) \<in> set (lockEscrowAccounts C) \<and> lePool le = p \<and> leOwner le = v)"
    proof (cases "List.find (\<lambda>(k, data, le). lePool le = p) (rev ?mine)")
      case None
      show ?thesis unfolding found None using None by (auto simp: find_None_iff)
    next
      case (Some entry)
      show ?thesis unfolding found Some using find_Some_in [OF Some] by (cases entry) auto
    qed
  qed
qed

section \<open>Examples\<close>

definition example_config :: config_account where
  "example_config = \<lparr>cfgPoolFees = \<lparr>tradeFeeNumerator = 2500, tradeFeeDenominator = 100000,
     protocolTradeFeeNumerator = 500, protocolTradeFeeDenominator = 100000\<rparr>,
     cfgActivationDuration = 0, cfgVaultConfigKey = key 50, cfgPoolCreatorAuthority = key 51,
     cfgActivationType = 0\<rparr>"

text \<open>A chain with the configuration of index zero.\<close>

definition config_env :: env where
  "config_env = example_env\<lparr>envChain := (envChain example_env)
     \<lparr>configAccounts := [(configAddress (envFns example_env) PROGRAM_ID 0,
        replicate 80 0 @ replicate 32 51, example_config)]\<rparr>\<rparr>"

lemma config_env_fns: "envFns config_env = envFns example_env"
  by (simp add: config_env_def)

lemma config_env_fees: "\<exists>configs. getFeeConfigurations (envChain config_env) = Inr configs"
  by (simp add: getFeeConfigurations_def config_env_def feeConfiguration_def example_config_def Let_def trunc_div_pos)

theorem createConfig_returns_witness:
  "\<exists>tx c params. createConfig config_env (key 40) 25 5 (key 50) 0 (key 51) Timestamp None = Some (Inr tx) \<and>
    programCalls (instructions tx) = [c] \<and> callArgs c = [ValConfigParameters params] \<and> argIndex params = 1"
proof -
  obtain configs where fees: "getFeeConfigurations (envChain config_env) = Inr configs"
    using config_env_fees by blast
  have laws: "pda_law (envFns config_env)" "getLatestBlockhash config_env = Inr ''hash''"
    "length (configAccounts (envChain config_env)) < 2 ^ 53"
    using example_env_laws(2) by (simp_all add: config_env_fns) (simp_all add: config_env_def example_env_def)
  from createConfig_returns [OF laws(1) fees laws(3,2), of "key 40" 25 5 "key 50" 0 "key 51" Timestamp None]
  obtain i tx c params where found: "createConfig config_env (key 40) 25 5 (key 50) 0 (key 51) Timestamp None = Some (Inr tx)"
    "programCalls (instructions tx) = [c]" "callArgs c = [ValConfigParameters params]" "argIndex params = int i"
    "configAddress (envFns example_env) PROGRAM_ID i \<notin> fst ` set (configAccounts (envChain config_env))"
    "i \<le> length (configAccounts (envChain config_env))"
    by (auto simp: config_env_fns createProgramId_def)
  have "i \<noteq> 0" using found(5) by (intro notI) (simp add: config_env_def)
  moreover have "i \<le> 1" using found(6) by (simp add: config_env_def)
  ultimately have "i = 1" by simp
  with found(1-4) show ?thesis by auto
qed

theorem fee_config_roundtrip_witness:
  "feeConfiguration (key 60, [], example_config) =
    Inr \<lparr>feePublicKey = key 60, feePoolFees = cfgPoolFees example_config, feeTradeFeeBps = 250,
         feeProtocolTradeFeeBps = 50\<rparr>"
proof -
  have parts: "getFeeConfigurations (envChain example_env) = Inr []" "getLatestBlockhash example_env = Inr ''hash''"
    "SystemProgram_programId example_env = key 0" "createProgramId None = PROGRAM_ID"
    by (simp_all add: getFeeConfigurations_def createProgramId_def example_env_def example_chain_def)
  have "createConfig example_env (key 40) 250 50 (key 50) 0 (key 51) Timestamp None = Some (Inr
    \<lparr>feePayer = key 40, recentBlockhash = ''hash'', instructions = [ProgramCall
      \<lparr>callProgram = PROGRAM_ID, callMethod = ''createConfig'',
       callArgs = [ValConfigParameters \<lparr>argTradeFeeNumerator = 2500, argProtocolTradeFeeNumerator = 500,
         argVaultConfigKey = key 50, argActivationDuration = 0, argPoolCreatorAuthority = key 51, argIndex = 0,
         argActivationType = Timestamp\<rparr>],
       callAccounts = [(''config'', configAddress (envFns example_env) PROGRAM_ID 0),
         (''systemProgram'', key 0), (''admin'', key 40)],
       callRemaining = []\<rparr>]\<rparr>)"
    using findConfigIndex_steps [of 0 "envFns example_env" PROGRAM_ID "[]" 0]
    by (simp add: createConfig_def parts newTransaction_def)
  from fee_config_roundtrip [OF this, of _ _ example_config "key 60" "[]"] show ?thesis
    by (simp add: calls.whole_simps example_config_def)
qed

theorem searches_read_fields_witness:
  "getPoolConfigsWithPoolCreatorAuthority (envChain config_env) (key 51) = configAccounts (envChain config_env)"
proof -
  have "decoded_by_interface (envChain config_env)"
    by (simp add: decoded_by_interface_def config_env_def example_env_def example_chain_def fieldBytes_def
        field_offsets example_config_def key_def)
  moreover have "valid_pubkey (key 51)" by (simp add: valid_pubkey_def key_def)
  ultimately have "getPoolConfigsWithPoolCreatorAuthority (envChain config_env) (key 51) =
      filter (\<lambda>(k, data, cfg). cfgPoolCreatorAuthority cfg = key 51) (configAccounts (envChain config_env))"
    using searches_read_fields by blast
  then show ?thesis by (simp add: config_env_def example_config_def)
qed

end
