(* ===== verification/Checked.thy ===== *)
theory Checked
  imports Prelude "HOL-Library.Word" "HOL-Library.Monad_Syntax"
begin

text \<open>
  The checked arithmetic of the Rust crates under \<open>src/programs\<close> and
  \<open>src/dynamic-amm-quote\<close>: unsigned machine integers at their width, with the operations that
  answer \<open>None\<close> on overflow, underflow or a zero divisor. Each operation has one rule that
  says when it answers, and what, over the integers; the rules are collected in
  \<open>checked_iff\<close> and carry the proofs about the crates.
\<close>

section \<open>Operations\<close>

type_synonym u8 = "8 word"
type_synonym u64 = "64 word"
type_synonym u128 = "128 word"

named_theorems checked_iff \<open>when a checked operation answers, and what\<close>

definition checked_add :: "'a::len word \<Rightarrow> 'a word \<Rightarrow> 'a word option" where
  "checked_add a b = (if uint a + uint b < 2 ^ LENGTH('a) then Some (a + b) else None)"

definition checked_sub :: "'a::len word \<Rightarrow> 'a word \<Rightarrow> 'a word option" where
  "checked_sub a b = (if b \<le> a then Some (a - b) else None)"

definition checked_mul :: "'a::len word \<Rightarrow> 'a word \<Rightarrow> 'a word option" where
  "checked_mul a b = (if uint a * uint b < 2 ^ LENGTH('a) then Some (a * b) else None)"

definition checked_div :: "'a::len word \<Rightarrow> 'a word \<Rightarrow> 'a word option" where
  "checked_div a b = (if b = 0 then None else Some (a div b))"

text \<open>\<open>try_into\<close> to a narrower type, and \<open>into\<close> to a wider one.\<close>

definition try_into :: "'a::len word \<Rightarrow> 'b::len word option" where
  "try_into a = (if uint a < 2 ^ LENGTH('b) then Some (ucast a) else None)"

definition u128 :: "u64 \<Rightarrow> u128" where
  "u128 a = ucast a"

section \<open>Values\<close>

lemma checked_add_iff [checked_iff]:
  fixes a :: "'a::len word"
  shows "checked_add a b = Some c \<longleftrightarrow> uint a + uint b < 2 ^ LENGTH('a) \<and> uint c = uint a + uint b"
  by (auto simp: checked_add_def word_uint_eq_iff uint_word_ariths)

lemma checked_sub_iff [checked_iff]:
  "checked_sub a b = Some c \<longleftrightarrow> uint b \<le> uint a \<and> uint c = uint a - uint b"
  by (auto simp: checked_sub_def word_le_def word_uint_eq_iff uint_sub_lem [THEN iffD1])

lemma checked_mul_iff [checked_iff]:
  fixes a :: "'a::len word"
  shows "checked_mul a b = Some c \<longleftrightarrow> uint a * uint b < 2 ^ LENGTH('a) \<and> uint c = uint a * uint b"
  by (auto simp: checked_mul_def word_uint_eq_iff uint_word_ariths)

lemma checked_div_iff [checked_iff]:
  "checked_div a b = Some c \<longleftrightarrow> uint b \<noteq> 0 \<and> uint c = uint a div uint b"
  by (auto simp: checked_div_def word_uint_eq_iff uint_div)

lemma try_into_iff [checked_iff]:
  fixes c :: "'b::len word"
  shows "try_into a = Some c \<longleftrightarrow> uint a < 2 ^ LENGTH('b) \<and> uint c = uint a"
  by (auto simp: try_into_def word_uint_eq_iff unsigned_ucast_eq take_bit_int_eq_self)

lemma uint_u128 [simp]: "uint (u128 a) = uint a"
proof -
  have "uint a < 2 ^ 128" using uint_lt2p [of a] by simp
  then show ?thesis by (simp add: u128_def unsigned_ucast_eq take_bit_int_eq_self)
qed

lemma uint_pos: "uint (a :: 'a::len word) \<noteq> 0 \<Longrightarrow> 0 < uint a"
  using uint_ge_0 [of a] by linarith

lemma u64_bound [simp]: "uint (a :: u64) < 18446744073709551616"
  using uint_lt2p [of a] by simp

lemma bind_Some_iff [checked_iff]:
  "Option.bind m f = Some y \<longleftrightarrow> (\<exists>x. m = Some x \<and> f x = Some y)"
  by (cases m) auto

text \<open>The product of two 64-bit values fits 128 bits, so it never overflows there.\<close>

lemma u64_product: "uint (a :: u64) * uint (b :: u64) < 2 ^ 128"
proof -
  have "uint a * uint b < 2 ^ 64 * 2 ^ 64"
    using uint_lt2p [of a] uint_lt2p [of b] by (intro mult_strict_mono) auto
  then show ?thesis by simp
qed

lemma checked_mul_u128: "checked_mul (u128 a) (u128 b) = Some (u128 a * u128 b)"
  using u64_product [of a b] by (simp add: checked_mul_def)

lemma uint_mul_u128 [simp]: "uint (u128 a * u128 b) = uint a * uint b"
  using u64_product [of a b] by (simp add: uint_word_ariths)

text \<open>The idiom of the crates: multiply and divide in 128 bits, and narrow the quotient.\<close>

lemma mul_div_iff:
  fixes a b c :: u128 and p :: u64
  shows "do { product \<leftarrow> checked_mul a b; quotient \<leftarrow> checked_div product c; try_into quotient } = Some p \<longleftrightarrow>
    uint a * uint b < 2 ^ 128 \<and> uint c \<noteq> 0 \<and> uint p = uint a * uint b div uint c"
proof (cases "uint a * uint b < 2 ^ 128 \<and> c \<noteq> 0")
  case True
  then have c: "uint c \<noteq> 0" by (simp add: word_uint_eq_iff)
  from True have q: "uint ((a * b) div c) = uint a * uint b div uint c"
    by (simp add: uint_div uint_word_ariths)
  have run: "do { product \<leftarrow> checked_mul a b; quotient \<leftarrow> checked_div product c; try_into quotient } =
      (try_into ((a * b) div c) :: u64 option)"
    using True by (simp add: checked_mul_def checked_div_def)
  show ?thesis
    unfolding run try_into_iff q using True c u64_bound [of p] by (auto simp del: u64_bound)
qed (auto simp: checked_mul_def checked_div_def)

lemma mul_div_u64_iff:
  fixes p :: u64
  shows "do { product \<leftarrow> checked_mul (u128 a) (u128 b); quotient \<leftarrow> checked_div product (u128 c); try_into quotient } = Some p \<longleftrightarrow>
    uint c \<noteq> 0 \<and> uint p = uint a * uint b div uint c"
  using u64_product [of a b] by (simp add: mul_div_iff)

section \<open>Errors of the crates\<close>

text \<open>
  An error of the \<open>anyhow\<close> crate is its message. \<open>context\<close> turns \<open>None\<close> into an error, and
  the question mark after \<open>try_into\<close> passes the error of the standard library on.
\<close>

definition context_msg :: "string \<Rightarrow> 'a option \<Rightarrow> 'a result" where
  "context_msg msg m = (case m of None \<Rightarrow> Inl (Thrown msg) | Some x \<Rightarrow> Inr x)"

definition ensure :: "bool \<Rightarrow> string \<Rightarrow> unit result" where
  "ensure c msg = (if c then Inr () else Inl (Thrown msg))"

definition into_u64 :: "'a::len word \<Rightarrow> u64 result" where
  "into_u64 a = context_msg ''out of range integral type conversion attempted'' (try_into a)"

lemma context_msg_simps [simp]:
  "context_msg msg (Some x) = Inr x" "context_msg msg None = Inl (Thrown msg)"
  by (simp_all add: context_msg_def)

lemma context_msg_iff [checked_iff]: "context_msg msg m = Inr x \<longleftrightarrow> m = Some x"
  by (simp add: context_msg_def split: option.splits)

lemma ensure_iff [checked_iff]: "ensure c msg = Inr u \<longleftrightarrow> c"
  by (simp add: ensure_def)

lemma into_u64_iff [checked_iff]: "into_u64 a = Inr b \<longleftrightarrow> uint a < 2 ^ 64 \<and> uint b = uint a"
  by (simp add: into_u64_def context_msg_iff try_into_iff)

end
