(* ===== verification/VaultProgram.thy ===== *)
theory VaultProgram
  imports Checked AmmTypes
begin

text \<open>
  The share arithmetic of the vault program, \<open>programs/dynamic-vault/src/state.rs\<close>: the profit
  a vault keeps locked, the amount it can pay out, and the two conversions between shares and
  tokens, in checked 64 and 128 bit arithmetic. The vault SDK, a package the TypeScript code
  imports, computes the same quantities; \<open>follows_vault\<close> says so of one vault.
\<close>

section \<open>State and operations\<close>

record locked_profit_tracker =
  last_updated_locked_profit :: u64
  last_report :: u64
  locked_profit_degradation :: u64

text \<open>The fields of \<open>Vault\<close> that its methods read.\<close>

record program_vault =
  total_amount :: u64
  profit_tracker :: locked_profit_tracker

definition LOCKED_PROFIT_DEGRADATION_DENOMINATOR :: u128 where
  "LOCKED_PROFIT_DEGRADATION_DENOMINATOR = 1000000000000"

definition calculate_locked_profit :: "locked_profit_tracker \<Rightarrow> u64 \<Rightarrow> u64 option" where
  "calculate_locked_profit t current_time =
     do {
       elapsed \<leftarrow> checked_sub current_time (last_report t);
       locked_fund_ratio \<leftarrow> checked_mul (u128 elapsed) (u128 (locked_profit_degradation t));
       if locked_fund_ratio > LOCKED_PROFIT_DEGRADATION_DENOMINATOR then Some 0
       else do {
         scaled \<leftarrow> checked_mul (u128 (last_updated_locked_profit t))
           (LOCKED_PROFIT_DEGRADATION_DENOMINATOR - locked_fund_ratio);
         locked_profit \<leftarrow> checked_div scaled LOCKED_PROFIT_DEGRADATION_DENOMINATOR;
         try_into locked_profit
       }
     }"

definition get_unlocked_amount :: "program_vault \<Rightarrow> u64 \<Rightarrow> u64 option" where
  "get_unlocked_amount v current_time =
     do {
       locked \<leftarrow> calculate_locked_profit (profit_tracker v) current_time;
       checked_sub (total_amount v) locked
     }"

definition get_amount_by_share :: "program_vault \<Rightarrow> u64 \<Rightarrow> u64 \<Rightarrow> u64 \<Rightarrow> u64 option" where
  "get_amount_by_share v current_time share total_supply =
     do {
       amount \<leftarrow> get_unlocked_amount v current_time;
       product \<leftarrow> checked_mul (u128 share) (u128 amount);
       quotient \<leftarrow> checked_div product (u128 total_supply);
       try_into quotient
     }"

definition get_unmint_amount :: "program_vault \<Rightarrow> u64 \<Rightarrow> u64 \<Rightarrow> u64 \<Rightarrow> u64 option" where
  "get_unmint_amount v current_time out_token total_supply =
     do {
       amount \<leftarrow> get_unlocked_amount v current_time;
       product \<leftarrow> checked_mul (u128 out_token) (u128 total_supply);
       quotient \<leftarrow> checked_div product (u128 amount);
       try_into quotient
     }"

section \<open>What they compute\<close>

text \<open>The locked profit over the integers: what is left of the last report, linearly in time.\<close>

definition locked_profit :: "locked_profit_tracker \<Rightarrow> int \<Rightarrow> int" where
  "locked_profit t time =
     (let ratio = (time - uint (last_report t)) * uint (locked_profit_degradation t) in
      if ratio > 10 ^ 12 then 0
      else uint (last_updated_locked_profit t) * (10 ^ 12 - ratio) div 10 ^ 12)"

lemma uint_degradation_denominator:
  "uint LOCKED_PROFIT_DEGRADATION_DENOMINATOR = 10 ^ 12"
  by (simp add: LOCKED_PROFIT_DEGRADATION_DENOMINATOR_def)

lemma locked_profit_bounds:
  assumes "uint (last_report t) \<le> time"
  shows "0 \<le> locked_profit t time" "locked_profit t time \<le> uint (last_updated_locked_profit t)"
proof -
  define r where "r = (time - uint (last_report t)) * uint (locked_profit_degradation t)"
  have r: "0 \<le> r" using assms by (simp add: r_def)
  have "uint (last_updated_locked_profit t) * (10 ^ 12 - r) \<le> uint (last_updated_locked_profit t) * 10 ^ 12"
    using r by (intro mult_left_mono) auto
  then have "uint (last_updated_locked_profit t) * (10 ^ 12 - r) div 10 ^ 12 \<le> uint (last_updated_locked_profit t)"
    using zdiv_mono1 [of "uint (last_updated_locked_profit t) * (10 ^ 12 - r)"
        "uint (last_updated_locked_profit t) * 10 ^ 12" "10 ^ 12"] by simp
  then show "locked_profit t time \<le> uint (last_updated_locked_profit t)"
    by (auto simp: locked_profit_def Let_def r_def)
  show "0 \<le> locked_profit t time"
    by (auto simp: locked_profit_def Let_def intro!: div_nonneg)
qed

lemma locked_profit_antimono:
  assumes "uint (last_report t) \<le> time" and "time \<le> later"
  shows "locked_profit t later \<le> locked_profit t time"
proof -
  let ?r = "\<lambda>z. (z - uint (last_report t)) * uint (locked_profit_degradation t)"
  let ?p = "uint (last_updated_locked_profit t)"
  have r: "?r time \<le> ?r later" using assms by (intro mult_right_mono) auto
  then have "?p * (10 ^ 12 - ?r later) \<le> ?p * (10 ^ 12 - ?r time)" by (intro mult_left_mono) auto
  then have "?p * (10 ^ 12 - ?r later) div 10 ^ 12 \<le> ?p * (10 ^ 12 - ?r time) div 10 ^ 12"
    by (intro zdiv_mono1) auto
  moreover have "0 \<le> ?p * (10 ^ 12 - ?r time) div 10 ^ 12" if "?r time \<le> 10 ^ 12"
    using that by (intro div_nonneg) auto
  ultimately show ?thesis using r by (auto simp: locked_profit_def Let_def)
qed

lemma calculate_locked_profit_iff:
  "calculate_locked_profit t now = Some p \<longleftrightarrow>
    last_report t \<le> now \<and> uint p = locked_profit t (uint now)"
proof (cases "last_report t \<le> now")
  case True
  define e where "e = now - last_report t"
  define ratio where "ratio = uint e * uint (locked_profit_degradation t)"
  have e: "checked_sub now (last_report t) = Some e" using True by (simp add: checked_sub_def e_def)
  then have ue: "uint e = uint now - uint (last_report t)" by (simp add: checked_sub_iff)
  have big: "u128 e * u128 (locked_profit_degradation t) > LOCKED_PROFIT_DEGRADATION_DENOMINATOR \<longleftrightarrow>
    ratio > 10 ^ 12"
    by (simp add: word_less_def uint_degradation_denominator ratio_def)
  show ?thesis
  proof (cases "ratio > 10 ^ 12")
    case T: True
    then show ?thesis using True big e ue
      by (auto simp: calculate_locked_profit_def checked_mul_u128 locked_profit_def ratio_def word_uint_eq_iff)
  next
    case F: False
    define left where "left = LOCKED_PROFIT_DEGRADATION_DENOMINATOR - u128 e * u128 (locked_profit_degradation t)"
    have left: "uint left = 10 ^ 12 - ratio"
      using F big uint_sub_lem [of "u128 e * u128 (locked_profit_degradation t)" LOCKED_PROFIT_DEGRADATION_DENOMINATOR]
      by (simp add: left_def ratio_def uint_degradation_denominator)
    have lp: "locked_profit t (uint now) = uint (last_updated_locked_profit t) * (10 ^ 12 - ratio) div 10 ^ 12"
      using F by (simp add: locked_profit_def ratio_def ue)
    have "uint (last_updated_locked_profit t) * uint left \<le> 2 ^ 64 * 10 ^ 12"
      unfolding left using F order_less_imp_le [OF u64_bound [of "last_updated_locked_profit t"]]
      by (intro mult_mono) (auto simp: ratio_def)
    then have prod: "uint (last_updated_locked_profit t) * uint left < 2 ^ 128" by simp
    have "calculate_locked_profit t now =
        do { product \<leftarrow> checked_mul (u128 (last_updated_locked_profit t)) left;
             quotient \<leftarrow> checked_div product LOCKED_PROFIT_DEGRADATION_DENOMINATOR; try_into quotient }"
      using F big e by (simp add: calculate_locked_profit_def checked_mul_u128 left_def)
    then show ?thesis using True prod lp
      by (simp add: mul_div_iff uint_degradation_denominator left)
  qed
next
  case False
  then show ?thesis by (simp add: calculate_locked_profit_def checked_sub_def)
qed

text \<open>
  A vault answers when its time has come: the amount it can pay is the total less the locked
  profit, and the conversions are the exact quotients rounded down, refused only on an empty
  divisor or a result beyond 64 bits.
\<close>

definition unlocked :: "program_vault \<Rightarrow> int \<Rightarrow> int" where
  "unlocked v time = uint (total_amount v) - locked_profit (profit_tracker v) time"

lemma get_unlocked_amount_iff:
  "get_unlocked_amount v now = Some w \<longleftrightarrow>
    last_report (profit_tracker v) \<le> now \<and> uint w = unlocked v (uint now)"
proof (cases "last_report (profit_tracker v) \<le> now")
  case True
  then have n: "uint (last_report (profit_tracker v)) \<le> uint now" by (simp add: word_le_def)
  note b = locked_profit_bounds [OF n]
  define p where "p = (word_of_int (locked_profit (profit_tracker v) (uint now)) :: u64)"
  have "locked_profit (profit_tracker v) (uint now) < 2 ^ 64"
    using b(2) u64_bound [of "last_updated_locked_profit (profit_tracker v)"] by (simp del: u64_bound)
  then have "uint p = locked_profit (profit_tracker v) (uint now)"
    using b(1) by (simp add: p_def uint_word_of_int)
  moreover from this have "calculate_locked_profit (profit_tracker v) now = Some p"
    using True by (simp add: calculate_locked_profit_iff)
  moreover have "uint p \<le> uint (total_amount v)" if "uint w = uint (total_amount v) - uint p"
    using that uint_ge_0 [of w] by linarith
  ultimately show ?thesis using True by (auto simp: get_unlocked_amount_def checked_sub_iff unlocked_def)
next
  case False
  then have "calculate_locked_profit (profit_tracker v) now = None"
    using calculate_locked_profit_iff [of "profit_tracker v" now] by (cases "calculate_locked_profit (profit_tracker v) now") auto
  with False show ?thesis by (simp add: get_unlocked_amount_def)
qed

lemma get_amount_by_share_iff:
  "get_amount_by_share v now share supply = Some a \<longleftrightarrow>
    (\<exists>w. get_unlocked_amount v now = Some w \<and> uint supply \<noteq> 0 \<and> uint a = uint share * uint w div uint supply)"
  by (cases "get_unlocked_amount v now") (simp_all add: get_amount_by_share_def mul_div_u64_iff)

lemma get_unmint_amount_iff:
  "get_unmint_amount v now out supply = Some a \<longleftrightarrow>
    (\<exists>w. get_unlocked_amount v now = Some w \<and> uint w \<noteq> 0 \<and> uint a = uint out * uint supply div uint w)"
  by (cases "get_unlocked_amount v now") (simp_all add: get_unmint_amount_def mul_div_u64_iff)

text \<open>
  Time only releases profit: an amount that can be paid now can be paid later, and never more
  than the vault holds.
\<close>

lemma get_unlocked_amount_mono:
  assumes "get_unlocked_amount v now = Some w" and "now \<le> later"
  shows "\<exists>w'. get_unlocked_amount v later = Some w' \<and> w \<le> w' \<and> w' \<le> total_amount v"
proof -
  let ?t = "profit_tracker v"
  from assms(1) have start: "last_report ?t \<le> now" and w: "uint w = unlocked v (uint now)"
    by (simp_all add: get_unlocked_amount_iff)
  then have n: "uint (last_report ?t) \<le> uint now" "uint now \<le> uint later" "last_report ?t \<le> later"
    using assms(2) by (auto simp: word_le_def)
  have up: "unlocked v (uint now) \<le> unlocked v (uint later)" "unlocked v (uint later) \<le> uint (total_amount v)"
    using locked_profit_antimono [OF n(1,2)] locked_profit_bounds(1) [of ?t "uint later"] n
    by (auto simp: unlocked_def)
  define w' where "w' = (word_of_int (unlocked v (uint later)) :: u64)"
  have "0 \<le> unlocked v (uint later)" using up(1) w uint_ge_0 [of w] by linarith
  moreover have "unlocked v (uint later) < 2 ^ 64"
    using up(2) u64_bound [of "total_amount v"] by (simp del: u64_bound)
  ultimately have "uint w' = unlocked v (uint later)" by (simp add: w'_def uint_word_of_int)
  with n up w show ?thesis by (auto simp: get_unlocked_amount_iff word_le_def intro!: exI [of _ w'])
qed

text \<open>
  What is documented of the vault SDK: its withdrawable amount is the one of the vault program.
\<close>

definition follows_vault :: "(int \<Rightarrow> int result) \<Rightarrow> program_vault \<Rightarrow> bool" where
  "follows_vault withdrawable v \<longleftrightarrow>
     (\<forall>now w. get_unlocked_amount v now = Some w \<longrightarrow> withdrawable (uint now) = Inr (uint w))"

end
