(* ===== verification/ReferenceQuote.thy ===== *)
theory ReferenceQuote
  imports VaultProgram SwapQuote
begin

text \<open>
  The reference quote of the repository, the Rust crate \<open>src/dynamic-amm-quote\<close>, with the fees
  of \<open>src/programs/dynamic-amm/src/state.rs\<close> that it uses: \<open>compute_quote\<close> in the checked
  arithmetic of the crates. The theorems compare \<open>calculateSwapQuote\<close> of the SDK with it.
  Crates from outside the repository are the record \<open>crates\<close>.
\<close>

section \<open>Fees of the program\<close>

record program_fees =
  trade_fee_numerator :: u64
  trade_fee_denominator :: u64
  protocol_trade_fee_numerator :: u64
  protocol_trade_fee_denominator :: u64

definition calculate_fee :: "u128 \<Rightarrow> u128 \<Rightarrow> u128 \<Rightarrow> u128 option" where
  "calculate_fee token_amount fee_numerator fee_denominator =
     (if fee_numerator = 0 \<or> token_amount = 0 then Some 0
      else do {
        product \<leftarrow> checked_mul token_amount fee_numerator;
        fee \<leftarrow> checked_div product fee_denominator;
        if fee = 0 then Some 1 else Some fee
      })"

definition trading_fee :: "program_fees \<Rightarrow> u128 \<Rightarrow> u128 option" where
  "trading_fee f trading_tokens =
     calculate_fee trading_tokens (u128 (trade_fee_numerator f)) (u128 (trade_fee_denominator f))"

definition protocol_trading_fee :: "program_fees \<Rightarrow> u128 \<Rightarrow> u128 option" where
  "protocol_trading_fee f trading_tokens =
     calculate_fee trading_tokens (u128 (protocol_trade_fee_numerator f))
       (u128 (protocol_trade_fee_denominator f))"

section \<open>Pool state\<close>

record program_multiplier =
  token_a_multiplier :: u64
  token_b_multiplier :: u64
  precision_factor :: u8

record program_depeg =
  base_virtual_price :: u64
  base_cache_updated :: u64
  depeg_type :: depeg_type

datatype program_curve =
    ConstantProductType
  | StableType u64 program_multiplier program_depeg u64

text \<open>The fields of \<open>Pool\<close> and of its \<open>Bootstrapping\<close> that a quote reads.\<close>

record program_pool =
  p_enabled :: bool
  p_token_a_mint :: pubkey
  p_token_b_mint :: pubkey
  p_fees :: program_fees
  p_stake :: pubkey
  p_activation_point :: u64
  p_activation_type :: u8
  p_curve_type :: program_curve

definition activation_type_of :: "u8 \<Rightarrow> activation_type result" where
  "activation_type_of s =
     (if s = 0 then Inr Slot else if s = 1 then Inr Timestamp else Inl (Thrown ''Invalid value''))"

section \<open>Crates from outside the repository\<close>

text \<open>
  \<^item> \<open>spl_swap\<close>: \<open>swap\<close> of the constant product curve of \<open>spl_token_swap\<close>, the amounts swapped in
    and out;
  \<^item> \<open>saber_swap_to2\<close>: \<open>swap_to2\<close> of \<open>meteora_stable_swap_math\<close> with amplification and no fees,
    the amount swapped out;
  \<^item> \<open>msol_price\<close>, \<open>msol_denominator\<close>: \<open>State\<close> of \<open>marinade_sdk\<close>;
  \<^item> \<open>stake_pool\<close>: \<open>StakePool\<close> of \<open>spl_stake_pool\<close>, its lamports and its token supply.
\<close>

record crates =
  spl_swap :: "u128 \<Rightarrow> u128 \<Rightarrow> u128 \<Rightarrow> (u128 \<times> u128) option"
  saber_swap_to2 :: "u64 \<Rightarrow> u128 \<Rightarrow> u128 \<Rightarrow> u128 \<Rightarrow> u128 option"
  msol_price :: "byte list \<Rightarrow> u64 option"
  msol_denominator :: u64
  stake_pool :: "byte list \<Rightarrow> (u64 \<times> u64) option"

section \<open>Depeg prices\<close>

definition DEPEG_PRECISION :: u64 where
  "DEPEG_PRECISION = 1000000"

definition BASE_CACHE_EXPIRES :: u64 where
  "BASE_CACHE_EXPIRES = 60 * 10"

definition solido_stake :: pubkey where
  "solido_stake = CURVE_TYPE_ACCOUNTS_lido"

definition marinade_stake :: pubkey where
  "marinade_stake = CURVE_TYPE_ACCOUNTS_marinade"

text \<open>The three price functions share their arithmetic.\<close>

definition price_of :: "u64 \<Rightarrow> u64 \<Rightarrow> u64 option" where
  "price_of amount per =
     do {
       product \<leftarrow> checked_mul (u128 amount) (u128 DEPEG_PRECISION);
       quotient \<leftarrow> checked_div product (u128 per);
       try_into quotient
     }"

text \<open>Indexing a slice out of its range panics.\<close>

definition byte_slice :: "byte list \<Rightarrow> nat \<Rightarrow> nat \<Rightarrow> byte list result" where
  "byte_slice bytes from til =
     (if til \<le> length bytes then Inr (take (til - from) (drop from bytes)) else Inl RangeError)"

definition u64_of_le :: "byte list \<Rightarrow> u64" where
  "u64_of_le bytes = word_of_int (leValue bytes)"

definition solido_virtual_price :: "byte list \<Rightarrow> u64 option result" where
  "solido_virtual_price bytes =
     and_then (byte_slice bytes 73 81) (\<lambda>stsol_supply.
     and_then (byte_slice bytes 81 89) (\<lambda>sol_balance.
       Inr (price_of (u64_of_le sol_balance) (u64_of_le stsol_supply))))"

definition marinade_virtual_price :: "crates \<Rightarrow> byte list \<Rightarrow> u64 option result" where
  "marinade_virtual_price R bytes =
     and_then (byte_slice bytes 8 (max 8 (length bytes))) (\<lambda>state.
       Inr (do { price \<leftarrow> msol_price R state; price_of price (msol_denominator R) }))"

definition spl_stake_virtual_price :: "crates \<Rightarrow> byte list \<Rightarrow> u64 option result" where
  "spl_stake_virtual_price R bytes =
     Inr (do { (total_lamports, pool_token_supply) \<leftarrow> stake_pool R bytes;
               price_of total_lamports pool_token_supply })"

fun get_stake_pool_virtual_price ::
  "crates \<Rightarrow> depeg_type \<Rightarrow> pubkey \<Rightarrow> (pubkey \<rightharpoonup> byte list) \<Rightarrow> u64 option result" where
  "get_stake_pool_virtual_price R DepegLido stake_key stake_data =
     (case stake_data solido_stake of None \<Rightarrow> Inr None | Some bytes \<Rightarrow> solido_virtual_price bytes)"
| "get_stake_pool_virtual_price R DepegMarinade stake_key stake_data =
     (case stake_data marinade_stake of None \<Rightarrow> Inr None | Some bytes \<Rightarrow> marinade_virtual_price R bytes)"
| "get_stake_pool_virtual_price R DepegSplStake stake_key stake_data =
     (case stake_data stake_key of None \<Rightarrow> Inr None | Some bytes \<Rightarrow> spl_stake_virtual_price R bytes)"
| "get_stake_pool_virtual_price R DepegNone stake_key stake_data = Inr None"

text \<open>
  \<open>unix_timestamp\<close> is an \<open>i64\<close>; \<open>as u64\<close> keeps its bits, and so does the word here. The pool is
  a mutable parameter of the source, here the value returned.
\<close>

definition update_base_virtual_price ::
  "crates \<Rightarrow> program_pool \<Rightarrow> u64 \<Rightarrow> (pubkey \<rightharpoonup> byte list) \<Rightarrow> program_pool result" where
  "update_base_virtual_price R pool unix_timestamp stake_data =
     (case p_curve_type pool of
        ConstantProductType \<Rightarrow> Inr pool
      | StableType amp_value multiplier depeg updated \<Rightarrow>
          if depeg_type depeg = DepegNone then Inr pool
          else
            and_then (context_msg ''Math overflow'' (checked_add (base_cache_updated depeg) BASE_CACHE_EXPIRES))
              (\<lambda>cache_expire_time.
            if unix_timestamp > cache_expire_time then
              and_then (get_stake_pool_virtual_price R (depeg_type depeg) (p_stake pool) stake_data) (\<lambda>price.
              and_then (context_msg ''Fail to get stake pool virtual price'' price) (\<lambda>virtual_price.
                Inr (pool\<lparr>p_curve_type := StableType amp_value multiplier
                  (depeg\<lparr>base_cache_updated := unix_timestamp, base_virtual_price := virtual_price\<rparr>)
                  updated\<rparr>)))
            else Inr pool))"

section \<open>Curves\<close>

text \<open>\<open>TradeDirection\<close> of \<open>spl_token_swap\<close> has the constructors of the SDK's.\<close>

record curve_swap =
  new_swap_source_amount :: u128
  new_swap_destination_amount :: u128
  source_amount_swapped :: u128
  destination_amount_swapped :: u128

text \<open>Scaling of the stable curve.\<close>

definition upscale_token_a :: "program_multiplier \<Rightarrow> program_depeg \<Rightarrow> u128 \<Rightarrow> u128 option" where
  "upscale_token_a m d token_amount =
     do {
       normalized \<leftarrow> checked_mul token_amount (u128 (token_a_multiplier m));
       if depeg_type d \<noteq> DepegNone then checked_mul normalized (u128 DEPEG_PRECISION) else Some normalized
     }"

definition downscale_token_a :: "program_multiplier \<Rightarrow> program_depeg \<Rightarrow> u128 \<Rightarrow> u128 option" where
  "downscale_token_a m d token_amount =
     do {
       denormalized \<leftarrow> checked_div token_amount (u128 (token_a_multiplier m));
       if depeg_type d \<noteq> DepegNone then checked_div denormalized (u128 DEPEG_PRECISION) else Some denormalized
     }"

definition upscale_token_b :: "program_multiplier \<Rightarrow> program_depeg \<Rightarrow> u128 \<Rightarrow> u128 option" where
  "upscale_token_b m d token_amount =
     do {
       normalized \<leftarrow> checked_mul token_amount (u128 (token_b_multiplier m));
       if depeg_type d \<noteq> DepegNone then checked_mul normalized (u128 (base_virtual_price d))
       else Some normalized
     }"

definition downscale_token_b :: "program_multiplier \<Rightarrow> program_depeg \<Rightarrow> u128 \<Rightarrow> u128 option" where
  "downscale_token_b m d token_amount =
     do {
       denormalized \<leftarrow> checked_div token_amount (u128 (token_b_multiplier m));
       if depeg_type d \<noteq> DepegNone then checked_div denormalized (u128 (base_virtual_price d))
       else Some denormalized
     }"

definition constant_product_swap :: "crates \<Rightarrow> u64 \<Rightarrow> u64 \<Rightarrow> u64 \<Rightarrow> curve_swap option" where
  "constant_product_swap R source_amount swap_source_amount swap_destination_amount =
     do {
       (source_swapped, destination_swapped) \<leftarrow>
         spl_swap R (u128 source_amount) (u128 swap_source_amount) (u128 swap_destination_amount);
       new_source \<leftarrow> checked_add (u128 swap_source_amount) source_swapped;
       new_destination \<leftarrow> checked_sub (u128 swap_destination_amount) destination_swapped;
       Some \<lparr>new_swap_source_amount = new_source, new_swap_destination_amount = new_destination,
         source_amount_swapped = source_swapped, destination_amount_swapped = destination_swapped\<rparr>
     }"

definition stable_swap_swap ::
  "crates \<Rightarrow> u64 \<Rightarrow> program_multiplier \<Rightarrow> program_depeg \<Rightarrow> u64 \<Rightarrow> u64 \<Rightarrow> u64 \<Rightarrow> trade_direction \<Rightarrow> curve_swap option" where
  "stable_swap_swap R amp_value m d source_amount swap_source_amount swap_destination_amount trade_direction =
     (let (upscale_source, upscale_destination, downscale_destination) =
        (case trade_direction of
           AToB \<Rightarrow> (upscale_token_a m d, upscale_token_b m d, downscale_token_b m d)
         | BToA \<Rightarrow> (upscale_token_b m d, upscale_token_a m d, downscale_token_a m d)) in
      do {
        upscaled_source_amount \<leftarrow> upscale_source (u128 source_amount);
        upscaled_swap_source_amount \<leftarrow> upscale_source (u128 swap_source_amount);
        upscaled_swap_destination_amount \<leftarrow> upscale_destination (u128 swap_destination_amount);
        amount_swapped \<leftarrow> saber_swap_to2 R amp_value upscaled_source_amount upscaled_swap_source_amount
          upscaled_swap_destination_amount;
        downscaled \<leftarrow> downscale_destination amount_swapped;
        new_source \<leftarrow> checked_add (u128 swap_source_amount) (u128 source_amount);
        new_destination \<leftarrow> checked_sub (u128 swap_destination_amount) downscaled;
        Some \<lparr>new_swap_source_amount = new_source, new_swap_destination_amount = new_destination,
          source_amount_swapped = u128 source_amount, destination_amount_swapped = downscaled\<rparr>
      })"

fun curve_swap_of :: "crates \<Rightarrow> program_curve \<Rightarrow> u64 \<Rightarrow> u64 \<Rightarrow> u64 \<Rightarrow> trade_direction \<Rightarrow> curve_swap option" where
  "curve_swap_of R ConstantProductType i s d direction = constant_product_swap R i s d"
| "curve_swap_of R (StableType amp_value m depeg updated) i s d direction =
     stable_swap_swap R amp_value m depeg i s d direction"

section \<open>compute_quote\<close>

text \<open>
  \<open>QuoteData\<close>: the amounts of the token accounts, the supplies of the mints, and the clock, of
  which only these parts are read.
\<close>

record quote_data =
  q_pool :: program_pool
  q_vault_a :: program_vault
  q_vault_b :: program_vault
  q_pool_vault_a_lp :: u64
  q_pool_vault_b_lp :: u64
  q_vault_a_lp_supply :: u64
  q_vault_b_lp_supply :: u64
  q_vault_a_token :: u64
  q_vault_b_token :: u64
  q_slot :: u64
  q_unix_timestamp :: u64
  q_stake_data :: "pubkey \<rightharpoonup> byte list"

record quote_result =
  out_amount :: u64
  quote_fee :: u64

text \<open>\<open>i64\<close> to \<open>u64\<close> by \<open>try_into\<close>: refused when negative.\<close>

definition time_to_u64 :: "u64 \<Rightarrow> u64 result" where
  "time_to_u64 t =
     (if 0 \<le> sint t then Inr t else Inl (Thrown ''out of range integral type conversion attempted''))"

definition compute_quote :: "crates \<Rightarrow> pubkey \<Rightarrow> u64 \<Rightarrow> quote_data \<Rightarrow> quote_result result" where
  "compute_quote R in_token_mint in_amount q =
     and_then (activation_type_of (p_activation_type (q_pool q))) (\<lambda>activation_type.
     let current_point = (case activation_type of Slot \<Rightarrow> q_slot q | Timestamp \<Rightarrow> q_unix_timestamp q) in
     and_then (ensure (p_enabled (q_pool q)) ''Pool disabled'') (\<lambda>_.
     and_then (ensure (p_activation_point (q_pool q) \<le> current_point) ''Swap is disabled'') (\<lambda>_.
     and_then (update_base_virtual_price R (q_pool q) (q_unix_timestamp q) (q_stake_data q)) (\<lambda>pool.
     and_then (time_to_u64 (q_unix_timestamp q)) (\<lambda>current_time.
     and_then (ensure (in_token_mint = p_token_a_mint pool \<or> in_token_mint = p_token_b_mint pool)
       ''In token mint not matches with pool token mints'') (\<lambda>_.
     and_then (context_msg ''Fail to get token a amount'' (get_amount_by_share (q_vault_a q) current_time
       (q_pool_vault_a_lp q) (q_vault_a_lp_supply q))) (\<lambda>token_a_amount.
     and_then (context_msg ''Fail to get token b amount'' (get_amount_by_share (q_vault_b q) current_time
       (q_pool_vault_b_lp q) (q_vault_b_lp_supply q))) (\<lambda>token_b_amount.
     let (direction, in_vault, out_vault, in_vault_lp, in_supply, out_supply, out_token_account,
          in_token_total_amount, out_token_total_amount) =
       (if in_token_mint = p_token_a_mint pool
        then (AToB, q_vault_a q, q_vault_b q, q_pool_vault_a_lp q, q_vault_a_lp_supply q,
              q_vault_b_lp_supply q, q_vault_b_token q, token_a_amount, token_b_amount)
        else (BToA, q_vault_b q, q_vault_a q, q_pool_vault_b_lp q, q_vault_b_lp_supply q,
              q_vault_a_lp_supply q, q_vault_a_token q, token_b_amount, token_a_amount)) in
     and_then (context_msg ''Fail to calculate trading fee'' (trading_fee (p_fees pool) (u128 in_amount)))
       (\<lambda>trade_fee.
     and_then (context_msg ''Fail to calculate protocol trading fee''
       (protocol_trading_fee (p_fees pool) trade_fee)) (\<lambda>protocol_fee.
     and_then (into_u64 protocol_fee) (\<lambda>protocol_fee.
     and_then (context_msg ''Fail to calculate in_amount_after_protocol_fee''
       (checked_sub in_amount protocol_fee)) (\<lambda>in_amount_after_protocol_fee.
     and_then (context_msg ''Fail to get in_vault_lp'' (get_unmint_amount in_vault current_time
       in_amount_after_protocol_fee in_supply)) (\<lambda>in_lp.
     and_then (context_msg ''Fail to add in_vault.total_amount''
       (checked_add (total_amount in_vault) in_amount_after_protocol_fee)) (\<lambda>new_total.
     and_then (context_msg ''Fail to get new in_vault_lp'' (checked_add in_lp in_vault_lp)) (\<lambda>new_lp.
     and_then (context_msg ''Fail to get new in_vault_lp_mint'' (checked_add in_supply in_lp)) (\<lambda>new_supply.
     and_then (context_msg ''Fail to get after_in_token_total_amount''
       (get_amount_by_share (in_vault\<lparr>total_amount := new_total\<rparr>) current_time new_lp new_supply))
       (\<lambda>after_in_token_total_amount.
     and_then (context_msg ''Fail to get actual_in_amount''
       (checked_sub after_in_token_total_amount in_token_total_amount)) (\<lambda>actual_in_amount.
     and_then (into_u64 trade_fee) (\<lambda>trade_fee.
     and_then (context_msg ''Fail to calculate in_amount_after_fee''
       (checked_sub actual_in_amount trade_fee)) (\<lambda>actual_in_amount_after_fee.
     and_then (context_msg ''Fail to get swap result'' (curve_swap_of R (p_curve_type pool)
       actual_in_amount_after_fee in_token_total_amount out_token_total_amount direction)) (\<lambda>swapped.
     and_then (into_u64 (destination_amount_swapped swapped)) (\<lambda>swapped_out.
     and_then (context_msg ''Fail to get out_vault_lp''
       (get_unmint_amount out_vault current_time swapped_out out_supply)) (\<lambda>out_vault_lp.
     and_then (context_msg ''Fail to get out_amount''
       (get_amount_by_share out_vault current_time out_vault_lp out_supply)) (\<lambda>out.
     and_then (ensure (out < out_token_account) ''Out amount > vault reserve'') (\<lambda>_.
       Inr \<lparr>out_amount = out, quote_fee = trade_fee\<rparr>)))))))))))))))))))))))))"

section \<open>A reference quote that succeeds\<close>

text \<open>The two sides of a swap, as for the SDK.\<close>

definition q_vault :: "bool \<Rightarrow> quote_data \<Rightarrow> program_vault" where
  "q_vault isA q = (if isA then q_vault_a q else q_vault_b q)"

definition q_lp :: "bool \<Rightarrow> quote_data \<Rightarrow> u64" where
  "q_lp isA q = (if isA then q_pool_vault_a_lp q else q_pool_vault_b_lp q)"

definition q_supply :: "bool \<Rightarrow> quote_data \<Rightarrow> u64" where
  "q_supply isA q = (if isA then q_vault_a_lp_supply q else q_vault_b_lp_supply q)"

definition q_token :: "bool \<Rightarrow> quote_data \<Rightarrow> u64" where
  "q_token isA q = (if isA then q_vault_a_token q else q_vault_b_token q)"

lemmas q_side_defs = q_vault_def q_lp_def q_supply_def q_token_def

lemma update_price_fields:
  assumes "update_base_virtual_price R pool t stake_data = Inr pool'"
  shows "p_enabled pool' = p_enabled pool" "p_token_a_mint pool' = p_token_a_mint pool"
    "p_token_b_mint pool' = p_token_b_mint pool" "p_fees pool' = p_fees pool"
  using assms
  by (auto simp: update_base_virtual_price_def split: program_curve.splits if_splits)

lemmas quote_run_simps = context_msg_iff ensure_iff time_to_u64_def q_side_defs sideDirection_def

lemma compute_quote_cases:
  assumes "compute_quote R mint x q = Inr r" and "fromA = (mint = p_token_a_mint (q_pool q))"
  obtains kind pool s d tf pf pf' rest lp tot lp' sup' after' act tf' i sw y out_lp where
    "p_enabled (q_pool q)" and "activation_type_of (p_activation_type (q_pool q)) = Inr kind"
    and "p_activation_point (q_pool q) \<le> (case kind of Slot \<Rightarrow> q_slot q | Timestamp \<Rightarrow> q_unix_timestamp q)"
    and "0 \<le> sint (q_unix_timestamp q)"
    and "mint = p_token_a_mint (q_pool q) \<or> mint = p_token_b_mint (q_pool q)"
    and "update_base_virtual_price R (q_pool q) (q_unix_timestamp q) (q_stake_data q) = Inr pool"
    and "get_amount_by_share (q_vault fromA q) (q_unix_timestamp q) (q_lp fromA q) (q_supply fromA q) = Some s"
    and "get_amount_by_share (q_vault (\<not> fromA) q) (q_unix_timestamp q) (q_lp (\<not> fromA) q)
      (q_supply (\<not> fromA) q) = Some d"
    and "trading_fee (p_fees (q_pool q)) (u128 x) = Some tf"
    and "protocol_trading_fee (p_fees (q_pool q)) tf = Some pf" and "into_u64 pf = Inr pf'"
    and "checked_sub x pf' = Some rest"
    and "get_unmint_amount (q_vault fromA q) (q_unix_timestamp q) rest (q_supply fromA q) = Some lp"
    and "checked_add (total_amount (q_vault fromA q)) rest = Some tot"
    and "checked_add lp (q_lp fromA q) = Some lp'" and "checked_add (q_supply fromA q) lp = Some sup'"
    and "get_amount_by_share (q_vault fromA q\<lparr>total_amount := tot\<rparr>) (q_unix_timestamp q) lp' sup' = Some after'"
    and "checked_sub after' s = Some act" and "into_u64 tf = Inr tf'" and "checked_sub act tf' = Some i"
    and "curve_swap_of R (p_curve_type pool) i s d (sideDirection fromA) = Some sw"
    and "into_u64 (destination_amount_swapped sw) = Inr y"
    and "get_unmint_amount (q_vault (\<not> fromA) q) (q_unix_timestamp q) y (q_supply (\<not> fromA) q) = Some out_lp"
    and "get_amount_by_share (q_vault (\<not> fromA) q) (q_unix_timestamp q) out_lp (q_supply (\<not> fromA) q) =
      Some (out_amount r)"
    and "out_amount r < q_token (\<not> fromA) q" and "quote_fee r = tf'"
proof -
  from assms(1) obtain pool where pool:
    "update_base_virtual_price R (q_pool q) (q_unix_timestamp q) (q_stake_data q) = Inr pool"
    by (auto simp: compute_quote_def Let_def)
  note fields = update_price_fields [OF pool]
  show thesis
  proof (cases "mint = p_token_a_mint (q_pool q)")
    case True
    then have "fromA" using assms(2) by simp
    with assms(1) True pool show thesis
      apply (simp add: compute_quote_def Let_def fields)
      apply (elim and_thenE, rule that)
      apply (simp_all add: quote_run_simps eq_commute [of _ r] split: if_splits)
      done
  next
    case False
    then have "\<not> fromA" using assms(2) by simp
    with assms(1) False pool show thesis
      apply (simp add: compute_quote_def Let_def fields)
      apply (elim and_thenE, rule that)
      apply (simp_all add: quote_run_simps eq_commute [of _ r] split: if_splits)
      done
  qed
qed

end
