(* ===== verification/QuoteAgreement.thy ===== *)
theory QuoteAgreement
  imports ReferenceQuote
begin

text \<open>
  The SDK against the reference: the trade fees of \<open>utils.ts\<close> against those of the program, and
  \<open>calculateSwapQuote\<close> against \<open>compute_quote\<close> on the same state. The two agree as long as no
  protocol fee is charged; the reference takes the protocol fee out of the input twice.
\<close>

section \<open>The same state on both sides\<close>

definition same_fees :: "program_fees \<Rightarrow> pool_fees \<Rightarrow> bool" where
  "same_fees f g \<longleftrightarrow>
     tradeFeeNumerator g = uint (trade_fee_numerator f) \<and>
     tradeFeeDenominator g = uint (trade_fee_denominator f) \<and>
     protocolTradeFeeNumerator g = uint (protocol_trade_fee_numerator f) \<and>
     protocolTradeFeeDenominator g = uint (protocol_trade_fee_denominator f)"

definition same_depeg :: "program_depeg \<Rightarrow> depeg \<Rightarrow> bool" where
  "same_depeg d e \<longleftrightarrow> baseVirtualPrice e = uint (base_virtual_price d) \<and>
     baseCacheUpdated e = uint (base_cache_updated d) \<and> depegType e = depeg_type d"

definition same_multiplier :: "program_multiplier \<Rightarrow> token_multiplier \<Rightarrow> bool" where
  "same_multiplier m n \<longleftrightarrow> tokenAMultiplier n = uint (token_a_multiplier m) \<and>
     tokenBMultiplier n = uint (token_b_multiplier m)"

fun same_curve :: "program_curve \<Rightarrow> curve_type \<Rightarrow> bool" where
  "same_curve ConstantProductType ConstantProductCurve = True"
| "same_curve (StableType a m d t) (StableSwapCurve p) =
     (amp p = uint a \<and> same_multiplier m (tokenMultiplier p) \<and> same_depeg d (depegInfo p))"
| "same_curve c ct = False"

definition same_pool :: "program_pool \<Rightarrow> pool_state \<Rightarrow> bool" where
  "same_pool rp ps \<longleftrightarrow> enabled ps = p_enabled rp \<and> tokenAMint ps = p_token_a_mint rp \<and>
     tokenBMint ps = p_token_b_mint rp \<and> same_fees (p_fees rp) (fees ps) \<and> stake ps = p_stake rp \<and>
     activationPoint (bootstrapping ps) = uint (p_activation_point rp) \<and>
     activationType (bootstrapping ps) = uint (p_activation_type rp) \<and>
     same_curve (p_curve_type rp) (curveType ps)"

definition same_side :: "externals \<Rightarrow> bool \<Rightarrow> quote_data \<Rightarrow> swap_quote_param \<Rightarrow> bool" where
  "same_side X isA q params \<longleftrightarrow> sideLp isA params = uint (q_lp isA q) \<and>
     sideSupply isA params = uint (q_supply isA q) \<and> sideReserve isA params = uint (q_token isA q) \<and>
     follows_vault (\<lambda>now. vsWithdrawable X now (sideVault isA params)) (q_vault isA q)"

definition same_quote_data :: "externals \<Rightarrow> quote_data \<Rightarrow> swap_quote_param \<Rightarrow> pool_state \<Rightarrow> bool" where
  "same_quote_data X q params ps \<longleftrightarrow> same_pool (q_pool q) ps \<and> same_side X True q params \<and>
     same_side X False q params \<and> paramCurrentTime params = sint (q_unix_timestamp q) \<and>
     paramCurrentSlot params = uint (q_slot q) \<and> paramDepegAccounts params = q_stake_data q"

lemma same_sides: "same_quote_data X q params ps \<Longrightarrow> same_side X isA q params"
  by (cases isA) (auto simp: same_quote_data_def)

section \<open>Fees\<close>

lemma calculate_fee_iff:
  "calculate_fee a n d = Some z \<longleftrightarrow>
    (if uint n = 0 \<or> uint a = 0 then uint z = 0
     else uint a * uint n < 2 ^ 128 \<and> uint d \<noteq> 0 \<and> uint z = max 1 (uint a * uint n div uint d))"
proof (cases "uint n = 0 \<or> uint a = 0")
  case True
  then show ?thesis by (auto simp: calculate_fee_def word_uint_eq_iff)
next
  case False
  then have nz: "\<not> (n = 0 \<or> a = 0)" by (auto simp: word_uint_eq_iff)
  show ?thesis
  proof (cases "uint a * uint n < 2 ^ 128 \<and> d \<noteq> 0")
    case True
    then have q: "uint ((a * n) div d) = uint a * uint n div uint d"
      by (simp add: uint_div uint_word_ariths)
    have "calculate_fee a n d = (if (a * n) div d = 0 then Some 1 else Some ((a * n) div d))"
      using nz True by (simp add: calculate_fee_def checked_mul_def checked_div_def)
    moreover have "0 \<le> uint a * uint n div uint d" by (intro div_nonneg) auto
    moreover have "uint d \<noteq> 0" using True by (auto simp: word_uint_eq_iff)
    ultimately show ?thesis
      using False True by (auto simp: word_uint_eq_iff q max_def)
  next
    case F: False
    then show ?thesis using nz False
      by (auto simp: calculate_fee_def checked_mul_def checked_div_def)
  qed
qed

text \<open>Whether a fee that is charged is at least one unit before it is rounded.\<close>

definition whole_fee :: "int \<Rightarrow> int \<Rightarrow> int \<Rightarrow> bool" where
  "whole_fee amount n d \<longleftrightarrow> n = 0 \<or> amount = 0 \<or> d \<le> amount * n"

lemma calculate_fee_whole:
  assumes "calculate_fee a n d = Some z" and "0 < uint d"
  shows "uint z = (if whole_fee (uint a) (uint n) (uint d) then uint a * uint n div uint d else 1)"
    "\<not> whole_fee (uint a) (uint n) (uint d) \<Longrightarrow> uint a * uint n div uint d = 0"
proof -
  show small: "\<not> whole_fee (uint a) (uint n) (uint d) \<Longrightarrow> uint a * uint n div uint d = 0"
    using div_pos_pos_trivial [of "uint a * uint n" "uint d"] by (auto simp: whole_fee_def)
  have "1 \<le> uint a * uint n div uint d" if "uint d \<le> uint a * uint n"
    using that assms(2) by (intro le_div_of_mult_le) auto
  then show "uint z = (if whole_fee (uint a) (uint n) (uint d) then uint a * uint n div uint d else 1)"
    using assms small by (auto simp: calculate_fee_iff whole_fee_def split: if_splits)
qed

definition raised :: "int \<Rightarrow> int \<Rightarrow> int \<Rightarrow> int" where
  "raised amount n d = (if whole_fee amount n d then 0 else 1)"

lemma trading_fee_raised:
  assumes "same_fees f (fees ps)" and "0 < tradeFeeDenominator (fees ps)" and "trading_fee f a = Some z"
  shows "calculateTradingFee (uint a) ps =
    Inr (uint z - raised (uint a) (tradeFeeNumerator (fees ps)) (tradeFeeDenominator (fees ps)))"
  using assms
    calculate_fee_whole [of a "u128 (trade_fee_numerator f)" "u128 (trade_fee_denominator f)" z]
  by (auto simp: same_fees_def trading_fee_def calculateTradingFee_def Let_def trunc_div_pos raised_def)

lemma protocol_fee_raised:
  assumes "same_fees f (fees ps)" and "0 < protocolTradeFeeDenominator (fees ps)"
    and "protocol_trading_fee f a = Some z"
  shows "calculateProtocolTradingFee (uint a) ps =
    Inr (uint z - raised (uint a) (protocolTradeFeeNumerator (fees ps)) (protocolTradeFeeDenominator (fees ps)))"
  using assms
    calculate_fee_whole [of a "u128 (protocol_trade_fee_numerator f)" "u128 (protocol_trade_fee_denominator f)" z]
  by (auto simp: same_fees_def protocol_trading_fee_def calculateProtocolTradingFee_def Let_def
      trunc_div_pos raised_def)

section \<open>The SDK's run beside the reference's\<close>

lemma unlocked_update:
  "unlocked (v\<lparr>total_amount := n\<rparr>) t = unlocked v t + (uint n - uint (total_amount v))"
  by (simp add: unlocked_def)

text \<open>What both quotes compute before and after the curve, on a side of a vault.\<close>

lemma follow_amount:
  assumes "vault_sdk_laws X" and "same_side X isA q params"
    and "get_amount_by_share (q_vault isA q) now share (q_supply isA q) = Some a"
  obtains w where "vsWithdrawable X (uint now) (sideVault isA params) = Inr (uint w)"
    and "get_unlocked_amount (q_vault isA q) now = Some w" and "0 < sideSupply isA params"
    and "uint a = uint share * uint w div sideSupply isA params"
    and "vsAmountByShare X (uint share) (uint w) (sideSupply isA params) = Inr (uint a)"
proof -
  from assms(2,3) obtain w where w: "get_unlocked_amount (q_vault isA q) now = Some w"
    "sideSupply isA params \<noteq> 0" "uint a = uint share * uint w div sideSupply isA params"
    by (auto simp: get_amount_by_share_iff same_side_def)
  moreover have "0 < sideSupply isA params"
    using w(2) assms(2) uint_pos [of "q_supply isA q"] by (simp add: same_side_def)
  moreover have "vsWithdrawable X (uint now) (sideVault isA params) = Inr (uint w)"
    using w(1) assms(2) by (auto simp: same_side_def follows_vault_def)
  ultimately show thesis using assms(1) that [of w] by (simp add: vault_sdk_laws_def)
qed

lemma follow_unmint:
  assumes "vault_sdk_laws X" and "same_side X isA q params"
    and "get_unlocked_amount (q_vault isA q) now = Some w"
    and "get_unmint_amount (q_vault isA q) now amount (q_supply isA q) = Some lp"
  shows "0 < uint w" "vsUnmintAmount X (uint amount) (uint w) (sideSupply isA params) = Inr (uint lp)"
    "uint lp = uint amount * sideSupply isA params div uint w"
proof -
  from assms(3,4) have lp: "uint w \<noteq> 0" "uint lp = uint amount * uint (q_supply isA q) div uint w"
    by (auto simp: get_unmint_amount_iff)
  then show w: "0 < uint w" by (simp add: uint_pos)
  show "uint lp = uint amount * sideSupply isA params div uint w"
    using lp assms(2) by (simp add: same_side_def)
  then show "vsUnmintAmount X (uint amount) (uint w) (sideSupply isA params) = Inr (uint lp)"
    using w assms(1,2) by (simp add: vault_sdk_laws_def same_side_def)
qed

lemma follow_deposit:
  assumes "vault_sdk_laws X" and "same_side X isA q params"
    and "get_unlocked_amount (q_vault isA q) now = Some w"
    and "checked_add (total_amount (q_vault isA q)) amount = Some tot"
    and "checked_add lp share = Some lp'" and "checked_add (q_supply isA q) lp = Some sup'"
    and "get_amount_by_share (q_vault isA q\<lparr>total_amount := tot\<rparr>) now lp' sup' = Some after'"
  shows "vsAmountByShare X (uint lp + uint share) (uint w + uint amount) (sideSupply isA params + uint lp) =
    Inr (uint after')"
proof -
  from assms(7) obtain w' where w': "get_unlocked_amount (q_vault isA q\<lparr>total_amount := tot\<rparr>) now = Some w'"
    "uint sup' \<noteq> 0" "uint after' = uint lp' * uint w' div uint sup'"
    by (auto simp: get_amount_by_share_iff)
  from w'(1) assms(3,4) have "uint w' = uint w + uint amount"
    by (auto simp: get_unlocked_amount_iff unlocked_update checked_add_iff)
  moreover have "uint lp' = uint lp + uint share" "uint sup' = sideSupply isA params + uint lp"
    using assms(2,5,6) by (auto simp: checked_add_iff same_side_def)
  moreover have "0 < uint sup'" using w'(2) by (rule uint_pos)
  ultimately show ?thesis using w'(3) assms(1) by (simp add: vault_sdk_laws_def)
qed

text \<open>A quote of the SDK that goes through, from the facts about its parts.\<close>

lemma swap_quote_runs:
  assumes "mint = tokenAMint ps \<or> mint = tokenBMint ps" and "tokenAMint ps \<noteq> tokenBMint ps"
    and "fromA = (mint = tokenAMint ps)" and "enabled ps" and "quoteCurve params who ps = Inr c"
    and "vsWithdrawable X (paramCurrentTime params) (sideVault fromA params) = Inr Ws"
    and "vsWithdrawable X (paramCurrentTime params) (sideVault (\<not> fromA) params) = Inr Wd"
    and "vsAmountByShare X (sideLp fromA params) Ws (sideSupply fromA params) = Inr s"
    and "vsAmountByShare X (sideLp (\<not> fromA) params) Wd (sideSupply (\<not> fromA) params) = Inr d"
    and "calculateTradingFee x ps = Inr tf" and "calculateProtocolTradingFee tf ps = Inr pf"
    and "vsUnmintAmount X (x - pf) Ws (sideSupply fromA params) = Inr m"
    and "vsAmountByShare X (m + sideLp fromA params) (Ws + (x - pf)) (sideSupply fromA params + m) = Inr after'"
    and "fst (curve_computeOutAmount X (after' - s - (tf - pf)) s d (sideDirection fromA) c) = Inr out"
    and "vsUnmintAmount X (outAmount out) Wd (sideSupply (\<not> fromA) params) = Inr lp"
    and "vsAmountByShare X lp Wd (sideSupply (\<not> fromA) params) = Inr a"
    and "a < d" and "a < sideReserve (\<not> fromA) params"
  shows "fst (calculateSwapQuote X mint x params who ps) =
    Inr \<lparr>amountOut = a, swapFee = tf - pf, swapPriceImpact = outPriceImpact out\<rparr>"
proof (cases fromA)
  case True
  with assms(3) have "mint = tokenAMint ps" by simp
  then show ?thesis using True assms
    by (simp add: calculateSwapQuote_def Let_def side_defs fst_then_do onCurve_def calculateMaxSwapOutAmount_def)
next
  case False
  with assms(1,3) have "mint = tokenBMint ps" "mint \<noteq> tokenAMint ps" by simp_all
  then show ?thesis using False assms
    by (simp add: calculateSwapQuote_def Let_def side_defs fst_then_do onCurve_def calculateMaxSwapOutAmount_def)
qed

definition whole_fees :: "int \<Rightarrow> pool_fees \<Rightarrow> bool" where
  "whole_fees x f \<longleftrightarrow> 0 < tradeFeeDenominator f \<and> 0 < protocolTradeFeeDenominator f \<and>
     whole_fee x (tradeFeeNumerator f) (tradeFeeDenominator f) \<and>
     whole_fee (x * tradeFeeNumerator f div tradeFeeDenominator f) (protocolTradeFeeNumerator f)
       (protocolTradeFeeDenominator f)"

lemma sint_nonneg_uint:
  fixes w :: u64
  assumes "0 \<le> sint w"
  shows "sint w = uint w"
proof -
  have "sint w < 2 ^ 63" using sint_lt [of w] by simp
  with assms show ?thesis by (simp add: uint_sint take_bit_int_eq_self)
qed

lemma same_fees_agree:
  assumes "same_fees f (fees ps)" and "whole_fees (uint x) (fees ps)"
    and "trading_fee f (u128 x) = Some tf" and "protocol_trading_fee f tf = Some pf"
  shows "calculateTradingFee (uint x) ps = Inr (uint tf)" "calculateProtocolTradingFee (uint tf) ps = Inr (uint pf)"
proof -
  from trading_fee_raised [OF assms(1) _ assms(3)] assms(2)
  show t: "calculateTradingFee (uint x) ps = Inr (uint tf)" by (simp add: whole_fees_def raised_def)
  then have "uint tf = uint x * tradeFeeNumerator (fees ps) div tradeFeeDenominator (fees ps)"
    using assms(1,2) by (simp add: calculateTradingFee_def Let_def whole_fees_def trunc_div_pos same_fees_def)
  with protocol_fee_raised [OF assms(1) _ assms(4)] assms(2)
  show "calculateProtocolTradingFee (uint tf) ps = Inr (uint pf)" by (simp add: whole_fees_def raised_def)
qed

lemma same_activation:
  assumes "same_quote_data X q params ps" and "activation_type_of (p_activation_type (q_pool q)) = Inr kind"
    and "p_activation_point (q_pool q) \<le> (case kind of Slot \<Rightarrow> q_slot q | Timestamp \<Rightarrow> q_unix_timestamp q)"
    and "0 \<le> sint (q_unix_timestamp q)"
  shows "activated params who ps"
  using assms
  by (auto simp: same_quote_data_def same_pool_def activated_def activation_type_of_def word_le_def
      sint_nonneg_uint split: if_splits)

text \<open>
  A reference quote that succeeds, in the terms of the SDK: every part the SDK computes up to the
  curve is the reference's, but the reference asks the curve for the output of \<open>pf\<close> less.
\<close>

lemma reference_run:
  assumes "compute_quote R mint x q = Inr r" and "same_quote_data X q params ps" and "vault_sdk_laws X"
    and "whole_fees (uint x) (fees ps)" and "fromA = (mint = tokenAMint ps)"
  obtains pool s d tf pf Ws Wd m after' i sw lp where
    "mint = tokenAMint ps \<or> mint = tokenBMint ps" and "enabled ps"
    and "\<And>who. activated params who ps" and "0 \<le> sint (q_unix_timestamp q)"
    and "update_base_virtual_price R (q_pool q) (q_unix_timestamp q) (q_stake_data q) = Inr pool"
    and "vsWithdrawable X (paramCurrentTime params) (sideVault fromA params) = Inr Ws"
    and "vsWithdrawable X (paramCurrentTime params) (sideVault (\<not> fromA) params) = Inr Wd" and "0 < Wd"
    and "0 < sideSupply (\<not> fromA) params"
    and "vsAmountByShare X (sideLp fromA params) Ws (sideSupply fromA params) = Inr (uint s)"
    and "vsAmountByShare X (sideLp (\<not> fromA) params) Wd (sideSupply (\<not> fromA) params) = Inr (uint d)"
    and "calculateTradingFee (uint x) ps = Inr tf" and "calculateProtocolTradingFee tf ps = Inr pf"
    and "vsUnmintAmount X (uint x - pf) Ws (sideSupply fromA params) = Inr m"
    and "vsAmountByShare X (m + sideLp fromA params) (Ws + (uint x - pf)) (sideSupply fromA params + m) = Inr after'"
    and "uint i = after' - uint s - tf" and "0 \<le> pf"
    and "curve_swap_of R (p_curve_type pool) i s d (sideDirection fromA) = Some sw"
    and "uint (out_amount r) = lp * Wd div sideSupply (\<not> fromA) params"
    and "lp = uint (destination_amount_swapped sw) * sideSupply (\<not> fromA) params div Wd"
    and "uint (out_amount r) < sideReserve (\<not> fromA) params" and "uint (quote_fee r) = tf"
proof -
  have pools: "same_pool (q_pool q) ps" using assms(2) by (simp add: same_quote_data_def)
  then have fromA: "fromA = (mint = p_token_a_mint (q_pool q))" using assms(5) by (simp add: same_pool_def)
  from assms(1) fromA obtain kind pool s d tf pf pf' rest lp tot lp' sup' after' act tf' i sw y out_lp where
    guards: "p_enabled (q_pool q)" "0 \<le> sint (q_unix_timestamp q)" and
    active: "activation_type_of (p_activation_type (q_pool q)) = Inr kind"
    "p_activation_point (q_pool q) \<le> (case kind of Slot \<Rightarrow> q_slot q | Timestamp \<Rightarrow> q_unix_timestamp q)" and
    mints: "mint = p_token_a_mint (q_pool q) \<or> mint = p_token_b_mint (q_pool q)" and
    pool: "update_base_virtual_price R (q_pool q) (q_unix_timestamp q) (q_stake_data q) = Inr pool" and
    s: "get_amount_by_share (q_vault fromA q) (q_unix_timestamp q) (q_lp fromA q) (q_supply fromA q) = Some s" and
    d: "get_amount_by_share (q_vault (\<not> fromA) q) (q_unix_timestamp q) (q_lp (\<not> fromA) q)
      (q_supply (\<not> fromA) q) = Some d" and
    fee: "trading_fee (p_fees (q_pool q)) (u128 x) = Some tf"
    "protocol_trading_fee (p_fees (q_pool q)) tf = Some pf" "into_u64 pf = Inr pf'" "checked_sub x pf' = Some rest" and
    deposit: "get_unmint_amount (q_vault fromA q) (q_unix_timestamp q) rest (q_supply fromA q) = Some lp"
    "checked_add (total_amount (q_vault fromA q)) rest = Some tot"
    "checked_add lp (q_lp fromA q) = Some lp'" "checked_add (q_supply fromA q) lp = Some sup'"
    "get_amount_by_share (q_vault fromA q\<lparr>total_amount := tot\<rparr>) (q_unix_timestamp q) lp' sup' = Some after'" and
    input: "checked_sub after' s = Some act" "into_u64 tf = Inr tf'" "checked_sub act tf' = Some i" and
    sw: "curve_swap_of R (p_curve_type pool) i s d (sideDirection fromA) = Some sw"
    "into_u64 (destination_amount_swapped sw) = Inr y" and
    out: "get_unmint_amount (q_vault (\<not> fromA) q) (q_unix_timestamp q) y (q_supply (\<not> fromA) q) = Some out_lp"
    "get_amount_by_share (q_vault (\<not> fromA) q) (q_unix_timestamp q) out_lp (q_supply (\<not> fromA) q) =
      Some (out_amount r)" and
    r: "out_amount r < q_token (\<not> fromA) q" "quote_fee r = tf'"
    by (rule compute_quote_cases)
  note side = same_sides [OF assms(2)]
  have sideLp: "sideLp isA params = uint (q_lp isA q)" for isA using side [of isA] by (simp add: same_side_def)
  have time: "paramCurrentTime params = uint (q_unix_timestamp q)"
    using assms(2) guards(2) by (simp add: same_quote_data_def sint_nonneg_uint)
  from follow_amount [OF assms(3) side s] obtain Ws where
    Ws: "vsWithdrawable X (paramCurrentTime params) (sideVault fromA params) = Inr (uint Ws)"
    "get_unlocked_amount (q_vault fromA q) (q_unix_timestamp q) = Some Ws"
    "vsAmountByShare X (sideLp fromA params) (uint Ws) (sideSupply fromA params) = Inr (uint s)"
    by (metis time sideLp)
  from follow_amount [OF assms(3) side d] obtain Wd where
    Wd: "vsWithdrawable X (paramCurrentTime params) (sideVault (\<not> fromA) params) = Inr (uint Wd)"
    "get_unlocked_amount (q_vault (\<not> fromA) q) (q_unix_timestamp q) = Some Wd"
    "0 < sideSupply (\<not> fromA) params"
    "vsAmountByShare X (sideLp (\<not> fromA) params) (uint Wd) (sideSupply (\<not> fromA) params) = Inr (uint d)"
    by (metis time sideLp)
  have fees: "same_fees (p_fees (q_pool q)) (fees ps)" using pools by (simp add: same_pool_def)
  note fees = same_fees_agree [OF fees assms(4) fee(1,2)]
  have nums: "uint tf' = uint tf" "uint rest = uint x - uint pf"
    "uint i = uint after' - uint s - uint tf" "uint y = uint (destination_amount_swapped sw)"
    using fee(3,4) input sw(2) by (auto simp: into_u64_iff checked_sub_iff)
  note unmint = follow_unmint [OF assms(3) side Ws(2) deposit(1)]
  note dep = follow_deposit [OF assms(3) side Ws(2) deposit(2-5)]
  note unmint_out = follow_unmint [OF assms(3) side Wd(2) out(1)]
  have "uint (out_amount r) = uint out_lp * uint Wd div sideSupply (\<not> fromA) params"
    using out(2) Wd(2) side [of "\<not> fromA"] by (auto simp: get_amount_by_share_iff same_side_def)
  moreover have "uint (out_amount r) < sideReserve (\<not> fromA) params"
    using r(1) side [of "\<not> fromA"] by (simp add: same_side_def word_less_def)
  ultimately show thesis
    using guards mints same_activation [OF assms(2) active guards(2)] pools pool Ws Wd fees unmint dep unmint_out nums sw r(2)
    by (intro that [where Ws = "uint Ws" and Wd = "uint Wd" and tf = "uint tf" and pf = "uint pf"
          and m = "uint lp" and after' = "uint after'" and i = i and sw = sw and lp = "uint out_lp"
          and s = s and d = d and pool = pool])
      (auto simp: same_pool_def sideLp)
qed

section \<open>The constant product curve\<close>

text \<open>
  What is documented of \<open>swap\<close> of the constant product curve of \<open>spl_token_swap\<close>: the largest
  output that keeps the product of the reserves, refused when it is zero or when the product does
  not cover the new reserve.
\<close>

definition largest_output :: "int \<Rightarrow> int \<Rightarrow> int \<Rightarrow> int option" where
  "largest_output i s d =
     (if s + i = 0 \<or> s * d < s + i \<or> (i * d) div (s + i) = 0 then None else Some ((i * d) div (s + i)))"

definition spl_swap_law :: "crates \<Rightarrow> bool" where
  "spl_swap_law R \<longleftrightarrow>
     (\<forall>i s d. map_option (\<lambda>out. uint (snd out)) (spl_swap R (u128 i) (u128 s) (u128 d)) =
        largest_output (uint i) (uint s) (uint d))"

lemma constant_product_output:
  assumes "spl_swap_law R" and "curve_swap_of R ConstantProductType i s d dir = Some sw"
  shows "0 < uint s" "0 < uint d"
    "cp_computeOutAmount (uint i) (uint s) (uint d) dir =
      Inr \<lparr>outAmount = uint (destination_amount_swapped sw),
        outPriceImpact = getPriceImpact (uint (destination_amount_swapped sw)) ((uint i * uint d) div uint s)\<rparr>"
    "uint (destination_amount_swapped sw) = (uint i * uint d) div (uint s + uint i)"
proof -
  from assms(2) obtain a where "spl_swap R (u128 i) (u128 s) (u128 d) = Some (a, destination_amount_swapped sw)"
    by (auto simp: constant_product_swap_def bind_Some_iff)
  with assms(1) have "largest_output (uint i) (uint s) (uint d) = Some (uint (destination_amount_swapped sw))"
    unfolding spl_swap_law_def by (metis option.simps(9) snd_conv)
  then have nz: "uint s + uint i \<noteq> 0" "uint s + uint i \<le> uint s * uint d"
    "(uint i * uint d) div (uint s + uint i) \<noteq> 0" and
    out: "uint (destination_amount_swapped sw) = (uint i * uint d) div (uint s + uint i)"
    by (auto simp: largest_output_def split: if_splits)
  have "0 \<le> uint s + uint i" by simp
  then have "0 < uint s * uint d" using nz(1,2) by linarith
  then show pos: "0 < uint s" "0 < uint d" using uint_ge_0 [of s] uint_ge_0 [of d]
    by (auto simp: zero_less_mult_iff)
  show "uint (destination_amount_swapped sw) = (uint i * uint d) div (uint s + uint i)" by (rule out)
  show "cp_computeOutAmount (uint i) (uint s) (uint d) dir =
      Inr \<lparr>outAmount = uint (destination_amount_swapped sw),
        outPriceImpact = getPriceImpact (uint (destination_amount_swapped sw)) ((uint i * uint d) div uint s)\<rparr>"
    using nz out by (simp add: cp_computeOutAmount_eq [OF pos])
qed

lemma constant_product_monotone:
  assumes "0 < (s::int)" and "0 < d" and "0 \<le> i" and "0 \<le> g"
  shows "(i * d) div (s + i) \<le> ((i + g) * d) div (s + (i + g))"
proof -
  let ?o = "(i * d) div (s + i)"
  have "s * d \<le> (s + i) * (d - ?o)" using assms by (intro out_keeps_product) simp
  also have "\<dots> \<le> (s + (i + g)) * (d - ?o)"
    using out_lt_reserve [OF assms(1-3)] assms by (intro mult_right_mono) auto
  finally show ?thesis using assms by (simp add: keeps_product_iff)
qed

lemma update_price_constant_product:
  assumes "update_base_virtual_price R pool t stake_data = Inr pool'"
    and "p_curve_type pool = ConstantProductType"
  shows "pool' = pool"
  using assms by (simp add: update_base_virtual_price_def)

lemma same_curve_constant_product:
  "same_curve c ConstantProductCurve \<Longrightarrow> c = ConstantProductType"
  by (cases c) auto

text \<open>What comes back from a vault for an output of the curve.\<close>

lemma payout_le:
  assumes "0 < (w::int)" and "0 < sup'"
  shows "(amount * sup' div w) * w div sup' \<le> amount"
  using zdiv_mono1 [OF div_times_le [OF assms(1), of "amount * sup'"] assms(2)] assms(2) by simp

lemma payout_mono:
  assumes "0 < (w::int)" and "0 < sup'" and "a \<le> b"
  shows "(a * sup' div w) * w div sup' \<le> (b * sup' div w) * w div sup'"
  using assms by (intro zdiv_mono1 mult_right_mono) auto

lemma payout_run:
  assumes "vault_sdk_laws X" and "0 < w" and "0 < sup'" and "0 \<le> amount"
  shows "vsUnmintAmount X amount w sup' = Inr (amount * sup' div w)"
    "vsAmountByShare X (amount * sup' div w) w sup' = Inr ((amount * sup' div w) * w div sup')"
proof -
  have "0 \<le> amount * sup' div w" using assms by (intro div_nonneg) auto
  then show "vsUnmintAmount X amount w sup' = Inr (amount * sup' div w)"
    "vsAmountByShare X (amount * sup' div w) w sup' = Inr ((amount * sup' div w) * w div sup')"
    using assms by (simp_all add: vault_sdk_laws_def)
qed

lemma constant_product_reference:
  assumes "compute_quote R mint x q = Inr r" and "same_quote_data X q params ps" and "vault_sdk_laws X"
    and "whole_fees (uint x) (fees ps)" and "spl_swap_law R" and "curveType ps = ConstantProductCurve"
    and "tokenAMint ps \<noteq> tokenBMint ps" and "safe_clock params"
    and "fromA = (mint = tokenAMint ps)"
  shows "\<exists>tf pf s d credit. calculateTradingFee (uint x) ps = Inr tf \<and> calculateProtocolTradingFee tf ps = Inr pf \<and>
    0 \<le> pf \<and> uint (quote_fee r) = tf \<and>
    sideAmount X fromA params = Inr s \<and> sideAmount X (\<not> fromA) params = Inr d \<and>
    creditedAmount X fromA (uint x - pf) params = Inr credit \<and>
    paidOut X (\<not> fromA) (((credit - tf) * d) div (s + (credit - tf))) params = Inr (uint (out_amount r)) \<and>
    (pf = 0 \<longrightarrow> (\<exists>sr. fst (calculateSwapQuote X mint (uint x) params who ps) = Inr sr \<and>
      amountOut sr = uint (out_amount r) \<and> swapFee sr = tf)) \<and>
    (\<forall>sr. fst (calculateSwapQuote X mint (uint x) params who ps) = Inr sr \<longrightarrow>
      paidOut X (\<not> fromA) (((credit - (tf - pf)) * d) div (s + (credit - (tf - pf)))) params = Inr (amountOut sr) \<and>
      uint (out_amount r) \<le> amountOut sr \<and> swapFee sr = tf - pf)"
proof -
  note fromA_def = assms(9)
  from reference_run [OF assms(1-4) fromA_def] obtain pool s d tf pf Ws Wd m after' i sw lp where
    run: "mint = tokenAMint ps \<or> mint = tokenBMint ps" "enabled ps" "\<And>who. activated params who ps" and
    pool: "update_base_virtual_price R (q_pool q) (q_unix_timestamp q) (q_stake_data q) = Inr pool" and
    parts: "vsWithdrawable X (paramCurrentTime params) (sideVault fromA params) = Inr Ws"
    "vsWithdrawable X (paramCurrentTime params) (sideVault (\<not> fromA) params) = Inr Wd"
    "vsAmountByShare X (sideLp fromA params) Ws (sideSupply fromA params) = Inr (uint s)"
    "vsAmountByShare X (sideLp (\<not> fromA) params) Wd (sideSupply (\<not> fromA) params) = Inr (uint d)"
    "calculateTradingFee (uint x) ps = Inr tf" "calculateProtocolTradingFee tf ps = Inr pf"
    "vsUnmintAmount X (uint x - pf) Ws (sideSupply fromA params) = Inr m"
    "vsAmountByShare X (m + sideLp fromA params) (Ws + (uint x - pf)) (sideSupply fromA params + m) = Inr after'" and
    pos: "0 < Wd" "0 < sideSupply (\<not> fromA) params" and i: "uint i = after' - uint s - tf" and pf: "0 \<le> pf" and
    sw: "curve_swap_of R (p_curve_type pool) i s d (sideDirection fromA) = Some sw" and
    out: "uint (out_amount r) = lp * Wd div sideSupply (\<not> fromA) params"
    "lp = uint (destination_amount_swapped sw) * sideSupply (\<not> fromA) params div Wd"
    "uint (out_amount r) < sideReserve (\<not> fromA) params" and fee: "uint (quote_fee r) = tf"
    by metis
  have cp: "p_curve_type (q_pool q) = ConstantProductType"
    using assms(2,6) by (auto simp: same_quote_data_def same_pool_def dest: same_curve_constant_product)
  with pool sw have swap: "curve_swap_of R ConstantProductType i s d (sideDirection fromA) = Some sw"
    by (auto dest: update_price_constant_product)
  note swap = constant_product_output [OF assms(5) swap]
  let ?o = "uint (destination_amount_swapped sw)"
  let ?S = "sideSupply (\<not> fromA) params"
  have curve: "quoteCurve params who ps = Inr CurveConstantProduct"
    using quoteCurve_constant_product [OF assms(6,8), of who] run(3) by simp
  note payout = payout_run [OF assms(3) pos, of ?o]
  have paid: "paidOut X (\<not> fromA) y params = Inr ((y * ?S div Wd) * Wd div ?S)" if "0 \<le> y" for y
    using payout_run [OF assms(3) pos that] parts(2) by (simp add: paidOut_def)
  have credit: "uint i = after' - uint s - tf" by (rule i)
  show ?thesis
  proof (rule exI [of _ tf], rule exI [of _ pf], rule exI [of _ "uint s"], rule exI [of _ "uint d"],
      rule exI [of _ "after' - uint s"], intro conjI impI allI)
    show "calculateTradingFee (uint x) ps = Inr tf" "calculateProtocolTradingFee tf ps = Inr pf" "0 \<le> pf"
      "uint (quote_fee r) = tf" using parts pf fee by auto
    show "sideAmount X fromA params = Inr (uint s)" "sideAmount X (\<not> fromA) params = Inr (uint d)"
      "creditedAmount X fromA (uint x - pf) params = Inr (after' - uint s)"
      using parts by (simp_all add: sideAmount_def creditedAmount_def)
    show "paidOut X (\<not> fromA) (((after' - uint s - tf) * uint d) div (uint s + (after' - uint s - tf))) params =
        Inr (uint (out_amount r))"
      using paid [of ?o] out(1,2) by (simp flip: credit swap(4))
  next
    assume none: "pf = 0"
    have "?o < uint d" unfolding swap(4) using swap(1,2) by (intro out_lt_reserve) auto
    then have less: "uint (out_amount r) < uint d"
      using payout_le [OF pos, of ?o] unfolding out(1) out(2) by linarith
    show "\<exists>sr. fst (calculateSwapQuote X mint (uint x) params who ps) = Inr sr \<and>
      amountOut sr = uint (out_amount r) \<and> swapFee sr = tf"
      using swap_quote_runs [OF run(1) assms(7) fromA_def run(2) curve parts _ _ _ less out(3)] swap(3)
        payout out(1,2) i none by simp
  next
    fix sr assume quote: "fst (calculateSwapQuote X mint (uint x) params who ps) = Inr sr"
    then obtain ps' where "calculateSwapQuote X mint (uint x) params who ps = (Inr sr, ps')"
      by (metis prod.collapse)
    then obtain c out' lp' where
      c: "quoteCurve params who ps = Inr c" and
      out': "fst (curve_computeOutAmount X (after' - uint s - (tf - pf)) (uint s) (uint d) (sideDirection fromA) c) =
        Inr out'" and
      lp': "vsUnmintAmount X (outAmount out') Wd ?S = Inr lp'" "vsAmountByShare X lp' Wd ?S = Inr (amountOut sr)" and
      fee': "swapFee sr = tf - pf"
      by (rule swap_quote_cases [OF _ assms(7) fromA_def]) (use parts in auto)
    show "swapFee sr = tf - pf" by (rule fee')
    have in': "after' - uint s - (tf - pf) = uint i + pf" using i by simp
    have "cp_computeOutAmount (uint i + pf) (uint s) (uint d) (sideDirection fromA) = Inr out'"
      using out' c curve in' by simp
    then have o': "outAmount out' = ((uint i + pf) * uint d) div (uint s + (uint i + pf))"
      using swap(1,2) pf by (auto simp: cp_computeOutAmount_eq split: if_splits)
    have in2: "after' - uint s - (tf - pf) = uint i + pf" using i by simp
    have more: "?o \<le> outAmount out'"
      unfolding swap(4) o' using swap(1,2) pf by (intro constant_product_monotone) auto
    have nn: "0 \<le> outAmount out'" using more uint_ge_0 [of "destination_amount_swapped sw"] by linarith
    note payout_run [OF assms(3) pos nn]
    then have sdk: "amountOut sr = (outAmount out' * ?S div Wd) * Wd div ?S" using lp' by simp
    show "paidOut X (\<not> fromA) (((after' - uint s - (tf - pf)) * uint d) div
        (uint s + (after' - uint s - (tf - pf)))) params = Inr (amountOut sr)"
      unfolding in2 o' [symmetric] sdk using nn by (rule paid)
    from sdk show "uint (out_amount r) \<le> amountOut sr"
      using payout_mono [OF pos more] unfolding out(1) out(2) by (simp only:)
  qed
qed

section \<open>Examples\<close>

text \<open>The StableSwap output, by the calculator of the SDK.\<close>

definition example_saber :: "u64 \<Rightarrow> u128 \<Rightarrow> u128 \<Rightarrow> u128 \<Rightarrow> u128 option" where
  "example_saber a i s d =
     (case and_then (computeD (uint a) (uint s) (uint d)) (computeY (uint a) (uint s + uint i)) of
        Inl e \<Rightarrow> None
      | Inr y \<Rightarrow> let out = uint d - y - 1 in
          if 0 \<le> out \<and> out < 2 ^ 128 then Some (word_of_int out) else None)"

definition example_crates :: crates where
  "example_crates =
     \<lparr>spl_swap = (\<lambda>i s d. map_option (\<lambda>out. (i, word_of_int out)) (largest_output (uint i) (uint s) (uint d))),
      saber_swap_to2 = example_saber, msol_price = (\<lambda>bytes. None), msol_denominator = 0x100000000,
      stake_pool = (\<lambda>bytes. None)\<rparr>"

definition example_program_vault :: "u64 \<Rightarrow> program_vault" where
  "example_program_vault n = \<lparr>total_amount = n,
     profit_tracker = \<lparr>last_updated_locked_profit = 0, last_report = 0, locked_profit_degradation = 0\<rparr>\<rparr>"

definition example_quote_data :: "u64 \<Rightarrow> quote_data" where
  "example_quote_data protocol = \<lparr>
     q_pool = \<lparr>p_enabled = True, p_token_a_mint = key 2, p_token_b_mint = key 3,
       p_fees = \<lparr>trade_fee_numerator = 250, trade_fee_denominator = 100000,
         protocol_trade_fee_numerator = protocol, protocol_trade_fee_denominator = 100000\<rparr>,
       p_stake = PublicKey_default, p_activation_point = 500, p_activation_type = 1,
       p_curve_type = ConstantProductType\<rparr>,
     q_vault_a = example_program_vault 3000000, q_vault_b = example_program_vault 7000000,
     q_pool_vault_a_lp = 1000000, q_pool_vault_b_lp = 2000000,
     q_vault_a_lp_supply = 2500000, q_vault_b_lp_supply = 6500000,
     q_vault_a_token = 2900000, q_vault_b_token = 6900000,
     q_slot = 300, q_unix_timestamp = 1000, q_stake_data = Map.empty\<rparr>"

definition example_fee_pool :: "int \<Rightarrow> pool_state" where
  "example_fee_pool protocol =
     (example_pool ConstantProductCurve)\<lparr>fees := example_fees\<lparr>protocolTradeFeeNumerator := protocol\<rparr>\<rparr>"

lemma largest_output_range:
  assumes "largest_output (uint (i :: u64)) (uint (s :: u64)) (uint (d :: u64)) = Some out"
  shows "uint (word_of_int out :: u128) = out"
proof -
  from assms have out: "out = (uint i * uint d) div (uint s + uint i)" and nz: "uint s + uint i \<noteq> 0"
    by (auto simp: largest_output_def split: if_splits)
  have "0 \<le> uint s + uint i" by simp
  with nz have pos: "0 < uint s + uint i" by linarith
  have "uint i * uint d < (uint d + 1) * (uint s + uint i)"
    using pos by (simp add: distrib_right distrib_left mult.commute add_pos_nonneg add_nonneg_pos)
  then have "out < uint d + 1" unfolding out using pos by (intro div_lt_of_lt_mult)
  moreover have "0 \<le> out" unfolding out by (intro div_nonneg) auto
  ultimately show ?thesis using u64_bound [of d] by (simp add: uint_word_of_int del: u64_bound)
qed

lemma example_spl_law: "spl_swap_law example_crates"
  by (auto simp: spl_swap_law_def example_crates_def option.map_comp o_def largest_output_range
      intro!: option.map_ident_strong split: option.splits)

lemma example_follows: "totalAmount v = uint n \<Longrightarrow>
    follows_vault (\<lambda>now. vsWithdrawable example_externals now v) (example_program_vault n)"
  by (auto simp: follows_vault_def get_unlocked_amount_iff unlocked_def locked_profit_def Let_def
      example_program_vault_def example_externals_def)

lemma example_same_data:
  "same_quote_data example_externals (example_quote_data p) example_params (example_fee_pool (uint p))"
  using example_follows [of "example_vault 3000000" 3000000] example_follows [of "example_vault 7000000" 7000000]
  by (simp add: same_quote_data_def same_pool_def same_fees_def same_side_def side_defs q_side_defs
      example_quote_data_def example_params_def example_fee_pool_def example_pool_def example_fees_def
      example_vault_def)

lemma example_clock: "safe_clock example_params"
  by (simp add: safe_clock_def example_params_def)

lemma example_reference:
  "compute_quote example_crates (key 2) 10000 (example_quote_data 0) =
    Inr \<lparr>out_amount = 17753, quote_fee = 25\<rparr>"
  "compute_quote example_crates (key 2) 10000 (example_quote_data 20000) =
    Inr \<lparr>out_amount = 17744, quote_fee = 25\<rparr>"
  by code_simp+

lemma example_whole: "whole_fees 10000 (fees (example_fee_pool 0))" "whole_fees 10000 (fees (example_fee_pool 20000))"
  by (simp_all add: whole_fees_def whole_fee_def example_fee_pool_def example_pool_def example_fees_def)

section \<open>Properties\<close>

text \<open>
  C25: The trade fee and the protocol fee of the SDK are those of the program, except that the
  program charges at least one unit where the SDK rounds the fee down to nothing.
\<close>

theorem sdk_fees_below_program:
  assumes "same_fees f (fees ps)" and "0 < tradeFeeDenominator (fees ps)"
    and "0 < protocolTradeFeeDenominator (fees ps)"
    and "trading_fee f a = Some t" and "protocol_trading_fee f b = Some p"
  shows "(\<exists>st. calculateTradingFee (uint a) ps = Inr st \<and>
      (if 0 < uint a * tradeFeeNumerator (fees ps) \<and> uint a * tradeFeeNumerator (fees ps) < tradeFeeDenominator (fees ps)
       then st = 0 \<and> uint t = 1 else st = uint t)) \<and>
    (\<exists>sp. calculateProtocolTradingFee (uint b) ps = Inr sp \<and>
      (if 0 < uint b * protocolTradeFeeNumerator (fees ps) \<and>
          uint b * protocolTradeFeeNumerator (fees ps) < protocolTradeFeeDenominator (fees ps)
       then sp = 0 \<and> uint p = 1 else sp = uint p))"
proof -
  have raised_iff: "raised x n d = (if 0 < x * n \<and> x * n < d then 1 else 0)" if "0 \<le> x" "0 \<le> n" "0 < d" for x n d
    using that by (auto simp: raised_def whole_fee_def zero_less_mult_iff)
  have nonneg: "0 \<le> tradeFeeNumerator (fees ps)" "0 \<le> protocolTradeFeeNumerator (fees ps)"
    using assms(1) by (simp_all add: same_fees_def)
  have one: "uint t = 1" if "raised (uint a) (tradeFeeNumerator (fees ps)) (tradeFeeDenominator (fees ps)) = 1"
    using that assms(1,2,4) calculate_fee_whole(1) [of a "u128 (trade_fee_numerator f)" "u128 (trade_fee_denominator f)" t]
    by (auto simp: same_fees_def trading_fee_def raised_def split: if_splits)
  have one': "uint p = 1"
    if "raised (uint b) (protocolTradeFeeNumerator (fees ps)) (protocolTradeFeeDenominator (fees ps)) = 1"
    using that assms(1,3,5)
      calculate_fee_whole(1) [of b "u128 (protocol_trade_fee_numerator f)" "u128 (protocol_trade_fee_denominator f)" p]
    by (auto simp: same_fees_def protocol_trading_fee_def raised_def split: if_splits)
  show ?thesis
    using trading_fee_raised [OF assms(1,2,4)] protocol_fee_raised [OF assms(1,3,5)] one one' nonneg assms(2,3)
    by (auto simp: raised_iff)
qed

theorem sdk_fees_below_program_witness:
  "calculateTradingFee 100 (example_fee_pool 20000) = Inr 0 \<and>
    trading_fee (p_fees (q_pool (example_quote_data 20000))) 100 = Some 1"
proof -
  have run: "trading_fee (p_fees (q_pool (example_quote_data 20000))) 100 = Some 1"
    "protocol_trading_fee (p_fees (q_pool (example_quote_data 20000))) 100 = Some 20"
    by code_simp+
  have "same_fees (p_fees (q_pool (example_quote_data 20000))) (fees (example_fee_pool 20000))"
    using example_same_data [of 20000] by (simp add: same_quote_data_def same_pool_def)
  from sdk_fees_below_program [OF this _ _ run] run show ?thesis
    by (simp add: example_fee_pool_def example_pool_def example_fees_def)
qed

text \<open>
  C4: On a constant product pool that charges no protocol fee, the SDK answers whenever the
  reference quote of the repository does, with the same output and the same fee, when the vault
  SDK computes what the vault program does and the trade fee is not below one unit.
\<close>

theorem reference_quote_reproduced:
  assumes "compute_quote R mint x q = Inr r" and "same_quote_data X q params ps" and "vault_sdk_laws X"
    and "whole_fees (uint x) (fees ps)" and "spl_swap_law R" and "curveType ps = ConstantProductCurve"
    and "tokenAMint ps \<noteq> tokenBMint ps" and "safe_clock params" and "protocolTradeFeeNumerator (fees ps) = 0"
  shows "\<exists>sr. fst (calculateSwapQuote X mint (uint x) params who ps) = Inr sr \<and>
    amountOut sr = uint (out_amount r) \<and> swapFee sr = uint (quote_fee r)"
proof -
  from constant_product_reference [OF assms(1-8) refl, of who] obtain tf pf where
    "calculateProtocolTradingFee tf ps = Inr pf" "uint (quote_fee r) = tf" and
    run: "pf = 0 \<longrightarrow> (\<exists>sr. fst (calculateSwapQuote X mint (uint x) params who ps) = Inr sr \<and>
      amountOut sr = uint (out_amount r) \<and> swapFee sr = tf)" by metis
  moreover have "pf = 0" using calculation(1) assms(9)
    by (auto simp: calculateProtocolTradingFee_def trunc_div_def Let_def split: if_splits)
  ultimately show ?thesis by simp
qed

theorem reference_quote_reproduced_witness:
  "\<exists>sr. fst (calculateSwapQuote example_externals (key 2) 10000 example_params None (example_fee_pool 0)) = Inr sr \<and>
    amountOut sr = 17753 \<and> swapFee sr = 25"
  using reference_quote_reproduced [OF example_reference(1) example_same_data [of 0] example_externals_vault
      _ example_spl_law _ _ example_clock, of None] example_whole
  by (simp add: example_fee_pool_def example_pool_def key_def)

text \<open>
  C26: On a constant product pool, when neither fee is below one unit, the reference takes the
  protocol fee twice out of the input. Both sides deposit the input less the protocol fee and take
  the whole of what is left of the trade fee from the amount credited; but the protocol fee, which is
  a part of the trade fee, is still in what the reference takes off. So the curve is asked for the
  output of the amount credited less the whole trade fee by the reference, and less the trade fee
  without the protocol fee by the SDK; the rest, from the curve to the payout, is the same. The
  reference therefore never quotes more, and the fee the SDK reports is the reference's less the
  protocol fee.
\<close>

theorem reference_charges_twice:
  assumes "compute_quote R mint x q = Inr r" and "same_quote_data X q params ps" and "vault_sdk_laws X"
    and "whole_fees (uint x) (fees ps)" and "spl_swap_law R" and "curveType ps = ConstantProductCurve"
    and "tokenAMint ps \<noteq> tokenBMint ps" and "safe_clock params"
    and "fst (calculateSwapQuote X mint (uint x) params who ps) = Inr sr"
    and "fromA = (mint = tokenAMint ps)" and "fee = uint (quote_fee r)"
  shows "\<exists>pf s d credit. calculateTradingFee (uint x) ps = Inr fee \<and> calculateProtocolTradingFee fee ps = Inr pf \<and>
    sideAmount X fromA params = Inr s \<and> sideAmount X (\<not> fromA) params = Inr d \<and>
    creditedAmount X fromA (uint x - pf) params = Inr credit \<and>
    paidOut X (\<not> fromA) (((credit - fee) * d) div (s + (credit - fee))) params = Inr (uint (out_amount r)) \<and>
    paidOut X (\<not> fromA) (((credit - (fee - pf)) * d) div (s + (credit - (fee - pf)))) params = Inr (amountOut sr) \<and>
    uint (out_amount r) \<le> amountOut sr \<and> swapFee sr = fee - pf"
  using constant_product_reference [OF assms(1-8,10), of who] assms(9,11) by metis

theorem reference_charges_twice_witness:
  "\<exists>pf s d credit. calculateProtocolTradingFee 25 (example_fee_pool 20000) = Inr pf \<and>
    creditedAmount example_externals True (10000 - pf) example_params = Inr credit \<and>
    paidOut example_externals False (((credit - 25) * d) div (s + (credit - 25))) example_params = Inr 17744 \<and>
    paidOut example_externals False (((credit - (25 - pf)) * d) div (s + (credit - (25 - pf)))) example_params = Inr 17753"
proof -
  have pool: "example_fee_pool 20000 = example_pool ConstantProductCurve"
    by (simp add: example_fee_pool_def example_pool_def example_fees_def)
  have quote: "fst (calculateSwapQuote example_externals (key 2) (uint (10000 :: u64)) example_params None
      (example_fee_pool 20000)) = Inr \<lparr>amountOut = 17753, swapFee = 20, swapPriceImpact = DecimalQuotient 148 17902\<rparr>"
    using example_quote by (simp add: pool)
  have from_a: "True = (key 2 = tokenAMint (example_fee_pool 20000))"
    by (simp add: example_fee_pool_def example_pool_def)
  note charges = reference_charges_twice [OF example_reference(2) example_same_data [of 20000, simplified]
      example_externals_vault _ example_spl_law _ _ example_clock quote from_a refl]
  have "curveType (example_fee_pool 20000) = ConstantProductCurve"
    "tokenAMint (example_fee_pool 20000) \<noteq> tokenBMint (example_fee_pool 20000)"
    by (simp_all add: example_fee_pool_def example_pool_def key_def)
  with charges example_whole(2) show ?thesis by auto
qed

end
