(* ===== verification/StableAgreement.thy ===== *)
theory StableAgreement
  imports QuoteAgreement
begin

text \<open>
  The SDK against the reference on stable pools: the refresh of the depeg price, the scaling of
  amounts, and the quote. The decoders of the stake pools are outside the repository, and
  \<open>decoders_agree\<close> is what is documented of them. The crate with the StableSwap mathematics is
  outside, too, and nothing is assumed of it: both sides are shown to ask their curve for the same
  swap and to make the same of the answer.
\<close>

section \<open>The depeg price\<close>

text \<open>
  Both sides decode the accounts at hand alike. The SDK reads the two numbers of a Lido account as
  signed, so they have to be below half the range.
\<close>

definition decoders_agree :: "externals \<Rightarrow> crates \<Rightarrow> (pubkey \<rightharpoonup> byte list) \<Rightarrow> bool" where
  "decoders_agree X R accounts \<longleftrightarrow> msol_denominator R = 0x100000000 \<and>
     (\<forall>k data p. accounts k = Some data \<longrightarrow> msol_price R (drop 8 data) = Some p \<longrightarrow>
        decodeMsolPrice X data = Inr (uint p)) \<and>
     (\<forall>k data l s. accounts k = Some data \<longrightarrow> stake_pool R data = Some (l, s) \<longrightarrow>
        (\<exists>m. structDecode X StakePoolLayout data = Inr m \<and> m ''totalLamports'' = Some (uint l) \<and>
           m ''poolTokenSupply'' = Some (uint s)))"

definition half_range :: "(pubkey \<rightharpoonup> byte list) \<Rightarrow> bool" where
  "half_range accounts \<longleftrightarrow> (\<forall>data. accounts solido_stake = Some data \<longrightarrow>
     leValue (take 8 (drop 73 data)) < 2 ^ 63 \<and> leValue (take 8 (drop 81 data)) < 2 ^ 63)"

lemma price_of_iff:
  "price_of a per = Some z \<longleftrightarrow> uint per \<noteq> 0 \<and> uint z = uint a * 1000000 div uint per"
  unfolding price_of_def mul_div_u64_iff by (simp add: DEPEG_PRECISION_def)

lemma sdk_price:
  assumes "price_of a per = Some z"
  shows "trunc_div (uint a * PRECISION) (uint per) = Inr (uint z)"
  using assms uint_pos [of per] by (auto simp: price_of_iff PRECISION_def trunc_div_pos)

lemma lido_number:
  assumes "byte_slice data k (k + 8) = Inr bytes" and "leValue (take 8 (drop k data)) < 2 ^ 63"
  shows "readBigInt64LE data k = Inr (uint (u64_of_le bytes))"
proof -
  from assms(1) have len: "k + 8 \<le> length data" and bytes: "bytes = take 8 (drop k data)"
    by (auto simp: byte_slice_def split: if_splits)
  have "uint (u64_of_le bytes) = leValue bytes"
    using assms(2) leValue_nonneg [of bytes] by (simp add: u64_of_le_def uint_word_of_int bytes)
  with len bytes assms(2) show ?thesis by (simp add: readBigInt64LE_def)
qed

lemma price_reproduced:
  assumes "decoders_agree X R data" and "half_range data" and "extraAccounts ss = data"
    and "stakePoolPubkey ss = stake_key"
    and "get_stake_pool_virtual_price R kind stake_key data = Inr (Some z)"
  shows "getBasePoolVirtualPrice X ss kind = Inr (uint z)"
proof (cases kind)
  case DepegLido
  then obtain bytes s b where d: "data solido_stake = Some bytes"
    "byte_slice bytes 73 81 = Inr s" "byte_slice bytes 81 89 = Inr b"
    "price_of (u64_of_le b) (u64_of_le s) = Some z"
    using assms(5) by (auto simp: solido_virtual_price_def split: option.splits)
  have "readBigInt64LE bytes 73 = Inr (uint (u64_of_le s))" "readBigInt64LE bytes 81 = Inr (uint (u64_of_le b))"
    using lido_number [of bytes 73 s] lido_number [of bytes 81 b] d(1-3) assms(2) by (auto simp: half_range_def)
  with DepegLido d assms(3) show ?thesis
    by (simp add: accountData_def solido_stake_def sdk_price)
next
  case DepegMarinade
  then obtain bytes rest p where d: "data marinade_stake = Some bytes" "rest = drop 8 bytes"
    "msol_price R rest = Some p" "price_of p (msol_denominator R) = Some z"
    using assms(5)
    by (auto simp: marinade_virtual_price_def byte_slice_def bind_Some_iff max_def split: option.splits if_splits)
  then have "decodeMsolPrice X bytes = Inr (uint p)" "msol_denominator R = 0x100000000"
    using assms(1) unfolding decoders_agree_def by blast+
  with DepegMarinade d(1) assms(3) sdk_price [OF d(4)] show ?thesis
    by (simp add: accountData_def marinade_stake_def)
next
  case DepegSplStake
  then obtain bytes l s where d: "data stake_key = Some bytes" "stake_pool R bytes = Some (l, s)"
    "price_of l s = Some z"
    using assms(5) by (auto simp: spl_stake_virtual_price_def bind_Some_iff split: option.splits)
  from d(1,2) assms(1) obtain m where "structDecode X StakePoolLayout bytes = Inr m"
    "m ''totalLamports'' = Some (uint l)" "m ''poolTokenSupply'' = Some (uint s)"
    unfolding decoders_agree_def by blast
  with DepegSplStake d assms(3,4) sdk_price [OF d(3)] show ?thesis
    by (simp add: accountData_def fieldOf_def)
qed (use assms(5) in simp)

lemma refresh_reproduced:
  assumes "update_base_virtual_price R pool t data = Inr pool'" and "p_curve_type pool = StableType a m d u"
    and "same_depeg d (this_depeg ss)" and "decoders_agree X R data" and "half_range data"
    and "extraAccounts ss = data" and "stakePoolPubkey ss = p_stake pool" and "onChainTime ss = uint t"
    and "uint t < 2 ^ 53" and "uint (base_cache_updated d) + 600 < 2 ^ 53"
  shows "\<exists>d'. p_curve_type pool' = StableType a m d' u \<and> depeg_type d' = depeg_type d \<and>
    fst (updateDepegInfoIfExpired X ss) = Inr () \<and>
    same_depeg d' (this_depeg (snd (updateDepegInfoIfExpired X ss)))"
proof (cases "depeg_type d = DepegNone")
  case True
  with assms(1-3) show ?thesis
    by (auto simp: update_base_virtual_price_def updateDepegInfoIfExpired_def same_depeg_def)
next
  case False
  then obtain e where e: "checked_add (base_cache_updated d) BASE_CACHE_EXPIRES = Some e"
    using assms(1,2) by (auto simp: update_base_virtual_price_def context_msg_iff)
  then have ue: "uint e = uint (base_cache_updated d) + 600"
    by (simp add: checked_add_iff BASE_CACHE_EXPIRES_def)
  have expired: "cacheExpired ss = Inr (e < t)"
    using assms(3,8-10) ue
    by (simp add: cacheExpired_def toNumber_def same_depeg_def BASE_CACHE_EXPIRE_def word_less_def)
  show ?thesis
  proof (cases "e < t")
    case True
    then obtain z where z: "get_stake_pool_virtual_price R (depeg_type d) (p_stake pool) data = Inr (Some z)" and
      pool': "pool' = pool\<lparr>p_curve_type := StableType a m
        (d\<lparr>base_cache_updated := t, base_virtual_price := z\<rparr>) u\<rparr>"
      using assms(1,2) False e by (auto simp: update_base_virtual_price_def context_msg_iff)
    have "getBasePoolVirtualPrice X ss (depeg_type d) = Inr (uint z)"
      using price_reproduced [OF assms(4-7) z] .
    then show ?thesis using pool' expired True False assms(3,8)
      by (auto simp: updateDepegInfoIfExpired_def same_depeg_def)
  next
    case F: False
    then have "pool' = pool"
      using assms(1,2) False e by (auto simp: update_base_virtual_price_def)
    then show ?thesis using expired F assms(2,3)
      by (auto simp: updateDepegInfoIfExpired_def same_depeg_def)
  qed
qed

section \<open>Scaling\<close>

lemma precisions: "uint DEPEG_PRECISION = PRECISION" "0 < PRECISION"
  by (simp_all add: DEPEG_PRECISION_def PRECISION_def)

lemma upscale_reproduced:
  assumes "same_multiplier m (this_tokenMultiplier ss)" and "same_depeg d (this_depeg ss)"
  shows "upscale_token_a m d x = Some y \<Longrightarrow> upscaleTokenA ss (uint x) = uint y"
    "upscale_token_b m d x = Some y \<Longrightarrow> upscaleTokenB ss (uint x) = uint y"
  using assms
  by (auto simp: upscale_token_a_def upscale_token_b_def upscaleTokenA_def upscaleTokenB_def Let_def
      same_multiplier_def same_depeg_def bind_Some_iff checked_mul_iff precisions split: if_splits)

lemma downscale_reproduced:
  assumes "same_multiplier m (this_tokenMultiplier ss)" and "same_depeg d (this_depeg ss)"
  shows "downscale_token_a m d x = Some y \<Longrightarrow> downscaleTokenA ss (uint x) = Inr (uint y)"
    "downscale_token_b m d x = Some y \<Longrightarrow> downscaleTokenB ss (uint x) = Inr (uint y)"
  using assms uint_pos
  by (auto simp: downscale_token_a_def downscale_token_b_def downscaleTokenA_def downscaleTokenB_def
      same_multiplier_def same_depeg_def bind_Some_iff checked_div_iff precisions trunc_div_def less_imp_le div_nonneg split: if_splits)

section \<open>The quote\<close>

text \<open>The amounts of a swap on the scale of the curve, and an output of the curve back on that of the token.\<close>

definition scaledSource :: "trade_direction \<Rightarrow> stable_swap \<Rightarrow> int \<Rightarrow> int" where
  "scaledSource dir ss = (if dir = AToB then upscaleTokenA ss else upscaleTokenB ss)"

definition scaledDestination :: "trade_direction \<Rightarrow> stable_swap \<Rightarrow> int \<Rightarrow> int" where
  "scaledDestination dir ss = (if dir = AToB then upscaleTokenB ss else upscaleTokenA ss)"

definition unscaledDestination :: "trade_direction \<Rightarrow> stable_swap \<Rightarrow> int \<Rightarrow> int result" where
  "unscaledDestination dir ss = (if dir = AToB then downscaleTokenB ss else downscaleTokenA ss)"

text \<open>The answer of the calculator of the SDK where the reference has the answer of \<open>swap_to2\<close>.\<close>

definition curveAnswer :: "int \<Rightarrow> int \<Rightarrow> int \<Rightarrow> int \<Rightarrow> int result" where
  "curveAnswer ampFactor i s d =
     and_then (computeD ampFactor s d) (\<lambda>D. and_then (computeY ampFactor (s + i) D) (\<lambda>y. Inr (d - y - 1)))"

text \<open>One swap asked of both curves: the same scaled amounts and the same amplification.\<close>

definition asked_alike :: "crates \<Rightarrow> trade_direction \<Rightarrow> stable_swap \<Rightarrow> int \<Rightarrow> int \<Rightarrow> int \<Rightarrow> int \<Rightarrow> int result \<Rightarrow> bool" where
  "asked_alike R dir ss i s d y answer \<longleftrightarrow> (\<exists>a i' s' d' y'. uint a = this_amp ss \<and>
     uint i' = scaledSource dir ss i \<and> uint s' = scaledSource dir ss s \<and> uint d' = scaledDestination dir ss d \<and>
     saber_swap_to2 R a i' s' d' = Some y' \<and> y = uint y' \<and>
     answer = curveAnswer (this_amp ss) (uint i') (uint s') (uint d'))"

lemma stable_call:
  assumes "stable_swap_swap R a m dep i s t dir = Some sw"
    and "same_multiplier m (this_tokenMultiplier ss)" and "same_depeg dep (this_depeg ss)"
    and "this_amp ss = uint a" and "ss_outAmount (uint i) (uint s) (uint t) dir ss = Inr out"
  shows "\<exists>y answer. asked_alike R dir ss (uint i) (uint s) (uint t) y answer \<and>
    unscaledDestination dir ss y = Inr (uint (destination_amount_swapped sw)) \<and>
    and_then answer (unscaledDestination dir ss) = Inr (outAmount out)"
proof -
  note scale = upscale_reproduced [OF assms(2,3)] downscale_reproduced [OF assms(2,3)]
  define up where "up = (if dir = AToB then upscale_token_a m dep else upscale_token_b m dep)"
  define up' where "up' = (if dir = AToB then upscale_token_b m dep else upscale_token_a m dep)"
  define down where "down = (if dir = AToB then downscale_token_b m dep else downscale_token_a m dep)"
  obtain i' s' t' y where scaled: "up (u128 i) = Some i'" "up (u128 s) = Some s'" "up' (u128 t) = Some t'"
    "saber_swap_to2 R a i' s' t' = Some y" "down y = Some (destination_amount_swapped sw)"
    using assms(1)
    by (cases dir) (auto simp: stable_swap_swap_def bind_Some_iff up_def up'_def down_def)
  have ups: "scaledSource dir ss (uint i) = uint i'" "scaledSource dir ss (uint s) = uint s'"
    "scaledDestination dir ss (uint t) = uint t'"
    using scaled(1-3) scale(1,2) uint_u128
    by (auto simp: scaledSource_def scaledDestination_def up_def up'_def split: if_splits) (metis uint_u128)+
  have downs: "unscaledDestination dir ss (uint y) = Inr (uint (destination_amount_swapped sw))"
    using scaled(5) scale(3,4) by (auto simp: unscaledDestination_def down_def split: if_splits)
  have "and_then (curveAnswer (this_amp ss) (uint i') (uint s') (uint t')) (unscaledDestination dir ss) =
      Inr (outAmount out)"
    using assms(5) ups
    by (cases dir) (auto simp: ss_outAmount_def Let_def curveAnswer_def scaledSource_def scaledDestination_def
        unscaledDestination_def)
  with downs scaled(4) ups assms(4) show ?thesis unfolding asked_alike_def by fastforce
qed

lemma stable_curve_call:
  assumes "update_base_virtual_price R pool t data = Inr pool'"
    and "p_curve_type pool = StableType a m d u" and "same_depeg d (this_depeg ss)"
    and "same_multiplier m (this_tokenMultiplier ss)" and "this_amp ss = uint a"
    and "decoders_agree X R data" and "half_range data"
    and "extraAccounts ss = data" and "stakePoolPubkey ss = p_stake pool" and "onChainTime ss = uint t"
    and "uint t < 2 ^ 53" and "uint (base_cache_updated d) + 600 < 2 ^ 53"
    and "curve_swap_of R (p_curve_type pool') i s z dir = Some sw"
    and "fst (curve_computeOutAmount X (uint i) (uint s) (uint z) dir (CurveStable ss)) = Inr out"
    and ss': "ss' = snd (updateDepegInfoIfExpired X ss)"
  shows "\<exists>y answer. asked_alike R dir ss' (uint i) (uint s) (uint z) y answer \<and>
    unscaledDestination dir ss' y = Inr (uint (destination_amount_swapped sw)) \<and>
    and_then answer (unscaledDestination dir ss') = Inr (outAmount out)"
proof -
  from refresh_reproduced [OF assms(1-3,6-12)] obtain d' where
    d': "p_curve_type pool' = StableType a m d' u" "same_depeg d' (this_depeg ss')" and
    ok: "fst (updateDepegInfoIfExpired X ss) = Inr ()" unfolding ss' by blast
  have "ss_outAmount (uint i) (uint s) (uint z) dir ss' = Inr out"
    using assms(14) ok
    by (simp add: ss' onStable_def ss_computeOutAmount_def refreshed_def split: prod.splits)
  moreover have "stable_swap_swap R a m d' i s z dir = Some sw" using assms(13) d'(1) by simp
  moreover have "same_multiplier m (this_tokenMultiplier ss')" "this_amp ss' = uint a"
    using assms(4,5) by (simp_all add: ss' updateDepeg_frame)
  ultimately show ?thesis using stable_call [OF _ _ d'(2)] by blast
qed

lemma stable_quote_call:
  assumes "same_quote_data X q params ps" and "curveType ps = StableSwapCurve p"
    and "decoders_agree X R (q_stake_data q)" and "half_range (q_stake_data q)"
    and "baseCacheUpdated (depegInfo p) + 600 < 2 ^ 53" and "0 \<le> sint (q_unix_timestamp q)"
    and "update_base_virtual_price R (q_pool q) (q_unix_timestamp q) (q_stake_data q) = Inr pool"
    and "curve_swap_of R (p_curve_type pool) i s d dir = Some sw"
    and "quoteCurve params who ps = Inr c"
    and "fst (curve_computeOutAmount X (uint i) (uint s) (uint d) dir c) = Inr out"
  shows "\<exists>ss y answer. c = CurveStable ss \<and>
    asked_alike R dir (snd (updateDepegInfoIfExpired X ss)) (uint i) (uint s) (uint d) y answer \<and>
    unscaledDestination dir (snd (updateDepegInfoIfExpired X ss)) y = Inr (uint (destination_amount_swapped sw)) \<and>
    and_then answer (unscaledDestination dir (snd (updateDepegInfoIfExpired X ss))) = Inr (outAmount out)"
proof -
  from assms(1) have pools: "same_curve (p_curve_type (q_pool q)) (curveType ps)" "stake ps = p_stake (q_pool q)" and
    clock: "paramCurrentTime params = uint (q_unix_timestamp q)" "paramDepegAccounts params = q_stake_data q"
    using assms(6) by (auto simp: same_quote_data_def same_pool_def sint_nonneg_uint)
  from pools(1) assms(2) obtain a mult dep u where ct: "p_curve_type (q_pool q) = StableType a mult dep u"
    "amp p = uint a" "same_multiplier mult (tokenMultiplier p)" "same_depeg dep (depegInfo p)"
    by (cases "p_curve_type (q_pool q)") auto
  from assms(2,9) obtain ss where c: "c = CurveStable ss" and
    ss: "ss = newStableSwap (amp p) p (paramDepegAccounts params) (paramCurrentTime params) (stake ps)" and
    small: "\<bar>paramCurrentTime params\<bar> < 2 ^ 53"
    by (auto simp: quoteCurve_def toNumber_eq_Inr_iff bnOfNumber_eq_Inr_iff)
  have "uint (q_unix_timestamp q) < 2 ^ 53" using small clock(1) by simp
  moreover have "uint (base_cache_updated dep) + 600 < 2 ^ 53" using assms(5) ct(4) by (simp add: same_depeg_def)
  ultimately show ?thesis
    using stable_curve_call [where ss = ss, OF assms(7) ct(1) _ _ _ assms(3,4) _ _ _ _ _ assms(8) _ refl] assms(10)
      ct(2-4) pools(2) clock c ss
    by (simp add: newStableSwap_def)
qed

section \<open>Properties\<close>

text \<open>
  C5: On a stable pool that charges no protocol fee, depeg pools included, and when the trade fee is
  not below one unit, the SDK and the reference are the same around their StableSwap curves whenever
  both answer: they refresh the depeg price alike, find the same reserves, credit the input and take
  the fee alike, scale alike, and so ask their curve for the same swap with the same amplification;
  and they scale the answer back and pay it out of the vault alike. The quotes can differ only by what
  the two curves answer to that one call, the crate's \<open>swap_to2\<close> and the calculator of the SDK, and
  are equal when the answers are. The fees reported are equal.
\<close>

theorem stable_reference_reproduced:
  assumes "compute_quote R mint x q = Inr r" and "same_quote_data X q params ps" and "vault_sdk_laws X"
    and "whole_fees (uint x) (fees ps)" and "curveType ps = StableSwapCurve p"
    and "tokenAMint ps \<noteq> tokenBMint ps" and "protocolTradeFeeNumerator (fees ps) = 0"
    and "decoders_agree X R (q_stake_data q)" and "half_range (q_stake_data q)"
    and "baseCacheUpdated (depegInfo p) + 600 < 2 ^ 53"
    and "fst (calculateSwapQuote X mint (uint x) params who ps) = Inr sr"
    and "fromA = (mint = tokenAMint ps)" and "dir = sideDirection fromA"
  shows "\<exists>ss ss' s d credit y answer. quoteCurve params who ps = Inr (CurveStable ss) \<and>
    ss' = snd (updateDepegInfoIfExpired X ss) \<and>
    sideAmount X fromA params = Inr s \<and> sideAmount X (\<not> fromA) params = Inr d \<and>
    creditedAmount X fromA (uint x) params = Inr credit \<and>
    asked_alike R dir ss' (credit - swapFee sr) s d y answer \<and>
    and_then (unscaledDestination dir ss' y) (\<lambda>out. paidOut X (\<not> fromA) out params) = Inr (uint (out_amount r)) \<and>
    and_then (and_then answer (unscaledDestination dir ss')) (\<lambda>out. paidOut X (\<not> fromA) out params) =
      Inr (amountOut sr) \<and>
    (answer = Inr y \<longrightarrow> amountOut sr = uint (out_amount r)) \<and> swapFee sr = uint (quote_fee r)"
proof -
  from reference_run [OF assms(1-4,12)] obtain pool s d tf pf Ws Wd m after' i sw lp where
    time: "0 \<le> sint (q_unix_timestamp q)" and
    pool: "update_base_virtual_price R (q_pool q) (q_unix_timestamp q) (q_stake_data q) = Inr pool" and
    parts: "vsWithdrawable X (paramCurrentTime params) (sideVault fromA params) = Inr Ws"
    "vsWithdrawable X (paramCurrentTime params) (sideVault (\<not> fromA) params) = Inr Wd"
    "vsAmountByShare X (sideLp fromA params) Ws (sideSupply fromA params) = Inr (uint s)"
    "vsAmountByShare X (sideLp (\<not> fromA) params) Wd (sideSupply (\<not> fromA) params) = Inr (uint d)"
    "calculateTradingFee (uint x) ps = Inr tf" "calculateProtocolTradingFee tf ps = Inr pf"
    "vsUnmintAmount X (uint x - pf) Ws (sideSupply fromA params) = Inr m"
    "vsAmountByShare X (m + sideLp fromA params) (Ws + (uint x - pf)) (sideSupply fromA params + m) = Inr after'" and
    pos: "0 < Wd" "0 < sideSupply (\<not> fromA) params" and i: "uint i = after' - uint s - tf" and
    sw: "curve_swap_of R (p_curve_type pool) i s d (sideDirection fromA) = Some sw" and
    out: "uint (out_amount r) = lp * Wd div sideSupply (\<not> fromA) params"
    "lp = uint (destination_amount_swapped sw) * sideSupply (\<not> fromA) params div Wd" and
    fee: "uint (quote_fee r) = tf"
    by metis
  have pf: "pf = 0" using parts(6) assms(7)
    by (auto simp: calculateProtocolTradingFee_def trunc_div_def Let_def split: if_splits)
  let ?S = "sideSupply (\<not> fromA) params"
  obtain ps' where "calculateSwapQuote X mint (uint x) params who ps = (Inr sr, ps')"
    using assms(11) by (metis prod.collapse)
  then obtain c out' lp' where
    c: "quoteCurve params who ps = Inr c" and
    out': "fst (curve_computeOutAmount X (after' - uint s - (tf - pf)) (uint s) (uint d) (sideDirection fromA) c) =
      Inr out'" and
    lp': "vsUnmintAmount X (outAmount out') Wd ?S = Inr lp'" "vsAmountByShare X lp' Wd ?S = Inr (amountOut sr)" and
    fee': "swapFee sr = tf - pf"
    by (rule swap_quote_cases [OF _ assms(6,12)]) (use parts in auto)
  have swap_in: "after' - uint s - (tf - pf) = uint i" using i pf by simp
  from stable_quote_call [OF assms(2,5,8-10) time pool sw c out' [unfolded swap_in], folded assms(13)] obtain ss y answer where
    call: "c = CurveStable ss" "asked_alike R dir (snd (updateDepegInfoIfExpired X ss)) (uint i) (uint s) (uint d) y answer"
    "unscaledDestination dir (snd (updateDepegInfoIfExpired X ss)) y = Inr (uint (destination_amount_swapped sw))"
    "and_then answer (unscaledDestination dir (snd (updateDepegInfoIfExpired X ss))) = Inr (outAmount out')"
    by auto
  have paid: "paidOut X (\<not> fromA) (uint (destination_amount_swapped sw)) params = Inr (uint (out_amount r))"
    "paidOut X (\<not> fromA) (outAmount out') params = Inr (amountOut sr)"
    using payout_run [OF assms(3) pos, of "uint (destination_amount_swapped sw)"] out parts(2) lp'
    by (simp_all add: paidOut_def)
  have sides: "sideAmount X fromA params = Inr (uint s)" "sideAmount X (\<not> fromA) params = Inr (uint d)"
    "creditedAmount X fromA (uint x) params = Inr (after' - uint s)"
    using parts pf by (simp_all add: sideAmount_def creditedAmount_def)
  have credit: "after' - uint s - swapFee sr = uint i" using fee' i pf by simp
  have "answer = Inr y \<longrightarrow> amountOut sr = uint (out_amount r)"
    using call(3,4) paid by auto
  then show ?thesis
    using c call paid sides credit fee fee' pf
    by (intro exI [of _ ss] exI [of _ "snd (updateDepegInfoIfExpired X ss)"] exI [of _ "uint s"] exI [of _ "uint d"]
        exI [of _ "after' - uint s"] exI [of _ y] exI [of _ answer]) simp
qed

definition example_lst_data :: quote_data where
  "example_lst_data = (example_quote_data 0)
     \<lparr>q_pool := (q_pool (example_quote_data 0))
        \<lparr>p_curve_type := StableType 100 \<lparr>token_a_multiplier = 1, token_b_multiplier = 1, precision_factor = 9\<rparr>
           \<lparr>base_virtual_price = 1000000, base_cache_updated = 100, depeg_type = DepegLido\<rparr> 0\<rparr>,
      q_stake_data := [CURVE_TYPE_ACCOUNTS_lido \<mapsto> example_lido]\<rparr>"

definition example_lst_params :: swap_quote_param where
  "example_lst_params = example_params\<lparr>paramDepegAccounts := [CURVE_TYPE_ACCOUNTS_lido \<mapsto> example_lido]\<rparr>"

definition example_lst_fee_pool :: pool_state where
  "example_lst_fee_pool = example_lst_pool\<lparr>fees := example_fees\<lparr>protocolTradeFeeNumerator := 0\<rparr>\<rparr>"

lemma example_lst_reference:
  "compute_quote example_crates (key 2) 10000 example_lst_data = Inr \<lparr>out_amount = 9139, quote_fee = 25\<rparr>"
  by code_simp

lemma example_lst_quote:
  "fst (calculateSwapQuote example_externals (key 2) 10000 example_lst_params None example_lst_fee_pool) =
    Inr \<lparr>amountOut = 9139, swapFee = 25, swapPriceImpact = DecimalQuotient (- 32) 9108\<rparr>"
  by code_simp

lemma example_lst_same: "same_quote_data example_externals example_lst_data example_lst_params example_lst_fee_pool"
  using example_same_data [of 0]
  by (simp add: same_quote_data_def same_pool_def same_side_def same_fees_def same_multiplier_def same_depeg_def
      side_defs q_side_defs example_lst_data_def example_lst_params_def example_lst_fee_pool_def
      example_lst_pool_def example_pool_def example_fee_pool_def)

lemma example_decoders: "decoders_agree example_externals example_crates accounts"
  by (simp add: decoders_agree_def example_crates_def)

lemma example_half_range: "half_range [CURVE_TYPE_ACCOUNTS_lido \<mapsto> example_lido]"
proof -
  have "leValue (take 8 (drop 73 example_lido)) < 2 ^ 63" "leValue (take 8 (drop 81 example_lido)) < 2 ^ 63"
    by code_simp+
  then show ?thesis by (simp add: half_range_def solido_stake_def)
qed

theorem stable_reference_reproduced_witness:
  "\<exists>ss s d credit y answer.
    quoteCurve example_lst_params None example_lst_fee_pool = Inr (CurveStable ss) \<and>
    creditedAmount example_externals True 10000 example_lst_params = Inr credit \<and>
    asked_alike example_crates AToB (snd (updateDepegInfoIfExpired example_externals ss)) (credit - 25) s d y answer \<and>
    and_then (unscaledDestination AToB (snd (updateDepegInfoIfExpired example_externals ss)) y)
      (\<lambda>out. paidOut example_externals False out example_lst_params) = Inr 9139"
proof -
  have quote: "fst (calculateSwapQuote example_externals (key 2) (uint (10000 :: u64)) example_lst_params None
      example_lst_fee_pool) = Inr \<lparr>amountOut = 9139, swapFee = 25, swapPriceImpact = DecimalQuotient (- 32) 9108\<rparr>"
    using example_lst_quote by simp
  have fees: "whole_fees (uint (10000 :: u64)) (fees example_lst_fee_pool)"
    by (simp add: whole_fees_def whole_fee_def example_lst_fee_pool_def example_fees_def)
  have from_a: "True = (key 2 = tokenAMint example_lst_fee_pool)" "AToB = sideDirection True"
    by (simp_all add: example_lst_fee_pool_def example_lst_pool_def example_pool_def sideDirection_def)
  obtain p where p: "curveType example_lst_fee_pool = StableSwapCurve p" "baseCacheUpdated (depegInfo p) + 600 < 2 ^ 53"
    by (simp add: example_lst_fee_pool_def example_lst_pool_def example_pool_def)
  have rest: "tokenAMint example_lst_fee_pool \<noteq> tokenBMint example_lst_fee_pool"
    "protocolTradeFeeNumerator (fees example_lst_fee_pool) = 0" "half_range (q_stake_data example_lst_data)"
    using example_half_range
    by (simp_all add: example_lst_fee_pool_def example_lst_pool_def example_pool_def example_lst_data_def key_def)
  from stable_reference_reproduced [OF example_lst_reference example_lst_same example_externals_vault fees p(1) rest(1,2)
      example_decoders rest(3) p(2) quote from_a]
  show ?thesis by (fastforce simp: and_then_eq_Inr_iff)
qed

end
