(* ===== verification/ProgramAccounts.thy ===== *)
theory ProgramAccounts
  imports Instructions ReferenceQuote
begin

text \<open>
  What the program on the chain asks of its accounts, from the Rust crate
  \<open>src/programs/dynamic-amm\<close>: the \<open>Accounts\<close> structures of its instructions as data, field by
  field with the constraints that decide which account is taken, and the functions that make the
  seeds of its addresses. Names are in the camel case in which Anchor exports them. The bodies of
  the handlers are not part of the repository. The properties compare the crate with the interface
  \<open>idl.ts\<close> that the SDK builds its calls from.
\<close>

section \<open>Account structures\<close>

text \<open>
  The type of a field: an account that is loaded and checked, an unchecked one, a signer, a known
  program, the rent. The type \<open>Box\<close> is left out.
\<close>

datatype account_data = PoolData | MintData | TokenData | ConfigData

datatype known_program = TokenProgram | AssociatedTokenProgram | SystemProgram

datatype account_class =
    Loaded account_data
  | Unchecked
  | Signer
  | ProgramOf known_program
  | RentSysvar

text \<open>
  A seed of an address: a text, the key of a field, the first or second of two keys, and the
  bytes of an argument: the curve type, the fee and the index of a configuration.
\<close>

datatype account_seed =
    Text string
  | KeyOf string
  | FirstKey string string
  | SecondKey string string
  | CurveByte
  | FeeBytes
  | IndexBytes

text \<open>
  The constraint of a field: none, \<open>mut\<close>, \<open>mut\<close> with the condition that \<open>enabled\<close> changes, \<open>close\<close>,
  \<open>init\<close> at a program address, as an associated token account, or at the address of a key that
  signs. What an initialized account is filled with, and who pays for it, is left out.
\<close>

datatype account_rule =
    Passed
  | Mutable
  | MutableIfEnabledChanges
  | Closed string
  | Init "account_seed list"
  | InitAssociated string string
  | InitSigned

datatype rust_account = RustAccount (raName: string) (raClass: account_class) (raRule: account_rule)

datatype rust_instruction =
  RustInstruction (riName: string) (riAccounts: "rust_account list") (riArgs: idl_fields)

definition CONFIG_PREFIX :: string where
  "CONFIG_PREFIX = ''config''"

definition InitializePermissionedPoolAccounts :: "rust_account list" where
  "InitializePermissionedPoolAccounts =
     [RustAccount ''pool'' (Loaded PoolData) InitSigned,
      RustAccount ''lpMint'' (Loaded MintData) (Init [Text ''lp_mint'', KeyOf ''pool'']),
      RustAccount ''tokenAMint'' (Loaded MintData) Passed,
      RustAccount ''tokenBMint'' (Loaded MintData) Passed, RustAccount ''aVault'' Unchecked Mutable,
      RustAccount ''bVault'' Unchecked Mutable,
      RustAccount ''aVaultLpMint'' (Loaded MintData) Mutable,
      RustAccount ''bVaultLpMint'' (Loaded MintData) Mutable,
      RustAccount ''aVaultLp'' (Loaded TokenData) (Init [KeyOf ''aVault'', KeyOf ''pool'']),
      RustAccount ''bVaultLp'' (Loaded TokenData) (Init [KeyOf ''bVault'', KeyOf ''pool'']),
      RustAccount ''adminTokenA'' (Loaded TokenData) Mutable,
      RustAccount ''adminTokenB'' (Loaded TokenData) Mutable,
      RustAccount ''adminPoolLp'' (Loaded TokenData) (InitAssociated ''lpMint'' ''admin''),
      RustAccount ''protocolTokenAFee'' (Loaded TokenData)
        (Init [Text ''fee'', KeyOf ''tokenAMint'', KeyOf ''pool'']),
      RustAccount ''protocolTokenBFee'' (Loaded TokenData)
        (Init [Text ''fee'', KeyOf ''tokenBMint'', KeyOf ''pool'']),
      RustAccount ''admin'' Signer Mutable, RustAccount ''feeOwner'' Unchecked Passed,
      RustAccount ''rent'' RentSysvar Passed, RustAccount ''mintMetadata'' Unchecked Mutable,
      RustAccount ''metadataProgram'' Unchecked Passed,
      RustAccount ''vaultProgram'' Unchecked Passed,
      RustAccount ''tokenProgram'' (ProgramOf TokenProgram) Passed,
      RustAccount ''associatedTokenProgram'' (ProgramOf AssociatedTokenProgram) Passed,
      RustAccount ''systemProgram'' (ProgramOf SystemProgram) Passed]"

definition InitializePermissionlessPoolAccounts :: "rust_account list" where
  "InitializePermissionlessPoolAccounts =
     [RustAccount ''pool'' (Loaded PoolData)
        (Init [CurveByte, FirstKey ''tokenAMint'' ''tokenBMint'', SecondKey ''tokenAMint'' ''tokenBMint'']),
      RustAccount ''lpMint'' (Loaded MintData) (Init [Text ''lp_mint'', KeyOf ''pool'']),
      RustAccount ''tokenAMint'' (Loaded MintData) Passed,
      RustAccount ''tokenBMint'' (Loaded MintData) Passed, RustAccount ''aVault'' Unchecked Mutable,
      RustAccount ''bVault'' Unchecked Mutable,
      RustAccount ''aTokenVault'' (Loaded TokenData) Mutable,
      RustAccount ''bTokenVault'' (Loaded TokenData) Mutable,
      RustAccount ''aVaultLpMint'' (Loaded MintData) Mutable,
      RustAccount ''bVaultLpMint'' (Loaded MintData) Mutable,
      RustAccount ''aVaultLp'' (Loaded TokenData) (Init [KeyOf ''aVault'', KeyOf ''pool'']),
      RustAccount ''bVaultLp'' (Loaded TokenData) (Init [KeyOf ''bVault'', KeyOf ''pool'']),
      RustAccount ''payerTokenA'' (Loaded TokenData) Mutable,
      RustAccount ''payerTokenB'' (Loaded TokenData) Mutable,
      RustAccount ''payerPoolLp'' (Loaded TokenData) (InitAssociated ''lpMint'' ''payer''),
      RustAccount ''protocolTokenAFee'' (Loaded TokenData)
        (Init [Text ''fee'', KeyOf ''tokenAMint'', KeyOf ''pool'']),
      RustAccount ''protocolTokenBFee'' (Loaded TokenData)
        (Init [Text ''fee'', KeyOf ''tokenBMint'', KeyOf ''pool'']),
      RustAccount ''payer'' Signer Mutable, RustAccount ''feeOwner'' Unchecked Passed,
      RustAccount ''rent'' RentSysvar Passed, RustAccount ''mintMetadata'' Unchecked Mutable,
      RustAccount ''metadataProgram'' Unchecked Passed,
      RustAccount ''vaultProgram'' Unchecked Passed, RustAccount ''tokenProgram'' Unchecked Passed,
      RustAccount ''associatedTokenProgram'' Unchecked Passed,
      RustAccount ''systemProgram'' Unchecked Passed]"

definition InitializePermissionlessPoolWithFeeTierAccounts :: "rust_account list" where
  "InitializePermissionlessPoolWithFeeTierAccounts =
     [RustAccount ''pool'' (Loaded PoolData)
        (Init [CurveByte, FirstKey ''tokenAMint'' ''tokenBMint'', SecondKey ''tokenAMint'' ''tokenBMint'', FeeBytes]),
      RustAccount ''lpMint'' (Loaded MintData) (Init [Text ''lp_mint'', KeyOf ''pool'']),
      RustAccount ''tokenAMint'' (Loaded MintData) Passed,
      RustAccount ''tokenBMint'' (Loaded MintData) Passed, RustAccount ''aVault'' Unchecked Mutable,
      RustAccount ''bVault'' Unchecked Mutable,
      RustAccount ''aTokenVault'' (Loaded TokenData) Mutable,
      RustAccount ''bTokenVault'' (Loaded TokenData) Mutable,
      RustAccount ''aVaultLpMint'' (Loaded MintData) Mutable,
      RustAccount ''bVaultLpMint'' (Loaded MintData) Mutable,
      RustAccount ''aVaultLp'' (Loaded TokenData) (Init [KeyOf ''aVault'', KeyOf ''pool'']),
      RustAccount ''bVaultLp'' (Loaded TokenData) (Init [KeyOf ''bVault'', KeyOf ''pool'']),
      RustAccount ''payerTokenA'' (Loaded TokenData) Mutable,
      RustAccount ''payerTokenB'' (Loaded TokenData) Mutable,
      RustAccount ''payerPoolLp'' (Loaded TokenData) (InitAssociated ''lpMint'' ''payer''),
      RustAccount ''protocolTokenAFee'' (Loaded TokenData)
        (Init [Text ''fee'', KeyOf ''tokenAMint'', KeyOf ''pool'']),
      RustAccount ''protocolTokenBFee'' (Loaded TokenData)
        (Init [Text ''fee'', KeyOf ''tokenBMint'', KeyOf ''pool'']),
      RustAccount ''payer'' Signer Mutable, RustAccount ''feeOwner'' Unchecked Passed,
      RustAccount ''rent'' RentSysvar Passed, RustAccount ''mintMetadata'' Unchecked Mutable,
      RustAccount ''metadataProgram'' Unchecked Passed,
      RustAccount ''vaultProgram'' Unchecked Passed, RustAccount ''tokenProgram'' Unchecked Passed,
      RustAccount ''associatedTokenProgram'' Unchecked Passed,
      RustAccount ''systemProgram'' Unchecked Passed]"

definition InitializePermissionlessConstantProductPoolWithConfigAccounts :: "rust_account list" where
  "InitializePermissionlessConstantProductPoolWithConfigAccounts =
     [RustAccount ''pool'' (Loaded PoolData)
        (Init [FirstKey ''tokenAMint'' ''tokenBMint'', SecondKey ''tokenAMint'' ''tokenBMint'', KeyOf ''config'']),
      RustAccount ''config'' (Loaded ConfigData) Passed,
      RustAccount ''lpMint'' (Loaded MintData) (Init [Text ''lp_mint'', KeyOf ''pool'']),
      RustAccount ''tokenAMint'' (Loaded MintData) Passed,
      RustAccount ''tokenBMint'' (Loaded MintData) Passed, RustAccount ''aVault'' Unchecked Mutable,
      RustAccount ''bVault'' Unchecked Mutable,
      RustAccount ''aTokenVault'' (Loaded TokenData) Mutable,
      RustAccount ''bTokenVault'' (Loaded TokenData) Mutable,
      RustAccount ''aVaultLpMint'' (Loaded MintData) Mutable,
      RustAccount ''bVaultLpMint'' (Loaded MintData) Mutable,
      RustAccount ''aVaultLp'' (Loaded TokenData) (Init [KeyOf ''aVault'', KeyOf ''pool'']),
      RustAccount ''bVaultLp'' (Loaded TokenData) (Init [KeyOf ''bVault'', KeyOf ''pool'']),
      RustAccount ''payerTokenA'' (Loaded TokenData) Mutable,
      RustAccount ''payerTokenB'' (Loaded TokenData) Mutable,
      RustAccount ''payerPoolLp'' (Loaded TokenData) (InitAssociated ''lpMint'' ''payer''),
      RustAccount ''protocolTokenAFee'' (Loaded TokenData)
        (Init [Text ''fee'', KeyOf ''tokenAMint'', KeyOf ''pool'']),
      RustAccount ''protocolTokenBFee'' (Loaded TokenData)
        (Init [Text ''fee'', KeyOf ''tokenBMint'', KeyOf ''pool'']),
      RustAccount ''payer'' Signer Mutable, RustAccount ''rent'' RentSysvar Passed,
      RustAccount ''mintMetadata'' Unchecked Mutable,
      RustAccount ''metadataProgram'' Unchecked Passed,
      RustAccount ''vaultProgram'' Unchecked Passed,
      RustAccount ''tokenProgram'' (ProgramOf TokenProgram) Passed,
      RustAccount ''associatedTokenProgram'' (ProgramOf AssociatedTokenProgram) Passed,
      RustAccount ''systemProgram'' (ProgramOf SystemProgram) Passed]"

definition EnableOrDisablePoolAccounts :: "rust_account list" where
  "EnableOrDisablePoolAccounts =
     [RustAccount ''pool'' (Loaded PoolData) (MutableIfEnabledChanges),
      RustAccount ''admin'' Signer Passed]"

definition SwapAccounts :: "rust_account list" where
  "SwapAccounts =
     [RustAccount ''pool'' Unchecked Mutable, RustAccount ''userSourceToken'' Unchecked Mutable,
      RustAccount ''userDestinationToken'' Unchecked Mutable,
      RustAccount ''aVault'' Unchecked Mutable, RustAccount ''bVault'' Unchecked Mutable,
      RustAccount ''aTokenVault'' Unchecked Mutable, RustAccount ''bTokenVault'' Unchecked Mutable,
      RustAccount ''aVaultLpMint'' Unchecked Mutable,
      RustAccount ''bVaultLpMint'' Unchecked Mutable, RustAccount ''aVaultLp'' Unchecked Mutable,
      RustAccount ''bVaultLp'' Unchecked Mutable,
      RustAccount ''protocolTokenFee'' Unchecked Mutable, RustAccount ''user'' Signer Passed,
      RustAccount ''vaultProgram'' Unchecked Passed, RustAccount ''tokenProgram'' Unchecked Passed]"

definition RemoveLiquiditySingleSideAccounts :: "rust_account list" where
  "RemoveLiquiditySingleSideAccounts =
     [RustAccount ''pool'' Unchecked Mutable, RustAccount ''lpMint'' Unchecked Mutable,
      RustAccount ''userPoolLp'' Unchecked Mutable, RustAccount ''aVaultLp'' Unchecked Mutable,
      RustAccount ''bVaultLp'' Unchecked Mutable, RustAccount ''aVault'' Unchecked Mutable,
      RustAccount ''bVault'' Unchecked Mutable, RustAccount ''aVaultLpMint'' Unchecked Mutable,
      RustAccount ''bVaultLpMint'' Unchecked Mutable, RustAccount ''aTokenVault'' Unchecked Mutable,
      RustAccount ''bTokenVault'' Unchecked Mutable,
      RustAccount ''userDestinationToken'' Unchecked Mutable, RustAccount ''user'' Signer Passed,
      RustAccount ''vaultProgram'' Unchecked Passed, RustAccount ''tokenProgram'' Unchecked Passed]"

definition AddOrRemoveBalanceLiquidityAccounts :: "rust_account list" where
  "AddOrRemoveBalanceLiquidityAccounts =
     [RustAccount ''pool'' Unchecked Mutable, RustAccount ''lpMint'' Unchecked Mutable,
      RustAccount ''userPoolLp'' Unchecked Mutable, RustAccount ''aVaultLp'' Unchecked Mutable,
      RustAccount ''bVaultLp'' Unchecked Mutable, RustAccount ''aVault'' Unchecked Mutable,
      RustAccount ''bVault'' Unchecked Mutable, RustAccount ''aVaultLpMint'' Unchecked Mutable,
      RustAccount ''bVaultLpMint'' Unchecked Mutable, RustAccount ''aTokenVault'' Unchecked Mutable,
      RustAccount ''bTokenVault'' Unchecked Mutable, RustAccount ''userAToken'' Unchecked Mutable,
      RustAccount ''userBToken'' Unchecked Mutable, RustAccount ''user'' Signer Passed,
      RustAccount ''vaultProgram'' Unchecked Passed, RustAccount ''tokenProgram'' Unchecked Passed]"

definition SetPoolFeesAccounts :: "rust_account list" where
  "SetPoolFeesAccounts =
     [RustAccount ''pool'' (Loaded PoolData) Mutable, RustAccount ''feeOperator'' Signer Passed]"

definition OverrideCurveParamAccounts :: "rust_account list" where
  "OverrideCurveParamAccounts =
     [RustAccount ''pool'' (Loaded PoolData) Mutable, RustAccount ''admin'' Signer Passed]"

definition GetPoolInfoAccounts :: "rust_account list" where
  "GetPoolInfoAccounts =
     [RustAccount ''pool'' Unchecked Passed, RustAccount ''lpMint'' Unchecked Passed,
      RustAccount ''aVaultLp'' Unchecked Passed, RustAccount ''bVaultLp'' Unchecked Passed,
      RustAccount ''aVault'' Unchecked Passed, RustAccount ''bVault'' Unchecked Passed,
      RustAccount ''aVaultLpMint'' Unchecked Passed, RustAccount ''bVaultLpMint'' Unchecked Passed]"

definition BootstrapLiquidityAccounts :: "rust_account list" where
  "BootstrapLiquidityAccounts =
     [RustAccount ''pool'' Unchecked Mutable, RustAccount ''lpMint'' Unchecked Mutable,
      RustAccount ''userPoolLp'' Unchecked Mutable, RustAccount ''aVaultLp'' Unchecked Mutable,
      RustAccount ''bVaultLp'' Unchecked Mutable, RustAccount ''aVault'' Unchecked Mutable,
      RustAccount ''bVault'' Unchecked Mutable, RustAccount ''aVaultLpMint'' Unchecked Mutable,
      RustAccount ''bVaultLpMint'' Unchecked Mutable, RustAccount ''aTokenVault'' Unchecked Mutable,
      RustAccount ''bTokenVault'' Unchecked Mutable, RustAccount ''userAToken'' Unchecked Mutable,
      RustAccount ''userBToken'' Unchecked Mutable, RustAccount ''user'' Signer Passed,
      RustAccount ''vaultProgram'' Unchecked Passed, RustAccount ''tokenProgram'' Unchecked Passed]"

definition CreateMintMetadataAccounts :: "rust_account list" where
  "CreateMintMetadataAccounts =
     [RustAccount ''pool'' (Loaded PoolData) Passed,
      RustAccount ''lpMint'' (Loaded MintData) Passed,
      RustAccount ''aVaultLp'' (Loaded TokenData) Passed,
      RustAccount ''mintMetadata'' Unchecked Mutable,
      RustAccount ''metadataProgram'' Unchecked Passed,
      RustAccount ''systemProgram'' (ProgramOf SystemProgram) Passed,
      RustAccount ''payer'' Signer Mutable]"

definition CreateLockEscrowAccounts :: "rust_account list" where
  "CreateLockEscrowAccounts =
     [RustAccount ''pool'' Unchecked Passed,
      RustAccount ''lockEscrow'' Unchecked
        (Init [Text ''lock_escrow'', KeyOf ''pool'', KeyOf ''owner'']),
      RustAccount ''owner'' Unchecked Passed, RustAccount ''lpMint'' Unchecked Passed,
      RustAccount ''payer'' Signer Mutable, RustAccount ''systemProgram'' Unchecked Passed]"

definition LockAccounts :: "rust_account list" where
  "LockAccounts =
     [RustAccount ''pool'' Unchecked Mutable, RustAccount ''lpMint'' Unchecked Passed,
      RustAccount ''lockEscrow'' Unchecked Mutable, RustAccount ''owner'' Signer Mutable,
      RustAccount ''sourceTokens'' Unchecked Mutable, RustAccount ''escrowVault'' Unchecked Mutable,
      RustAccount ''tokenProgram'' Unchecked Passed, RustAccount ''aVault'' Unchecked Passed,
      RustAccount ''bVault'' Unchecked Passed, RustAccount ''aVaultLp'' Unchecked Passed,
      RustAccount ''bVaultLp'' Unchecked Passed, RustAccount ''aVaultLpMint'' Unchecked Passed,
      RustAccount ''bVaultLpMint'' Unchecked Passed]"

definition ClaimFeeAccounts :: "rust_account list" where
  "ClaimFeeAccounts =
     [RustAccount ''pool'' Unchecked Mutable, RustAccount ''lpMint'' Unchecked Mutable,
      RustAccount ''lockEscrow'' Unchecked Mutable, RustAccount ''owner'' Signer Mutable,
      RustAccount ''sourceTokens'' Unchecked Mutable, RustAccount ''escrowVault'' Unchecked Mutable,
      RustAccount ''tokenProgram'' Unchecked Passed, RustAccount ''aTokenVault'' Unchecked Mutable,
      RustAccount ''bTokenVault'' Unchecked Mutable, RustAccount ''aVault'' Unchecked Mutable,
      RustAccount ''bVault'' Unchecked Mutable, RustAccount ''aVaultLp'' Unchecked Mutable,
      RustAccount ''bVaultLp'' Unchecked Mutable, RustAccount ''aVaultLpMint'' Unchecked Mutable,
      RustAccount ''bVaultLpMint'' Unchecked Mutable, RustAccount ''userAToken'' Unchecked Mutable,
      RustAccount ''userBToken'' Unchecked Mutable, RustAccount ''vaultProgram'' Unchecked Passed]"

definition CreateConfigAccounts :: "rust_account list" where
  "CreateConfigAccounts =
     [RustAccount ''config'' (Loaded ConfigData) (Init [Text CONFIG_PREFIX, IndexBytes]),
      RustAccount ''admin'' Signer Mutable,
      RustAccount ''systemProgram'' (ProgramOf SystemProgram) Passed]"

definition CloseConfigAccounts :: "rust_account list" where
  "CloseConfigAccounts =
     [RustAccount ''config'' (Loaded ConfigData) (Closed ''rentReceiver''),
      RustAccount ''admin'' Signer Mutable, RustAccount ''rentReceiver'' Unchecked Mutable]"

definition UpdateActivationPointAccounts :: "rust_account list" where
  "UpdateActivationPointAccounts =
     [RustAccount ''pool'' (Loaded PoolData) Mutable, RustAccount ''admin'' Signer Passed]"

definition program_instructions :: "rust_instruction list" where
  "program_instructions =
     [RustInstruction ''initializePermissionlessPool'' InitializePermissionlessPoolAccounts
        [(''curveType'', TyDefined ''CurveType''), (''tokenAAmount'', TyU64), (''tokenBAmount'', TyU64)],
      RustInstruction ''initializePermissionlessPoolWithFeeTier'' InitializePermissionlessPoolWithFeeTierAccounts
        [(''curveType'', TyDefined ''CurveType''), (''tradeFeeBps'', TyU64), (''tokenAAmount'', TyU64), (''tokenBAmount'', TyU64)],
      RustInstruction ''removeLiquiditySingleSide'' RemoveLiquiditySingleSideAccounts
        [(''poolTokenAmount'', TyU64), (''minimumOutAmount'', TyU64)],
      RustInstruction ''addImbalanceLiquidity'' AddOrRemoveBalanceLiquidityAccounts
        [(''minimumPoolTokenAmount'', TyU64), (''tokenAAmount'', TyU64), (''tokenBAmount'', TyU64)],
      RustInstruction ''swap'' SwapAccounts [(''inAmount'', TyU64), (''minimumOutAmount'', TyU64)],
      RustInstruction ''removeBalanceLiquidity'' AddOrRemoveBalanceLiquidityAccounts
        [(''poolTokenAmount'', TyU64), (''minimumATokenOut'', TyU64), (''minimumBTokenOut'', TyU64)],
      RustInstruction ''addBalanceLiquidity'' AddOrRemoveBalanceLiquidityAccounts
        [(''poolTokenAmount'', TyU64), (''maximumTokenAAmount'', TyU64), (''maximumTokenBAmount'', TyU64)],
      RustInstruction ''getPoolInfo'' GetPoolInfoAccounts [],
      RustInstruction ''bootstrapLiquidity'' BootstrapLiquidityAccounts
        [(''tokenAAmount'', TyU64), (''tokenBAmount'', TyU64)],
      RustInstruction ''createLockEscrow'' CreateLockEscrowAccounts [],
      RustInstruction ''lock'' LockAccounts [(''amount'', TyU64)],
      RustInstruction ''claimFee'' ClaimFeeAccounts [(''maxAmount'', TyU64)],
      RustInstruction ''initializePermissionedPool'' InitializePermissionedPoolAccounts
        [(''curveType'', TyDefined ''CurveType'')],
      RustInstruction ''enableOrDisablePool'' EnableOrDisablePoolAccounts [(''enable'', TyBool)],
      RustInstruction ''setPoolFees'' SetPoolFeesAccounts [(''fees'', TyDefined ''PoolFees'')],
      RustInstruction ''overrideCurveParam'' OverrideCurveParamAccounts
        [(''curveType'', TyDefined ''CurveType'')],
      RustInstruction ''createMintMetadata'' CreateMintMetadataAccounts [],
      RustInstruction ''createConfig'' CreateConfigAccounts
        [(''configParameters'', TyDefined ''ConfigParameters'')],
      RustInstruction ''closeConfig'' CloseConfigAccounts [],
      RustInstruction ''updateActivationPoint'' UpdateActivationPointAccounts
        [(''newActivationPoint'', TyU64)],
      RustInstruction ''initializePermissionlessConstantProductPoolWithConfig'' InitializePermissionlessConstantProductPoolWithConfigAccounts
        [(''tokenAAmount'', TyU64), (''tokenBAmount'', TyU64)],
      RustInstruction ''initializePermissionlessConstantProductPoolWithConfig2'' InitializePermissionlessConstantProductPoolWithConfigAccounts
        [(''tokenAAmount'', TyU64), (''tokenBAmount'', TyU64), (''activationPoint'', TyOption TyU64)]]"

text \<open>The arguments of \<open>create_config\<close> as the crate declares them.\<close>

definition ConfigParameters :: idl_fields where
  "ConfigParameters =
     [(''tradeFeeNumerator'', TyU64), (''protocolTradeFeeNumerator'', TyU64), (''activationDuration'', TyU64),
      (''poolCreatorAuthority'', TyPublicKey), (''activationType'', TyU8), (''index'', TyU64)]"

section \<open>The seeds\<close>

definition get_first_key :: "pubkey \<Rightarrow> pubkey \<Rightarrow> pubkey" where
  "get_first_key key1 key2 = (if key2 < key1 then key1 else key2)"

definition get_second_key :: "pubkey \<Rightarrow> pubkey \<Rightarrow> pubkey" where
  "get_second_key key1 key2 = (if key2 < key1 then key2 else key1)"

fun get_curve_type :: "curve_type \<Rightarrow> u8" where
  "get_curve_type ConstantProductCurve = 0"
| "get_curve_type (StableSwapCurve p) = 1"

definition MAX_BASIS_POINT :: u64 where
  "MAX_BASIS_POINT = 10000"

definition to_bps :: "u128 \<Rightarrow> u128 \<Rightarrow> u64 option" where
  "to_bps numerator denominator =
     do {
       product \<leftarrow> checked_mul numerator (u128 MAX_BASIS_POINT);
       bps \<leftarrow> checked_div product denominator;
       try_into bps
     }"

text \<open>\<open>unwrap\<close> of the default fee would panic on \<open>None\<close>.\<close>

definition get_trade_fee_bps_bytes :: "u64 \<Rightarrow> byte list option" where
  "get_trade_fee_bps_bytes trade_fee_bps =
     (let default_fees = \<lparr>trade_fee_numerator = 250, trade_fee_denominator = 100000,
        protocol_trade_fee_numerator = 0, protocol_trade_fee_denominator = 100000\<rparr> in
      do {
        default_trade_fee_bps \<leftarrow> to_bps (u128 (trade_fee_numerator default_fees))
          (u128 (trade_fee_denominator default_fees));
        Some (if default_trade_fee_bps = trade_fee_bps then [] else leBytes 8 (uint trade_fee_bps))
      })"

lemma fee_bytes: "get_trade_fee_bps_bytes bps = Some (if bps = 25 then [] else leBytes 8 (uint bps))"
proof -
  have "to_bps (u128 250) (u128 100000) = Some 25" by code_simp
  then show ?thesis by (auto simp: get_trade_fee_bps_bytes_def Let_def)
qed

section \<open>The exported interface\<close>

text \<open>
  What Anchor exports of a structure: an account is writable when it has a constraint other than
  none, and it signs when it is a signer or initialized at the address of a key.
\<close>

definition exported_account :: "rust_account \<Rightarrow> idl_account" where
  "exported_account a = IdlAccount (raName a) (raRule a \<noteq> Passed) (raClass a = Signer \<or> raRule a = InitSigned)"

definition exported :: "rust_instruction \<Rightarrow> idl_instruction" where
  "exported r = IdlInstruction (riName r) (map exported_account (riAccounts r)) (riArgs r)"

text \<open>The handler of a name.\<close>

definition handler :: "string \<Rightarrow> idl_instruction option" where
  "handler name = map_option exported (List.find (\<lambda>r. riName r = name) program_instructions)"

section \<open>Properties\<close>

text \<open>
  C21: The instructions of the interface by which the SDK calls the program are the handlers that the
  crate declares: each has the same name, the same accounts in the same order with the same flags, and
  the same arguments with their names and types. The exceptions are three: \<open>withdrawProtocolFees\<close> is
  in the interface only; the argument of \<open>lock\<close> has another name; and the parameters of
  \<open>createConfig\<close>, otherwise the fields that the crate declares in their order, have a vault
  configuration key in between that the crate does not declare, so what the SDK sends is not what the
  crate would read. Nothing is said of the other types, the events and the errors of the interface.
\<close>

theorem interface_of_program:
  "set idl_instructions - {ixWithdrawProtocolFees, ixLock} =
     set (map exported program_instructions) - set_option (handler ''lock'') \<and>
   handler ''withdrawProtocolFees'' = None \<and> ixWithdrawProtocolFees \<in> set idl_instructions \<and>
   ixLock \<in> set idl_instructions \<and>
   handler ''lock'' = Some (IdlInstruction (ixName ixLock) (ixAccounts ixLock) [(''amount'', TyU64)]) \<and>
   ixArgs ixLock = [(''maxAmount'', TyU64)] \<and>
   (\<exists>fs. map_of idl_types ''ConfigParameters'' = Some (StructType fs) \<and>
      ConfigParameters = filter (\<lambda>(n, t). n \<noteq> ''vaultConfigKey'') fs \<and> fs \<noteq> ConfigParameters)"
proof -
  let ?crate = "map exported program_instructions"
  have "list_all (\<lambda>ix. ix \<in> {ixWithdrawProtocolFees, ixLock} \<or> ix \<in> set ?crate \<and> Some ix \<noteq> handler ''lock'') idl_instructions"
    by code_simp
  moreover have "list_all (\<lambda>ix. Some ix = handler ''lock'' \<or>
      ix \<in> set idl_instructions \<and> ix \<noteq> ixWithdrawProtocolFees \<and> ix \<noteq> ixLock) ?crate" by code_simp
  ultimately have "set idl_instructions - {ixWithdrawProtocolFees, ixLock} = set ?crate - set_option (handler ''lock'')"
    by (cases "handler ''lock''") (auto simp: list_all_iff)
  moreover have "handler ''withdrawProtocolFees'' = None" "ixWithdrawProtocolFees \<in> set idl_instructions"
    "ixLock \<in> set idl_instructions" "ixArgs ixLock = [(''maxAmount'', TyU64)]"
    "handler ''lock'' = Some (IdlInstruction (ixName ixLock) (ixAccounts ixLock) [(''amount'', TyU64)])"
    by code_simp+
  moreover have "map_of idl_types ''ConfigParameters'' = Some typeConfigParameters" by code_simp
  moreover have "ConfigParameters = filter (\<lambda>(n, t). n \<noteq> ''vaultConfigKey'') (typedef_fields typeConfigParameters)"
    "typedef_fields typeConfigParameters \<noteq> ConfigParameters" by code_simp+
  ultimately show ?thesis by (simp add: typeConfigParameters_def)
qed

end
