(* ===== verification/Acceptance.thy ===== *)
theory Acceptance
  imports ProgramAccounts Configurations
begin

text \<open>
  Calls of the program against the crate that executes them: whether the accounts a call passes
  are those that the account structures of \<open>ProgramAccounts\<close> demand, and what becomes of the
  accounts on the chain when the transactions of a pool creation are executed.
\<close>

section \<open>The addresses the program demands\<close>

text \<open>The key passed for a field, and the arguments that seeds are made of.\<close>

definition key_of :: "program_call \<Rightarrow> string \<Rightarrow> pubkey" where
  "key_of c name = (case map_of (callAccounts c) name of None \<Rightarrow> PublicKey [] | Some k \<Rightarrow> k)"

fun curve_argument :: "idl_value list \<Rightarrow> curve_type option" where
  "curve_argument (ValCurveType t # vs) = Some t"
| "curve_argument vs = None"

fun fee_argument :: "idl_value list \<Rightarrow> u64 option" where
  "fee_argument (v # ValBN n # vs) = Some (word_of_int n)"
| "fee_argument vs = None"

text \<open>
  The parameters of \<open>createConfig\<close> travel as the bytes of their fields one after the other, in the
  order of the interface by which the SDK sends them. The program takes the index from the place
  where its own structure has it.
\<close>

definition configFieldBytes :: "config_parameters \<Rightarrow> string \<Rightarrow> byte list" where
  "configFieldBytes p name =
     (if name = ''tradeFeeNumerator'' then leBytes 8 (argTradeFeeNumerator p)
      else if name = ''protocolTradeFeeNumerator'' then leBytes 8 (argProtocolTradeFeeNumerator p)
      else if name = ''activationDuration'' then leBytes 8 (argActivationDuration p)
      else if name = ''vaultConfigKey'' then toBuffer (argVaultConfigKey p)
      else if name = ''poolCreatorAuthority'' then toBuffer (argPoolCreatorAuthority p)
      else if name = ''activationType'' then leBytes 1 (activationTypeCode (argActivationType p))
      else if name = ''index'' then leBytes 8 (argIndex p) else [])"

definition configBytes :: "config_parameters \<Rightarrow> byte list" where
  "configBytes p = concat (map (\<lambda>(name, t). configFieldBytes p name) (typedef_fields typeConfigParameters))"

fun index_argument :: "idl_value list \<Rightarrow> u64 option" where
  "index_argument (ValConfigParameters p # vs) =
     map_option (\<lambda>off. word_of_int (leValue (take 8 (drop off (configBytes p)))))
       (fieldOffset ConfigParameters ''index'')"
| "index_argument vs = None"

lemma offset_index: "fieldOffset ConfigParameters ''index'' = Some 57"
  by code_simp

lemma index_sent:
  assumes "valid_pubkey (argVaultConfigKey p)" and "valid_pubkey (argPoolCreatorAuthority p)"
  shows "index_argument (ValConfigParameters p # vs) =
    Some (word_of_int (leValue (take 8 (drop 1 (toBuffer (argPoolCreatorAuthority p))))))"
proof -
  have "configBytes p = (leBytes 8 (argTradeFeeNumerator p) @ leBytes 8 (argProtocolTradeFeeNumerator p) @
      leBytes 8 (argActivationDuration p) @ toBuffer (argVaultConfigKey p)) @ toBuffer (argPoolCreatorAuthority p) @
      leBytes 1 (activationTypeCode (argActivationType p)) @ leBytes 8 (argIndex p)"
    by (simp add: configBytes_def configFieldBytes_def typeConfigParameters_def)
  with assms show ?thesis by (simp add: offset_index)
qed

fun seed_bytes :: "program_call \<Rightarrow> account_seed \<Rightarrow> byte list option" where
  "seed_bytes c (Text s) = Some (bytesOf s)"
| "seed_bytes c (KeyOf n) = Some (toBuffer (key_of c n))"
| "seed_bytes c (FirstKey m n) = Some (toBuffer (get_first_key (key_of c m) (key_of c n)))"
| "seed_bytes c (SecondKey m n) = Some (toBuffer (get_second_key (key_of c m) (key_of c n)))"
| "seed_bytes c CurveByte = map_option (\<lambda>t. [get_curve_type t]) (curve_argument (callArgs c))"
| "seed_bytes c FeeBytes = Option.bind (fee_argument (callArgs c)) get_trade_fee_bps_bytes"
| "seed_bytes c IndexBytes = map_option (\<lambda>n. leBytes 8 (uint n)) (index_argument (callArgs c))"

text \<open>What a constraint and a type accept for the key that is passed.\<close>

fun rule_accepts :: "env \<Rightarrow> program_call \<Rightarrow> pubkey \<Rightarrow> account_rule \<Rightarrow> bool" where
  "rule_accepts E c k (Init seeds) \<longleftrightarrow> (case those (map (seed_bytes c) seeds) of
       None \<Rightarrow> False
     | Some bytes \<Rightarrow> k = fst (findProgramAddressSync (envFns E) bytes (callProgram c)))"
| "rule_accepts E c k (InitAssociated mint owner) \<longleftrightarrow>
     k = getAssociatedTokenAddressSync (envFns E) (key_of c mint) (key_of c owner)"
| "rule_accepts E c k rule \<longleftrightarrow> True"

fun class_accepts :: "env \<Rightarrow> pubkey \<Rightarrow> account_class \<Rightarrow> bool" where
  "class_accepts E k (ProgramOf TokenProgram) \<longleftrightarrow> k = TOKEN_PROGRAM_ID E"
| "class_accepts E k (ProgramOf AssociatedTokenProgram) \<longleftrightarrow> k = ASSOCIATED_TOKEN_PROGRAM_ID E"
| "class_accepts E k (ProgramOf SystemProgram) \<longleftrightarrow> k = SystemProgram_programId E"
| "class_accepts E k RentSysvar \<longleftrightarrow> k = SYSVAR_RENT_PUBKEY E"
| "class_accepts E k cls \<longleftrightarrow> True"

definition accounts_of :: "string \<Rightarrow> rust_account list option" where
  "accounts_of method = map_option riAccounts (List.find (\<lambda>r. riName r = method) program_instructions)"

definition program_accepts :: "env \<Rightarrow> program_call \<Rightarrow> bool" where
  "program_accepts E c \<longleftrightarrow> (case accounts_of (callMethod c) of
       None \<Rightarrow> False
     | Some as \<Rightarrow> list_all (\<lambda>a. rule_accepts E c (key_of c (raName a)) (raRule a) \<and>
         class_accepts E (key_of c (raName a)) (raClass a)) as)"

section \<open>The calls of the SDK\<close>

lemma methods:
  "accounts_of ''swap'' = Some SwapAccounts"
  "accounts_of ''bootstrapLiquidity'' = Some BootstrapLiquidityAccounts"
  "accounts_of ''addImbalanceLiquidity'' = Some AddOrRemoveBalanceLiquidityAccounts"
  "accounts_of ''addBalanceLiquidity'' = Some AddOrRemoveBalanceLiquidityAccounts"
  "accounts_of ''removeBalanceLiquidity'' = Some AddOrRemoveBalanceLiquidityAccounts"
  "accounts_of ''removeLiquiditySingleSide'' = Some RemoveLiquiditySingleSideAccounts"
  "accounts_of ''createLockEscrow'' = Some CreateLockEscrowAccounts"
  "accounts_of ''lock'' = Some LockAccounts"
  "accounts_of ''claimFee'' = Some ClaimFeeAccounts"
  "accounts_of ''createConfig'' = Some CreateConfigAccounts"
  "accounts_of ''initializePermissionlessPoolWithFeeTier'' = Some InitializePermissionlessPoolWithFeeTierAccounts"
  "accounts_of ''initializePermissionlessConstantProductPoolWithConfig'' =
    Some InitializePermissionlessConstantProductPoolWithConfigAccounts"
  "accounts_of ''initializePermissionlessConstantProductPoolWithConfig2'' =
    Some InitializePermissionlessConstantProductPoolWithConfigAccounts"
  by (simp_all add: accounts_of_def program_instructions_def)

text \<open>Structures that leave every address to the handler.\<close>

definition unconstrained :: "rust_account \<Rightarrow> bool" where
  "unconstrained a \<longleftrightarrow> raRule a \<in> {Passed, Mutable} \<and> raClass a \<in> {Unchecked, Signer}"

lemma unconstrained_accepts:
  "accounts_of (callMethod c) = Some as \<Longrightarrow> list_all unconstrained as \<Longrightarrow> program_accepts E c"
  by (auto simp: program_accepts_def list_all_iff unconstrained_def)

lemma unconstrained_structures:
  "list_all unconstrained SwapAccounts" "list_all unconstrained BootstrapLiquidityAccounts"
  "list_all unconstrained AddOrRemoveBalanceLiquidityAccounts"
  "list_all unconstrained RemoveLiquiditySingleSideAccounts"
  "list_all unconstrained LockAccounts" "list_all unconstrained ClaimFeeAccounts"
  by (simp_all add: unconstrained_def SwapAccounts_def BootstrapLiquidityAccounts_def
      AddOrRemoveBalanceLiquidityAccounts_def RemoveLiquiditySingleSideAccounts_def LockAccounts_def
      ClaimFeeAccounts_def)

definition free_methods :: "string set" where
  "free_methods = {''swap'', ''bootstrapLiquidity'', ''addImbalanceLiquidity'', ''addBalanceLiquidity'',
     ''removeBalanceLiquidity'', ''removeLiquiditySingleSide'', ''lock'', ''claimFee''}"

lemma free_method_accepted: "callMethod c \<in> free_methods \<Longrightarrow> program_accepts E c"
  unfolding free_methods_def
  by (elim insertE emptyE; (rule unconstrained_accepts, simp add: methods, simp add: unconstrained_structures))

lemma first_second_keys:
  "toBuffer (get_first_key a b) = getFirstKey a b" "toBuffer (get_second_key a b) = getSecondKey a b"
  by (auto simp: first_key_max second_key_min get_first_key_def get_second_key_def max_def min_def)

lemma escrow_accepted:
  "program_accepts E (createLockEscrowCall E program pool
    (fst (deriveLockEscrowPda (envFns E) pool owner program)) owner lp payer)"
  by (simp add: program_accepts_def createLockEscrowCall_def methods CreateLockEscrowAccounts_def key_of_def
      deriveLockEscrowPda_def)

text \<open>The creations pass the addresses they derive from the same parts.\<close>

lemma initialize_keys:
  assumes "callAccounts c = initializeAccounts E np own"
  shows "key_of c ''pool'' = npPool np" "key_of c ''tokenAMint'' = npMintA np" "key_of c ''tokenBMint'' = npMintB np"
    "key_of c ''aVault'' = pdaVault (npVaultA np)" "key_of c ''bVault'' = pdaVault (npVaultB np)"
    "key_of c ''aVaultLp'' = npVaultALp E np" "key_of c ''bVaultLp'' = npVaultBLp E np"
    "key_of c ''lpMint'' = npLpMint E np" "key_of c ''payerPoolLp'' = npPayerPoolLp E np"
    "key_of c ''protocolTokenAFee'' = npProtocolFee E np (npMintA np)"
    "key_of c ''protocolTokenBFee'' = npProtocolFee E np (npMintB np)"
  by (simp_all add: key_of_def assms initializeAccounts_def)

lemma initialize_programs:
  assumes "callAccounts c = initializeAccounts E np own"
    and "set (map fst own) \<subseteq> {''payer'', ''config'', ''feeOwner''}"
  shows "key_of c ''rent'' = SYSVAR_RENT_PUBKEY E" "key_of c ''tokenProgram'' = TOKEN_PROGRAM_ID E"
    "key_of c ''systemProgram'' = SystemProgram_programId E"
    "key_of c ''associatedTokenProgram'' = ASSOCIATED_TOKEN_PROGRAM_ID E"
proof -
  have "map_of own n = None" if "n \<notin> {''payer'', ''config'', ''feeOwner''}" for n
    using that assms(2) by (auto simp: map_of_eq_None_iff)
  then show "key_of c ''rent'' = SYSVAR_RENT_PUBKEY E" "key_of c ''tokenProgram'' = TOKEN_PROGRAM_ID E"
    "key_of c ''systemProgram'' = SystemProgram_programId E"
    "key_of c ''associatedTokenProgram'' = ASSOCIATED_TOKEN_PROGRAM_ID E"
    by (simp_all add: key_of_def assms(1) initializeAccounts_def map_add_def)
qed

text \<open>The demands that all creations share.\<close>

lemma derived_accounts:
  assumes "callAccounts c = initializeAccounts E np own" and "callProgram c = npProgram np"
    and "map_of own ''payer'' = Some (npPayer np)"
  shows "rule_accepts E c (npLpMint E np) (Init [Text ''lp_mint'', KeyOf ''pool''])"
    "rule_accepts E c (npVaultALp E np) (Init [KeyOf ''aVault'', KeyOf ''pool''])"
    "rule_accepts E c (npVaultBLp E np) (Init [KeyOf ''bVault'', KeyOf ''pool''])"
    "rule_accepts E c (npPayerPoolLp E np) (InitAssociated ''lpMint'' ''payer'')"
    "rule_accepts E c (npProtocolFee E np (npMintA np)) (Init [Text ''fee'', KeyOf ''tokenAMint'', KeyOf ''pool''])"
    "rule_accepts E c (npProtocolFee E np (npMintB np)) (Init [Text ''fee'', KeyOf ''tokenBMint'', KeyOf ''pool''])"
proof -
  have "key_of c ''payer'' = npPayer np"
    using assms(1,3) by (simp add: key_of_def initializeAccounts_def map_add_Some_iff)
  with assms(2) initialize_keys [OF assms(1)] show
    "rule_accepts E c (npLpMint E np) (Init [Text ''lp_mint'', KeyOf ''pool''])"
    "rule_accepts E c (npVaultALp E np) (Init [KeyOf ''aVault'', KeyOf ''pool''])"
    "rule_accepts E c (npVaultBLp E np) (Init [KeyOf ''bVault'', KeyOf ''pool''])"
    "rule_accepts E c (npPayerPoolLp E np) (InitAssociated ''lpMint'' ''payer'')"
    "rule_accepts E c (npProtocolFee E np (npMintA np)) (Init [Text ''fee'', KeyOf ''tokenAMint'', KeyOf ''pool''])"
    "rule_accepts E c (npProtocolFee E np (npMintB np)) (Init [Text ''fee'', KeyOf ''tokenBMint'', KeyOf ''pool''])"
    by (simp_all add: npLpMint_def npVaultALp_def npVaultBLp_def npPayerPoolLp_def npProtocolFee_def
        deriveLpMint_def deriveVaultLp_def getAssociatedTokenAccount_def)
qed

lemma with_config_accepted:
  assumes "callMethod c \<in> {''initializePermissionlessConstantProductPoolWithConfig'',
      ''initializePermissionlessConstantProductPoolWithConfig2''}"
    and "callAccounts c = initializeAccounts E np [(''payer'', npPayer np), (''config'', config)]"
    and "callProgram c = npProgram np"
    and "npPool np = derivePoolAddressWithConfig (envFns E) (npMintA np) (npMintB np) config (npProgram np)"
  shows "program_accepts E c"
proof -
  have "accounts_of (callMethod c) = Some InitializePermissionlessConstantProductPoolWithConfigAccounts"
    using assms(1) by (auto simp: methods)
  moreover have "key_of c ''config'' = config"
    by (simp add: key_of_def assms(2) initializeAccounts_def)
  ultimately show ?thesis
    using derived_accounts [OF assms(2,3)] initialize_programs [OF assms(2)] assms(3,4)
    by (simp add: program_accepts_def InitializePermissionlessConstantProductPoolWithConfigAccounts_def
        initialize_keys [OF assms(2)] derivePoolAddressWithConfig_def first_second_keys)
qed

lemma fee_tier_accepted_iff:
  assumes "c = \<lparr>callProgram = npProgram np, callMethod = ''initializePermissionlessPoolWithFeeTier'',
      callArgs = [ValCurveType curve, ValBN bps, ValBN n1, ValBN n2],
      callAccounts = initializeAccounts E np [(''feeOwner'', owner), (''payer'', npPayer np)], callRemaining = []\<rparr>"
    and "npPool np = fst (findProgramAddressSync (envFns E)
      [[encodeCurveType curve], getFirstKey (npMintA np) (npMintB np), getSecondKey (npMintA np) (npMintB np), buf]
      (npProgram np))"
    and "getTradeFeeBpsBuffer curve bps = Inr buf" and "pda_law (envFns E)" and "0 \<le> bps" and "bps < 2 ^ 64"
  shows "program_accepts E c \<longleftrightarrow> (encodeCurveType curve = 1 \<longrightarrow> bps \<notin> {1, 25})"
proof -
  let ?seeds = "\<lambda>fee. [[encodeCurveType curve], getFirstKey (npMintA np) (npMintB np),
    getSecondKey (npMintA np) (npMintB np), fee]"
  have accounts: "callAccounts c = initializeAccounts E np [(''feeOwner'', owner), (''payer'', npPayer np)]"
    "callProgram c = npProgram np" by (simp_all add: assms(1))
  have num: "uint (word_of_int bps :: u64) = bps" using assms(5,6) by (simp add: uint_word_of_int)
  have nonempty: "leBytes 8 v \<noteq> []" for v by (metis length_leBytes list.size(3) zero_neq_numeral)
  define fee where "fee = (if bps = 25 then [] else leBytes 8 bps)"
  have twenty_five: "(word_of_int bps :: u64) = 25 \<longleftrightarrow> bps = 25"
    unfolding word_uint_eq_iff num by simp
  have "get_curve_type curve = encodeCurveType curve" by (cases curve) simp_all
  then have "program_accepts E c \<longleftrightarrow> npPool np = fst (findProgramAddressSync (envFns E) (?seeds fee) (npProgram np))"
    using derived_accounts [OF accounts] initialize_programs [OF accounts(1)]
    by (simp add: program_accepts_def assms(1) methods InitializePermissionlessPoolWithFeeTierAccounts_def
        initialize_keys [OF accounts(1), unfolded assms(1)] first_second_keys fee_bytes twenty_five num fee_def)
  also have "\<dots> \<longleftrightarrow> buf = fee"
  proof
    assume "npPool np = fst (findProgramAddressSync (envFns E) (?seeds fee) (npProgram np))"
    then show "buf = fee" using pda_lawD [OF assms(4), of "?seeds buf" _ "?seeds fee"] assms(2) by simp
  qed (simp add: assms(2))
  also have "\<dots> \<longleftrightarrow> (encodeCurveType curve = 1 \<longrightarrow> bps \<notin> {1, 25})"
    using assms(3,5) nonempty nonempty [symmetric]
    by (cases curve) (auto simp: getTradeFeeBpsBuffer_def fee_def toBufferLE_def STABLE_SWAP_DEFAULT_TRADE_FEE_BPS_def
        CONSTANT_PRODUCT_DEFAULT_TRADE_FEE_BPS_def split: if_splits)
  finally show ?thesis .
qed

text \<open>The address of a new configuration belongs to the index that is sent.\<close>

lemma found_index:
  assumes "findConfigIndex F configs program index = Some (Inr (i, pda))" and "0 \<le> index"
  shows "0 \<le> i \<and> configPdaAt F program i = Inr pda"
proof -
  let ?P = "\<lambda>F configs program index (r :: (int \<times> pubkey) result). 0 \<le> index \<longrightarrow>
    (\<forall>i pda. r = Inr (i, pda) \<longrightarrow> 0 \<le> i \<and> configPdaAt F program i = Inr pda)"
  have "?P F configs program index (Inr (i, pda))"
  proof (rule findConfigIndex.raw_induct [where P = ?P, OF _ assms(1)])
    fix find F configs program index r
    assume IH: "\<And>F configs program index r. find F configs program index = Some r \<Longrightarrow> ?P F configs program index r"
      and step: "(let pda = configPdaAt F program index in
        if isl pda then Some (Inl (projl pda))
        else if projr pda \<in> set configs then find F configs program (index + 1)
        else Some (Inr (index, projr pda))) = Some r"
    show "?P F configs program index r"
    proof (cases "configPdaAt F program index")
      case (Inl e)
      then have "r = Inl e" using step by (simp add: Let_def)
      then show ?thesis by blast
    next
      case (Inr k)
      show ?thesis
      proof (cases "k \<in> set configs")
        case True
        then have next_step: "find F configs program (index + 1) = Some r" using step Inr by (simp add: Let_def)
        show ?thesis
        proof (intro impI allI)
          fix j k assume "0 \<le> index" "r = Inr (j, k)"
          then show "0 \<le> j \<and> configPdaAt F program j = Inr k"
            using IH [OF next_step, rule_format, of j k] by linarith
        qed
      next
        case False
        then have "r = Inr (index, k)" using step Inr by (simp add: Let_def)
        then show ?thesis using Inr by blast
      qed
    qed
  qed
  with assms(2) show ?thesis by blast
qed

text \<open>
  The structure of the crate has no vault configuration key, so the program would read the index out
  of the key of the pool creator: a configuration is accepted only where bytes 1 to 8 of that key
  spell its index.
\<close>

definition index_read :: "pubkey \<Rightarrow> int" where
  "index_read authority = leValue (take 8 (drop 1 (toBuffer authority)))"

lemma config_accepted_iff:
  assumes "configPdaAt (envFns E) program (argIndex p) = Inr pda" and "0 \<le> argIndex p"
    and "valid_pubkey (argVaultConfigKey p)" and "valid_pubkey (argPoolCreatorAuthority p)"
    and "pda_law (envFns E)"
  shows "program_accepts E \<lparr>callProgram = program, callMethod = ''createConfig'', callArgs = [ValConfigParameters p],
    callAccounts = [(''config'', pda), (''systemProgram'', SystemProgram_programId E), (''admin'', payer)],
    callRemaining = []\<rparr> \<longleftrightarrow> argIndex p = index_read (argPoolCreatorAuthority p)"
proof -
  let ?n = "index_read (argPoolCreatorAuthority p)"
  have pda: "pda = fst (findProgramAddressSync (envFns E) [bytesOf ''config'', leBytes 8 (argIndex p)] program)"
    and small: "argIndex p < 256 ^ 8"
    using assms(1,2) by (auto simp: configPdaAt_def deriveConfigPda_def toBufferLE_def bnOfNumber_def and_then_eq_Inr_iff
        split: if_splits)
  have n: "0 \<le> ?n" "?n < 256 ^ 8"
    using leValue_less [of "take 8 (drop 1 (toBuffer (argPoolCreatorAuthority p)))"] assms(4)
    by (simp_all add: index_read_def leValue_nonneg valid_pubkey_def)
  have "uint (word_of_int ?n :: u64) = ?n" using n by (simp add: uint_word_of_int)
  then have "program_accepts E \<lparr>callProgram = program, callMethod = ''createConfig'', callArgs = [ValConfigParameters p],
      callAccounts = [(''config'', pda), (''systemProgram'', SystemProgram_programId E), (''admin'', payer)],
      callRemaining = []\<rparr> \<longleftrightarrow>
    pda = fst (findProgramAddressSync (envFns E) [bytesOf ''config'', leBytes 8 ?n] program)"
    by (simp add: program_accepts_def methods CreateConfigAccounts_def key_of_def CONFIG_PREFIX_def
        index_sent [OF assms(3,4)] index_read_def del: index_argument.simps)
  also have "\<dots> \<longleftrightarrow> argIndex p = ?n"
  proof
    assume "pda = fst (findProgramAddressSync (envFns E) [bytesOf ''config'', leBytes 8 ?n] program)"
    then have "leBytes 8 (argIndex p) = leBytes 8 ?n"
      using pda_lawD [OF assms(5), of "[bytesOf ''config'', leBytes 8 (argIndex p)]" program
          "[bytesOf ''config'', leBytes 8 ?n]" program] pda by simp
    then have "leValue (leBytes 8 (argIndex p)) = leValue (leBytes 8 ?n)" by simp
    then show "argIndex p = ?n" using n small assms(2) by (simp add: leValue_leBytes)
  qed (simp add: pda)
  finally show ?thesis .
qed

section \<open>Every call of a transaction\<close>

abbreviation accepted_transaction :: "env \<Rightarrow> transaction \<Rightarrow> bool" where
  "accepted_transaction E tx \<equiv> list_all (program_accepts E) (programCalls (instructions tx))"

lemma swap_accepted: "swap E owner mint inAmount out ref self = Inr tx \<Longrightarrow> accepted_transaction E tx"
  by (auto simp: swap_def Let_def split_def ix_simps swapCall_def free_methods_def intro!: free_method_accepted
      split: option.splits if_splits)

lemma deposit_accepted: "deposit E owner inA inB lp self = Inr tx \<Longrightarrow> accepted_transaction E tx"
  by (auto simp: deposit_def Let_def split_def ix_simps depositMethod_def free_methods_def
      intro!: free_method_accepted split: if_splits)

lemma withdraw_accepted: "withdraw E owner lp outA outB self = Inr tx \<Longrightarrow> accepted_transaction E tx"
  by (auto simp: withdraw_def Let_def split_def ix_simps withdrawCall_def free_methods_def
      intro!: free_method_accepted split: if_splits)

lemma lock_accepted: "lockLiquidity E owner amount payer self = Inr tx \<Longrightarrow> accepted_transaction E tx"
  by (auto simp: lockLiquidity_def Let_def split_def ix_simps free_methods_def escrow_accepted
      intro!: free_method_accepted split: option.splits)

lemma claim_accepted: "claimLockFee E owner maxAmount self = Inr tx \<Longrightarrow> accepted_transaction E tx"
  by (auto simp: claimLockFee_def Let_def split_def ix_simps free_methods_def intro!: free_method_accepted)

lemma createConfig_call:
  assumes "createConfig E payer trade protocol vault duration authority activation program = Some (Inr tx)"
  obtains configs i pda where
    "findConfigIndex (envFns E) configs (createProgramId program) 0 = Some (Inr (i, pda))" and
    "programCalls (instructions tx) =
      [\<lparr>callProgram = createProgramId program, callMethod = ''createConfig'',
        callArgs = [ValConfigParameters
          \<lparr>argTradeFeeNumerator = trade * 10, argProtocolTradeFeeNumerator = protocol * 10,
           argVaultConfigKey = vault, argActivationDuration = duration, argPoolCreatorAuthority = authority,
           argIndex = i, argActivationType = activation\<rparr>],
        callAccounts = [(''config'', pda), (''systemProgram'', SystemProgram_programId E), (''admin'', payer)],
        callRemaining = []\<rparr>]"
  using assms
  by (auto simp: createConfig_def and_then_eq_Inr_iff ix_simps split: sum.splits)

lemma createConfig_accepted_iff:
  assumes "createConfig E payer trade protocol vault duration authority activation program = Some (Inr tx)"
    and "valid_pubkey vault" and "valid_pubkey authority" and "pda_law (envFns E)"
  shows "\<exists>index. map (callArgs) (programCalls (instructions tx)) =
      [[ValConfigParameters
          \<lparr>argTradeFeeNumerator = trade * 10, argProtocolTradeFeeNumerator = protocol * 10,
           argVaultConfigKey = vault, argActivationDuration = duration, argPoolCreatorAuthority = authority,
           argIndex = index, argActivationType = activation\<rparr>]] \<and>
    (accepted_transaction E tx \<longleftrightarrow> index = index_read authority)"
proof -
  obtain configs i pda where
    found: "findConfigIndex (envFns E) configs (createProgramId program) 0 = Some (Inr (i, pda))" and
    calls: "programCalls (instructions tx) =
      [\<lparr>callProgram = createProgramId program, callMethod = ''createConfig'',
        callArgs = [ValConfigParameters
          \<lparr>argTradeFeeNumerator = trade * 10, argProtocolTradeFeeNumerator = protocol * 10,
           argVaultConfigKey = vault, argActivationDuration = duration, argPoolCreatorAuthority = authority,
           argIndex = i, argActivationType = activation\<rparr>],
        callAccounts = [(''config'', pda), (''systemProgram'', SystemProgram_programId E), (''admin'', payer)],
        callRemaining = []\<rparr>]"
    by (rule createConfig_call [OF assms(1)])
  let ?p = "\<lparr>argTradeFeeNumerator = trade * 10, argProtocolTradeFeeNumerator = protocol * 10,
    argVaultConfigKey = vault, argActivationDuration = duration, argPoolCreatorAuthority = authority,
    argIndex = i, argActivationType = activation\<rparr>"
  have "0 \<le> argIndex ?p \<and> configPdaAt (envFns E) (createProgramId program) (argIndex ?p) = Inr pda"
    using found_index [OF found] by simp
  then have "program_accepts E \<lparr>callProgram = createProgramId program, callMethod = ''createConfig'',
      callArgs = [ValConfigParameters ?p],
      callAccounts = [(''config'', pda), (''systemProgram'', SystemProgram_programId E), (''admin'', payer)],
      callRemaining = []\<rparr> \<longleftrightarrow> i = index_read authority"
    using config_accepted_iff [of E "createProgramId program" ?p pda payer] assms(2-4) by simp
  then show ?thesis by (simp add: calls)
qed

lemma creation_calls:
  assumes "creationTransactions E payer pre main first = Inr txs" and "tx \<in> set txs"
  shows "list_all (program_accepts E) (programCalls pre) \<Longrightarrow> list_all (program_accepts E) (programCalls main) \<Longrightarrow>
    list_all (program_accepts E) (case first of None \<Rightarrow> [] | Some ix \<Rightarrow> callsBy ix) \<Longrightarrow> accepted_transaction E tx"
  using assms by (auto simp: creationTransactions_Inr calls.whole_simps split: option.splits if_splits)

lemma vault_call_free:
  "setUpVault E payer mint = Inr (pdas, lp, ix) \<Longrightarrow> (case ix of None \<Rightarrow> [] | Some x \<Rightarrow> callsBy x) = []"
  by (auto simp: setUpVault_def Let_def and_then_eq_Inr_iff split: option.splits if_splits)

lemma wrapFor_calls: "programCalls (wrapFor E payer mint account amount) = []"
  by (simp add: wrapFor_def ix_simps)

lemma lockNew_accepted: "list_all (program_accepts E) (programCalls (lockNewLiquidity E np))"
  by (auto simp: lockNewLiquidity_def Let_def split_def ix_simps escrow_accepted free_methods_def
      intro!: free_method_accepted)

lemma swapNew_accepted:
  "list_all (program_accepts E) (case first of None \<Rightarrow> []
    | Some x \<Rightarrow> (callsBy \<circ> (\<lambda>p. swapNewLiquidity E np (fst p) (snd p))) x)"
  by (auto simp: swapNewLiquidity_def free_methods_def intro!: free_method_accepted split: option.splits)

lemma with_config_call:
  assumes "method \<in> {''initializePermissionlessConstantProductPoolWithConfig'',
      ''initializePermissionlessConstantProductPoolWithConfig2''}"
  shows "program_accepts E \<lparr>callProgram = program, callMethod = method, callArgs = args,
    callAccounts = initializeAccounts E
      \<lparr>npProgram = program, npPayer = payer,
       npPool = derivePoolAddressWithConfig (envFns E) mintA mintB config program, npMintA = mintA, npMintB = mintB,
       npVaultA = vA, npVaultB = vB, npVaultALpMint = lpA, npVaultBLpMint = lpB, npPayerTokenA = tA, npPayerTokenB = tB\<rparr>
      [(''payer'', payer), (''config'', config)],
    callRemaining = []\<rparr>"
  using assms
  by (intro with_config_accepted [where config = config and np =
      "\<lparr>npProgram = program, npPayer = payer,
       npPool = derivePoolAddressWithConfig (envFns E) mintA mintB config program, npMintA = mintA, npMintB = mintB,
       npVaultA = vA, npVaultB = vB, npVaultALpMint = lpA, npVaultBLpMint = lpB, npPayerTokenA = tA, npPayerTokenB = tB\<rparr>"])
    simp_all

lemma config2_accepted:
  assumes "createPermissionlessConstantProductPoolWithConfig2 E payer mintA mintB amountA amountB config program opt
      = Inr txs" and "tx \<in> set txs"
  shows "accepted_transaction E tx"
proof -
  from assms(1) obtain vA lpA ixA vB lpB ixB where
    A: "setUpVault E payer mintA = Inr (vA, lpA, ixA)" and B: "setUpVault E payer mintB = Inr (vB, lpB, ixB)"
    by (auto simp: createPermissionlessConstantProductPoolWithConfig2_def Let_def and_then_eq_Inr_iff)
  show ?thesis
    using assms unfolding createPermissionlessConstantProductPoolWithConfig2_def Let_def split_def A B and_then_Inr prod.sel
    by (elim creation_calls)
      (simp_all add: ix_simps vault_call_free [OF A] vault_call_free [OF B] wrapFor_calls lockNew_accepted
        swapNew_accepted with_config_call)
qed

lemma config_accepted_transactions:
  assumes "createPermissionlessConstantProductPoolWithConfig E payer mintA mintB amountA amountB config program opt
      = Inr txs" and "tx \<in> set txs"
  shows "accepted_transaction E tx"
proof -
  from assms(1) obtain vA lpA ixA vB lpB ixB where
    A: "setUpVault E payer mintA = Inr (vA, lpA, ixA)" and B: "setUpVault E payer mintB = Inr (vB, lpB, ixB)"
    by (auto simp: createPermissionlessConstantProductPoolWithConfig_def Let_def and_then_eq_Inr_iff)
  show ?thesis
    using assms unfolding createPermissionlessConstantProductPoolWithConfig_def Let_def split_def A B and_then_Inr prod.sel
    by (elim creation_calls)
      (simp_all add: ix_simps vault_call_free [OF A] vault_call_free [OF B] wrapFor_calls lockNew_accepted
        swapNew_accepted with_config_call)
qed

lemma pool_creation_call:
  assumes "createPermissionlessPool E payer infoA infoB amountA amountB isStable fee program skip = Inr tx"
  shows "\<exists>np curve buf. programCalls (instructions tx) =
      [\<lparr>callProgram = npProgram np, callMethod = ''initializePermissionlessPoolWithFeeTier'',
        callArgs = [ValCurveType curve, ValBN fee, ValBN amountA, ValBN amountB],
        callAccounts = initializeAccounts E np [(''feeOwner'', FEE_OWNER), (''payer'', npPayer np)],
        callRemaining = []\<rparr>] \<and>
    generateCurveType infoA infoB isStable = Inr curve \<and> getTradeFeeBpsBuffer curve fee = Inr buf \<and>
    npPool np = fst (findProgramAddressSync (envFns E)
      [[encodeCurveType curve], getFirstKey (npMintA np) (npMintB np), getSecondKey (npMintA np) (npMintB np), buf]
      (npProgram np))"
proof -
  from assms obtain curve pool vA lpA ixA vB lpB ixB where
    curve: "generateCurveType infoA infoB isStable = Inr curve" and
    A: "setUpVault E payer (infoAddress infoA) = Inr (vA, lpA, ixA)" and
    B: "setUpVault E payer (infoAddress infoB) = Inr (vB, lpB, ixB)" and
    pool: "derivePoolAddress (envFns E) infoA infoB isStable fee program = Inr pool"
    by (auto simp: createPermissionlessPool_def Let_def and_then_eq_Inr_iff)
  define np where "np = \<lparr>npProgram = createProgramId program, npPayer = payer, npPool = pool,
    npMintA = infoAddress infoA, npMintB = infoAddress infoB, npVaultA = vA, npVaultB = vB,
    npVaultALpMint = lpA, npVaultBLpMint = lpB, npPayerTokenA = ataOf E (infoAddress infoA) payer,
    npPayerTokenB = ataOf E (infoAddress infoB) payer\<rparr>"
  have parts: "npProgram np = createProgramId program" "npPayer np = payer" "npPool np = pool"
    "npMintA np = infoAddress infoA" "npMintB np = infoAddress infoB" by (simp_all add: np_def)
  have "programCalls (instructions tx) =
    [\<lparr>callProgram = npProgram np, callMethod = ''initializePermissionlessPoolWithFeeTier'',
      callArgs = [ValCurveType curve, ValBN fee, ValBN amountA, ValBN amountB],
      callAccounts = initializeAccounts E np [(''feeOwner'', FEE_OWNER), (''payer'', npPayer np)],
      callRemaining = []\<rparr>]"
    using assms unfolding createPermissionlessPool_def Let_def split_def curve A B pool and_then_Inr prod.sel parts
    by (auto simp: ix_simps vault_call_free [OF A] vault_call_free [OF B] wrapFor_calls np_def)
  moreover obtain buf where "getTradeFeeBpsBuffer curve fee = Inr buf" "pool = fst (findProgramAddressSync (envFns E)
    [[encodeCurveType curve], getFirstKey (infoAddress infoA) (infoAddress infoB),
      getSecondKey (infoAddress infoA) (infoAddress infoB), buf] (createProgramId program))"
    using pool by (auto simp: derivePoolAddress_def curve Let_def and_then_eq_Inr_iff)
  ultimately show ?thesis using curve
    by (intro exI [of _ np] exI [of _ curve] exI [of _ buf]) (simp add: parts)
qed

text \<open>
  C11: Every call the SDK builds, but for those of two methods, passes the program the accounts that it
  derives itself from the other accounts and the arguments of the call: pools with a configuration,
  pool mints, vault shares, fee accounts, lock escrows, associated token accounts and the known
  programs are where the account structures of the crate look for them. The two methods are the
  creation of a pool with a fee of its own, which is the next property, and \<open>createConfig\<close>, whose
  index the crate would read at another place than the SDK writes it (\<open>createConfig_accepted_iff\<close>).
\<close>

theorem built_calls_accepted:
  assumes "built E tx" and "c \<in> set (programCalls (instructions tx))"
    and "callMethod c \<notin> {''initializePermissionlessPoolWithFeeTier'', ''createConfig''}"
  shows "program_accepts E c"
proof -
  have "list_all (\<lambda>c. callMethod c \<notin> {''initializePermissionlessPoolWithFeeTier'', ''createConfig''} \<longrightarrow>
      program_accepts E c) (programCalls (instructions tx))"
    using assms(1)
  proof cases
    case (by_pool self)
    then have "accepted_transaction E tx"
      by (cases rule: pool_transaction.cases)
        (blast dest: swap_accepted deposit_accepted withdraw_accepted lock_accepted claim_accepted)+
    then show ?thesis by (simp add: list_all_iff)
  next
    case by_pool_creation
    then show ?thesis by (auto dest!: pool_creation_call)
  next
    case by_createConfig
    then show ?thesis by (elim createConfig_call) simp
  qed (blast dest: config2_accepted config_accepted_transactions
      intro: list.pred_mono_strong)+
  with assms(2,3) show ?thesis by (simp add: list_all_iff)
qed

theorem built_calls_accepted_witness:
  "\<exists>tx c. lockLiquidity example_env (key 40) 1000 None example_pool_object = Inr tx \<and>
     c \<in> set (programCalls (instructions tx)) \<and> callMethod c = ''createLockEscrow'' \<and>
     program_accepts example_env c"
proof -
  let ?escrow = "fst (deriveLockEscrowPda (envFns example_env) (ammAddress example_pool_object) (key 40)
    (ammProgramId example_pool_object))"
  let ?c = "createLockEscrowCall example_env (ammProgramId example_pool_object) (ammAddress example_pool_object)
    ?escrow (key 40) (lpMint (ammPoolState example_pool_object)) (key 40)"
  obtain tx where tx: "lockLiquidity example_env (key 40) 1000 None example_pool_object = Inr tx"
    by (simp add: lockLiquidity_def Let_def split_def example_env_def)
  moreover have "lockEscrowAccount (envChain example_env) ?escrow = None"
    by (simp add: example_env_def example_chain_def)
  ultimately have "?c \<in> set (programCalls (instructions tx))"
    by (auto simp: lockLiquidity_def Let_def split_def ix_simps)
  moreover have "callMethod ?c = ''createLockEscrow''" by (simp add: createLockEscrowCall_def)
  ultimately show ?thesis using tx built_calls_accepted [OF by_pool [OF of_lock [OF tx]], of ?c] by auto
qed

text \<open>
  C23: A pool with a fee of its own is created at the address the program demands, with one exception:
  for stable pools the SDK leaves a fee of 1 basis point out of the seeds, the program one of 25,
  whatever the curve. So exactly the stable pools with one of these two fees are refused.
\<close>

theorem pool_creation_accepted_iff:
  assumes "createPermissionlessPool E payer infoA infoB amountA amountB isStable fee program skip = Inr tx"
    and "pda_law (envFns E)" and "0 \<le> fee" and "fee < 2 ^ 64"
  shows "accepted_transaction E tx \<longleftrightarrow> \<not> (isStable \<and> fee \<in> {1, 25})"
proof -
  from pool_creation_call [OF assms(1)] obtain np curve buf where
    calls: "programCalls (instructions tx) =
      [\<lparr>callProgram = npProgram np, callMethod = ''initializePermissionlessPoolWithFeeTier'',
        callArgs = [ValCurveType curve, ValBN fee, ValBN amountA, ValBN amountB],
        callAccounts = initializeAccounts E np [(''feeOwner'', FEE_OWNER), (''payer'', npPayer np)],
        callRemaining = []\<rparr>]" and
    curve: "generateCurveType infoA infoB isStable = Inr curve" "getTradeFeeBpsBuffer curve fee = Inr buf" and
    pool: "npPool np = fst (findProgramAddressSync (envFns E)
      [[encodeCurveType curve], getFirstKey (npMintA np) (npMintB np), getSecondKey (npMintA np) (npMintB np), buf]
      (npProgram np))" by blast
  show ?thesis
    using fee_tier_accepted_iff [OF refl pool curve(2) assms(2-4), of amountA amountB FEE_OWNER]
      encode_generated [OF curve(1)] by (simp add: calls)
qed

theorem pool_creation_accepted_iff_witness:
  "\<exists>tx. createPermissionlessPool example_env (key 40) \<lparr>infoAddress = key 2, infoDecimals = 6\<rparr>
       \<lparr>infoAddress = key 3, infoDecimals = 9\<rparr> 500 700 True 25 None False = Inr tx \<and>
     \<not> accepted_transaction example_env tx"
proof -
  have "\<exists>tx. createPermissionlessPool example_env (key 40) \<lparr>infoAddress = key 2, infoDecimals = 6\<rparr>
       \<lparr>infoAddress = key 3, infoDecimals = 9\<rparr> 500 700 True 25 None False = Inr tx"
    by (simp add: createPermissionlessPool_def Let_def split_def setUpVault_def derivePoolAddress_def
        generateCurveType_def computeTokenMultiplier_def bnOfNumber_def getTradeFeeBpsBuffer_def toBufferLE_def
        STABLE_SWAP_DEFAULT_TRADE_FEE_BPS_def example_env_def)
  then obtain tx where tx: "createPermissionlessPool example_env (key 40) \<lparr>infoAddress = key 2, infoDecimals = 6\<rparr>
       \<lparr>infoAddress = key 3, infoDecimals = 9\<rparr> 500 700 True 25 None False = Inr tx" by blast
  from pool_creation_accepted_iff [OF tx example_env_laws(2)] tx show ?thesis by auto
qed

end
