(* ===== verification/Ledger.thy ===== *)
theory Ledger
  imports Acceptance
begin

text \<open>
  What is checked of the accounts and signatures of a transaction before a handler runs. A ledger is
  the set of addresses that exist. An instruction passes when the accounts it makes do not exist yet,
  the ones it loads do, and a call of the program passes the addresses the program demands: this is
  what the account structures of the crates check, and what the programs of the platform are
  documented to check. A transaction passes when all its instructions do, one after the other, and
  none of them needs a signature but that of the fee payer. Funds are not part of a ledger: the
  handlers are empty in the repository, so what a call moves cannot be said, and a transaction that
  passes can still fail for want of lamports or tokens, or by a check of its handler.
\<close>

section \<open>Checking instructions\<close>

fun initializes :: "account_rule \<Rightarrow> bool" where
  "initializes (Init seeds) = True"
| "initializes (InitAssociated mint owner) = True"
| "initializes InitSigned = True"
| "initializes rule = False"

fun closes_account :: "account_rule \<Rightarrow> bool" where
  "closes_account (Closed receiver) = True"
| "closes_account rule = False"

fun is_loaded :: "account_class \<Rightarrow> bool" where
  "is_loaded (Loaded d) = True"
| "is_loaded cls = False"

text \<open>The keys passed for the fields of a structure that a predicate selects.\<close>

definition field_keys :: "(rust_account \<Rightarrow> bool) \<Rightarrow> program_call \<Rightarrow> pubkey list" where
  "field_keys P c = (case accounts_of (callMethod c) of
       None \<Rightarrow> []
     | Some as \<Rightarrow> map (\<lambda>a. key_of c (raName a)) (filter P as))"

text \<open>
  The vault SDK makes a vault by \<open>initialize\<close> of the vault program, which initializes the vault, its
  token account and its LP mint.
\<close>

fun makes :: "env \<Rightarrow> instruction \<Rightarrow> pubkey list" where
  "makes E (ProgramCall c) = field_keys (\<lambda>a. initializes (raRule a)) c"
| "makes E (CreateAssociatedTokenAccount payer account owner mint) = [account]"
| "makes E (VaultInstruction payer mint) =
     (let v = getVaultPdas E mint in [pdaVault v, pdaTokenVault v, pdaLpMint v])"
| "makes E ix = []"

fun loads :: "instruction \<Rightarrow> pubkey list" where
  "loads (ProgramCall c) = field_keys (\<lambda>a. is_loaded (raClass a) \<and> \<not> initializes (raRule a)) c"
| "loads (CreateAssociatedTokenAccount payer account owner mint) = [mint]"
| "loads (CloseAccount account dest owner) = [account]"
| "loads (VaultInstruction payer mint) = [mint]"
| "loads ix = []"

fun closes :: "instruction \<Rightarrow> pubkey list" where
  "closes (ProgramCall c) = field_keys (\<lambda>a. closes_account (raRule a)) c"
| "closes (CloseAccount account dest owner) = [account]"
| "closes ix = []"

fun well_addressed :: "env \<Rightarrow> instruction \<Rightarrow> bool" where
  "well_addressed E (ProgramCall c) \<longleftrightarrow> program_accepts E c"
| "well_addressed E (CreateAssociatedTokenAccount payer account owner mint) \<longleftrightarrow>
     account = getAssociatedTokenAccount (envFns E) mint owner"
| "well_addressed E ix \<longleftrightarrow> True"

type_synonym ledger = "pubkey set"

definition check_step :: "env \<Rightarrow> instruction \<Rightarrow> ledger \<Rightarrow> ledger option" where
  "check_step E ix L =
     (if well_addressed E ix \<and> set (loads ix) \<subseteq> L \<and> distinct (makes E ix) \<and> set (makes E ix) \<inter> L = {}
      then Some (L \<union> set (makes E ix) - set (closes ix)) else None)"

text \<open>The instructions of a transaction, of which all pass or none.\<close>

fun check_accounts :: "env \<Rightarrow> instruction list \<Rightarrow> ledger \<Rightarrow> ledger option" where
  "check_accounts E [] L = Some L"
| "check_accounts E (ix # ixs) L = Option.bind (check_step E ix L) (check_accounts E ixs)"

text \<open>Only the fee payer signs the transactions of the SDK.\<close>

definition signed :: "transaction \<Rightarrow> bool" where
  "signed tx \<longleftrightarrow> (\<forall>ix \<in> set (instructions tx). signersOf ix \<subseteq> {feePayer tx})"

definition pass_transaction :: "env \<Rightarrow> transaction \<Rightarrow> ledger \<Rightarrow> ledger option" where
  "pass_transaction E tx L = (if signed tx then check_accounts E (instructions tx) L else None)"

fun all_pass :: "env \<Rightarrow> transaction list \<Rightarrow> ledger \<Rightarrow> ledger option" where
  "all_pass E [] L = Some L"
| "all_pass E (tx # txs) L = Option.bind (pass_transaction E tx L) (all_pass E txs)"

text \<open>
  The chain between the transactions of one sender: the next one passes and takes effect, or others
  make accounts, but none of those the sender is about to make.
\<close>

inductive chain_step :: "env \<Rightarrow> pubkey set \<Rightarrow> ledger \<times> transaction list \<Rightarrow> ledger \<times> transaction list \<Rightarrow> bool"
  for E own where
  passed: "pass_transaction E tx L = Some L' \<Longrightarrow> chain_step E own (L, tx # txs) (L', txs)"
| others: "new \<inter> own = {} \<Longrightarrow> chain_step E own (L, txs) (L \<union> new, txs)"

section \<open>Lists that pass\<close>

definition made :: "env \<Rightarrow> instruction list \<Rightarrow> pubkey list" where
  "made E ixs = concat (map (makes E) ixs)"

interpretation makings: reading "makes E" "made E" "(@)" "[]" for E
  by unfold_locales (simp_all add: made_def)

text \<open>Every account that is loaded exists or is made before.\<close>

fun orderly :: "env \<Rightarrow> ledger \<Rightarrow> instruction list \<Rightarrow> bool" where
  "orderly E L [] \<longleftrightarrow> True"
| "orderly E L (ix # ixs) \<longleftrightarrow> set (loads ix) \<subseteq> L \<and> orderly E (L \<union> set (makes E ix)) ixs"

lemma orderly_append: "orderly E L (xs @ ys) \<longleftrightarrow> orderly E L xs \<and> orderly E (L \<union> set (made E xs)) ys"
  by (induction xs arbitrary: L) (auto simp: makings.whole_simps Un_assoc)

lemma orderly_mono: "orderly E L ixs \<Longrightarrow> L \<subseteq> L' \<Longrightarrow> orderly E L' ixs"
proof (induction ixs arbitrary: L L')
  case (Cons ix ixs)
  then show ?case using Cons.IH [of "L \<union> set (makes E ix)" "L' \<union> set (makes E ix)"] by auto
qed simp

definition checkable :: "env \<Rightarrow> ledger \<Rightarrow> instruction list \<Rightarrow> bool" where
  "checkable E L ixs \<longleftrightarrow> list_all (\<lambda>ix. well_addressed E ix \<and> closes ix = []) ixs \<and> orderly E L ixs \<and>
     distinct (made E ixs) \<and> set (made E ixs) \<inter> L = {}"

lemma checkable_Cons:
  "checkable E L (ix # ixs) \<longleftrightarrow> (\<exists>L'. check_step E ix L = Some L' \<and> L' = L \<union> set (makes E ix) \<and> closes ix = [] \<and>
     set (makes E ix) \<inter> set (made E ixs) = {} \<and> checkable E L' ixs)"
  by (auto simp: checkable_def check_step_def makings.whole_simps)

lemma checkable_check:
  "checkable E L (xs @ ys) \<Longrightarrow> \<exists>L'. check_accounts E xs L = Some L' \<and> L' = L \<union> set (made E xs) \<and> checkable E L' ys"
proof (induction xs arbitrary: L)
  case (Cons ix xs)
  then obtain L' where "check_step E ix L = Some L'" "L' = L \<union> set (makes E ix)" "checkable E L' (xs @ ys)"
    by (auto simp: checkable_Cons)
  with Cons.IH [of L'] show ?case by (auto simp: makings.whole_simps)
qed (simp add: makings.whole_simps)

lemma checkable_others:
  "checkable E L ixs \<Longrightarrow> new \<inter> set (made E ixs) = {} \<Longrightarrow> checkable E (L \<union> new) ixs"
  using orderly_mono [of E L ixs "L \<union> new"] by (auto simp: checkable_def)

abbreviation all_instructions :: "transaction list \<Rightarrow> instruction list" where
  "all_instructions txs \<equiv> concat (map instructions txs)"

text \<open>What remains to be sent still passes, whatever others do.\<close>

lemma chain_invariant:
  assumes "(chain_step E own)\<^sup>*\<^sup>* (L, txs) (L', rest)" and "checkable E L (all_instructions txs)"
    and "own = set (made E (all_instructions txs))" and "list_all signed txs"
  shows "list_all signed rest \<and> checkable E L' (all_instructions rest) \<and> L \<subseteq> L' \<and> own \<subseteq> L' \<union> set (made E (all_instructions rest)) \<and>
    set (made E (all_instructions rest)) \<subseteq> own"
  using assms(1)
proof (induction "(L', rest)" arbitrary: L' rest rule: rtranclp_induct)
  case base
  then show ?case using assms(2-4) by simp
next
  case (step s)
  obtain M txs' where s: "s = (M, txs')" by (cases s)
  note IH = step.hyps(3) [OF s]
  from step.hyps(2) [unfolded s] show ?case
  proof cases
    case (passed tx)
    with IH checkable_check [of E M "instructions tx" "all_instructions rest"]
    show ?thesis by (auto simp: makings.whole_simps pass_transaction_def split: if_splits)
  next
    case (others new)
    with IH checkable_others [of E M "all_instructions rest" new] show ?thesis by auto
  qed
qed

lemma checkable_passes:
  "checkable E L (all_instructions txs) \<Longrightarrow> list_all signed txs \<Longrightarrow> all_pass E txs L = Some (L \<union> set (made E (all_instructions txs)))"
proof (induction txs arbitrary: L)
  case (Cons tx txs)
  with checkable_check [of E L "instructions tx" "all_instructions txs"]
  show ?case by (auto simp: makings.whole_simps Un_assoc pass_transaction_def)
qed (simp add: makings.whole_simps)

section \<open>Creating a pool\<close>

text \<open>
  The ledger that the SDK read when it built a creation: an account is reported when it exists, a
  vault that exists has its accounts, and for the others the vault SDK makes an instruction.
\<close>

definition read_from :: "env \<Rightarrow> ledger \<Rightarrow> bool" where
  "read_from E L \<longleftrightarrow> (\<forall>k. accountInfo (envChain E) k = None \<longleftrightarrow> k \<notin> L) \<and>
     (\<forall>mint. case fetchVaultLpMint E (pdaVault (getVaultPdas E mint)) of
        None \<Rightarrow> makesVaultInstruction E mint = Inr True
      | Some lp \<Rightarrow> {pdaTokenVault (getVaultPdas E mint), lp} \<subseteq> L)"

lemma vault_available:
  assumes "setUpVault E payer mint = Inr (v, lp, ix)" and "read_from E L"
  shows "pdaTokenVault v \<in> L \<union> set (case ix of None \<Rightarrow> [] | Some x \<Rightarrow> makes E x)"
    and "lp \<in> L \<union> set (case ix of None \<Rightarrow> [] | Some x \<Rightarrow> makes E x)"
    and "(case ix of None \<Rightarrow> [] | Some x \<Rightarrow> loads x) = [] \<or> (case ix of None \<Rightarrow> [] | Some x \<Rightarrow> loads x) = [mint]"
    and "pred_option (\<lambda>ix. well_addressed E ix \<and> closes ix = []) ix"
proof -
  have "case fetchVaultLpMint E (pdaVault (getVaultPdas E mint)) of
        None \<Rightarrow> makesVaultInstruction E mint = Inr True
      | Some lp \<Rightarrow> {pdaTokenVault (getVaultPdas E mint), lp} \<subseteq> L"
    using assms(2) unfolding read_from_def by blast
  with assms(1) show "pdaTokenVault v \<in> L \<union> set (case ix of None \<Rightarrow> [] | Some x \<Rightarrow> makes E x)"
    "lp \<in> L \<union> set (case ix of None \<Rightarrow> [] | Some x \<Rightarrow> makes E x)"
    "(case ix of None \<Rightarrow> [] | Some x \<Rightarrow> loads x) = [] \<or> (case ix of None \<Rightarrow> [] | Some x \<Rightarrow> loads x) = [mint]"
    "pred_option (\<lambda>ix. well_addressed E ix \<and> closes ix = []) ix"
    by (auto simp: setUpVault_def Let_def split: option.splits)
qed

lemma ata_makes [ix_simps]:
  "(case snd (getOrCreateATAInstruction E mint owner payer) of None \<Rightarrow> [] | Some ix \<Rightarrow> makes E' ix) =
    missing E (ataOf E mint owner)"
  by (simp add: getOrCreateATAInstruction_def missing_def Let_def split: option.splits)

lemma ata_fine:
  "pred_option (\<lambda>ix. well_addressed E ix \<and> closes ix = []) (snd (getOrCreateATAInstruction E mint owner payer))"
  by (simp add: getOrCreateATAInstruction_def Let_def split: option.splits)

lemma list_all_push: "list_all P (push x xs) \<longleftrightarrow> list_all P xs \<and> pred_option P x"
  by (cases x) auto

lemma orderly_push:
  "orderly E L (push x xs) \<longleftrightarrow> orderly E L xs \<and>
    set (case x of None \<Rightarrow> [] | Some ix \<Rightarrow> loads ix) \<subseteq> L \<union> set (made E xs)"
  by (cases x) (auto simp: orderly_append)

lemma ata_loads:
  "set (case snd (getOrCreateATAInstruction E mint owner payer) of None \<Rightarrow> [] | Some ix \<Rightarrow> loads ix) \<subseteq> {mint}"
  by (simp add: getOrCreateATAInstruction_def Let_def split: option.splits)

lemma wrapFor_ledger:
  "list_all (\<lambda>ix. well_addressed E ix \<and> closes ix = []) (wrapFor E payer mint account amount)"
  "made E (wrapFor E payer mint account amount) = []" "orderly E L (wrapFor E payer mint account amount)"
  by (simp_all add: wrapFor_def wrapSOLInstruction_def makings.whole_simps)

lemma missing_read: "read_from E L \<Longrightarrow> k \<in> L \<union> set (missing E k)"
  unfolding read_from_def by auto

text \<open>What the calls of a creation make and load.\<close>

lemma with_config_fields:
  assumes "callMethod c \<in> {''initializePermissionlessConstantProductPoolWithConfig'',
      ''initializePermissionlessConstantProductPoolWithConfig2''}"
    and "callAccounts c = initializeAccounts E np [(''payer'', npPayer np), (''config'', config)]"
  shows "makes E' (ProgramCall c) = [npPool np, npLpMint E np, npVaultALp E np, npVaultBLp E np, npPayerPoolLp E np,
      npProtocolFee E np (npMintA np), npProtocolFee E np (npMintB np)]"
    and "loads (ProgramCall c) = [config, npMintA np, npMintB np, pdaTokenVault (npVaultA np),
      pdaTokenVault (npVaultB np), npVaultALpMint np, npVaultBLpMint np, npPayerTokenA np, npPayerTokenB np]"
    and "closes (ProgramCall c) = []"
proof -
  have "accounts_of (callMethod c) = Some InitializePermissionlessConstantProductPoolWithConfigAccounts"
    using assms(1) by (auto simp: methods)
  moreover have "key_of c ''config'' = config" "key_of c ''aTokenVault'' = pdaTokenVault (npVaultA np)"
    "key_of c ''bTokenVault'' = pdaTokenVault (npVaultB np)" "key_of c ''aVaultLpMint'' = npVaultALpMint np"
    "key_of c ''bVaultLpMint'' = npVaultBLpMint np" "key_of c ''payerTokenA'' = npPayerTokenA np"
    "key_of c ''payerTokenB'' = npPayerTokenB np"
    by (simp_all add: key_of_def assms(2) initializeAccounts_def)
  ultimately show "makes E' (ProgramCall c) = [npPool np, npLpMint E np, npVaultALp E np, npVaultBLp E np,
      npPayerPoolLp E np, npProtocolFee E np (npMintA np), npProtocolFee E np (npMintB np)]"
    "loads (ProgramCall c) = [config, npMintA np, npMintB np, pdaTokenVault (npVaultA np),
      pdaTokenVault (npVaultB np), npVaultALpMint np, npVaultBLpMint np, npPayerTokenA np, npPayerTokenB np]"
    "closes (ProgramCall c) = []"
    by (simp_all add: field_keys_def InitializePermissionlessConstantProductPoolWithConfigAccounts_def
        initialize_keys [OF assms(2)])
qed

lemma lock_ledger:
  "list_all (\<lambda>ix. well_addressed E ix \<and> closes ix = []) (lockNewLiquidity E np)"
  "npLpMint E np \<in> L \<Longrightarrow> orderly E L (lockNewLiquidity E np)"
  "made E (lockNewLiquidity E np) =
    fst (deriveLockEscrowPda (envFns E) (npPool np) (npPayer np) (npProgram np)) #
    missing E (ataOf E (npLpMint E np) (fst (deriveLockEscrowPda (envFns E) (npPool np) (npPayer np) (npProgram np))))"
proof -
  have escrow: "makes E (ProgramCall (createLockEscrowCall E p pool k owner lp payer)) = [k]"
    "loads (ProgramCall (createLockEscrowCall E p pool k owner lp payer)) = []"
    "closes (ProgramCall (createLockEscrowCall E p pool k owner lp payer)) = []" for p pool k owner lp payer
    by (simp_all add: field_keys_def createLockEscrowCall_def methods CreateLockEscrowAccounts_def key_of_def)
  have lock: "makes E (ProgramCall c) = []" "loads (ProgramCall c) = []" "closes (ProgramCall c) = []"
    "program_accepts E c" if "callMethod c = ''lock''" for c
    using that free_method_accepted [of c E]
    by (simp_all add: field_keys_def methods LockAccounts_def free_methods_def)
  show "list_all (\<lambda>ix. well_addressed E ix \<and> closes ix = []) (lockNewLiquidity E np)"
    by (simp add: lockNewLiquidity_def Let_def split_def list_all_push ata_fine escrow_accepted escrow lock del: makes.simps loads.simps closes.simps)
  show "orderly E L (lockNewLiquidity E np)" if "npLpMint E np \<in> L"
    using that ata_loads [of E "npLpMint E np" _ "Some (npPayer np)"]
    by (auto simp: lockNewLiquidity_def Let_def split_def orderly_push orderly_append escrow lock makings.whole_simps
        simp del: makes.simps loads.simps closes.simps)
  show "made E (lockNewLiquidity E np) =
    fst (deriveLockEscrowPda (envFns E) (npPool np) (npPayer np) (npProgram np)) #
    missing E (ataOf E (npLpMint E np) (fst (deriveLockEscrowPda (envFns E) (npPool np) (npPayer np) (npProgram np))))"
    by (simp add: lockNewLiquidity_def Let_def split_def makings.whole_simps ata_makes escrow lock del: makes.simps)
qed

lemma swap_ledger:
  "list_all (\<lambda>ix. well_addressed E ix \<and> closes ix = []) (case first of None \<Rightarrow> [] | Some (x, y) \<Rightarrow> [swapNewLiquidity E np x y])"
  "orderly E L (case first of None \<Rightarrow> [] | Some (x, y) \<Rightarrow> [swapNewLiquidity E np x y])"
  "made E (case first of None \<Rightarrow> [] | Some (x, y) \<Rightarrow> [swapNewLiquidity E np x y]) = []"
proof -
  have swap: "makes E (ProgramCall c) = []" "loads (ProgramCall c) = []" "closes (ProgramCall c) = []"
    "program_accepts E c" if "callMethod c = ''swap''" for c
    using that free_method_accepted [of c E]
    by (simp_all add: field_keys_def methods SwapAccounts_def free_methods_def)
  show "list_all (\<lambda>ix. well_addressed E ix \<and> closes ix = []) (case first of None \<Rightarrow> [] | Some (x, y) \<Rightarrow> [swapNewLiquidity E np x y])"
    "orderly E L (case first of None \<Rightarrow> [] | Some (x, y) \<Rightarrow> [swapNewLiquidity E np x y])"
    "made E (case first of None \<Rightarrow> [] | Some (x, y) \<Rightarrow> [swapNewLiquidity E np x y]) = []"
    by (simp_all add: swapNewLiquidity_def swap makings.whole_simps del: makes.simps loads.simps closes.simps
        split: option.splits)
qed

lemma creation_instructions:
  "creationTransactions E payer pre main (map_option (\<lambda>(x, y). f x y) first) = Inr txs \<Longrightarrow>
    all_instructions txs = pre @ main @ (case first of None \<Rightarrow> [] | Some (x, y) \<Rightarrow> [f x y])"
  by (auto simp: creationTransactions_Inr split: option.splits)

lemma limit_ledger:
  "makes E (SetComputeUnitLimit n) = []" "loads (SetComputeUnitLimit n) = []" "closes (SetComputeUnitLimit n) = []"
  by simp_all

text \<open>The instructions of both creations with a configuration, in their order.\<close>

lemma creation_orderly:
  assumes A: "setUpVault E payer mintA = Inr (vA, lpA, ixA)" and B: "setUpVault E payer mintB = Inr (vB, lpB, ixB)"
    and read: "read_from E L" and exist: "{mintA, mintB, config} \<subseteq> L"
    and np: "np = \<lparr>npProgram = program, npPayer = payer,
      npPool = derivePoolAddressWithConfig (envFns E) mintA mintB config program, npMintA = mintA, npMintB = mintB,
      npVaultA = vA, npVaultB = vB, npVaultALpMint = lpA, npVaultBLpMint = lpB,
      npPayerTokenA = ataOf E mintA payer, npPayerTokenB = ataOf E mintB payer\<rparr>"
    and ixs: "ixs = (push (snd (getOrCreateATAInstruction E mintB payer None))
        (push (snd (getOrCreateATAInstruction E mintA payer None)) (push ixB (push ixA []))) @
        wrapFor E payer mintA (ataOf E mintA payer) amountA @ wrapFor E payer mintB (ataOf E mintB payer) amountB) @
      (SetComputeUnitLimit 1400000 # ProgramCall c # (if locked then lockNewLiquidity E np else [])) @
      (case first of None \<Rightarrow> [] | Some (x, y) \<Rightarrow> [swapNewLiquidity E np x y])"
    and c: "callMethod c \<in> {''initializePermissionlessConstantProductPoolWithConfig'',
      ''initializePermissionlessConstantProductPoolWithConfig2''}" "callProgram c = program"
      "callAccounts c = initializeAccounts E np [(''payer'', payer), (''config'', config)]"
  shows "list_all (\<lambda>ix. well_addressed E ix \<and> closes ix = []) ixs \<and> orderly E L ixs \<and>
    {npPool np, npLpMint E np} \<subseteq> set (made E ixs) \<and>
    (locked \<longrightarrow> fst (deriveLockEscrowPda (envFns E) (npPool np) payer program) \<in> set (made E ixs))"
proof -
  have accounts: "callAccounts c = initializeAccounts E np [(''payer'', npPayer np), (''config'', config)]"
    using c(3) np by simp
  have accepted: "program_accepts E c"
    using with_config_accepted [OF c(1) accounts] c(2) np by simp
  note fields = with_config_fields [OF c(1) accounts]
  note vaults = vault_available [OF A read] vault_available [OF B read]
  note simps = ixs accepted fields list_all_push ata_fine wrapFor_ledger lock_ledger swap_ledger limit_ledger ix_simps
    makings.whole_simps orderly_append orderly_push
  have atas: "ataOf E mint owner \<in> L \<union> set (missing E (ataOf E mint owner))" for mint owner
    using missing_read [OF read] by blast
  have loaded: "set (case ixA of None \<Rightarrow> [] | Some x \<Rightarrow> loads x) \<subseteq> L"
    "set (case ixB of None \<Rightarrow> [] | Some x \<Rightarrow> loads x) \<subseteq> L"
    using vaults exist by auto
  have "list_all (\<lambda>ix. well_addressed E ix \<and> closes ix = []) ixs"
    using vaults by (simp add: simps del: makes.simps loads.simps closes.simps)
  moreover have "orderly E L ixs"
  proof -
    let ?pre = "push (snd (getOrCreateATAInstruction E mintB payer None))
      (push (snd (getOrCreateATAInstruction E mintA payer None)) (push ixB (push ixA []))) @
      wrapFor E payer mintA (ataOf E mintA payer) amountA @ wrapFor E payer mintB (ataOf E mintB payer) amountB"
    have made_pre: "made E ?pre = (case ixA of None \<Rightarrow> [] | Some x \<Rightarrow> makes E x) @
        (case ixB of None \<Rightarrow> [] | Some x \<Rightarrow> makes E x) @ missing E (ataOf E mintA payer) @ missing E (ataOf E mintB payer)"
      by (simp add: simps del: makes.simps)
    have "set (case snd (getOrCreateATAInstruction E mint payer None) of None \<Rightarrow> [] | Some ix \<Rightarrow> loads ix) \<subseteq> L"
      if "mint \<in> L" for mint
      using ata_loads [of E mint payer None] that by blast
    then have "orderly E L ?pre"
      using loaded exist by (simp add: orderly_append orderly_push wrapFor_ledger le_supI1)
    moreover have "set (loads (ProgramCall c)) \<subseteq> L \<union> set (made E ?pre)"
      unfolding fields made_pre set_append np using vaults(1,2,5,6) atas [of mintA payer] atas [of mintB payer] exist
      by (simp del: set_missing) blast
    moreover have "npLpMint E np \<in> L \<union> set (made E ?pre) \<union> set (makes E (ProgramCall c))"
      unfolding fields by simp
    ultimately show ?thesis
      unfolding ixs orderly_append by (simp add: limit_ledger lock_ledger swap_ledger del: makes.simps loads.simps)
  qed
  moreover have "{npPool np, npLpMint E np} \<subseteq> set (made E ixs)"
    by (simp add: simps del: makes.simps loads.simps closes.simps)
  moreover have "locked \<longrightarrow> fst (deriveLockEscrowPda (envFns E) (npPool np) payer program) \<in> set (made E ixs)"
    by (simp add: simps np del: makes.simps loads.simps closes.simps)
  ultimately show ?thesis by blast
qed

lemma config2_checkable:
  assumes "createPermissionlessConstantProductPoolWithConfig2 E payer mintA mintB amountA amountB config program opt
      = Inr txs"
    and "read_from E L" and "{mintA, mintB, config} \<subseteq> L"
  shows "(distinct (made E (all_instructions txs)) \<and> set (made E (all_instructions txs)) \<inter> L = {} \<longrightarrow>
      checkable E L (all_instructions txs)) \<and>
    (let pool = derivePoolAddressWithConfig (envFns E) mintA mintB config (createProgramId program) in
     {pool, deriveLpMint (envFns E) pool (createProgramId program)} \<subseteq> set (made E (all_instructions txs)) \<and>
     (optLockLiquidity opt \<longrightarrow>
       fst (deriveLockEscrowPda (envFns E) pool payer (createProgramId program)) \<in> set (made E (all_instructions txs))))"
proof -
  from assms(1) obtain vA lpA ixA vB lpB ixB where
    A: "setUpVault E payer mintA = Inr (vA, lpA, ixA)" and B: "setUpVault E payer mintB = Inr (vB, lpB, ixB)"
    by (auto simp: createPermissionlessConstantProductPoolWithConfig2_def Let_def and_then_eq_Inr_iff)
  define np where "np = \<lparr>npProgram = createProgramId program, npPayer = payer,
      npPool = derivePoolAddressWithConfig (envFns E) mintA mintB config (createProgramId program), npMintA = mintA,
      npMintB = mintB, npVaultA = vA, npVaultB = vB, npVaultALpMint = lpA, npVaultBLpMint = lpB,
      npPayerTokenA = ataOf E mintA payer, npPayerTokenB = ataOf E mintB payer\<rparr>"
  let ?c = "\<lparr>callProgram = createProgramId program,
      callMethod = ''initializePermissionlessConstantProductPoolWithConfig2'',
      callArgs = [ValBN amountA, ValBN amountB, ValOptionBN (optActivationPoint opt)],
      callAccounts = initializeAccounts E np [(''payer'', payer), (''config'', config)], callRemaining = []\<rparr>"
  have "creationTransactions E payer
    (push (snd (getOrCreateATAInstruction E mintB payer None))
      (push (snd (getOrCreateATAInstruction E mintA payer None)) (push ixB (push ixA []))) @
      wrapFor E payer mintA (ataOf E mintA payer) amountA @ wrapFor E payer mintB (ataOf E mintB payer) amountB)
    (SetComputeUnitLimit 1400000 # ProgramCall ?c # (if optLockLiquidity opt then lockNewLiquidity E np else []))
    (map_option (\<lambda>(x, y). swapNewLiquidity E np x y) (optSwapLiquidity opt)) = Inr txs"
    using assms(1) unfolding createPermissionlessConstantProductPoolWithConfig2_def A B and_then_Inr Let_def
      split_def prod.sel ata_account append_Cons append_Nil np_def .
  note ixs = creation_instructions [OF this]
  from creation_orderly [OF A B assms(2,3) np_def ixs] show ?thesis
    by (simp add: checkable_def Let_def np_def npLpMint_def)
qed

lemma existing_account: "read_from E L \<Longrightarrow> ataOf E mint owner \<in> L \<Longrightarrow> snd (getOrCreateATAInstruction E mint owner payer) = None"
  by (auto simp: read_from_def getOrCreateATAInstruction_def Let_def split: option.splits)

lemma config_checkable:
  assumes "createPermissionlessConstantProductPoolWithConfig E payer mintA mintB amountA amountB config program opt
      = Inr txs"
    and "read_from E L" and "{mintA, mintB, config} \<subseteq> L"
    and skip: "optSkipAAta opt \<Longrightarrow> ataOf E mintA payer \<in> L" "optSkipBAta opt \<Longrightarrow> ataOf E mintB payer \<in> L"
  shows "(distinct (made E (all_instructions txs)) \<and> set (made E (all_instructions txs)) \<inter> L = {} \<longrightarrow>
      checkable E L (all_instructions txs)) \<and>
    (let pool = derivePoolAddressWithConfig (envFns E) mintA mintB config (createProgramId program) in
     {pool, deriveLpMint (envFns E) pool (createProgramId program)} \<subseteq> set (made E (all_instructions txs)) \<and>
     (optLockLiquidity opt \<longrightarrow>
       fst (deriveLockEscrowPda (envFns E) pool payer (createProgramId program)) \<in> set (made E (all_instructions txs))))"
proof -
  from assms(1) obtain vA lpA ixA vB lpB ixB where
    A: "setUpVault E payer mintA = Inr (vA, lpA, ixA)" and B: "setUpVault E payer mintB = Inr (vB, lpB, ixB)"
    by (auto simp: createPermissionlessConstantProductPoolWithConfig_def Let_def and_then_eq_Inr_iff)
  define np where "np = \<lparr>npProgram = createProgramId program, npPayer = payer,
      npPool = derivePoolAddressWithConfig (envFns E) mintA mintB config (createProgramId program), npMintA = mintA,
      npMintB = mintB, npVaultA = vA, npVaultB = vB, npVaultALpMint = lpA, npVaultBLpMint = lpB,
      npPayerTokenA = ataOf E mintA payer, npPayerTokenB = ataOf E mintB payer\<rparr>"
  let ?c = "\<lparr>callProgram = createProgramId program,
      callMethod = ''initializePermissionlessConstantProductPoolWithConfig'',
      callArgs = [ValBN amountA, ValBN amountB],
      callAccounts = initializeAccounts E np [(''payer'', payer), (''config'', config)], callRemaining = []\<rparr>"
  let ?in = "case optSwapLiquidity opt of None \<Rightarrow> 0 | Some (inAmount, minOut) \<Rightarrow> inAmount"
  have skipped:
    "(if optSkipAAta opt then None else snd (getOrCreateATAInstruction E mintA payer None)) =
      snd (getOrCreateATAInstruction E mintA payer None)"
    "(if optSkipBAta opt then None else snd (getOrCreateATAInstruction E mintB payer None)) =
      snd (getOrCreateATAInstruction E mintB payer None)"
    using existing_account [OF assms(2)] skip by auto
  have "creationTransactions E payer
    (push (snd (getOrCreateATAInstruction E mintB payer None))
      (push (snd (getOrCreateATAInstruction E mintA payer None)) (push ixB (push ixA []))) @
      wrapFor E payer mintA (ataOf E mintA payer) amountA @ wrapFor E payer mintB (ataOf E mintB payer) (amountB + ?in))
    (SetComputeUnitLimit 1400000 # ProgramCall ?c # (if optLockLiquidity opt then lockNewLiquidity E np else []))
    (map_option (\<lambda>(x, y). swapNewLiquidity E np x y) (optSwapLiquidity opt)) = Inr txs"
    using assms(1) unfolding createPermissionlessConstantProductPoolWithConfig_def A B and_then_Inr Let_def
      split_def prod.sel ata_account append_Cons append_Nil np_def skipped .
  note ixs = creation_instructions [OF this]
  from creation_orderly [OF A B assms(2,3) np_def ixs] show ?thesis
    by (simp add: checkable_def Let_def np_def npLpMint_def)
qed

text \<open>Both creations with a configuration; the first may skip token accounts that exist.\<close>

definition config_creation :: "env \<Rightarrow> ledger \<Rightarrow> pubkey \<Rightarrow> pubkey \<Rightarrow> pubkey \<Rightarrow> int \<Rightarrow> int \<Rightarrow> pubkey \<Rightarrow>
    pubkey option \<Rightarrow> pool_options \<Rightarrow> transaction list \<Rightarrow> bool" where
  "config_creation E L payer mintA mintB amountA amountB config program opt txs \<longleftrightarrow>
     createPermissionlessConstantProductPoolWithConfig2 E payer mintA mintB amountA amountB config program opt = Inr txs \<or>
     createPermissionlessConstantProductPoolWithConfig E payer mintA mintB amountA amountB config program opt = Inr txs \<and>
       (optSkipAAta opt \<longrightarrow> ataOf E mintA payer \<in> L) \<and> (optSkipBAta opt \<longrightarrow> ataOf E mintB payer \<in> L)"

lemma creation_signed:
  assumes "config_creation E L payer mintA mintB amountA amountB config program opt txs"
  shows "list_all signed txs"
proof -
  have "self_contained tx" if "tx \<in> set txs" for tx
    using assms unfolding config_creation_def
    by (elim disjE conjE) (rule config2_self_contained [OF _ that] config_self_contained [OF _ that], assumption)+
  then show ?thesis by (fastforce simp: list_all_iff signed_def self_contained_def sound_def)
qed

text \<open>
  C12: No transaction of a pool creation with a configuration fails for an account or a signature. When
  no account that the creation makes exists and their addresses do not collide, the transactions of
  either creation with a configuration, with locking and first swap as the options say, pass the
  checks of their accounts and signatures in their order: whichever of them have taken effect, and
  whatever accounts others have made meanwhile, as long as they made none that the creation makes
  itself, the rest passes, and then the pool, the mint of its shares and, when the liquidity is
  locked, the lock escrow exist. Whether the payer has the funds is another matter.
\<close>

theorem creation_passes:
  assumes "config_creation E L payer mintA mintB amountA amountB config program opt txs"
    and "read_from E L" and "{mintA, mintB, config} \<subseteq> L"
    and "distinct (made E (all_instructions txs))" and "set (made E (all_instructions txs)) \<inter> L = {}"
    and "(chain_step E (set (made E (all_instructions txs))))\<^sup>*\<^sup>* (L, txs) (L', rest)"
    and "pool = derivePoolAddressWithConfig (envFns E) mintA mintB config (createProgramId program)"
  shows "\<exists>final. all_pass E rest L' = Some final \<and> L \<subseteq> final \<and>
    {pool, deriveLpMint (envFns E) pool (createProgramId program)} \<subseteq> final \<and>
    (optLockLiquidity opt \<longrightarrow> fst (deriveLockEscrowPda (envFns E) pool payer (createProgramId program)) \<in> final)"
proof -
  note parts = config2_checkable [OF _ assms(2,3)] config_checkable [OF _ assms(2,3)]
  then have made: "checkable E L (all_instructions txs) \<and>
    (let pool = derivePoolAddressWithConfig (envFns E) mintA mintB config (createProgramId program) in
     {pool, deriveLpMint (envFns E) pool (createProgramId program)} \<subseteq> set (made E (all_instructions txs)) \<and>
     (optLockLiquidity opt \<longrightarrow>
       fst (deriveLockEscrowPda (envFns E) pool payer (createProgramId program)) \<in> set (made E (all_instructions txs))))"
    using assms(1,4,5) unfolding config_creation_def by blast
  note invariant = chain_invariant [OF assms(6) made [THEN conjunct1] refl creation_signed [OF assms(1)]]
  then have "all_pass E rest L' = Some (L' \<union> set (made E (all_instructions rest)))"
    by (blast intro: checkable_passes)
  moreover have "set (made E (all_instructions txs)) \<subseteq> L' \<union> set (made E (all_instructions rest))"
    "L \<subseteq> L' \<union> set (made E (all_instructions rest))" using invariant by blast+
  ultimately show ?thesis using made unfolding assms(7) Let_def by blast
qed

text \<open>An environment with two mints and a configuration, and addresses that spell out what they are made of.\<close>

definition ledger_env :: env where
  "ledger_env = example_env
     \<lparr>envChain := example_chain\<lparr>accountInfo := (\<lambda>k. if k \<in> {key 2, key 3, key 50} then Some [] else None)\<rparr>,
      envFns := \<lparr>findProgramAddressSync = (\<lambda>seeds program. (PublicKey (100 # concat seeds), 0)),
        getAssociatedTokenAddressSync = (\<lambda>mint owner. PublicKey (101 # toBuffer mint @ toBuffer owner))\<rparr>,
      getVaultPdas := (\<lambda>mint. \<lparr>pdaVault = PublicKey (102 # toBuffer mint), pdaTokenVault = PublicKey (103 # toBuffer mint),
        pdaLpMint = PublicKey (104 # toBuffer mint)\<rparr>),
      fetchVaultLpMint := (\<lambda>vault. None)\<rparr>"

definition ledger_options :: pool_options where
  "ledger_options = \<lparr>optLockLiquidity = True, optSwapLiquidity = Some (30, 20), optActivationPoint = None,
     optSkipAAta = False, optSkipBAta = False\<rparr>"

definition ledger_transactions :: "transaction list" where
  "ledger_transactions = projr (createPermissionlessConstantProductPoolWithConfig ledger_env (key 40) (key 2) (key 3)
     500 700 (key 50) None ledger_options)"

lemma ledger_transactions:
  "createPermissionlessConstantProductPoolWithConfig ledger_env (key 40) (key 2) (key 3) 500 700 (key 50) None
    ledger_options = Inr ledger_transactions"
proof -
  have "isl (createPermissionlessConstantProductPoolWithConfig ledger_env (key 40) (key 2) (key 3) 500 700 (key 50)
    None ledger_options) = False" by code_simp
  then show ?thesis by (simp add: ledger_transactions_def)
qed

lemma ledger_creation:
  "config_creation ledger_env L (key 40) (key 2) (key 3) 500 700 (key 50) None ledger_options ledger_transactions"
  unfolding config_creation_def
  by (intro disjI2 conjI) (simp add: ledger_transactions, simp_all add: ledger_options_def)

lemma ledger_addresses:
  "distinct (made ledger_env (all_instructions ledger_transactions))"
  "list_all (\<lambda>k. k \<notin> {key 2, key 3, key 50, key 99}) (made ledger_env (all_instructions ledger_transactions))"
  by code_simp+

theorem creation_passes_witness:
  "\<exists>final. all_pass ledger_env ledger_transactions {key 2, key 3, key 50, key 99} = Some final \<and>
    derivePoolAddressWithConfig (envFns ledger_env) (key 2) (key 3) (key 50) PROGRAM_ID \<in> final"
proof -
  let ?own = "set (made ledger_env (all_instructions ledger_transactions))" and ?L = "{key 2, key 3, key 50}"
  have fresh: "?own \<inter> ?L = {}" "{key 99} \<inter> ?own = {}" using ledger_addresses(2) by (auto simp: list_all_iff)
  have read: "read_from ledger_env ?L" by (simp add: read_from_def ledger_env_def example_env_def)
  have "chain_step ledger_env ?own (?L, ledger_transactions) (?L \<union> {key 99}, ledger_transactions)"
    using fresh(2) by (rule chain_step.others)
  then have "(chain_step ledger_env ?own)\<^sup>*\<^sup>* (?L, ledger_transactions) (?L \<union> {key 99}, ledger_transactions)"
    by (rule r_into_rtranclp)
  from creation_passes [OF ledger_creation read _ ledger_addresses(1) fresh(1) this refl]
  show ?thesis by (auto simp: createProgramId_def insert_commute)
qed

end
