(* ===== verification/AccountChecks.thy ===== *)
theory AccountChecks
  imports Ledger
begin

text \<open>
  The transactions of a pool object against the checks of their accounts and signatures. \<open>Ledger\<close> says
  when a transaction passes; here every transaction that \<open>swap\<close>, \<open>deposit\<close>, \<open>withdraw\<close>,
  \<open>lockLiquidity\<close> and \<open>claimLockFee\<close> build does, but for two. Funds are not part of a ledger.
\<close>

section \<open>Instructions that ask for nothing new\<close>

text \<open>An instruction that closes nothing and loads only accounts that exist.\<close>

definition modest :: "env \<Rightarrow> ledger \<Rightarrow> instruction \<Rightarrow> bool" where
  "modest E M ix \<longleftrightarrow> well_addressed E ix \<and> closes ix = [] \<and> set (loads ix) \<subseteq> M"

lemma modest_orderly: "list_all (modest E M) ixs \<Longrightarrow> orderly E M ixs"
proof (induction ixs)
  case (Cons ix ixs)
  then have "orderly E (M \<union> set (makes E ix)) ixs" by (auto intro: orderly_mono)
  with Cons.prems show ?case by (simp add: modest_def)
qed simp

lemma check_accounts_append:
  "check_accounts E (xs @ ys) M = Option.bind (check_accounts E xs M) (check_accounts E ys)"
  by (induction xs arbitrary: M) (auto split: bind_splits)

text \<open>Such instructions, and after them an account of the native token that is closed.\<close>

lemma modest_checks:
  assumes "list_all (modest E M) xs" and "distinct (made E xs)" and "set (made E xs) \<inter> M = {}"
    and "\<And>account. account \<in> set (concat (map closes ys)) \<Longrightarrow> account \<in> M \<union> set (made E xs)"
    and "ys = [] \<or> (\<exists>account dest owner. ys = [CloseAccount account dest owner])"
  shows "check_accounts E (xs @ ys) M = Some (M \<union> set (made E xs) - set (concat (map closes ys)))"
proof -
  have "checkable E M (xs @ [])"
    using assms(1-3) modest_orderly [OF assms(1)] by (simp add: checkable_def list_all_iff modest_def)
  from checkable_check [OF this] have "check_accounts E xs M = Some (M \<union> set (made E xs))" by auto
  with assms(4,5) show ?thesis by (auto simp: check_accounts_append check_step_def)
qed

lemma modest_push [simp]: "list_all (modest E M) (push x xs) \<longleftrightarrow> list_all (modest E M) xs \<and> pred_option (modest E M) x"
  by (rule list_all_push)

lemma modest_ata:
  "(\<And>p a ow. snd (getOrCreateATAInstruction E mint owner payer) = Some (CreateAssociatedTokenAccount p a ow mint) \<Longrightarrow>
    mint \<in> M) \<Longrightarrow> pred_option (modest E M) (snd (getOrCreateATAInstruction E mint owner payer))"
  by (auto simp: getOrCreateATAInstruction_def Let_def modest_def split: option.splits)

lemma modest_wrap: "list_all (modest E M) (wrapSOLInstruction E source dest amount)"
  by (simp add: wrapSOLInstruction_def modest_def)

text \<open>Calls whose structure leaves every address to the handler ask for nothing.\<close>

lemma free_method_ledger:
  assumes "callMethod c \<in> free_methods"
  shows "makes E (ProgramCall c) = []" "modest E M (ProgramCall c)"
proof -
  obtain as where as: "accounts_of (callMethod c) = Some as" "list_all unconstrained as"
    using assms unconstrained_structures by (auto simp: free_methods_def methods)
  have "raRule a = Passed \<or> raRule a = Mutable" "raClass a = Unchecked \<or> raClass a = Signer" if "a \<in> set as" for a
    using as(2) that by (auto simp: list_all_iff unconstrained_def)
  then have "\<not> initializes (raRule a) \<and> \<not> closes_account (raRule a) \<and> \<not> is_loaded (raClass a)" if "a \<in> set as" for a
    using that by (metis initializes.simps(4,5) closes_account.simps(2,3) is_loaded.simps(2,3))
  then have "filter (\<lambda>a. initializes (raRule a)) as = []" "filter (\<lambda>a. closes_account (raRule a)) as = []"
    "filter (\<lambda>a. is_loaded (raClass a) \<and> \<not> initializes (raRule a)) as = []" by (auto simp: filter_empty_conv)
  then show "makes E (ProgramCall c) = []" "modest E M (ProgramCall c)"
    using as(1) free_method_accepted [OF assms, of E] by (simp_all add: field_keys_def modest_def)
qed

section \<open>Where a transaction passes\<close>

text \<open>
  A transaction passes on a ledger when nobody but the fee payer has to sign it and all its
  instructions pass; then the accounts there were and the accounts it makes exist, but for the native
  token account of the payer, which it may close.
\<close>

definition passes :: "env \<Rightarrow> transaction \<Rightarrow> ledger \<Rightarrow> bool" where
  "passes E tx M \<longleftrightarrow> (\<exists>M'. pass_transaction E tx M = Some M' \<and>
     M \<union> set (made E (instructions tx)) - {ataOf E (NATIVE_MINT E) (feePayer tx)} \<subseteq> M')"

lemma self_contained_signed: "self_contained tx \<Longrightarrow> signed tx"
  by (fastforce simp: list_all_iff signed_def self_contained_def sound_def)

text \<open>The mints of the accounts that a transaction makes exist.\<close>

definition mints_exist :: "transaction \<Rightarrow> ledger \<Rightarrow> bool" where
  "mints_exist tx M \<longleftrightarrow>
     (\<forall>p a owner mint. CreateAssociatedTokenAccount p a owner mint \<in> set (instructions tx) \<longrightarrow> mint \<in> M)"

text \<open>The ledger \<open>M\<close> has grown from the one that was read, but by no account that the transaction makes.\<close>

definition undisturbed :: "env \<Rightarrow> transaction \<Rightarrow> ledger \<Rightarrow> ledger \<Rightarrow> bool" where
  "undisturbed E tx L M \<longleftrightarrow> L \<subseteq> M \<and> set (made E (instructions tx)) \<inter> (M - L) = {}"

lemma made_unwrap [simp]: "made E (unwrapAfter E' owner native) = []"
  by (simp add: unwrapAfter_def unwrapSOLInstruction_def makings.whole_simps)

lemma made_wrap [simp]: "made E (wrapSOLInstruction E' source dest n) = []"
  by (simp add: wrapSOLInstruction_def makings.whole_simps)

lemma passes_by_parts:
  assumes "instructions tx = xs @ unwrapAfter E (feePayer tx) native" and "list_all (modest E M) xs"
    and "undisturbed E tx L M" and "distinct (made E xs)" and "set (made E xs) \<inter> L = {}"
    and "native \<Longrightarrow> ataOf E (NATIVE_MINT E) (feePayer tx) \<in> L \<union> set (made E xs)" and "signed tx"
  shows "passes E tx M"
proof -
  have made: "made E (instructions tx) = made E xs" by (simp add: assms(1) makings.whole_simps)
  have "check_accounts E (xs @ unwrapAfter E (feePayer tx) native) M =
      Some (M \<union> set (made E xs) - set (concat (map closes (unwrapAfter E (feePayer tx) native))))"
  proof (rule modest_checks [OF assms(2,4)])
    show "set (made E xs) \<inter> M = {}" using assms(3,5) made by (auto simp: undisturbed_def)
  qed (use assms(3,6) in \<open>auto simp: unwrapAfter_def unwrapSOLInstruction_def undisturbed_def split: if_splits\<close>)
  moreover have "set (concat (map closes (unwrapAfter E (feePayer tx) native))) \<subseteq> {ataOf E (NATIVE_MINT E) (feePayer tx)}"
    by (simp add: unwrapAfter_def unwrapSOLInstruction_def)
  ultimately show ?thesis using assms(7) unfolding passes_def pass_transaction_def made by (subst assms(1)) auto
qed

lemma pushed_ata: "Some ix = snd (getOrCreateATAInstruction E mint owner payer) \<Longrightarrow>
    \<exists>p a. ix = CreateAssociatedTokenAccount p a owner mint"
  by (auto dest: ata_instruction)

lemma modest_missing:
  assumes "mints_exist tx M" and "set (push (snd (getOrCreateATAInstruction E mint owner payer)) []) \<subseteq> set (instructions tx)"
  shows "pred_option (modest E M) (snd (getOrCreateATAInstruction E mint owner payer))"
  using assms by (intro modest_ata) (auto simp: mints_exist_def)

lemma set_push: "set (push x xs) = set xs \<union> set (push x [])"
  by (cases x) auto

section \<open>Each of the builders\<close>

text \<open>What the object says of its mints agrees with the pool state, and the three mints differ.\<close>

definition three_mints :: "amm_impl \<Rightarrow> bool" where
  "three_mints self \<longleftrightarrow> mintAddress (ammTokenAMint self) = tokenAMint (ammPoolState self) \<and>
     mintAddress (ammTokenBMint self) = tokenBMint (ammPoolState self) \<and>
     distinct [tokenAMint (ammPoolState self), tokenBMint (ammPoolState self), lpMint (ammPoolState self)]"

lemma missing_new: "read_from E L \<Longrightarrow> accountInfo (envChain E) k = None \<Longrightarrow> k \<notin> L"
  by (auto simp: read_from_def)

lemma distinct_missing [simp]: "distinct (missing E k)"
  by (simp add: missing_def)

text \<open>The instructions that make the token accounts of mints and owners, where they are missing.\<close>

definition accountInstructions :: "env \<Rightarrow> pubkey option \<Rightarrow> (pubkey \<times> pubkey) list \<Rightarrow> instruction list" where
  "accountInstructions E payer pairs =
     concat (map (\<lambda>(mint, owner). push (snd (getOrCreateATAInstruction E mint owner payer)) []) pairs)"

lemma push_accounts:
  "push (snd (getOrCreateATAInstruction E mint owner payer)) [] = accountInstructions E payer [(mint, owner)]"
  "push (snd (getOrCreateATAInstruction E mint owner payer)) (xs @ accountInstructions E payer pairs) =
    xs @ accountInstructions E payer (pairs @ [(mint, owner)])"
  "push (snd (getOrCreateATAInstruction E mint owner payer)) (accountInstructions E payer pairs) =
    accountInstructions E payer (pairs @ [(mint, owner)])"
  by (simp_all add: accountInstructions_def push_def)

lemma push_account_after:
  "push (snd (getOrCreateATAInstruction E mint owner payer)) [ix] = ix # accountInstructions E payer [(mint, owner)]"
  "push (snd (getOrCreateATAInstruction E mint owner payer)) (ix # accountInstructions E payer pairs) =
    ix # accountInstructions E payer (pairs @ [(mint, owner)])"
  by (simp_all add: accountInstructions_def push_def)

lemma modest_accounts:
  assumes "mints_exist tx M" and "set (accountInstructions E p pairs) \<subseteq> set (instructions tx)"
  shows "list_all (modest E M) (accountInstructions E p pairs)"
  using assms(2)
proof (induction pairs)
  case (Cons pair pairs)
  obtain mint owner where pair: "pair = (mint, owner)" by (cases pair)
  with Cons.prems have "set (push (snd (getOrCreateATAInstruction E mint owner p)) []) \<subseteq> set (instructions tx)"
    and "set (accountInstructions E p pairs) \<subseteq> set (instructions tx)" by (auto simp: accountInstructions_def)
  from modest_missing [OF assms(1) this(1)] Cons.IH [OF this(2)] show ?case
    by (simp add: pair accountInstructions_def flip: push_def)
qed (simp add: accountInstructions_def)

lemma made_accounts:
  "made E (accountInstructions E payer pairs) = concat (map (\<lambda>(mint, owner). missing E (ataOf E mint owner)) pairs)"
  by (induction pairs) (auto simp: accountInstructions_def makings.whole_simps ata_makes simp del: makes.simps)

lemma distinct_accounts:
  "ata_law (envFns E) \<Longrightarrow> distinct pairs \<Longrightarrow>
    distinct (concat (map (\<lambda>(mint, owner). missing E (ataOf E mint owner)) pairs))"
  by (induction pairs) (auto simp: ata_inj)

lemma parts_pass:
  assumes ixs: "instructions tx =
      (first @ accountInstructions E p pairs @ wraps @ [ProgramCall c]) @ unwrapAfter E (feePayer tx) native"
    and first: "list_all (modest E M) first" "distinct (made E first)" "set (made E first) \<inter> L = {}"
      "\<And>mint owner. (mint, owner) \<in> set pairs \<Longrightarrow> ataOf E mint owner \<notin> set (made E first)"
    and wraps: "list_all (modest E M) wraps" "made E wraps = []"
    and c: "callMethod c \<in> free_methods" and pairs: "distinct pairs"
    and read: "read_from E L" and law: "ata_law (envFns E)"
    and tx: "mints_exist tx M" "undisturbed E tx L M"
    and native: "native \<Longrightarrow> (NATIVE_MINT E, feePayer tx) \<in> set pairs" and signed: "signed tx"
  shows "passes E tx M"
proof (rule passes_by_parts [OF ixs])
  note call = free_method_ledger [OF c]
  let ?xs = "first @ accountInstructions E p pairs @ wraps @ [ProgramCall c]"
  have made: "made E ?xs = made E first @ concat (map (\<lambda>(mint, owner). missing E (ataOf E mint owner)) pairs)"
    by (simp add: makings.whole_simps made_accounts wraps(2) call del: makes.simps)
  have "list_all (modest E M) (accountInstructions E p pairs)"
    by (rule modest_accounts [OF tx(1)]) (auto simp: ixs)
  then show "list_all (modest E M) ?xs" using first(1) wraps(1) call(2) by simp
  show "distinct (made E ?xs)"
    using first(2,4) distinct_accounts [OF law pairs] unfolding made by auto
  show "set (made E ?xs) \<inter> L = {}" using first(3) missing_new [OF read] unfolding made by auto
  show "ataOf E (NATIVE_MINT E) (feePayer tx) \<in> L \<union> set (made E ?xs)" if "native"
    using native [OF that] missing_read [OF read, of "ataOf E (NATIVE_MINT E) (feePayer tx)"] unfolding made by auto
qed (rule tx(2), rule signed)

lemma swap_passes:
  assumes tx: "swap E owner mint n out ref self = Inr tx" and read: "read_from E L" and law: "ata_law (envFns E)"
    and mints: "three_mints self" "mints_exist tx M" and M: "undisturbed E tx L M"
    and once: "\<not> (ref = Some owner \<and> accountInfo (envChain E) (ataOf E mint owner) = None)"
  shows "passes E tx M"
proof -
  obtain src dst where sd: "swapMints mint self = (src, dst)" by fastforce
  define base where "base = push (snd (getOrCreateATAInstruction E dst owner None))
    (push (snd (getOrCreateATAInstruction E src owner None)) []) @
    (if src = NATIVE_MINT E then wrapSOLInstruction E owner (ataOf E src owner) n else [])"
  define pre where "pre = (case ref of None \<Rightarrow> base
    | Some k \<Rightarrow> push (snd (getOrCreateATAInstruction E mint k (Some owner))) base)"
  from tx sd obtain c where ixs: "instructions tx = (pre @ [ProgramCall c]) @ unwrapAfter E owner (NATIVE_MINT E = dst)"
    and c: "callMethod c = ''swap''" and payer: "feePayer tx = owner"
    by (auto simp: swap_def swapMints_def Let_def split_def ata_account fold_unwrapAfter pre_def base_def swapCall_def
        split: option.splits if_splits)
  have free: "callMethod c \<in> free_methods" by (simp add: c free_methods_def)
  note call = free_method_ledger [OF free]
  have made: "made E (pre @ [ProgramCall c]) = missing E (ataOf E src owner) @ missing E (ataOf E dst owner) @
       (case ref of None \<Rightarrow> [] | Some k \<Rightarrow> missing E (ataOf E mint k))"
    by (simp add: pre_def base_def makings.whole_simps ata_makes call del: makes.simps split: option.split)
  have differ: "src \<noteq> dst" "mint = src \<or> mint \<notin> {src, dst}"
    using mints(1) sd by (auto simp: three_mints_def swapMints_def split: if_splits)
  have within: "set (push (snd (getOrCreateATAInstruction E dst owner None)) []) \<subseteq> set (instructions tx)"
    "set (push (snd (getOrCreateATAInstruction E src owner None)) []) \<subseteq> set (instructions tx)"
    "ref = Some k \<Longrightarrow> set (push (snd (getOrCreateATAInstruction E mint k (Some owner))) []) \<subseteq> set (instructions tx)" for k
    by (auto simp: ixs pre_def base_def set_push [of _ "push _ _"] set_push [of _ "_ @ _"] split: option.split)
  show ?thesis
  proof (rule passes_by_parts [where xs = "pre @ [ProgramCall c]"])
    show "instructions tx = (pre @ [ProgramCall c]) @ unwrapAfter E (feePayer tx) (NATIVE_MINT E = dst)"
      using ixs payer by simp
    show "list_all (modest E M) (pre @ [ProgramCall c])"
      using modest_missing [OF mints(2)] within call(2)
      by (auto simp: pre_def base_def modest_wrap split: option.split)
    show "undisturbed E tx L M" by (rule M)
    show "signed tx" by (rule self_contained_signed [OF swap_self_contained [OF tx]])
    show "distinct (made E (pre @ [ProgramCall c]))"
      using differ once unfolding made by (auto simp: ata_inj [OF law] split: option.split)
    show "set (made E (pre @ [ProgramCall c])) \<inter> L = {}"
      using missing_new [OF read] unfolding made by (auto split: option.splits)
    show "ataOf E (NATIVE_MINT E) (feePayer tx) \<in> L \<union> set (made E (pre @ [ProgramCall c]))" if "NATIVE_MINT E = dst"
      using missing_read [OF read, of "ataOf E dst owner"] that payer unfolding made by auto
  qed
qed

lemma deposit_passes:
  assumes tx: "deposit E owner inA inB lp self = Inr tx" and read: "read_from E L" and law: "ata_law (envFns E)"
    and mints: "three_mints self" "mints_exist tx M" and M: "undisturbed E tx L M"
  shows "passes E tx M"
proof -
  let ?ps = "ammPoolState self"
  let ?pairs = "[(tokenAMint ?ps, owner), (tokenBMint ?ps, owner), (lpMint ?ps, owner)]"
  let ?native = "NATIVE_MINT E \<in> {tokenAMint ?ps, tokenBMint ?ps}"
  define wraps where "wraps =
    (if NATIVE_MINT E = tokenAMint ?ps then wrapSOLInstruction E owner (ataOf E (tokenAMint ?ps) owner) inA else []) @
    (if NATIVE_MINT E = tokenBMint ?ps then wrapSOLInstruction E owner (ataOf E (tokenBMint ?ps) owner) inB else [])"
  from tx mints(1) obtain c where
    ixs: "instructions tx = ([] @ accountInstructions E None ?pairs @ wraps @ [ProgramCall c]) @ unwrapAfter E owner ?native"
    and c: "callMethod c = fst (depositMethod self inA inB lp)" and payer: "feePayer tx = owner"
    by (auto simp: deposit_def Let_def split_def ata_account push_accounts wraps_def three_mints_def)
  have free: "callMethod c \<in> free_methods" using c by (auto simp: depositMethod_def free_methods_def)
  show ?thesis
    by (rule parts_pass [OF ixs [folded payer] _ _ _ _ _ _ free _ read law mints(2) M _
        self_contained_signed [OF deposit_self_contained [OF tx]]])
      (use mints(1) payer in \<open>auto simp: wraps_def modest_wrap three_mints_def makings.whole_simps\<close>)
qed

lemma withdraw_passes:
  assumes tx: "withdraw E owner lp outA outB self = Inr tx" and read: "read_from E L" and law: "ata_law (envFns E)"
    and mints: "three_mints self" "mints_exist tx M" and M: "undisturbed E tx L M"
  shows "passes E tx M"
proof -
  let ?ps = "ammPoolState self"
  let ?pairs = "[(tokenAMint ?ps, owner), (tokenBMint ?ps, owner), (lpMint ?ps, owner)]"
  let ?native = "NATIVE_MINT E \<in> {tokenAMint ?ps, tokenBMint ?ps}"
  from tx mints(1) obtain c where
    ixs: "instructions tx = ([] @ accountInstructions E None ?pairs @ [] @ [ProgramCall c]) @ unwrapAfter E owner ?native"
    and c: "callMethod c \<in> {''removeLiquiditySingleSide'', ''removeBalanceLiquidity''}" and payer: "feePayer tx = owner"
    by (auto simp: withdraw_def withdrawCall_def Let_def split_def ata_account push_accounts three_mints_def)
  have free: "callMethod c \<in> free_methods" using c by (auto simp: free_methods_def)
  show ?thesis
    by (rule parts_pass [OF ixs [folded payer] _ _ _ _ _ _ free _ read law mints(2) M _
        self_contained_signed [OF withdraw_self_contained [OF tx]]])
      (use mints(1) payer in \<open>auto simp: three_mints_def makings.whole_simps\<close>)
qed

text \<open>
  What is documented of program addresses: no wallet has one, and the token accounts are addresses of
  the program for associated token accounts, so they are no addresses of another program.
\<close>

definition off_curve :: "env \<Rightarrow> bool" where
  "off_curve E \<longleftrightarrow> (\<forall>seeds program mint owner. program \<noteq> ASSOCIATED_TOKEN_PROGRAM_ID E \<longrightarrow>
     fst (findProgramAddressSync (envFns E) seeds program) \<noteq> ataOf E mint owner)"

definition wallet :: "env \<Rightarrow> pubkey \<Rightarrow> bool" where
  "wallet E k \<longleftrightarrow> (\<forall>seeds program. fst (findProgramAddressSync (envFns E) seeds program) \<noteq> k)"

abbreviation escrowOf :: "env \<Rightarrow> amm_impl \<Rightarrow> pubkey \<Rightarrow> pubkey" where
  "escrowOf E self owner \<equiv> fst (deriveLockEscrowPda (envFns E) (ammAddress self) owner (ammProgramId self))"

text \<open>A lock escrow that \<open>fetchNullable\<close> does not find does not exist.\<close>

definition escrows_read :: "env \<Rightarrow> amm_impl \<Rightarrow> ledger \<Rightarrow> bool" where
  "escrows_read E self L \<longleftrightarrow>
     (\<forall>owner. lockEscrowAccount (envChain E) (escrowOf E self owner) = None \<longrightarrow> escrowOf E self owner \<notin> L)"

lemma escrow_call_ledger:
  "makes E (ProgramCall (createLockEscrowCall E p pool k owner lp payer)) = [k]"
  "k = fst (deriveLockEscrowPda (envFns E) pool owner p) \<Longrightarrow>
    modest E M (ProgramCall (createLockEscrowCall E p pool k owner lp payer))"
  using escrow_accepted [of E p pool owner lp payer]
  by (simp_all add: modest_def field_keys_def createLockEscrowCall_def methods CreateLockEscrowAccounts_def key_of_def)

lemma lock_passes:
  assumes tx: "lockLiquidity E owner n payer self = Inr tx" and read: "read_from E L" "escrows_read E self L"
    and law: "ata_law (envFns E)" "off_curve E" "ammProgramId self \<noteq> ASSOCIATED_TOKEN_PROGRAM_ID E"
    and payer: "wallet E (feePayer tx)"
    and mints: "mints_exist tx M" and M: "undisturbed E tx L M"
  shows "passes E tx M"
proof -
  let ?lp = "lpMint (ammPoolState self)" and ?escrow = "escrowOf E self owner"
  let ?pairs = "[(?lp, feePayer tx), (?lp, ?escrow)]"
  define first where "first = (case lockEscrowAccount (envChain E) ?escrow of
      None \<Rightarrow> [ProgramCall (createLockEscrowCall E (ammProgramId self) (ammAddress self) ?escrow owner ?lp (feePayer tx))]
    | Some acc \<Rightarrow> [])"
  from tx obtain c where
    ixs: "instructions tx = (first @ accountInstructions E (Some (feePayer tx)) ?pairs @ [] @ [ProgramCall c]) @
      unwrapAfter E (feePayer tx) False"
    and c: "callMethod c = ''lock''"
    by (auto simp: lockLiquidity_def Let_def split_def ata_account push_accounts push_account_after first_def
        unwrapAfter_def split: option.splits)
  have free: "callMethod c \<in> free_methods" by (simp add: c free_methods_def)
  have escrow: "ataOf E mint k \<noteq> ?escrow" "?escrow \<noteq> feePayer tx" for mint k
    using law(2,3) payer unfolding off_curve_def wallet_def deriveLockEscrowPda_def by metis+
  show ?thesis
    by (rule parts_pass [OF ixs _ _ _ _ _ _ free _ read(1) law(1) mints M _
        self_contained_signed [OF lockLiquidity_self_contained [OF tx]]])
      (use escrow read(2) in \<open>auto simp: first_def makings.whole_simps escrow_call_ledger escrows_read_def
        simp del: makes.simps split: option.splits\<close>)
qed

lemma claim_passes:
  assumes tx: "claimLockFee E owner n self = Inr tx" and read: "read_from E L" and law: "ata_law (envFns E)"
    and payer: "wallet E owner" and mints: "three_mints self" "mints_exist tx M" and M: "undisturbed E tx L M"
    and escrow: "accountInfo (envChain E) (ataOf E (lpMint (ammPoolState self)) (escrowOf E self owner)) \<noteq> None"
  shows "passes E tx M"
proof -
  let ?ps = "ammPoolState self" and ?escrow = "escrowOf E self owner"
  let ?pairs = "[(lpMint ?ps, owner), (lpMint ?ps, ?escrow), (tokenAMint ?ps, owner), (tokenBMint ?ps, owner)]"
  let ?native = "NATIVE_MINT E \<in> {tokenAMint ?ps, tokenBMint ?ps}"
  from tx obtain c where
    ixs: "instructions tx = ([] @ accountInstructions E None ?pairs @ [] @ [ProgramCall c]) @ unwrapAfter E owner ?native"
    and c: "callMethod c = ''claimFee''" and fee: "feePayer tx = owner"
    by (auto simp: claimLockFee_def Let_def split_def ata_account push_accounts)
  have free: "callMethod c \<in> free_methods" by (simp add: c free_methods_def)
  have "snd (getOrCreateATAInstruction E (lpMint ?ps) ?escrow None) = None"
    using escrow by (auto simp: getOrCreateATAInstruction_def Let_def)
  then have "sound owner ix" if "ix \<in> set (instructions tx)" for ix
    using claim_sound_or_escrow [OF tx that] by simp
  then have signed: "signed tx" by (fastforce simp: signed_def sound_def fee)
  have "?escrow \<noteq> owner" using payer unfolding wallet_def deriveLockEscrowPda_def by metis
  then show ?thesis
    by (intro parts_pass [OF ixs [folded fee] _ _ _ _ _ _ free _ read law mints(2) M _ signed])
      (use mints(1) fee in \<open>auto simp: three_mints_def makings.whole_simps\<close>)
qed

section \<open>Properties\<close>

text \<open>
  C13: No transaction of a pool object fails for an account or a signature, with two exceptions. On the
  chain it was built from, whatever accounts others have made since but those it makes itself: each
  account it loads exists or is made by an earlier instruction, each account it makes is new and made
  once, its calls pass the addresses that the program demands, nobody but the fee payer has to sign,
  and afterwards all accounts exist but for the closed account of the native token. The exceptions: a
  swap whose user is his own referrer and has no account of the token he sells, which makes one
  account twice, and a claim of locked fees for an escrow without a token account, which a program
  address would have to sign. Whether the funds suffice is another matter.
\<close>

theorem pool_transactions_pass:
  assumes "pool_transaction E self tx"
    and "read_from E L" and "escrows_read E self L"
    and "ata_law (envFns E)" and "off_curve E" and "ammProgramId self \<noteq> ASSOCIATED_TOKEN_PROGRAM_ID E"
    and "wallet E (feePayer tx)" and "three_mints self" and "mints_exist tx M" and "undisturbed E tx L M"
  shows "passes E tx M \<or>
    (\<exists>owner mint n out. swap E owner mint n out (Some owner) self = Inr tx \<and>
      accountInfo (envChain E) (ataOf E mint owner) = None) \<or>
    (\<exists>owner n. claimLockFee E owner n self = Inr tx \<and>
      accountInfo (envChain E) (ataOf E (lpMint (ammPoolState self)) (escrowOf E self owner)) = None)"
  using assms(1)
proof cases
  case (of_swap owner mint n out ref)
  then show ?thesis using swap_passes [OF of_swap assms(2,4,8-10)] by blast
next
  case (of_claim owner maxAmount)
  then show ?thesis using claim_passes [OF of_claim assms(2,4) _ assms(8-10)] assms(7) claim_fee_payer by blast
next
  case of_deposit
  then show ?thesis using deposit_passes [OF of_deposit assms(2,4,8-10)] by blast
next
  case of_withdraw
  then show ?thesis using withdraw_passes [OF of_withdraw assms(2,4,8-10)] by blast
next
  case of_lock
  then show ?thesis using lock_passes [OF of_lock assms(2-7,9,10)] by blast
qed

lemma key_first: "key c = PublicKey (c # replicate 31 c)"
  by (simp add: key_def flip: replicate_Suc)

definition passing_env :: env where
  "passing_env = ledger_env\<lparr>envFns := envFns ledger_env
     \<lparr>getAssociatedTokenAddressSync := (\<lambda>mint owner.
        PublicKey (101 # replicate (length (toBuffer mint)) 1 @ 0 # toBuffer mint @ toBuffer owner))\<rparr>\<rparr>"

lemma passing_env_laws: "ata_law (envFns passing_env)" "off_curve passing_env" "wallet passing_env (key 40)"
proof -
  define f :: "pubkey \<Rightarrow> pubkey \<Rightarrow> pubkey" where "f mint owner =
    PublicKey (101 # replicate (length (toBuffer mint)) 1 @ 0 # toBuffer mint @ toBuffer owner)" for mint owner
  have "mint = mint' \<and> owner = owner'" if "f mint owner = f mint' owner'" for mint mint' owner owner'
    using counted_prefix_inj [of "length (toBuffer mint)" "toBuffer mint @ toBuffer owner"] that
    by (cases mint; cases mint'; cases owner; cases owner') (fastforce simp: f_def)
  moreover have "getAssociatedTokenAddressSync (envFns passing_env) = f"
    by (simp add: passing_env_def ledger_env_def f_def fun_eq_iff)
  ultimately show "ata_law (envFns passing_env)" unfolding ata_law_def by blast
  show "off_curve passing_env" "wallet passing_env (key 40)"
    by (simp_all add: off_curve_def wallet_def passing_env_def ledger_env_def example_env_def
        getAssociatedTokenAccount_def key_first)
qed

definition passing_deposit :: transaction where
  "passing_deposit = projr (deposit passing_env (key 40) 28135 50498 34127 example_pool_object)"

lemma passing_deposit_runs:
  "deposit passing_env (key 40) 28135 50498 34127 example_pool_object = Inr passing_deposit"
  "feePayer passing_deposit = key 40"
  "map callMethod (programCalls (instructions passing_deposit)) = [''addBalanceLiquidity'']"
  "list_all (\<lambda>k. k \<noteq> key 1) (made passing_env (instructions passing_deposit))"
proof -
  have "isl (deposit passing_env (key 40) 28135 50498 34127 example_pool_object) = False" by code_simp
  then show "deposit passing_env (key 40) 28135 50498 34127 example_pool_object = Inr passing_deposit"
    by (simp add: passing_deposit_def)
qed code_simp+

lemma swap_calls:
  assumes "swap E owner mint n out ref self = Inr tx"
  shows "\<exists>c. programCalls (instructions tx) = [c] \<and> callMethod c = ''swap'' \<and> callArgs c = [ValBN n, ValBN out]"
proof -
  obtain src dst where "swapMints mint self = (src, dst)" by fastforce
  with assms show ?thesis by (rule swap_parts) (simp add: ix_simps swapCall_def Let_def)
qed

lemma claim_calls:
  "claimLockFee E owner n self = Inr tx \<Longrightarrow> map callMethod (programCalls (instructions tx)) = [''claimFee'']"
  by (auto simp: claimLockFee_def Let_def split_def ix_simps)

theorem pool_transactions_pass_witness:
  "deposit passing_env (key 40) 28135 50498 34127 example_pool_object = Inr passing_deposit \<and>
    passes passing_env passing_deposit {key 1, key 2, key 3, key 50}"
proof -
  let ?L = "{key 2, key 3, key 50}" and ?M = "{key 1, key 2, key 3, key 50}"
  note run = passing_deposit_runs(1)
  have read: "read_from passing_env ?L"
    by (simp add: read_from_def passing_env_def ledger_env_def example_env_def)
  have escrows: "escrows_read passing_env example_pool_object ?L"
    by (simp add: escrows_read_def passing_env_def ledger_env_def deriveLockEscrowPda_def key_first)
  have program: "ammProgramId example_pool_object \<noteq> ASSOCIATED_TOKEN_PROGRAM_ID passing_env"
    by (simp add: example_amm_def passing_env_def ledger_env_def example_env_def PROGRAM_ID_def key_first)
  have three: "three_mints example_pool_object"
    by (simp add: three_mints_def example_amm_def example_pool_def key_first)
  have mints: "mints_exist passing_deposit ?M"
  proof -
    have "list_all (\<lambda>ix. list_all (\<lambda>k. k \<in> ?M) (loads ix) \<or> closes ix \<noteq> []) (instructions passing_deposit)" by code_simp
    then show ?thesis by (fastforce simp: mints_exist_def list_all_iff)
  qed
  have M: "undisturbed passing_env passing_deposit ?L ?M"
    using passing_deposit_runs(4) by (auto simp: undisturbed_def list_all_iff)
  have "\<not> swap passing_env owner mint n out (Some owner) example_pool_object = Inr passing_deposit" for owner mint n out
    using swap_calls [of passing_env owner mint n out "Some owner" example_pool_object passing_deposit]
      passing_deposit_runs(3) by auto
  moreover have "\<not> claimLockFee passing_env owner n example_pool_object = Inr passing_deposit" for owner n
    using claim_calls [of passing_env owner n example_pool_object passing_deposit] passing_deposit_runs(3) by auto
  ultimately show ?thesis using pool_transactions_pass [OF of_deposit [OF run] read escrows passing_env_laws(1,2) program _ three mints M]
    passing_deposit_runs(2) passing_env_laws(3) run by auto
qed

end
