(* ===== verification/Scripts.thy ===== *)
theory Scripts
  imports AccountChecks Lifecycle
begin

text \<open>
  The example scripts of \<open>ts-client/src/examples\<close>, which put the SDK together: a pool is created and
  its liquidity locked for several owners, a configuration is searched and a pool created with it,
  a swap is quoted and sent, and a pool is looked at. The wallet is a payer whose key the script
  has. The network is a parameter: what the chain is after a transaction that was sent and
  confirmed. What a script prints is left out, except for the conversions that can raise.
\<close>

section \<open>Scripts\<close>

text \<open>What the script reads, and what it has sent so far.\<close>

record script_state =
  world :: env
  sent :: "transaction list"

type_synonym network = "env \<Rightarrow> transaction \<Rightarrow> env result"

definition reads :: "(env \<Rightarrow> 'a result) \<Rightarrow> (script_state, 'a) action" where
  "reads f st = (f (world st), st)"

text \<open>
  \<open>transaction.sign(payer)\<close>, \<open>sendRawTransaction(transaction.serialize())\<close> and the confirmation:
  \<open>serialize\<close> raises unless the payer's signature is the only one needed.
\<close>

definition signAndSend :: "network \<Rightarrow> pubkey \<Rightarrow> transaction \<Rightarrow> (script_state, unit) action" where
  "signAndSend send payer tx st =
     (if feePayer tx = payer \<and> (\<forall>ix \<in> set (instructions tx). signersOf ix \<subseteq> {payer}) then
        case send (world st) tx of
          Inl e \<Rightarrow> (Inl e, st)
        | Inr chain \<Rightarrow> (Inr (), st\<lparr>world := chain, sent := sent st @ [tx]\<rparr>)
      else (Inl (Thrown ''Signature verification failed''), st))"

text \<open>\<open>for (const x of xs)\<close>.\<close>

fun for_each :: "('a \<Rightarrow> ('s, unit) action) \<Rightarrow> 'a list \<Rightarrow> ('s, unit) action" where
  "for_each f [] = pure_step (Inr ())"
| "for_each f (x # xs) = then_do (f x) (\<lambda>_. for_each f xs)"

section \<open>Creating a pool and locking its liquidity\<close>

text \<open>
  \<open>fromAllocationsToAmount\<close>: percentages are JavaScript numbers, added in double precision and
  truncated when they become BN values. The loop runs over all allocations but the last, which gets
  what is left.
\<close>

record allocation_by_percentage =
  percentageAddress :: pubkey
  percentage :: rat

record allocation_by_amount =
  amountAddress :: pubkey
  allocatedAmount :: int

definition sumOfPercentages :: "allocation_by_percentage list \<Rightarrow> rat" where
  "sumOfPercentages allocations = foldl (\<lambda>partialSum a. toDouble (partialSum + percentage a)) 0 allocations"

fun allocateAmounts :: "int \<Rightarrow> rat \<Rightarrow> int \<Rightarrow> allocation_by_amount list \<Rightarrow> allocation_by_percentage list \<Rightarrow>
    (int \<times> allocation_by_amount list) result" where
  "allocateAmounts lpAmount sumPercentage taken amounts [] = Inr (taken, amounts)"
| "allocateAmounts lpAmount sumPercentage taken amounts (a # as) =
     and_then (bnOfDouble (percentage a)) (\<lambda>p.
     and_then (bnOfDouble sumPercentage) (\<lambda>s.
     and_then (trunc_div (lpAmount * p) s) (\<lambda>n.
       allocateAmounts lpAmount sumPercentage (taken + n)
         (amounts @ [\<lparr>amountAddress = percentageAddress a, allocatedAmount = n\<rparr>]) as)))"

definition fromAllocationsToAmount :: "int \<Rightarrow> allocation_by_percentage list \<Rightarrow> allocation_by_amount list result" where
  "fromAllocationsToAmount lpAmount allocations =
     (let sumPercentage = sumOfPercentages allocations in
      if sumPercentage = 0 then Inl (Thrown ''sumPercentage is zero'')
      else and_then (allocateAmounts lpAmount sumPercentage 0 [] (butlast allocations)) (\<lambda>(taken, amounts).
        Inr (amounts @ [\<lparr>amountAddress = percentageAddress (last allocations), allocatedAmount = lpAmount - taken\<rparr>])))"

text \<open>The options of a creation that gives none.\<close>

definition no_options :: pool_options where
  "no_options = \<lparr>optLockLiquidity = False, optSwapLiquidity = None, optActivationPoint = None,
     optSkipAAta = False, optSkipBAta = False\<rparr>"

text \<open>
  Every step reads the chain as it is then. The vault SDK reads it too, so \<open>V\<close> gives its answers on
  a chain.
\<close>

definition createPoolAndLockLiquidity :: "externals \<Rightarrow> (env \<Rightarrow> vault_sdk) \<Rightarrow> network \<Rightarrow> pubkey \<Rightarrow> pubkey \<Rightarrow>
    pubkey \<Rightarrow> int \<Rightarrow> int \<Rightarrow> pubkey \<Rightarrow> allocation_by_percentage list \<Rightarrow> (script_state, unit) action" where
  "createPoolAndLockLiquidity X V send payer mintA mintB amountA amountB config allocations st =
     (let F = envFns (world st); poolPubkey = derivePoolAddressWithConfig F mintA mintB config PROGRAM_ID in
      then_do (reads (\<lambda>E. createPermissionlessConstantProductPoolWithConfig E payer mintA mintB
        amountA amountB config None no_options)) (\<lambda>transactions.
      then_do (for_each (signAndSend send payer) transactions) (\<lambda>_.
      let poolLpMint = fst (findProgramAddressSync F [bytesOf (SEEDS SEED_LP_MINT), toBuffer poolPubkey] PROGRAM_ID);
          payerPoolLp = getAssociatedTokenAccount F poolLpMint payer in
      then_do (reads (\<lambda>E. tokenAccountBalance (envChain E) payerPoolLp)) (\<lambda>payerPoolLpBalance.
      then_do (pure_step (fromAllocationsToAmount payerPoolLpBalance allocations)) (\<lambda>allocationByAmounts.
      then_do (reads (\<lambda>E. create X (envChain E) (V E) poolPubkey None None)) (\<lambda>pool.
      for_each (\<lambda>allocation.
        then_do (reads (\<lambda>E. lockLiquidity E (amountAddress allocation) (allocatedAmount allocation) (Some payer) pool))
          (signAndSend send payer)) allocationByAmounts))))) st)"

section \<open>Creating a pool with a configuration for its creator\<close>

definition createPool :: "network \<Rightarrow> pubkey \<Rightarrow> pubkey \<Rightarrow> int \<Rightarrow> int \<Rightarrow> pubkey \<Rightarrow> pubkey \<Rightarrow> (script_state, unit) action" where
  "createPool send mintA mintB amountA amountB config payer =
     then_do (reads (\<lambda>E. createPermissionlessConstantProductPoolWithConfig E payer mintA mintB
       amountA amountB config None no_options))
     (for_each (signAndSend send payer))"

text \<open>\<open>configs[0]\<close> of no configuration has no public key.\<close>

definition createPoolWithAuthorizedConfig :: "network \<Rightarrow> pubkey \<Rightarrow> pubkey \<Rightarrow> int \<Rightarrow> int \<Rightarrow> pubkey \<Rightarrow> (script_state, unit) action" where
  "createPoolWithAuthorizedConfig send mintA mintB amountA amountB payer =
     then_do (reads (\<lambda>E. case getPoolConfigsWithPoolCreatorAuthority (envChain E) payer of
       [] \<Rightarrow> Inl TypeError
     | (publicKey, data, account) # configs \<Rightarrow> Inr publicKey)) (\<lambda>config.
     createPool send mintA mintB amountA amountB config payer)"

section \<open>Looking at a pool and swapping\<close>

text \<open>\<open>console.log(n.toNumber() ...)\<close>.\<close>

definition logNumber :: "int \<Rightarrow> (script_state, unit) action" where
  "logNumber n = pure_step (and_then (toNumber n) (\<lambda>_. Inr ()))"

definition getPoolInfo :: "externals \<Rightarrow> (env \<Rightarrow> vault_sdk) \<Rightarrow> pubkey \<Rightarrow> (script_state, unit) action" where
  "getPoolInfo X V poolAddress =
     then_do (reads (\<lambda>E. create X (envChain E) (V E) poolAddress None None)) (\<lambda>pool.
     then_do (reads (\<lambda>E. Inr (getLockedLpAmount (envChain E) (envFns E) pool))) (\<lambda>lockedLpAmount.
     then_do (logNumber lockedLpAmount) (\<lambda>_.
     then_do (reads (\<lambda>E. getLpSupply (envChain E) pool)) (\<lambda>lpTotal.
     then_do (logNumber lpTotal) (\<lambda>_.
     then_do (logNumber (tokenAAmount (ammPoolInfo pool))) (\<lambda>_.
     logNumber (tokenBAmount (ammPoolInfo pool))))))))"

definition swapQuote :: "externals \<Rightarrow> (env \<Rightarrow> vault_sdk) \<Rightarrow> pubkey \<Rightarrow> int \<Rightarrow> bool \<Rightarrow> (script_state, swap_quote) action" where
  "swapQuote X V poolAddress swapAmount swapAtoB =
     then_do (reads (\<lambda>E. case poolAccount (envChain E) poolAddress of
       None \<Rightarrow> Inl (Thrown ''Account does not exist or has no data'') | Some ps \<Rightarrow> Inr ps)) (\<lambda>poolState.
     then_do (reads (\<lambda>E. create X (envChain E) (V E) poolAddress None None)) (\<lambda>pool.
     let inTokenMint = (if swapAtoB then tokenAMint poolState else tokenBMint poolState) in
     pure_step (fst (getSwapQuote X inTokenMint swapAmount 100 None pool))))"

definition swapScript :: "externals \<Rightarrow> (env \<Rightarrow> vault_sdk) \<Rightarrow> network \<Rightarrow> pubkey \<Rightarrow> pubkey \<Rightarrow> int \<Rightarrow> bool \<Rightarrow>
    (script_state, unit) action" where
  "swapScript X V send payer poolAddress swapAmount swapAtoB =
     then_do (reads (\<lambda>E. create X (envChain E) (V E) poolAddress None None)) (\<lambda>pool.
     then_do (reads (\<lambda>E. getLpSupply (envChain E) pool)) (\<lambda>lpTotal.
     then_do (logNumber lpTotal) (\<lambda>_.
     then_do (reads (\<lambda>E. Inr (getLockedLpAmount (envChain E) (envFns E) pool))) (\<lambda>lockedLpAmount.
     then_do (logNumber lockedLpAmount) (\<lambda>_.
     then_do (logNumber (tokenAAmount (ammPoolInfo pool))) (\<lambda>_.
     then_do (logNumber (tokenBAmount (ammPoolInfo pool))) (\<lambda>_.
     let swapInToken = (if swapAtoB then ammTokenAMint pool else ammTokenBMint pool);
         inTokenMint = mintAddress swapInToken;
         (answer, quoted) = getSwapQuote X inTokenMint swapAmount 100 None pool in
     then_do (pure_step answer) (\<lambda>quote.
     then_do (logNumber (swapInAmount quote)) (\<lambda>_.
     then_do (logNumber (swapOutAmount quote)) (\<lambda>_.
     then_do (logNumber (quoteFee quote)) (\<lambda>_.
     then_do (reads (\<lambda>E. swap E payer (mintAddress swapInToken) swapAmount (minSwapOutAmount quote) None quoted))
       (signAndSend send payer))))))))))))"

section \<open>The main functions\<close>

text \<open>The base58 strings decoded.\<close>

definition script_token_a :: pubkey where
  "script_token_a = PublicKey
    [159, 132, 177, 0, 206, 248, 30, 129, 206, 138, 5, 109, 59, 238, 105, 204,
     16, 40, 164, 169, 79, 172, 138, 177, 245, 212, 118, 158, 29, 199, 145, 100]"

definition script_token_b :: pubkey where
  "script_token_b = PublicKey
    [123, 145, 74, 149, 137, 254, 90, 233, 22, 170, 34, 162, 244, 91, 43, 219,
     67, 124, 33, 167, 66, 213, 6, 172, 133, 252, 215, 163, 206, 216, 184, 130]"

definition script_lock_config :: pubkey where
  "script_lock_config = PublicKey
    [14, 245, 101, 241, 183, 10, 213, 2, 96, 57, 9, 88, 31, 238, 149, 191,
     225, 4, 125, 46, 100, 81, 75, 221, 69, 22, 135, 90, 85, 18, 47, 185]"

definition script_first_owner :: pubkey where
  "script_first_owner = PublicKey
    [57, 109, 209, 62, 229, 86, 208, 48, 99, 59, 116, 181, 197, 202, 33, 153,
     185, 85, 235, 130, 55, 243, 83, 67, 232, 72, 190, 81, 243, 151, 73, 196]"

definition script_second_owner :: pubkey where
  "script_second_owner = PublicKey
    [170, 188, 144, 70, 22, 179, 19, 38, 164, 43, 41, 58, 65, 23, 61, 8,
     70, 159, 115, 57, 185, 167, 188, 255, 143, 158, 208, 156, 220, 200, 214, 72]"

definition script_swap_pool :: pubkey where
  "script_swap_pool = PublicKey
    [158, 189, 127, 12, 93, 21, 60, 143, 206, 37, 15, 64, 142, 214, 118, 127,
     221, 214, 231, 135, 107, 105, 55, 126, 107, 12, 197, 130, 84, 75, 174, 159]"

definition script_info_pool :: pubkey where
  "script_info_pool = PublicKey
    [80, 211, 193, 167, 175, 65, 59, 132, 221, 23, 230, 232, 204, 190, 8, 118,
     142, 104, 122, 246, 237, 243, 103, 178, 124, 19, 122, 61, 82, 205, 12, 154]"

definition script_quote_pool :: pubkey where
  "script_quote_pool = PublicKey
    [74, 2, 205, 205, 77, 168, 76, 205, 89, 92, 239, 249, 135, 177, 115, 143,
     25, 238, 141, 57, 175, 214, 76, 145, 198, 193, 35, 196, 125, 182, 27, 24]"

definition lock_script_allocations :: "allocation_by_percentage list" where
  "lock_script_allocations =
     [\<lparr>percentageAddress = script_first_owner, percentage = 80\<rparr>,
      \<lparr>percentageAddress = script_second_owner, percentage = 20\<rparr>]"

definition create_pool_and_lock_liquidity_main :: "externals \<Rightarrow> (env \<Rightarrow> vault_sdk) \<Rightarrow> network \<Rightarrow> pubkey \<Rightarrow>
    (script_state, unit) action" where
  "create_pool_and_lock_liquidity_main X V send payer =
     createPoolAndLockLiquidity X V send payer script_token_a script_token_b 100000 500000 script_lock_config
       lock_script_allocations"

definition create_pool_with_authorized_config_main :: "network \<Rightarrow> pubkey \<Rightarrow> (script_state, unit) action" where
  "create_pool_with_authorized_config_main send payer =
     createPoolWithAuthorizedConfig send script_token_a script_token_b 1000000 1000000 payer"

definition swap_main :: "externals \<Rightarrow> (env \<Rightarrow> vault_sdk) \<Rightarrow> network \<Rightarrow> pubkey \<Rightarrow> (script_state, unit) action" where
  "swap_main X V send payer = swapScript X V send payer script_swap_pool 10000000 False"

definition get_pool_info_main :: "externals \<Rightarrow> (env \<Rightarrow> vault_sdk) \<Rightarrow> (script_state, unit) action" where
  "get_pool_info_main X V = getPoolInfo X V script_info_pool"

definition swap_quote_main :: "externals \<Rightarrow> (env \<Rightarrow> vault_sdk) \<Rightarrow> (script_state, swap_quote) action" where
  "swap_quote_main X V = swapQuote X V script_quote_pool 10000000000 True"

section \<open>Allocations\<close>

lemma toDouble_int: "0 \<le> n \<Longrightarrow> n \<le> 2 ^ 52 \<Longrightarrow> toDouble (of_int n) = of_int n"
  using toDouble_ge [of n "of_int n"] toDouble_le [of n "of_int n"]
  by (cases "n = 0") (auto simp: toDouble_def)

lemma bnOfDouble_int: "0 \<le> n \<Longrightarrow> n \<le> 2 ^ 52 \<Longrightarrow> bnOfDouble (of_int n) = Inr n"
proof -
  assume n: "0 \<le> n" "n \<le> 2 ^ 52"
  have "(of_int n :: rat) \<le> of_int (2 ^ 52)" using n(2) by (simp only: of_int_le_iff)
  then have "\<bar>of_int n :: rat\<bar> < 2 ^ 53" using n(1) by simp
  then show ?thesis using n(1) by (simp add: bnOfDouble_def truncateDouble_def)
qed

lemma sum_list_nonneg_int: "\<forall>p \<in> set ps. 0 \<le> p \<Longrightarrow> 0 \<le> sum_list (ps :: int list)"
  by (simp add: sum_list_nonneg)

lemma foldl_percentages:
  assumes "map percentage as = map of_int ps" and "\<forall>p \<in> set ps. 0 \<le> p" and "0 \<le> n"
    and "n + sum_list ps \<le> 2 ^ 52"
  shows "foldl (\<lambda>s a. toDouble (s + percentage a)) (of_int n) as = of_int (n + sum_list ps)"
  using assms
proof (induction as arbitrary: n ps)
  case (Cons a as)
  then obtain p ps' where ps: "ps = p # ps'" by (cases ps) auto
  have "0 \<le> sum_list ps'" using Cons.prems(2) ps by (simp add: sum_list_nonneg_int)
  then have "n + p \<le> 2 ^ 52" "0 \<le> n + p" using Cons.prems ps by auto
  then have "toDouble (of_int n + percentage a) = of_int (n + p)"
    using toDouble_int [of "n + p"] Cons.prems(1) ps by simp
  then show ?case using Cons.IH [of ps' "n + p"] Cons.prems ps \<open>0 \<le> n + p\<close> by (simp add: add.assoc)
qed simp

lemma allocateAmounts_whole:
  assumes "map percentage as = map of_int ps" and "\<forall>p \<in> set ps. 0 \<le> p \<and> p \<le> 2 ^ 52"
    and "0 < d" and "d \<le> 2 ^ 52" and "0 \<le> n"
  shows "allocateAmounts n (of_int d) t amounts as =
    Inr (t + sum_list (map (\<lambda>p. n * p div d) ps),
      amounts @ map2 (\<lambda>a p. \<lparr>amountAddress = percentageAddress a, allocatedAmount = n * p div d\<rparr>) as ps)"
  using assms(1,2)
proof (induction as arbitrary: t amounts ps)
  case (Cons a as)
  then obtain p ps' where ps: "ps = p # ps'" by (cases ps) auto
  have "bnOfDouble (percentage a) = Inr p" "bnOfDouble (of_int d) = Inr d"
    using Cons.prems ps assms(3,4) bnOfDouble_int by auto
  moreover have "trunc_div (n * p) d = Inr (n * p div d)"
    using Cons.prems(2) ps assms(3,5) by (simp add: trunc_div_pos)
  ultimately show ?case using Cons.IH [of ps'] Cons.prems ps by (simp add: add.assoc)
qed simp

lemma sum_of_floors:
  assumes "0 < (d :: int)"
  shows "sum_list (map (\<lambda>p. n * p div d) ps) * d \<le> n * sum_list ps"
    and "n * sum_list ps \<le> (sum_list (map (\<lambda>p. n * p div d) ps) + int (length ps)) * d"
proof (induction ps)
  case (Cons p ps)
  have "n * p div d * d \<le> n * p" "n * p < (n * p div d + 1) * d" using floor_bounds [OF assms] by blast+
  with Cons show "sum_list (map (\<lambda>p. n * p div d) (p # ps)) * d \<le> n * sum_list (p # ps)"
    "n * sum_list (p # ps) \<le> (sum_list (map (\<lambda>p. n * p div d) (p # ps)) + int (length (p # ps))) * d"
    by (auto simp: distrib_left distrib_right)
qed simp_all

text \<open>Whatever the percentages are: when amounts come out, they add up to what there is.\<close>

lemma allocateAmounts_adds:
  "allocateAmounts n d t amounts as = Inr (t', amounts') \<Longrightarrow>
    \<exists>new. amounts' = amounts @ new \<and> map amountAddress new = map percentageAddress as \<and>
      t' = t + sum_list (map allocatedAmount new)"
proof (induction as arbitrary: t amounts)
  case (Cons a as)
  then obtain m where "allocateAmounts n d (t + m)
      (amounts @ [\<lparr>amountAddress = percentageAddress a, allocatedAmount = m\<rparr>]) as = Inr (t', amounts')"
    by auto
  from Cons.IH [OF this] show ?case by force
qed simp

lemma fromAllocations_adds:
  assumes "fromAllocationsToAmount n allocations = Inr amounts"
  shows "map amountAddress amounts = map percentageAddress allocations \<and> sum_list (map allocatedAmount amounts) = n"
proof -
  from assms obtain t front where "sumOfPercentages allocations \<noteq> 0"
    and run: "allocateAmounts n (sumOfPercentages allocations) 0 [] (butlast allocations) = Inr (t, front)" and
    amounts: "amounts = front @ [\<lparr>amountAddress = percentageAddress (last allocations), allocatedAmount = n - t\<rparr>]"
    by (auto simp: fromAllocationsToAmount_def Let_def split: if_splits)
  then have ne: "allocations \<noteq> []" by (auto simp: sumOfPercentages_def)
  have "map percentageAddress (butlast allocations) @ [percentageAddress (last allocations)] =
      map percentageAddress allocations"
    using ne by (metis append_butlast_last_id list.simps(8,9) map_append)
  with allocateAmounts_adds [OF run] show ?thesis by (auto simp: amounts)
qed

lemma amounts_fields:
  assumes "length as = length ps"
  shows "map amountAddress (map2 (\<lambda>a p. \<lparr>amountAddress = percentageAddress a, allocatedAmount = f p\<rparr>) as ps) =
      map percentageAddress as"
    and "map allocatedAmount (map2 (\<lambda>a p. \<lparr>amountAddress = percentageAddress a, allocatedAmount = f p\<rparr>) as ps) =
      map f ps"
  using assms by (induction as ps rule: list_induct2) simp_all

text \<open>
  C39: Allocations in whole percentages share out exactly the pool shares there are: every owner
  gets an amount, in the order given, all but the last exactly his share rounded down, and the last
  at least that and less than one unit more for every other owner.
\<close>

theorem allocations_share_out:
  assumes "map percentage allocations = map of_int ps" and "\<forall>p \<in> set ps. 0 \<le> p" and "0 < sum_list ps"
    and "sum_list ps \<le> 2 ^ 52" and "0 \<le> lpAmount"
  shows "\<exists>amounts. fromAllocationsToAmount lpAmount allocations = Inr amounts \<and>
    map amountAddress amounts = map percentageAddress allocations \<and>
    sum_list (map allocatedAmount amounts) = lpAmount \<and>
    map allocatedAmount (butlast amounts) = map (\<lambda>p. lpAmount * p div sum_list ps) (butlast ps) \<and>
    lpAmount * last ps div sum_list ps \<le> allocatedAmount (last amounts) \<and>
    allocatedAmount (last amounts) < lpAmount * last ps div sum_list ps + int (length ps)"
proof -
  let ?d = "sum_list ps" and ?front = "butlast ps"
  let ?parts = "map2 (\<lambda>a p. \<lparr>amountAddress = percentageAddress a, allocatedAmount = lpAmount * p div ?d\<rparr>)
    (butlast allocations) ?front"
  let ?rest = "lpAmount - sum_list (map (\<lambda>p. lpAmount * p div ?d) ?front)"
  have ne: "ps \<noteq> []" "allocations \<noteq> []" and len: "length allocations = length ps"
    using assms(1,3) map_eq_imp_length_eq [OF assms(1)] by auto
  have split: "ps = ?front @ [last ps]" using ne by simp
  have sum: "?d = sum_list ?front + last ps" by (subst split) simp
  have front: "\<forall>p \<in> set ?front. 0 \<le> p \<and> p \<le> 2 ^ 52"
    using assms(2,4) member_le_sum_list [of _ ps] by (meson in_set_butlastD order_trans)
  have "sumOfPercentages allocations = of_int ?d"
    using foldl_percentages [OF assms(1,2), of 0] assms(4) by (simp add: sumOfPercentages_def)
  moreover have "map percentage (butlast allocations) = map of_int ?front"
    using assms(1) by (simp only: map_butlast)
  then have "allocateAmounts lpAmount (of_int ?d) 0 [] (butlast allocations) =
      Inr (sum_list (map (\<lambda>p. lpAmount * p div ?d) ?front), ?parts)"
    using allocateAmounts_whole [OF _ front assms(3,4,5)] by simp
  ultimately have run: "fromAllocationsToAmount lpAmount allocations =
      Inr (?parts @ [\<lparr>amountAddress = percentageAddress (last allocations), allocatedAmount = ?rest\<rparr>])"
    using assms(3) by (simp add: fromAllocationsToAmount_def Let_def)
  have parts: "map amountAddress ?parts = map percentageAddress (butlast allocations)"
    "map allocatedAmount ?parts = map (\<lambda>p. lpAmount * p div ?d) ?front"
    using amounts_fields [of "butlast allocations" ?front] len by simp_all
  have addresses: "map percentageAddress (butlast allocations) @ [percentageAddress (last allocations)] =
      map percentageAddress allocations"
    using ne(2) by (metis append_butlast_last_id list.simps(8,9) map_append)
  note floors = sum_of_floors [OF assms(3), of lpAmount ?front]
  have "lpAmount * ?d = lpAmount * sum_list ?front + lpAmount * last ps" by (simp only: sum distrib_left)
  with floors have bounds: "lpAmount * last ps \<le> ?rest * ?d"
    "?rest * ?d \<le> lpAmount * last ps + int (length ?front) * ?d"
    by (simp_all add: left_diff_distrib distrib_right)
  have "lpAmount * last ps div ?d \<le> ?rest"
    using zdiv_mono1 [OF bounds(1) assms(3)] assms(3) by simp
  moreover have "?rest \<le> lpAmount * last ps div ?d + int (length ?front)"
    using zdiv_mono1 [OF bounds(2) assms(3)] assms(3) by simp
  moreover have "int (length ?front) < int (length ps)" using ne(1) by simp
  ultimately show ?thesis using parts addresses by (simp add: run)
qed

theorem allocations_share_out_witness:
  "\<exists>amounts. fromAllocationsToAmount 1001
      [\<lparr>percentageAddress = key 1, percentage = 80\<rparr>, \<lparr>percentageAddress = key 2, percentage = 20\<rparr>] = Inr amounts \<and>
    sum_list (map allocatedAmount amounts) = 1001 \<and> allocatedAmount (last amounts) < 202"
  using allocations_share_out [of "[\<lparr>percentageAddress = key 1, percentage = 80\<rparr>,
    \<lparr>percentageAddress = key 2, percentage = 20\<rparr>]" "[80, 20]" 1001] by auto

section \<open>What a script has sent\<close>

lemma reads_eq [simp]: "reads f st = (r, st') \<longleftrightarrow> f (world st) = r \<and> st' = st"
  by (auto simp: reads_def)

lemma for_each_append:
  "for_each f (xs @ ys) st = then_do (for_each f xs) (\<lambda>_. for_each f ys) st"
  by (induction xs arbitrary: st) (auto simp: then_do_def split: prod.splits sum.splits)

lemma signAndSend_sent:
  "signAndSend send payer tx st = (Inr (), st') \<longleftrightarrow>
    feePayer tx = payer \<and> (\<forall>ix \<in> set (instructions tx). signersOf ix \<subseteq> {payer}) \<and>
    (\<exists>E. send (world st) tx = Inr E \<and> st' = st\<lparr>world := E, sent := sent st @ [tx]\<rparr>)"
  by (auto simp: signAndSend_def split: sum.splits)

text \<open>The addresses that programs have do not change with the chain.\<close>

definition keeps_addresses :: "network \<Rightarrow> bool" where
  "keeps_addresses send \<longleftrightarrow> (\<forall>E tx E'. send E tx = Inr E' \<longrightarrow> envFns E' = envFns E)"

lemma sends_all:
  assumes "for_each (signAndSend send payer) txs st = (Inr (), st')" and "keeps_addresses send"
  shows "sent st' = sent st @ txs \<and> envFns (world st') = envFns (world st)"
  using assms(1)
proof (induction txs arbitrary: st)
  case (Cons tx txs)
  then obtain u where "signAndSend send payer tx st = (Inr (), u)" "for_each (signAndSend send payer) txs u = (Inr (), st')"
    by auto
  with Cons.IH assms(2) show ?case by (auto simp: signAndSend_sent keeps_addresses_def)
qed simp

text \<open>The escrows that a transaction locks pool shares in, with the amounts.\<close>

definition lockOf :: "program_call \<Rightarrow> (pubkey \<times> int) list" where
  "lockOf c = (if callMethod c = ''lock''
     then (case callArgs c of [ValBN n] \<Rightarrow> [(key_of c ''lockEscrow'', n)] | _ \<Rightarrow> []) else [])"

definition locksIn :: "transaction list \<Rightarrow> (pubkey \<times> int) list" where
  "locksIn txs = concat (map lockOf (concat (map (\<lambda>tx. programCalls (instructions tx)) txs)))"

lemma locksIn_Nil [simp]: "locksIn [] = []"
  by (simp add: locksIn_def)

lemma locksIn_Cons: "locksIn (tx # txs) = locksIn [tx] @ locksIn txs"
  by (simp add: locksIn_def)

lemma lockLiquidity_locks:
  assumes "lockLiquidity E owner n (Some payer) self = Inr tx"
  shows "locksIn [tx] = [(fst (deriveLockEscrowPda (envFns E) (ammAddress self) owner (ammProgramId self)), n)]"
  using assms
  by (auto simp: lockLiquidity_def Let_def split_def locksIn_def lockOf_def createLockEscrowCall_def key_of_def ix_simps
      split: option.splits)

lemma locking_loop:
  assumes "for_each (\<lambda>a. then_do (reads (\<lambda>E. lockLiquidity E (amountAddress a) (allocatedAmount a) (Some payer) pool))
      (signAndSend send payer)) as st = (Inr (), st')" and "keeps_addresses send"
  shows "\<exists>txs. sent st' = sent st @ txs \<and> length txs = length as \<and> locksIn txs =
    map (\<lambda>a. (fst (deriveLockEscrowPda (envFns (world st)) (ammAddress pool) (amountAddress a) (ammProgramId pool)),
      allocatedAmount a)) as"
  using assms(1)
proof (induction as arbitrary: st)
  case (Cons a as)
  then obtain tx u where tx: "lockLiquidity (world st) (amountAddress a) (allocatedAmount a) (Some payer) pool = Inr tx"
    and u: "signAndSend send payer tx st = (Inr (), u)" and
    rest: "for_each (\<lambda>a. then_do (reads (\<lambda>E. lockLiquidity E (amountAddress a) (allocatedAmount a) (Some payer) pool))
      (signAndSend send payer)) as u = (Inr (), st')"
    by (auto elim!: then_doE)
  from u assms(2) have "sent u = sent st @ [tx]" "envFns (world u) = envFns (world st)"
    by (auto simp: signAndSend_sent keeps_addresses_def)
  moreover from Cons.IH [OF rest] obtain txs where "sent st' = sent u @ txs" "length txs = length as"
    "locksIn txs = map (\<lambda>a. (fst (deriveLockEscrowPda (envFns (world u)) (ammAddress pool) (amountAddress a)
      (ammProgramId pool)), allocatedAmount a)) as" by blast
  ultimately show ?case
    using lockLiquidity_locks [OF tx]
    by (intro exI [of _ "tx # txs"]) (simp add: locksIn_Cons [of tx txs])
qed simp

lemma create_identity:
  assumes "create X C V k programId seed = Inr self"
  shows "ammAddress self = k" "ammProgramId self = createProgramId programId"
proof -
  obtain ps lpTotal vA vB info m where
    "newAmmImpl X (createProgramId programId) k ps lpTotal vA vB info m = Inr self"
    using assms by (auto simp: create_def split: list.splits prod.splits)
  then show "ammAddress self = k" "ammProgramId self = createProgramId programId"
    by (auto elim!: newAmmImpl_fields) (metis amm_impl.select_convs(1,2))+
qed

text \<open>
  C14: When the script that creates a pool and locks its liquidity ends without an error, it has sent
  the transactions of the creation and then one transaction for every allocation. They lock, in
  the escrows of the owners named and in their order, altogether exactly the pool shares that the
  payer had when the pool was created: none is left over and none is locked twice.
\<close>

theorem script_locks_everything:
  assumes "createPoolAndLockLiquidity X V send payer mintA mintB amountA amountB config allocations
      \<lparr>world = E, sent = []\<rparr> = (Inr (), st)"
    and "keeps_addresses send"
    and "pool = derivePoolAddressWithConfig (envFns E) mintA mintB config PROGRAM_ID"
  shows "\<exists>creation locking st' balance.
    createPermissionlessConstantProductPoolWithConfig E payer mintA mintB amountA amountB config None no_options = Inr creation \<and>
    for_each (signAndSend send payer) creation \<lparr>world = E, sent = []\<rparr> = (Inr (), st') \<and>
    tokenAccountBalance (envChain (world st')) (ataOf E (deriveLpMint (envFns E) pool PROGRAM_ID) payer) = Inr balance \<and>
    sent st = creation @ locking \<and> length locking = length allocations \<and>
    map fst (locksIn locking) =
      map (\<lambda>a. fst (deriveLockEscrowPda (envFns E) pool (percentageAddress a) PROGRAM_ID)) allocations \<and>
    sum_list (map snd (locksIn locking)) = balance"
proof -
  from assms(1) obtain creation st' balance amounts self where
    creation: "createPermissionlessConstantProductPoolWithConfig E payer mintA mintB amountA amountB config None
      no_options = Inr creation" and
    made: "for_each (signAndSend send payer) creation \<lparr>world = E, sent = []\<rparr> = (Inr (), st')" and
    balance: "tokenAccountBalance (envChain (world st')) (ataOf E (deriveLpMint (envFns E) pool PROGRAM_ID) payer) =
      Inr balance" and
    amounts: "fromAllocationsToAmount balance allocations = Inr amounts" and
    self: "create X (envChain (world st')) (V (world st')) pool None None = Inr self" and
    locking: "for_each (\<lambda>a. then_do (reads (\<lambda>E. lockLiquidity E (amountAddress a) (allocatedAmount a) (Some payer)
      self)) (signAndSend send payer)) amounts st' = (Inr (), st)"
    by (auto simp: createPoolAndLockLiquidity_def Let_def assms(3) deriveLpMint_def)
  note sent = sends_all [OF made assms(2)]
  from locking_loop [OF locking assms(2)] obtain txs where
    txs: "sent st = sent st' @ txs" "length txs = length amounts" "locksIn txs =
      map (\<lambda>a. (fst (deriveLockEscrowPda (envFns E) pool (amountAddress a) PROGRAM_ID), allocatedAmount a)) amounts"
    using create_identity [OF self] sent by (auto simp: createProgramId_def)
  note adds = fromAllocations_adds [OF amounts]
  have "map fst (locksIn txs) = map (\<lambda>k. fst (deriveLockEscrowPda (envFns E) pool k PROGRAM_ID)) (map amountAddress amounts)"
    "map snd (locksIn txs) = map allocatedAmount amounts" by (simp_all add: txs(3))
  then have "map fst (locksIn txs) =
      map (\<lambda>a. fst (deriveLockEscrowPda (envFns E) pool (percentageAddress a) PROGRAM_ID)) allocations"
    "sum_list (map snd (locksIn txs)) = balance" using adds by simp_all
  moreover have "length txs = length allocations" using adds txs(2) map_eq_imp_length_eq by metis
  ultimately show ?thesis using creation made balance sent txs(1) by auto
qed

section \<open>A script that ends\<close>

text \<open>The keys that have to sign, as a list, for evaluation.\<close>

lemma signersOf_code [code]:
  "signersOf (ProgramCall c) = (case findInstruction (callMethod c) of
       None \<Rightarrow> {}
     | Some ix \<Rightarrow> set (concat (map (\<lambda>a. case map_of (callAccounts c) (accountName a) of None \<Rightarrow> [] | Some k \<Rightarrow> [k])
         (filter accountSigner (ixAccounts ix)))) \<union> set (map metaPubkey (filter isSigner (callRemaining c))))"
  "signersOf (SystemTransfer source dest n) = {source}"
  "signersOf (CreateAssociatedTokenAccount payer account owner mint) = {payer}"
  "signersOf (CloseAccount account dest owner) = {owner}"
  "signersOf (RawInstruction metas data program) = set (map metaPubkey (filter isSigner metas))"
  "signersOf (SetComputeUnitLimit units) = {}"
  "signersOf (VaultInstruction payer mint) = {payer}"
  by (auto split: option.splits)

text \<open>A chain on which every pool is the same, and a network that goes to it with the first transaction.\<close>

definition script_network :: network where
  "script_network E tx = Inr (E\<lparr>envChain := example_pools
     \<lparr>poolAccount := (\<lambda>k. Some (example_pool ConstantProductCurve)), tokenAccountBalance := (\<lambda>k. Inr 1001)\<rparr>\<rparr>)"

definition script_allocations :: "allocation_by_percentage list" where
  "script_allocations = [\<lparr>percentageAddress = key 41, percentage = 80\<rparr>, \<lparr>percentageAddress = key 42, percentage = 20\<rparr>]"

definition script_run :: "unit result \<times> script_state" where
  "script_run = createPoolAndLockLiquidity example_externals (\<lambda>E. example_vaults) script_network (key 40) (key 2) (key 3)
     100000 500000 (key 50) script_allocations \<lparr>world = ledger_env, sent = []\<rparr>"

lemma script_ends: "fst script_run = Inr ()"
  by code_simp

theorem script_locks_everything_witness:
  "\<exists>creation locking. sent (snd script_run) = creation @ locking \<and> length locking = 2 \<and>
    sum_list (map snd (locksIn locking)) = 1001"
proof -
  have "script_run = (Inr (), snd script_run)" using script_ends by (metis prod.collapse)
  moreover have "keeps_addresses script_network" by (simp add: keeps_addresses_def script_network_def)
  ultimately obtain creation locking st' balance where
    creation: "createPermissionlessConstantProductPoolWithConfig ledger_env (key 40) (key 2) (key 3) 100000 500000
      (key 50) None no_options = Inr creation" and
    made: "for_each (signAndSend script_network (key 40)) creation \<lparr>world = ledger_env, sent = []\<rparr> = (Inr (), st')" and
    balance: "tokenAccountBalance (envChain (world st')) (ataOf ledger_env (deriveLpMint (envFns ledger_env)
      (derivePoolAddressWithConfig (envFns ledger_env) (key 2) (key 3) (key 50) PROGRAM_ID) PROGRAM_ID) (key 40)) =
      Inr balance" and
    sent: "sent (snd script_run) = creation @ locking" "length locking = 2"
      "sum_list (map snd (locksIn locking)) = balance"
    using script_locks_everything [OF _ _ refl, of example_externals "\<lambda>E. example_vaults" script_network "key 40" "key 2"
        "key 3" 100000 500000 "key 50" script_allocations ledger_env "snd script_run"]
    by (auto simp: script_run_def script_allocations_def)
  have "creation \<noteq> []"
    using creation by (auto simp: createPermissionlessConstantProductPoolWithConfig_def Let_def split_def
        and_then_eq_Inr_iff creationTransactions_Inr)
  then have "balance = 1001"
    using made balance by (cases creation rule: rev_cases) (auto simp: script_network_def signAndSend_sent for_each_append)
  with sent show ?thesis by blast
qed

text \<open>
  The percentages are looked at after the pool has been created: when they add up to nothing, as for
  no allocation at all, the script ends with the pool created and nothing locked.
\<close>

lemma allocations_checked_too_late:
  assumes "createPermissionlessConstantProductPoolWithConfig E payer mintA mintB amountA amountB config None no_options
      = Inr creation"
    and "for_each (signAndSend send payer) creation \<lparr>world = E, sent = []\<rparr> = (Inr (), st')"
    and "tokenAccountBalance (envChain (world st')) (ataOf E (deriveLpMint (envFns E)
      (derivePoolAddressWithConfig (envFns E) mintA mintB config PROGRAM_ID) PROGRAM_ID) payer) = Inr balance"
    and "sumOfPercentages allocations = 0" and "keeps_addresses send"
  shows "createPoolAndLockLiquidity X V send payer mintA mintB amountA amountB config allocations
      \<lparr>world = E, sent = []\<rparr> = (Inl (Thrown ''sumPercentage is zero''), st') \<and> sent st' = creation"
  using assms(1-4) sends_all [OF assms(2,5)]
  by (simp add: createPoolAndLockLiquidity_def Let_def then_do_def reads_def deriveLpMint_def
      fromAllocationsToAmount_def pure_step_def)

section \<open>A configuration of one's own\<close>

text \<open>The script creates its pool with a configuration whose creator is the wallet, or raises.\<close>

lemma authorized_config_is_own:
  assumes "createPoolWithAuthorizedConfig send mintA mintB amountA amountB payer st = (Inr (), st')"
    and "decoded_by_interface (envChain (world st))" and "valid_pubkey payer"
  obtains config data account where "(config, data, account) \<in> set (configAccounts (envChain (world st)))"
    and "cfgPoolCreatorAuthority account = payer"
    and "createPool send mintA mintB amountA amountB config payer st = (Inr (), st')"
proof -
  have "getPoolConfigsWithPoolCreatorAuthority (envChain (world st)) payer =
      filter (\<lambda>(k, data, cfg). cfgPoolCreatorAuthority cfg = payer) (configAccounts (envChain (world st)))"
    unfolding getPoolConfigsWithPoolCreatorAuthority_def
    by (rule memcmp_field [OF offset_poolCreatorAuthority assms(3)])
      (use assms(2) in \<open>auto simp: decoded_by_interface_def\<close>)
  with assms(1) obtain config data account configs where
    found: "filter (\<lambda>(k, data, cfg). cfgPoolCreatorAuthority cfg = payer) (configAccounts (envChain (world st))) =
      (config, data, account) # configs" and
    run: "createPool send mintA mintB amountA amountB config payer st = (Inr (), st')"
    by (auto simp: createPoolWithAuthorizedConfig_def split: list.splits)
  have "(config, data, account) \<in> set (filter (\<lambda>(k, data, cfg). cfgPoolCreatorAuthority cfg = payer)
      (configAccounts (envChain (world st))))" unfolding found by simp
  then show thesis by (intro that [OF _ _ run, of data account]) auto
qed

section \<open>Swapping with full slippage\<close>

lemma full_slippage: "getMinAmountWithSlippage n 100 = Inr 0"
  by (simp add: getMinAmountWithSlippage_def toDouble_def bnOfDouble_def truncateDouble_def trunc_div_def)

lemma logNumber_Inr [simp]: "logNumber n st = (Inr (), st') \<longleftrightarrow> st' = st \<and> toNumber n = Inr n"
  by (auto simp: logNumber_def toNumber_def)

text \<open>
  C40: The example swap accepts any output. It asks for a quote with a slippage of 100, which is all of
  the output and not one percent, so the least output it passes to the program is zero whatever the
  quote promises. And it prints amounts as JavaScript numbers first, so it raises before it swaps
  when the pool holds \<open>2 ^ 53\<close> units or more of a token.
\<close>

theorem swap_script_takes_any_output:
  assumes "swapScript X V send payer poolAddress n aToB st = (Inr (), st')"
  shows "\<exists>pool quote tx c. create X (envChain (world st)) (V (world st)) poolAddress None None = Inr pool \<and>
    fst (getSwapQuote X (mintAddress (if aToB then ammTokenAMint pool else ammTokenBMint pool)) n 100 None pool) =
      Inr quote \<and>
    sent st' = sent st @ [tx] \<and> programCalls (instructions tx) = [c] \<and> callMethod c = ''swap'' \<and>
    callArgs c = [ValBN n, ValBN 0] \<and>
    tokenAAmount (ammPoolInfo pool) < 2 ^ 53 \<and> tokenBAmount (ammPoolInfo pool) < 2 ^ 53"
proof -
  from assms obtain pool quote quoted tx where
    pool: "create X (envChain (world st)) (V (world st)) poolAddress None None = Inr pool" and
    quote: "getSwapQuote X (mintAddress (if aToB then ammTokenAMint pool else ammTokenBMint pool)) n 100 None pool =
      (Inr quote, quoted)" and
    tx: "swap (world st) payer (mintAddress (if aToB then ammTokenAMint pool else ammTokenBMint pool)) n
      (minSwapOutAmount quote) None quoted = Inr tx" and
    sent: "signAndSend send payer tx st = (Inr (), st')" and
    small: "toNumber (tokenAAmount (ammPoolInfo pool)) = Inr (tokenAAmount (ammPoolInfo pool))"
      "toNumber (tokenBAmount (ammPoolInfo pool)) = Inr (tokenBAmount (ammPoolInfo pool))"
    by (auto simp: swapScript_def Let_def split: prod.splits)
  have "minSwapOutAmount quote = 0"
    using quote by (auto simp: getSwapQuote_def full_slippage)
  moreover note swap_calls [OF tx]
  ultimately have "\<exists>c. programCalls (instructions tx) = [c] \<and> callMethod c = ''swap'' \<and> callArgs c = [ValBN n, ValBN 0]"
    by simp
  with pool quote sent small show ?thesis by (auto simp: signAndSend_sent toNumber_eq_Inr_iff)
qed

definition swap_run :: "unit result \<times> script_state" where
  "swap_run = swapScript example_externals (\<lambda>E. example_vaults) (\<lambda>E tx. Inr E) (key 40) (key 20) 10000 True
     \<lparr>world = ledger_env\<lparr>envChain := example_pools\<rparr>, sent = []\<rparr>"

lemma swap_run_ends: "fst swap_run = Inr ()"
  by code_simp

theorem swap_script_takes_any_output_witness:
  "\<exists>tx c. sent (snd swap_run) = [tx] \<and> c \<in> set (programCalls (instructions tx)) \<and>
    callArgs c = [ValBN 10000, ValBN 0]"
proof -
  have "swap_run = (Inr (), snd swap_run)" using swap_run_ends by (metis prod.collapse)
  from swap_script_takes_any_output [OF this [unfolded swap_run_def]] show ?thesis
    by (fastforce simp: swap_run_def)
qed

end
