(* ===== verification/Deployments.thy ===== *)
theory Deployments
  imports PoolKeys
begin

text \<open>
  The rest of \<open>ts-client/src/amm/constants.ts\<close> and \<open>types/index.ts\<close>: the programs, pools and coins
  of the deployments, the fees that are offered, and the types that only callers name. A base58
  string given to \<open>new PublicKey\<close> is decoded; the addresses of the coin table stay strings, as there.
\<close>

section \<open>Types that callers name\<close>

record fees_of_lock =
  feesLp :: "int option"
  feesTokenA :: int
  feesTokenB :: int

record token_address_and_decimals =
  tadAddress :: string
  tadDecimals :: nat

text \<open>\<open>AccountInfo<Buffer> | null\<close> as the buffer, when there is one.\<close>

record accounts_to_cache =
  apyPdaBuffer :: "byte list option"
  poolBuffer :: "byte list option"
  vaultAPdaBuffer :: "byte list option"
  vaultBPdaBuffer :: "byte list option"
  vaultAReserveBuffer :: "byte list option"
  vaultBReserveBuffer :: "byte list option"
  vaultALpMintBuffer :: "byte list option"
  vaultBLpMintBuffer :: "byte list option"
  poolVaultALpBuffer :: "byte list option"
  poolVaultBLpBuffer :: "byte list option"
  poolLpMintBuffer :: "byte list option"
  marinadeBuffer :: "byte list option"
  solidoBuffer :: "byte list option"
  clockAccountBuffer :: "byte list option"

record parsed_clock_info =
  parsedEpoch :: int
  parsedEpochStartTimestamp :: int
  parsedLeaderScheduleEpoch :: int
  parsedSlot :: int
  parsedUnixTimestamp :: int

record parsed_clock_state =
  parsedInfo :: parsed_clock_info
  parsedType :: string
  parsedProgram :: string
  parsedSpace :: int

section \<open>Coins\<close>

text \<open>\<open>ENV\<close> and \<open>TokenInfo\<close> of the token registry, as far as the table uses them.\<close>

datatype cluster = Devnet

record registry_token =
  coinChain :: cluster
  coinAddress :: string
  coinDecimals :: nat
  coinName :: string
  coinSymbol :: string
  coinLogoURI :: string
  coinTags :: "string list"
  coinExtensions :: "(string \<times> string) list"

definition DEVNET_COIN_SOL :: registry_token where
  "DEVNET_COIN_SOL = \<lparr>coinChain = Devnet,
     coinAddress = ''So11111111111111111111111111111111111111112'', coinDecimals = 9,
     coinName = ''Wrapped SOL'', coinSymbol = ''SOL'',
     coinLogoURI =
       ''https://raw.githubusercontent.com/solana-labs/token-list/main/assets/mainnet/So11111111111111111111111111111111111111112/logo.png'',
     coinTags = [],
     coinExtensions =
      [(''coingeckoId'', ''solana''),
       (''serumV3Usdc'', ''9wFFyRfZBsuAha4YcuxcXLKwMxJR43S7fPfQLusDBzvT''),
       (''serumV3Usdt'', ''HWHvQhFmJB3NUcu1aihKmrKegfVxBEHzwVX6yZCKEsi1''),
       (''website'', ''https://solana.com/'')]\<rparr>"

definition DEVNET_COIN_USDC :: registry_token where
  "DEVNET_COIN_USDC = \<lparr>coinChain = Devnet,
     coinAddress = ''zVzi5VAf4qMEwzv7NXECVx5v2pQ7xnqVVjCXZwS9XzA'', coinDecimals = 6,
     coinName = ''USD Coin'', coinSymbol = ''USDC'',
     coinLogoURI =
       ''https://raw.githubusercontent.com/solana-labs/token-list/main/assets/mainnet/EPjFWdd5AufqSSqeM2qN1xzybapC8G4wEGGkZwyTDt1v/logo.png'',
     coinTags = [],
     coinExtensions =
      [(''coingeckoId'', ''usd-coin''),
       (''serumV3Usdt'', ''77quYg4MGneUdjgXCunt9GgM1usmrxKY31twEy3WHwcS''),
       (''website'', ''https://www.centre.io/'')]\<rparr>"

definition DEVNET_COIN_USDT :: registry_token where
  "DEVNET_COIN_USDT = \<lparr>coinChain = Devnet,
     coinAddress = ''9NGDi2tZtNmCCp8SVLKNuGjuWAVwNF3Vap5tT8km5er9'', coinDecimals = 9,
     coinName = ''USDT'', coinSymbol = ''USDT'',
     coinLogoURI =
       ''https://raw.githubusercontent.com/solana-labs/token-list/main/assets/mainnet/Es9vMFrzaCERmJfrF4H2FYD4KCoNkY11McCe8BenwNYB/logo.svg'',
     coinTags = [''stablecoin''],
     coinExtensions =
      [(''coingeckoId'', ''tether''),
       (''serumV3Usdc'', ''77quYg4MGneUdjgXCunt9GgM1usmrxKY31twEy3WHwcS''),
       (''website'', ''https://tether.to/'')]\<rparr>"

definition DEVNET_COIN_mSOL :: registry_token where
  "DEVNET_COIN_mSOL = \<lparr>coinChain = Devnet,
     coinAddress = ''mSoLzYCxHdYgdzU16g5QSh3i5K3z3KZK7ytfqcJm7So'', coinDecimals = 9,
     coinName = ''Marinade staked SOL (mSOL)'', coinSymbol = ''mSOL'',
     coinLogoURI =
       ''https://raw.githubusercontent.com/solana-labs/token-list/main/assets/mainnet/mSoLzYCxHdYgdzU16g5QSh3i5K3z3KZK7ytfqcJm7So/logo.png'',
     coinTags = [],
     coinExtensions =
      [(''coingeckoId'', ''msol''),
       (''discord'', ''https://discord.gg/mGqZA5pjRN''),
       (''github'', ''https://github.com/marinade-finance''),
       (''medium'', ''https://medium.com/marinade-finance''),
       (''serumV3Usdc'', ''6oGsL2puUgySccKzn9XA9afqF217LfxP5ocq4B3LWsjy''),
       (''serumV3Usdt'', ''HxkQdUnrPdHwXP5T9kewEXs3ApgvbufuTfdw9v1nApFd''),
       (''twitter'', ''https://twitter.com/MarinadeFinance''),
       (''website'', ''https://marinade.finance'')]\<rparr>"

definition DEVNET_COIN :: "registry_token list" where
  "DEVNET_COIN = [DEVNET_COIN_SOL, DEVNET_COIN_USDC, DEVNET_COIN_USDT, DEVNET_COIN_mSOL]"

section \<open>Pools and programs\<close>

definition DEVNET_POOL :: "(string \<times> pubkey) list" where
  "DEVNET_POOL =
    [(''USDT_USDC'', PublicKey
      [150, 246, 44, 176, 187, 40, 174, 65, 184, 97, 175, 149, 70, 56, 254, 105,
       188, 217, 126, 238, 5, 206, 105, 102, 232, 227, 2, 63, 69, 199, 107, 141]),
     (''USDT_SOL'', PublicKey
      [158, 189, 127, 12, 93, 21, 60, 143, 206, 37, 15, 64, 142, 214, 118, 127,
       221, 214, 231, 135, 107, 105, 55, 126, 107, 12, 197, 130, 84, 75, 174, 159]),
     (''SOL_MSOL'', PublicKey
      [27, 154, 165, 14, 232, 96, 177, 237, 37, 47, 218, 104, 82, 68, 106, 73,
       86, 22, 143, 161, 70, 197, 206, 152, 78, 219, 198, 52, 12, 206, 195, 81])]"

definition MAINNET_POOL :: "(string \<times> pubkey) list" where
  "MAINNET_POOL =
    [(''USDT_USDC'', PublicKey
      [30, 6, 153, 212, 33, 55, 79, 65, 125, 194, 203, 207, 124, 240, 213, 119,
       69, 187, 162, 0, 230, 235, 0, 71, 25, 90, 9, 173, 55, 117, 176, 101]),
     (''USDC_SOL'', PublicKey
      [74, 2, 205, 205, 77, 168, 76, 205, 89, 92, 239, 249, 135, 177, 115, 143,
       25, 238, 141, 57, 175, 214, 76, 145, 198, 193, 35, 196, 125, 182, 27, 24]),
     (''SOL_STSOL'', PublicKey
      [92, 142, 101, 9, 203, 61, 214, 237, 102, 69, 248, 33, 186, 47, 106, 44,
       92, 196, 8, 148, 193, 41, 189, 228, 176, 70, 66, 31, 246, 178, 49, 175]),
     (''SOL_MSOL'', PublicKey
      [246, 226, 115, 88, 64, 211, 104, 236, 237, 133, 54, 101, 157, 81, 229, 255,
       160, 44, 65, 137, 189, 35, 213, 27, 200, 145, 1, 35, 81, 24, 156, 129])]"

definition VAULT_BASE_KEY :: pubkey where
  "VAULT_BASE_KEY = PublicKey
    [245, 105, 223, 222, 32, 35, 51, 89, 141, 199, 215, 75, 29, 148, 184, 98,
     71, 121, 193, 248, 47, 30, 37, 166, 91, 110, 78, 248, 163, 190, 155, 155]"

definition POOL_BASE_KEY :: pubkey where
  "POOL_BASE_KEY = PublicKey
    [239, 224, 70, 144, 124, 113, 99, 17, 186, 151, 123, 157, 121, 15, 115, 125,
     176, 224, 69, 61, 205, 165, 238, 95, 108, 91, 33, 229, 8, 129, 184, 123]"

definition STAGING_PROGRAM_ID :: pubkey where
  "STAGING_PROGRAM_ID = PublicKey
    [8, 166, 201, 126, 243, 242, 18, 205, 117, 210, 142, 82, 96, 116, 233, 62,
     221, 247, 149, 9, 49, 15, 16, 9, 247, 193, 24, 110, 225, 78, 57, 48]"

definition DEFAULT_SLIPPAGE :: rat where
  "DEFAULT_SLIPPAGE = 1"

definition CONSTANT_PRODUCT_ALLOWED_TRADE_FEE_BPS :: "int list" where
  "CONSTANT_PRODUCT_ALLOWED_TRADE_FEE_BPS = [25, 100, 400, 600]"

definition STABLE_SWAP_ALLOWED_TRADE_FEE_BPS :: "int list" where
  "STABLE_SWAP_ALLOWED_TRADE_FEE_BPS = [1, 4, 10, 100]"

datatype error_name = POOL_NOT_LOAD | INVALID_MINT | INVALID_ACCOUNT

fun ERROR_message :: "error_name \<Rightarrow> string" where
  "ERROR_message POOL_NOT_LOAD = ''Pool not loaded''"
| "ERROR_message INVALID_MINT = ''Invalid mint''"
| "ERROR_message INVALID_ACCOUNT = ''Account not found''"

section \<open>The tables\<close>

lemma deployments_valid:
  "list_all (\<lambda>(n, k). valid_pubkey k) (DEVNET_POOL @ MAINNET_POOL)"
  "distinct (map snd (DEVNET_POOL @ MAINNET_POOL))"
  "distinct (map coinAddress DEVNET_COIN)" "distinct (map coinSymbol DEVNET_COIN)"
  "PROGRAM_ID \<noteq> STAGING_PROGRAM_ID"
  by code_simp+

text \<open>The default fee of a curve is among those it allows.\<close>

lemma default_fees_allowed:
  "CONSTANT_PRODUCT_DEFAULT_TRADE_FEE_BPS \<in> set CONSTANT_PRODUCT_ALLOWED_TRADE_FEE_BPS"
  "STABLE_SWAP_DEFAULT_TRADE_FEE_BPS \<in> set STABLE_SWAP_ALLOWED_TRADE_FEE_BPS"
  by code_simp+

end
