(* ===== verification/IdlType.thy ===== *)
theory IdlType
  imports Idl
begin

text \<open>
  The type \<open>Amm\<close> of \<open>ts-client/src/amm/idl.ts\<close>, by which the SDK types the program it calls: the type
  \<open>AmmIdl\<close> of \<open>Program\<close> is this one, while the calls are encoded by the constant \<open>IDL\<close>. The type is
  made of literal types, tuples and objects. The property compares it with the constant.
  The documentation strings are left out of both.
\<close>

section \<open>Literal types and their values\<close>

datatype ts_type =
    Literal string
  | BoolLiteral bool
  | NumberLiteral int
  | TupleType "ts_type list"
  | ObjectType "(string \<times> ts_type) list"

datatype json =
    JString string
  | JBool bool
  | JNumber int
  | JArray "json list"
  | JObject "(string \<times> json) list"

text \<open>
  An object literal has the fields of its type in any order, and no others; a tuple has the members
  of its type in order.
\<close>

fun inhabits :: "json \<Rightarrow> ts_type \<Rightarrow> bool" where
  "inhabits (JString s) (Literal l) \<longleftrightarrow> s = l"
| "inhabits (JBool b) (BoolLiteral l) \<longleftrightarrow> b = l"
| "inhabits (JNumber n) (NumberLiteral l) \<longleftrightarrow> n = l"
| "inhabits (JArray vs) (TupleType ts) \<longleftrightarrow> list_all2 inhabits vs ts"
| "inhabits (JObject fs) (ObjectType ts) \<longleftrightarrow> distinct (map fst fs) \<and> set (map fst fs) = set (map fst ts) \<and>
     list_all (\<lambda>(n, t). case map_of fs n of None \<Rightarrow> False | Some v \<Rightarrow> inhabits v t) ts"
| "inhabits v t \<longleftrightarrow> False"

text \<open>Equality of values, whatever the order of the fields of objects.\<close>

fun same_value :: "json \<Rightarrow> json \<Rightarrow> bool" where
  "same_value (JArray vs) (JArray us) \<longleftrightarrow> list_all2 same_value vs us"
| "same_value (JObject fs) (JObject gs) \<longleftrightarrow> distinct (map fst fs) \<and> set (map fst fs) = set (map fst gs) \<and>
     list_all (\<lambda>(n, u). case map_of fs n of None \<Rightarrow> False | Some v \<Rightarrow> same_value v u) gs"
| "same_value v u \<longleftrightarrow> v = u"

text \<open>A type of literals has one value.\<close>

fun the_value :: "ts_type \<Rightarrow> json" where
  "the_value (Literal l) = JString l"
| "the_value (BoolLiteral b) = JBool b"
| "the_value (NumberLiteral n) = JNumber n"
| "the_value (TupleType ts) = JArray (map the_value ts)"
| "the_value (ObjectType ts) = JObject (map (\<lambda>(n, t). (n, the_value t)) ts)"

lemma inhabits_same_value: "inhabits v t \<longleftrightarrow> same_value v (the_value t)"
proof (induction v t rule: inhabits.induct)
  case (4 vs ts)
  then show ?case by (auto simp: list_all2_map2 intro: list.rel_mono_strong)
next
  case (5 fs ts)
  have "set (map fst (map (\<lambda>(n, t). (n, the_value t)) ts)) = set (map fst ts)" by force
  moreover have "inhabits v t \<longleftrightarrow> same_value v (the_value t)" if "(n, t) \<in> set ts" "map_of fs n = Some v" for n t v
    using 5 that by force
  ultimately show ?case
    by (auto simp: list_all_iff split: option.splits)
qed simp_all

section \<open>The constant as a value\<close>

fun jsonType :: "idl_type \<Rightarrow> json" where
  "jsonType TyU8 = JString ''u8''"
| "jsonType TyU64 = JString ''u64''"
| "jsonType TyU128 = JString ''u128''"
| "jsonType TyF64 = JString ''f64''"
| "jsonType TyBool = JString ''bool''"
| "jsonType TyPublicKey = JString ''publicKey''"
| "jsonType (TyOption t) = JObject [(''option'', jsonType t)]"
| "jsonType (TyArray t n) = JObject [(''array'', JArray [jsonType t, JNumber (int n)])]"
| "jsonType (TyDefined name) = JObject [(''defined'', JString name)]"

definition jsonFields :: "idl_fields \<Rightarrow> json" where
  "jsonFields fs = JArray (map (\<lambda>(n, t). JObject [(''name'', JString n), (''type'', jsonType t)]) fs)"

fun jsonAccount :: "idl_account \<Rightarrow> json" where
  "jsonAccount (IdlAccount n m s) = JObject [(''name'', JString n), (''isMut'', JBool m), (''isSigner'', JBool s)]"

fun jsonInstruction :: "idl_instruction \<Rightarrow> json" where
  "jsonInstruction (IdlInstruction n accounts args) =
     JObject [(''name'', JString n), (''accounts'', JArray (map jsonAccount accounts)), (''args'', jsonFields args)]"

fun jsonTypedef :: "idl_typedef \<Rightarrow> json" where
  "jsonTypedef (StructType fs) = JObject [(''kind'', JString ''struct''), (''fields'', jsonFields fs)]"
| "jsonTypedef (EnumType vs) = JObject [(''kind'', JString ''enum''), (''variants'', JArray (map (\<lambda>(n, fs).
     JObject ((''name'', JString n) # (if fs = [] then [] else [(''fields'', jsonFields fs)]))) vs))]"

definition jsonEvent :: "string \<times> idl_fields \<Rightarrow> json" where
  "jsonEvent = (\<lambda>(name, fs). JObject [(''name'', JString name), (''fields'', JArray (map (\<lambda>(n, t).
     JObject [(''name'', JString n), (''type'', jsonType t), (''index'', JBool False)]) fs))])"

fun jsonError :: "idl_error \<Rightarrow> json" where
  "jsonError (IdlError code name msg) = JObject [(''code'', JNumber code), (''name'', JString name), (''msg'', JString msg)]"

definition jsonNamed :: "string \<times> idl_typedef \<Rightarrow> json" where
  "jsonNamed = (\<lambda>(n, d). JObject [(''name'', JString n), (''type'', jsonTypedef d)])"

definition idl_json :: json where
  "idl_json = JObject
     [(''version'', JString ''0.5.0''), (''name'', JString ''amm''),
      (''instructions'', JArray (map jsonInstruction idl_instructions)),
      (''accounts'', JArray (map jsonNamed [(''config'', StructType layoutConfig),
        (''lockEscrow'', StructType layoutLockEscrow), (''pool'', StructType layoutPool)])),
      (''types'', JArray (map jsonNamed idl_types)),
      (''events'', JArray (map jsonEvent idl_events)),
      (''errors'', JArray (map jsonError idl_errors))]"

section \<open>Parts of the type\<close>

definition fieldOf :: "string \<Rightarrow> ts_type \<Rightarrow> ts_type" where
  "fieldOf n t = ObjectType [(''name'', Literal n), (''type'', t)]"

definition accountOf :: "string \<Rightarrow> bool \<Rightarrow> bool \<Rightarrow> ts_type" where
  "accountOf n m s = ObjectType [(''name'', Literal n), (''isMut'', BoolLiteral m), (''isSigner'', BoolLiteral s)]"

definition definedType :: "string \<Rightarrow> ts_type" where
  "definedType n = ObjectType [(''defined'', Literal n)]"

definition optionOf :: "ts_type \<Rightarrow> ts_type" where
  "optionOf t = ObjectType [(''option'', t)]"

definition arrayOf :: "ts_type \<Rightarrow> int \<Rightarrow> ts_type" where
  "arrayOf t n = ObjectType [(''array'', TupleType [t, NumberLiteral n])]"

definition structOf :: "ts_type list \<Rightarrow> ts_type" where
  "structOf fs = ObjectType [(''kind'', Literal ''struct''), (''fields'', TupleType fs)]"

definition enumOf :: "ts_type list \<Rightarrow> ts_type" where
  "enumOf vs = ObjectType [(''kind'', Literal ''enum''), (''variants'', TupleType vs)]"

definition variantOf :: "string \<Rightarrow> ts_type" where
  "variantOf n = ObjectType [(''name'', Literal n)]"

definition variantWith :: "string \<Rightarrow> ts_type list \<Rightarrow> ts_type" where
  "variantWith n fs = ObjectType [(''name'', Literal n), (''fields'', TupleType fs)]"

definition instructionOf :: "string \<Rightarrow> ts_type list \<Rightarrow> ts_type list \<Rightarrow> ts_type" where
  "instructionOf n accounts args =
     ObjectType [(''name'', Literal n), (''accounts'', TupleType accounts), (''args'', TupleType args)]"

definition eventFieldOf :: "string \<Rightarrow> ts_type \<Rightarrow> ts_type" where
  "eventFieldOf n t = ObjectType [(''name'', Literal n), (''type'', t), (''index'', BoolLiteral False)]"

definition eventOf :: "string \<Rightarrow> ts_type list \<Rightarrow> ts_type" where
  "eventOf n fs = ObjectType [(''name'', Literal n), (''fields'', TupleType fs)]"

definition errorOf :: "int \<Rightarrow> string \<Rightarrow> string \<Rightarrow> ts_type" where
  "errorOf code name msg = ObjectType [(''code'', NumberLiteral code), (''name'', Literal name), (''msg'', Literal msg)]"

section \<open>Instructions\<close>

definition Amm_ix_initializePermissionedPool :: ts_type where
  "Amm_ix_initializePermissionedPool = instructionOf ''initializePermissionedPool''
     [accountOf ''pool'' True True, accountOf ''lpMint'' True False,
      accountOf ''tokenAMint'' False False, accountOf ''tokenBMint'' False False,
      accountOf ''aVault'' True False, accountOf ''bVault'' True False,
      accountOf ''aVaultLpMint'' True False, accountOf ''bVaultLpMint'' True False,
      accountOf ''aVaultLp'' True False, accountOf ''bVaultLp'' True False,
      accountOf ''adminTokenA'' True False, accountOf ''adminTokenB'' True False,
      accountOf ''adminPoolLp'' True False, accountOf ''protocolTokenAFee'' True False,
      accountOf ''protocolTokenBFee'' True False, accountOf ''admin'' True True,
      accountOf ''feeOwner'' False False, accountOf ''rent'' False False,
      accountOf ''mintMetadata'' True False, accountOf ''metadataProgram'' False False,
      accountOf ''vaultProgram'' False False, accountOf ''tokenProgram'' False False,
      accountOf ''associatedTokenProgram'' False False, accountOf ''systemProgram'' False False]
     [fieldOf ''curveType'' (definedType ''CurveType'')]"

definition Amm_ix_initializePermissionlessPool :: ts_type where
  "Amm_ix_initializePermissionlessPool = instructionOf ''initializePermissionlessPool''
     [accountOf ''pool'' True False, accountOf ''lpMint'' True False,
      accountOf ''tokenAMint'' False False, accountOf ''tokenBMint'' False False,
      accountOf ''aVault'' True False, accountOf ''bVault'' True False,
      accountOf ''aTokenVault'' True False, accountOf ''bTokenVault'' True False,
      accountOf ''aVaultLpMint'' True False, accountOf ''bVaultLpMint'' True False,
      accountOf ''aVaultLp'' True False, accountOf ''bVaultLp'' True False,
      accountOf ''payerTokenA'' True False, accountOf ''payerTokenB'' True False,
      accountOf ''payerPoolLp'' True False, accountOf ''protocolTokenAFee'' True False,
      accountOf ''protocolTokenBFee'' True False, accountOf ''payer'' True True,
      accountOf ''feeOwner'' False False, accountOf ''rent'' False False,
      accountOf ''mintMetadata'' True False, accountOf ''metadataProgram'' False False,
      accountOf ''vaultProgram'' False False, accountOf ''tokenProgram'' False False,
      accountOf ''associatedTokenProgram'' False False, accountOf ''systemProgram'' False False]
     [fieldOf ''curveType'' (definedType ''CurveType''), fieldOf ''tokenAAmount'' (Literal ''u64''),
      fieldOf ''tokenBAmount'' (Literal ''u64'')]"

definition Amm_ix_initializePermissionlessPoolWithFeeTier :: ts_type where
  "Amm_ix_initializePermissionlessPoolWithFeeTier = instructionOf ''initializePermissionlessPoolWithFeeTier''
     [accountOf ''pool'' True False, accountOf ''lpMint'' True False,
      accountOf ''tokenAMint'' False False, accountOf ''tokenBMint'' False False,
      accountOf ''aVault'' True False, accountOf ''bVault'' True False,
      accountOf ''aTokenVault'' True False, accountOf ''bTokenVault'' True False,
      accountOf ''aVaultLpMint'' True False, accountOf ''bVaultLpMint'' True False,
      accountOf ''aVaultLp'' True False, accountOf ''bVaultLp'' True False,
      accountOf ''payerTokenA'' True False, accountOf ''payerTokenB'' True False,
      accountOf ''payerPoolLp'' True False, accountOf ''protocolTokenAFee'' True False,
      accountOf ''protocolTokenBFee'' True False, accountOf ''payer'' True True,
      accountOf ''feeOwner'' False False, accountOf ''rent'' False False,
      accountOf ''mintMetadata'' True False, accountOf ''metadataProgram'' False False,
      accountOf ''vaultProgram'' False False, accountOf ''tokenProgram'' False False,
      accountOf ''associatedTokenProgram'' False False, accountOf ''systemProgram'' False False]
     [fieldOf ''curveType'' (definedType ''CurveType''), fieldOf ''tradeFeeBps'' (Literal ''u64''),
      fieldOf ''tokenAAmount'' (Literal ''u64''), fieldOf ''tokenBAmount'' (Literal ''u64'')]"

definition Amm_ix_enableOrDisablePool :: ts_type where
  "Amm_ix_enableOrDisablePool = instructionOf ''enableOrDisablePool''
     [accountOf ''pool'' True False, accountOf ''admin'' False True]
     [fieldOf ''enable'' (Literal ''bool'')]"

definition Amm_ix_swap :: ts_type where
  "Amm_ix_swap = instructionOf ''swap''
     [accountOf ''pool'' True False, accountOf ''userSourceToken'' True False,
      accountOf ''userDestinationToken'' True False, accountOf ''aVault'' True False,
      accountOf ''bVault'' True False, accountOf ''aTokenVault'' True False,
      accountOf ''bTokenVault'' True False, accountOf ''aVaultLpMint'' True False,
      accountOf ''bVaultLpMint'' True False, accountOf ''aVaultLp'' True False,
      accountOf ''bVaultLp'' True False, accountOf ''protocolTokenFee'' True False,
      accountOf ''user'' False True, accountOf ''vaultProgram'' False False,
      accountOf ''tokenProgram'' False False]
     [fieldOf ''inAmount'' (Literal ''u64''), fieldOf ''minimumOutAmount'' (Literal ''u64'')]"

definition Amm_ix_removeLiquiditySingleSide :: ts_type where
  "Amm_ix_removeLiquiditySingleSide = instructionOf ''removeLiquiditySingleSide''
     [accountOf ''pool'' True False, accountOf ''lpMint'' True False,
      accountOf ''userPoolLp'' True False, accountOf ''aVaultLp'' True False,
      accountOf ''bVaultLp'' True False, accountOf ''aVault'' True False,
      accountOf ''bVault'' True False, accountOf ''aVaultLpMint'' True False,
      accountOf ''bVaultLpMint'' True False, accountOf ''aTokenVault'' True False,
      accountOf ''bTokenVault'' True False, accountOf ''userDestinationToken'' True False,
      accountOf ''user'' False True, accountOf ''vaultProgram'' False False,
      accountOf ''tokenProgram'' False False]
     [fieldOf ''poolTokenAmount'' (Literal ''u64''), fieldOf ''minimumOutAmount'' (Literal ''u64'')]"

definition Amm_ix_addImbalanceLiquidity :: ts_type where
  "Amm_ix_addImbalanceLiquidity = instructionOf ''addImbalanceLiquidity''
     [accountOf ''pool'' True False, accountOf ''lpMint'' True False,
      accountOf ''userPoolLp'' True False, accountOf ''aVaultLp'' True False,
      accountOf ''bVaultLp'' True False, accountOf ''aVault'' True False,
      accountOf ''bVault'' True False, accountOf ''aVaultLpMint'' True False,
      accountOf ''bVaultLpMint'' True False, accountOf ''aTokenVault'' True False,
      accountOf ''bTokenVault'' True False, accountOf ''userAToken'' True False,
      accountOf ''userBToken'' True False, accountOf ''user'' False True,
      accountOf ''vaultProgram'' False False, accountOf ''tokenProgram'' False False]
     [fieldOf ''minimumPoolTokenAmount'' (Literal ''u64''), fieldOf ''tokenAAmount'' (Literal ''u64''),
      fieldOf ''tokenBAmount'' (Literal ''u64'')]"

definition Amm_ix_removeBalanceLiquidity :: ts_type where
  "Amm_ix_removeBalanceLiquidity = instructionOf ''removeBalanceLiquidity''
     [accountOf ''pool'' True False, accountOf ''lpMint'' True False,
      accountOf ''userPoolLp'' True False, accountOf ''aVaultLp'' True False,
      accountOf ''bVaultLp'' True False, accountOf ''aVault'' True False,
      accountOf ''bVault'' True False, accountOf ''aVaultLpMint'' True False,
      accountOf ''bVaultLpMint'' True False, accountOf ''aTokenVault'' True False,
      accountOf ''bTokenVault'' True False, accountOf ''userAToken'' True False,
      accountOf ''userBToken'' True False, accountOf ''user'' False True,
      accountOf ''vaultProgram'' False False, accountOf ''tokenProgram'' False False]
     [fieldOf ''poolTokenAmount'' (Literal ''u64''), fieldOf ''minimumATokenOut'' (Literal ''u64''),
      fieldOf ''minimumBTokenOut'' (Literal ''u64'')]"

definition Amm_ix_addBalanceLiquidity :: ts_type where
  "Amm_ix_addBalanceLiquidity = instructionOf ''addBalanceLiquidity''
     [accountOf ''pool'' True False, accountOf ''lpMint'' True False,
      accountOf ''userPoolLp'' True False, accountOf ''aVaultLp'' True False,
      accountOf ''bVaultLp'' True False, accountOf ''aVault'' True False,
      accountOf ''bVault'' True False, accountOf ''aVaultLpMint'' True False,
      accountOf ''bVaultLpMint'' True False, accountOf ''aTokenVault'' True False,
      accountOf ''bTokenVault'' True False, accountOf ''userAToken'' True False,
      accountOf ''userBToken'' True False, accountOf ''user'' False True,
      accountOf ''vaultProgram'' False False, accountOf ''tokenProgram'' False False]
     [fieldOf ''poolTokenAmount'' (Literal ''u64''), fieldOf ''maximumTokenAAmount'' (Literal ''u64''),
      fieldOf ''maximumTokenBAmount'' (Literal ''u64'')]"

definition Amm_ix_setPoolFees :: ts_type where
  "Amm_ix_setPoolFees = instructionOf ''setPoolFees''
     [accountOf ''pool'' True False, accountOf ''feeOperator'' False True]
     [fieldOf ''fees'' (definedType ''PoolFees'')]"

definition Amm_ix_overrideCurveParam :: ts_type where
  "Amm_ix_overrideCurveParam = instructionOf ''overrideCurveParam''
     [accountOf ''pool'' True False, accountOf ''admin'' False True]
     [fieldOf ''curveType'' (definedType ''CurveType'')]"

definition Amm_ix_getPoolInfo :: ts_type where
  "Amm_ix_getPoolInfo = instructionOf ''getPoolInfo''
     [accountOf ''pool'' False False, accountOf ''lpMint'' False False,
      accountOf ''aVaultLp'' False False, accountOf ''bVaultLp'' False False,
      accountOf ''aVault'' False False, accountOf ''bVault'' False False,
      accountOf ''aVaultLpMint'' False False, accountOf ''bVaultLpMint'' False False]
     []"

definition Amm_ix_bootstrapLiquidity :: ts_type where
  "Amm_ix_bootstrapLiquidity = instructionOf ''bootstrapLiquidity''
     [accountOf ''pool'' True False, accountOf ''lpMint'' True False,
      accountOf ''userPoolLp'' True False, accountOf ''aVaultLp'' True False,
      accountOf ''bVaultLp'' True False, accountOf ''aVault'' True False,
      accountOf ''bVault'' True False, accountOf ''aVaultLpMint'' True False,
      accountOf ''bVaultLpMint'' True False, accountOf ''aTokenVault'' True False,
      accountOf ''bTokenVault'' True False, accountOf ''userAToken'' True False,
      accountOf ''userBToken'' True False, accountOf ''user'' False True,
      accountOf ''vaultProgram'' False False, accountOf ''tokenProgram'' False False]
     [fieldOf ''tokenAAmount'' (Literal ''u64''), fieldOf ''tokenBAmount'' (Literal ''u64'')]"

definition Amm_ix_createMintMetadata :: ts_type where
  "Amm_ix_createMintMetadata = instructionOf ''createMintMetadata''
     [accountOf ''pool'' False False, accountOf ''lpMint'' False False,
      accountOf ''aVaultLp'' False False, accountOf ''mintMetadata'' True False,
      accountOf ''metadataProgram'' False False, accountOf ''systemProgram'' False False,
      accountOf ''payer'' True True]
     []"

definition Amm_ix_createLockEscrow :: ts_type where
  "Amm_ix_createLockEscrow = instructionOf ''createLockEscrow''
     [accountOf ''pool'' False False, accountOf ''lockEscrow'' True False,
      accountOf ''owner'' False False, accountOf ''lpMint'' False False, accountOf ''payer'' True True,
      accountOf ''systemProgram'' False False]
     []"

definition Amm_ix_lock :: ts_type where
  "Amm_ix_lock = instructionOf ''lock''
     [accountOf ''pool'' True False, accountOf ''lpMint'' False False,
      accountOf ''lockEscrow'' True False, accountOf ''owner'' True True,
      accountOf ''sourceTokens'' True False, accountOf ''escrowVault'' True False,
      accountOf ''tokenProgram'' False False, accountOf ''aVault'' False False,
      accountOf ''bVault'' False False, accountOf ''aVaultLp'' False False,
      accountOf ''bVaultLp'' False False, accountOf ''aVaultLpMint'' False False,
      accountOf ''bVaultLpMint'' False False]
     [fieldOf ''maxAmount'' (Literal ''u64'')]"

definition Amm_ix_claimFee :: ts_type where
  "Amm_ix_claimFee = instructionOf ''claimFee''
     [accountOf ''pool'' True False, accountOf ''lpMint'' True False,
      accountOf ''lockEscrow'' True False, accountOf ''owner'' True True,
      accountOf ''sourceTokens'' True False, accountOf ''escrowVault'' True False,
      accountOf ''tokenProgram'' False False, accountOf ''aTokenVault'' True False,
      accountOf ''bTokenVault'' True False, accountOf ''aVault'' True False,
      accountOf ''bVault'' True False, accountOf ''aVaultLp'' True False,
      accountOf ''bVaultLp'' True False, accountOf ''aVaultLpMint'' True False,
      accountOf ''bVaultLpMint'' True False, accountOf ''userAToken'' True False,
      accountOf ''userBToken'' True False, accountOf ''vaultProgram'' False False]
     [fieldOf ''maxAmount'' (Literal ''u64'')]"

definition Amm_ix_createConfig :: ts_type where
  "Amm_ix_createConfig = instructionOf ''createConfig''
     [accountOf ''config'' True False, accountOf ''admin'' True True,
      accountOf ''systemProgram'' False False]
     [fieldOf ''configParameters'' (definedType ''ConfigParameters'')]"

definition Amm_ix_closeConfig :: ts_type where
  "Amm_ix_closeConfig = instructionOf ''closeConfig''
     [accountOf ''config'' True False, accountOf ''admin'' True True,
      accountOf ''rentReceiver'' True False]
     []"

definition Amm_ix_initializePermissionlessConstantProductPoolWithConfig :: ts_type where
  "Amm_ix_initializePermissionlessConstantProductPoolWithConfig = instructionOf ''initializePermissionlessConstantProductPoolWithConfig''
     [accountOf ''pool'' True False, accountOf ''config'' False False, accountOf ''lpMint'' True False,
      accountOf ''tokenAMint'' False False, accountOf ''tokenBMint'' False False,
      accountOf ''aVault'' True False, accountOf ''bVault'' True False,
      accountOf ''aTokenVault'' True False, accountOf ''bTokenVault'' True False,
      accountOf ''aVaultLpMint'' True False, accountOf ''bVaultLpMint'' True False,
      accountOf ''aVaultLp'' True False, accountOf ''bVaultLp'' True False,
      accountOf ''payerTokenA'' True False, accountOf ''payerTokenB'' True False,
      accountOf ''payerPoolLp'' True False, accountOf ''protocolTokenAFee'' True False,
      accountOf ''protocolTokenBFee'' True False, accountOf ''payer'' True True,
      accountOf ''rent'' False False, accountOf ''mintMetadata'' True False,
      accountOf ''metadataProgram'' False False, accountOf ''vaultProgram'' False False,
      accountOf ''tokenProgram'' False False, accountOf ''associatedTokenProgram'' False False,
      accountOf ''systemProgram'' False False]
     [fieldOf ''tokenAAmount'' (Literal ''u64''), fieldOf ''tokenBAmount'' (Literal ''u64'')]"

definition Amm_ix_initializePermissionlessConstantProductPoolWithConfig2 :: ts_type where
  "Amm_ix_initializePermissionlessConstantProductPoolWithConfig2 = instructionOf ''initializePermissionlessConstantProductPoolWithConfig2''
     [accountOf ''pool'' True False, accountOf ''config'' False False, accountOf ''lpMint'' True False,
      accountOf ''tokenAMint'' False False, accountOf ''tokenBMint'' False False,
      accountOf ''aVault'' True False, accountOf ''bVault'' True False,
      accountOf ''aTokenVault'' True False, accountOf ''bTokenVault'' True False,
      accountOf ''aVaultLpMint'' True False, accountOf ''bVaultLpMint'' True False,
      accountOf ''aVaultLp'' True False, accountOf ''bVaultLp'' True False,
      accountOf ''payerTokenA'' True False, accountOf ''payerTokenB'' True False,
      accountOf ''payerPoolLp'' True False, accountOf ''protocolTokenAFee'' True False,
      accountOf ''protocolTokenBFee'' True False, accountOf ''payer'' True True,
      accountOf ''rent'' False False, accountOf ''mintMetadata'' True False,
      accountOf ''metadataProgram'' False False, accountOf ''vaultProgram'' False False,
      accountOf ''tokenProgram'' False False, accountOf ''associatedTokenProgram'' False False,
      accountOf ''systemProgram'' False False]
     [fieldOf ''tokenAAmount'' (Literal ''u64''), fieldOf ''tokenBAmount'' (Literal ''u64''),
      fieldOf ''activationPoint'' (optionOf (Literal ''u64''))]"

definition Amm_ix_updateActivationPoint :: ts_type where
  "Amm_ix_updateActivationPoint = instructionOf ''updateActivationPoint''
     [accountOf ''pool'' True False, accountOf ''admin'' False True]
     [fieldOf ''newActivationPoint'' (Literal ''u64'')]"

definition Amm_ix_withdrawProtocolFees :: ts_type where
  "Amm_ix_withdrawProtocolFees = instructionOf ''withdrawProtocolFees''
     [accountOf ''pool'' False False, accountOf ''aVaultLp'' False False,
      accountOf ''protocolTokenAFee'' True False, accountOf ''protocolTokenBFee'' True False,
      accountOf ''treasuryTokenA'' True False, accountOf ''treasuryTokenB'' True False,
      accountOf ''tokenProgram'' False False]
     []"

section \<open>Accounts\<close>

definition Amm_account_config :: ts_type where
  "Amm_account_config = fieldOf ''config'' (structOf
     [fieldOf ''poolFees'' (definedType ''PoolFees''), fieldOf ''activationDuration'' (Literal ''u64''),
      fieldOf ''vaultConfigKey'' (Literal ''publicKey''),
      fieldOf ''poolCreatorAuthority'' (Literal ''publicKey''),
      fieldOf ''activationType'' (Literal ''u8''), fieldOf ''padding'' (arrayOf (Literal ''u8'') 227)])"

definition Amm_account_lockEscrow :: ts_type where
  "Amm_account_lockEscrow = fieldOf ''lockEscrow'' (structOf
     [fieldOf ''pool'' (Literal ''publicKey''), fieldOf ''owner'' (Literal ''publicKey''),
      fieldOf ''escrowVault'' (Literal ''publicKey''), fieldOf ''bump'' (Literal ''u8''),
      fieldOf ''totalLockedAmount'' (Literal ''u64''), fieldOf ''lpPerToken'' (Literal ''u128''),
      fieldOf ''unclaimedFeePending'' (Literal ''u64''), fieldOf ''aFee'' (Literal ''u64''),
      fieldOf ''bFee'' (Literal ''u64'')])"

definition Amm_account_pool :: ts_type where
  "Amm_account_pool = fieldOf ''pool'' (structOf
     [fieldOf ''lpMint'' (Literal ''publicKey''), fieldOf ''tokenAMint'' (Literal ''publicKey''),
      fieldOf ''tokenBMint'' (Literal ''publicKey''), fieldOf ''aVault'' (Literal ''publicKey''),
      fieldOf ''bVault'' (Literal ''publicKey''), fieldOf ''aVaultLp'' (Literal ''publicKey''),
      fieldOf ''bVaultLp'' (Literal ''publicKey''), fieldOf ''aVaultLpBump'' (Literal ''u8''),
      fieldOf ''enabled'' (Literal ''bool''), fieldOf ''protocolTokenAFee'' (Literal ''publicKey''),
      fieldOf ''protocolTokenBFee'' (Literal ''publicKey''),
      fieldOf ''feeLastUpdatedAt'' (Literal ''u64''),
      fieldOf ''padding0'' (arrayOf (Literal ''u8'') 24), fieldOf ''fees'' (definedType ''PoolFees''),
      fieldOf ''poolType'' (definedType ''PoolType''), fieldOf ''stake'' (Literal ''publicKey''),
      fieldOf ''totalLockedLp'' (Literal ''u64''),
      fieldOf ''bootstrapping'' (definedType ''Bootstrapping''),
      fieldOf ''padding'' (definedType ''Padding''), fieldOf ''curveType'' (definedType ''CurveType'')])"

section \<open>Types\<close>

definition Amm_type_TokenMultiplier :: ts_type where
  "Amm_type_TokenMultiplier = fieldOf ''TokenMultiplier'' (structOf
     [fieldOf ''tokenAMultiplier'' (Literal ''u64''), fieldOf ''tokenBMultiplier'' (Literal ''u64''),
      fieldOf ''precisionFactor'' (Literal ''u8'')])"

definition Amm_type_PoolFees :: ts_type where
  "Amm_type_PoolFees = fieldOf ''PoolFees'' (structOf
     [fieldOf ''tradeFeeNumerator'' (Literal ''u64''),
      fieldOf ''tradeFeeDenominator'' (Literal ''u64''),
      fieldOf ''protocolTradeFeeNumerator'' (Literal ''u64''),
      fieldOf ''protocolTradeFeeDenominator'' (Literal ''u64'')])"

definition Amm_type_Depeg :: ts_type where
  "Amm_type_Depeg = fieldOf ''Depeg'' (structOf
     [fieldOf ''baseVirtualPrice'' (Literal ''u64''), fieldOf ''baseCacheUpdated'' (Literal ''u64''),
      fieldOf ''depegType'' (definedType ''DepegType'')])"

definition Amm_type_ConfigParameters :: ts_type where
  "Amm_type_ConfigParameters = fieldOf ''ConfigParameters'' (structOf
     [fieldOf ''tradeFeeNumerator'' (Literal ''u64''),
      fieldOf ''protocolTradeFeeNumerator'' (Literal ''u64''),
      fieldOf ''activationDuration'' (Literal ''u64''),
      fieldOf ''vaultConfigKey'' (Literal ''publicKey''),
      fieldOf ''poolCreatorAuthority'' (Literal ''publicKey''),
      fieldOf ''activationType'' (Literal ''u8''), fieldOf ''index'' (Literal ''u64'')])"

definition Amm_type_Padding :: ts_type where
  "Amm_type_Padding = fieldOf ''Padding'' (structOf
     [fieldOf ''padding0'' (arrayOf (Literal ''u8'') 14),
      fieldOf ''padding'' (arrayOf (Literal ''u128'') 24)])"

definition Amm_type_Bootstrapping :: ts_type where
  "Amm_type_Bootstrapping = fieldOf ''Bootstrapping'' (structOf
     [fieldOf ''activationPoint'' (Literal ''u64''),
      fieldOf ''whitelistedVault'' (Literal ''publicKey''),
      fieldOf ''poolCreator'' (Literal ''publicKey''), fieldOf ''activationType'' (Literal ''u8'')])"

definition Amm_type_ActivationType :: ts_type where
  "Amm_type_ActivationType = fieldOf ''ActivationType'' (enumOf
     [variantOf ''Slot'', variantOf ''Timestamp''])"

definition Amm_type_RoundDirection :: ts_type where
  "Amm_type_RoundDirection = fieldOf ''RoundDirection'' (enumOf
     [variantOf ''Floor'', variantOf ''Ceiling''])"

definition Amm_type_TradeDirection :: ts_type where
  "Amm_type_TradeDirection = fieldOf ''TradeDirection'' (enumOf
     [variantOf ''AtoB'', variantOf ''BtoA''])"

definition Amm_type_NewCurveType :: ts_type where
  "Amm_type_NewCurveType = fieldOf ''NewCurveType'' (enumOf
     [variantOf ''ConstantProduct'',
      variantWith ''Stable'' [fieldOf ''amp'' (Literal ''u64''),
        fieldOf ''token_multiplier'' (definedType ''TokenMultiplier''),
        fieldOf ''depeg'' (definedType ''Depeg''),
        fieldOf ''last_amp_updated_timestamp'' (Literal ''u64'')],
      variantWith ''NewCurve'' [fieldOf ''field_one'' (Literal ''u64''), fieldOf ''field_two'' (Literal ''u64'')]])"

definition Amm_type_CurveType :: ts_type where
  "Amm_type_CurveType = fieldOf ''CurveType'' (enumOf
     [variantOf ''ConstantProduct'',
      variantWith ''Stable'' [fieldOf ''amp'' (Literal ''u64''),
        fieldOf ''token_multiplier'' (definedType ''TokenMultiplier''),
        fieldOf ''depeg'' (definedType ''Depeg''),
        fieldOf ''last_amp_updated_timestamp'' (Literal ''u64'')]])"

definition Amm_type_DepegType :: ts_type where
  "Amm_type_DepegType = fieldOf ''DepegType'' (enumOf
     [variantOf ''None'', variantOf ''Marinade'', variantOf ''Lido'', variantOf ''SplStake''])"

definition Amm_type_Rounding :: ts_type where
  "Amm_type_Rounding = fieldOf ''Rounding'' (enumOf
     [variantOf ''Up'', variantOf ''Down''])"

definition Amm_type_PoolType :: ts_type where
  "Amm_type_PoolType = fieldOf ''PoolType'' (enumOf
     [variantOf ''Permissioned'', variantOf ''Permissionless''])"

section \<open>Events\<close>

definition Amm_event_AddLiquidity :: ts_type where
  "Amm_event_AddLiquidity = eventOf ''AddLiquidity''
     [eventFieldOf ''lpMintAmount'' (Literal ''u64''), eventFieldOf ''tokenAAmount'' (Literal ''u64''),
      eventFieldOf ''tokenBAmount'' (Literal ''u64'')]"

definition Amm_event_RemoveLiquidity :: ts_type where
  "Amm_event_RemoveLiquidity = eventOf ''RemoveLiquidity''
     [eventFieldOf ''lpUnmintAmount'' (Literal ''u64''),
      eventFieldOf ''tokenAOutAmount'' (Literal ''u64''),
      eventFieldOf ''tokenBOutAmount'' (Literal ''u64'')]"

definition Amm_event_BootstrapLiquidity :: ts_type where
  "Amm_event_BootstrapLiquidity = eventOf ''BootstrapLiquidity''
     [eventFieldOf ''lpMintAmount'' (Literal ''u64''), eventFieldOf ''tokenAAmount'' (Literal ''u64''),
      eventFieldOf ''tokenBAmount'' (Literal ''u64''), eventFieldOf ''pool'' (Literal ''publicKey'')]"

definition Amm_event_Swap :: ts_type where
  "Amm_event_Swap = eventOf ''Swap''
     [eventFieldOf ''inAmount'' (Literal ''u64''), eventFieldOf ''outAmount'' (Literal ''u64''),
      eventFieldOf ''tradeFee'' (Literal ''u64''), eventFieldOf ''protocolFee'' (Literal ''u64''),
      eventFieldOf ''hostFee'' (Literal ''u64'')]"

definition Amm_event_SetPoolFees :: ts_type where
  "Amm_event_SetPoolFees = eventOf ''SetPoolFees''
     [eventFieldOf ''tradeFeeNumerator'' (Literal ''u64''),
      eventFieldOf ''tradeFeeDenominator'' (Literal ''u64''),
      eventFieldOf ''protocolTradeFeeNumerator'' (Literal ''u64''),
      eventFieldOf ''protocolTradeFeeDenominator'' (Literal ''u64''),
      eventFieldOf ''pool'' (Literal ''publicKey'')]"

definition Amm_event_PoolInfo :: ts_type where
  "Amm_event_PoolInfo = eventOf ''PoolInfo''
     [eventFieldOf ''tokenAAmount'' (Literal ''u64''), eventFieldOf ''tokenBAmount'' (Literal ''u64''),
      eventFieldOf ''virtualPrice'' (Literal ''f64''),
      eventFieldOf ''currentTimestamp'' (Literal ''u64'')]"

definition Amm_event_TransferAdmin :: ts_type where
  "Amm_event_TransferAdmin = eventOf ''TransferAdmin''
     [eventFieldOf ''admin'' (Literal ''publicKey''), eventFieldOf ''newAdmin'' (Literal ''publicKey''),
      eventFieldOf ''pool'' (Literal ''publicKey'')]"

definition Amm_event_OverrideCurveParam :: ts_type where
  "Amm_event_OverrideCurveParam = eventOf ''OverrideCurveParam''
     [eventFieldOf ''newAmp'' (Literal ''u64''), eventFieldOf ''updatedTimestamp'' (Literal ''u64''),
      eventFieldOf ''pool'' (Literal ''publicKey'')]"

definition Amm_event_PoolCreated :: ts_type where
  "Amm_event_PoolCreated = eventOf ''PoolCreated''
     [eventFieldOf ''lpMint'' (Literal ''publicKey''),
      eventFieldOf ''tokenAMint'' (Literal ''publicKey''),
      eventFieldOf ''tokenBMint'' (Literal ''publicKey''),
      eventFieldOf ''poolType'' (definedType ''PoolType''),
      eventFieldOf ''pool'' (Literal ''publicKey'')]"

definition Amm_event_PoolEnabled :: ts_type where
  "Amm_event_PoolEnabled = eventOf ''PoolEnabled''
     [eventFieldOf ''pool'' (Literal ''publicKey''), eventFieldOf ''enabled'' (Literal ''bool'')]"

definition Amm_event_MigrateFeeAccount :: ts_type where
  "Amm_event_MigrateFeeAccount = eventOf ''MigrateFeeAccount''
     [eventFieldOf ''pool'' (Literal ''publicKey''),
      eventFieldOf ''newAdminTokenAFee'' (Literal ''publicKey''),
      eventFieldOf ''newAdminTokenBFee'' (Literal ''publicKey''),
      eventFieldOf ''tokenAAmount'' (Literal ''u64''), eventFieldOf ''tokenBAmount'' (Literal ''u64'')]"

definition Amm_event_CreateLockEscrow :: ts_type where
  "Amm_event_CreateLockEscrow = eventOf ''CreateLockEscrow''
     [eventFieldOf ''pool'' (Literal ''publicKey''), eventFieldOf ''owner'' (Literal ''publicKey'')]"

definition Amm_event_Lock :: ts_type where
  "Amm_event_Lock = eventOf ''Lock''
     [eventFieldOf ''pool'' (Literal ''publicKey''), eventFieldOf ''owner'' (Literal ''publicKey''),
      eventFieldOf ''amount'' (Literal ''u64'')]"

definition Amm_event_ClaimFee :: ts_type where
  "Amm_event_ClaimFee = eventOf ''ClaimFee''
     [eventFieldOf ''pool'' (Literal ''publicKey''), eventFieldOf ''owner'' (Literal ''publicKey''),
      eventFieldOf ''amount'' (Literal ''u64''), eventFieldOf ''aFee'' (Literal ''u64''),
      eventFieldOf ''bFee'' (Literal ''u64'')]"

definition Amm_event_CreateConfig :: ts_type where
  "Amm_event_CreateConfig = eventOf ''CreateConfig''
     [eventFieldOf ''tradeFeeNumerator'' (Literal ''u64''),
      eventFieldOf ''protocolTradeFeeNumerator'' (Literal ''u64''),
      eventFieldOf ''config'' (Literal ''publicKey'')]"

definition Amm_event_CloseConfig :: ts_type where
  "Amm_event_CloseConfig = eventOf ''CloseConfig''
     [eventFieldOf ''config'' (Literal ''publicKey'')]"

definition Amm_event_WithdrawProtocolFees :: ts_type where
  "Amm_event_WithdrawProtocolFees = eventOf ''WithdrawProtocolFees''
     [eventFieldOf ''pool'' (Literal ''publicKey''), eventFieldOf ''protocolAFee'' (Literal ''u64''),
      eventFieldOf ''protocolBFee'' (Literal ''u64''),
      eventFieldOf ''protocolAFeeOwner'' (Literal ''publicKey''),
      eventFieldOf ''protocolBFeeOwner'' (Literal ''publicKey'')]"

section \<open>Errors and the whole type\<close>

definition Amm_errors_6000 :: "ts_type list" where
  "Amm_errors_6000 = [
      errorOf 6000 ''MathOverflow'' ''Math operation overflow'',
      errorOf 6001 ''InvalidFee'' ''Invalid fee setup'',
      errorOf 6002 ''InvalidInvariant'' ''Invalid invariant d'',
      errorOf 6003 ''FeeCalculationFailure'' ''Fee calculation failure'',
      errorOf 6004 ''ExceededSlippage'' ''Exceeded slippage tolerance'',
      errorOf 6005 ''InvalidCalculation'' ''Invalid curve calculation'',
      errorOf 6006 ''ZeroTradingTokens'' ''Given pool token amount results in zero trading tokens'',
      errorOf 6007 ''ConversionError'' ''Math conversion overflow'',
      errorOf 6008 ''FaultyLpMint'' ''LP mint authority must be 'A' vault lp, without freeze authority, and 0 supply'',
      errorOf 6009 ''MismatchedTokenMint'' ''Token mint mismatched'',
      errorOf 6010 ''MismatchedLpMint'' ''LP mint mismatched'',
      errorOf 6011 ''MismatchedOwner'' ''Invalid lp token owner'',
      errorOf 6012 ''InvalidVaultAccount'' ''Invalid vault account'',
      errorOf 6013 ''InvalidVaultLpAccount'' ''Invalid vault lp account'',
      errorOf 6014 ''InvalidPoolLpMintAccount'' ''Invalid pool lp mint account'',
      errorOf 6015 ''PoolDisabled'' ''Pool disabled'',
      errorOf 6016 ''InvalidAdminAccount'' ''Invalid admin account'',
      errorOf 6017 ''InvalidProtocolFeeAccount'' ''Invalid protocol fee account'',
      errorOf 6018 ''SameAdminAccount'' ''Same admin account'',
      errorOf 6019 ''IdenticalSourceDestination'' ''Identical user source and destination token account'',
      errorOf 6020 ''ApyCalculationError'' ''Apy calculation error'',
      errorOf 6021 ''InsufficientSnapshot'' ''Insufficient virtual price snapshot'',
      errorOf 6022 ''NonUpdatableCurve'' ''Current curve is non-updatable'',
      errorOf 6023 ''MisMatchedCurve'' ''New curve is mismatched with old curve'',
      errorOf 6024 ''InvalidAmplification'' ''Amplification is invalid'',
      errorOf 6025 ''UnsupportedOperation'' ''Operation is not supported'',
      errorOf 6026 ''ExceedMaxAChanges'' ''Exceed max amplification changes'',
      errorOf 6027 ''InvalidRemainingAccountsLen'' ''Invalid remaining accounts length'',
      errorOf 6028 ''InvalidRemainingAccounts'' ''Invalid remaining account'',
      errorOf 6029 ''MismatchedDepegMint'' ''Token mint B doesn't matches depeg type token mint'']"

definition Amm_errors_6030 :: "ts_type list" where
  "Amm_errors_6030 = [
      errorOf 6030 ''InvalidApyAccount'' ''Invalid APY account'',
      errorOf 6031 ''InvalidTokenMultiplier'' ''Invalid token multiplier'',
      errorOf 6032 ''InvalidDepegInformation'' ''Invalid depeg information'',
      errorOf 6033 ''UpdateTimeConstraint'' ''Update time constraint violated'',
      errorOf 6034 ''ExceedMaxFeeBps'' ''Exceeded max fee bps'',
      errorOf 6035 ''InvalidAdmin'' ''Invalid admin'',
      errorOf 6036 ''PoolIsNotPermissioned'' ''Pool is not permissioned'',
      errorOf 6037 ''InvalidDepositAmount'' ''Invalid deposit amount'',
      errorOf 6038 ''InvalidFeeOwner'' ''Invalid fee owner'',
      errorOf 6039 ''NonDepletedPool'' ''Pool is not depleted'',
      errorOf 6040 ''AmountNotPeg'' ''Token amount is not 1:1'',
      errorOf 6041 ''AmountIsZero'' ''Amount is zero'',
      errorOf 6042 ''TypeCastFailed'' ''Type cast error'',
      errorOf 6043 ''AmountIsNotEnough'' ''Amount is not enough'',
      errorOf 6044 ''InvalidActivationDuration'' ''Invalid activation duration'',
      errorOf 6045 ''PoolIsNotLaunchPool'' ''Pool is not launch pool'',
      errorOf 6046 ''UnableToModifyActivationPoint'' ''Unable to modify activation point'',
      errorOf 6047 ''InvalidAuthorityToCreateThePool'' ''Invalid authority to create the pool'',
      errorOf 6048 ''InvalidActivationType'' ''Invalid activation type'',
      errorOf 6049 ''InvalidActivationPoint'' ''Invalid activation point'']"

definition Amm_errors :: "ts_type list" where
  "Amm_errors = Amm_errors_6000 @ Amm_errors_6030"

definition Amm :: ts_type where
  "Amm = ObjectType
     [(''version'', Literal ''0.5.0''), (''name'', Literal ''amm''),
      (''instructions'', TupleType [Amm_ix_initializePermissionedPool, Amm_ix_initializePermissionlessPool,
        Amm_ix_initializePermissionlessPoolWithFeeTier, Amm_ix_enableOrDisablePool, Amm_ix_swap,
        Amm_ix_removeLiquiditySingleSide, Amm_ix_addImbalanceLiquidity, Amm_ix_removeBalanceLiquidity,
        Amm_ix_addBalanceLiquidity, Amm_ix_setPoolFees, Amm_ix_overrideCurveParam, Amm_ix_getPoolInfo,
        Amm_ix_bootstrapLiquidity, Amm_ix_createMintMetadata, Amm_ix_createLockEscrow, Amm_ix_lock,
        Amm_ix_claimFee, Amm_ix_createConfig, Amm_ix_closeConfig,
        Amm_ix_initializePermissionlessConstantProductPoolWithConfig,
        Amm_ix_initializePermissionlessConstantProductPoolWithConfig2, Amm_ix_updateActivationPoint,
        Amm_ix_withdrawProtocolFees]),
      (''accounts'', TupleType [Amm_account_config, Amm_account_lockEscrow, Amm_account_pool]),
      (''types'', TupleType [Amm_type_TokenMultiplier, Amm_type_PoolFees, Amm_type_Depeg, Amm_type_ConfigParameters,
        Amm_type_Padding, Amm_type_Bootstrapping, Amm_type_ActivationType, Amm_type_RoundDirection,
        Amm_type_TradeDirection, Amm_type_NewCurveType, Amm_type_CurveType, Amm_type_DepegType,
        Amm_type_Rounding, Amm_type_PoolType]),
      (''events'', TupleType [Amm_event_AddLiquidity, Amm_event_RemoveLiquidity, Amm_event_BootstrapLiquidity, Amm_event_Swap,
        Amm_event_SetPoolFees, Amm_event_PoolInfo, Amm_event_TransferAdmin,
        Amm_event_OverrideCurveParam, Amm_event_PoolCreated, Amm_event_PoolEnabled,
        Amm_event_MigrateFeeAccount, Amm_event_CreateLockEscrow, Amm_event_Lock, Amm_event_ClaimFee,
        Amm_event_CreateConfig, Amm_event_CloseConfig, Amm_event_WithdrawProtocolFees]),
      (''errors'', TupleType Amm_errors)]"

section \<open>Properties\<close>

text \<open>
  C22: The type by which the SDK types the program and the interface by which it encodes calls say the
  same: the constant is the one value of the type \<open>Amm\<close>, up to the order of the fields of objects.
\<close>

theorem interface_is_its_type: "inhabits v Amm \<longleftrightarrow> same_value v idl_json"
proof -
  have "the_value Amm = idl_json" by code_simp
  then show ?thesis by (simp add: inhabits_same_value)
qed

end
