(* ===== verification/Spec2Isabelle.thy ===== *)
theory Spec2Isabelle
  imports Memecoin AmmError Batch RoundTrip Configurations StableAgreement Scripts Deployments IdlType
begin

text \<open>
  A verification development of the TypeScript SDK of the Dynamic AMM, the directory
  \<open>ts-client/src/amm\<close> of the repository. The SDK reads the accounts of pools and vaults from the
  chain, quotes swaps, deposits and withdrawals from them, and builds the transactions that the
  program on the chain executes.

  \<^bold>\<open>The parts and their theories.\<close>
  \<^item> \<open>Prelude\<close>: the errors the sources raise, the result type, truncating division, and steps of
    an object that may fail. \<open>AmmTypes\<close>: public keys, on-chain states and quote results
    (\<open>types/index.ts\<close>), and the record \<open>externals\<close> of functions of other packages.
  \<^item> \<open>Layout\<close>: little-endian integers and the two layouts of \<open>types/index.ts\<close>. \<open>JsNumber\<close>: double
    precision numbers and the slippage helpers (\<open>utils.ts\<close>).
  \<^item> \<open>Calculator\<close> (\<open>curve/stable-swap-math/calculator.ts\<close>): the Newton iterations. \<open>ConstantProduct\<close>
    and \<open>StableSwap\<close> (\<open>curve/constant-product.ts\<close>, \<open>curve/stable-swap.ts\<close>): the two curves; the
    stable curve keeps a cache of the price of its staked token, so its methods take the object
    and return it. \<open>Curves\<close> (\<open>curve/index.ts\<close>): their common interface.
  \<^item> \<open>SwapQuote\<close> (\<open>utils.ts\<close>): fees, pool information and \<open>calculateSwapQuote\<close>. \<open>Memecoin\<close>
    (\<open>utils.ts\<close>): the quote for a pool that does not exist yet.
  \<^item> \<open>PoolKeys\<close> (\<open>utils.ts\<close>): the addresses the SDK derives. \<open>Fetch\<close> (\<open>utils.ts\<close> and the top of
    \<open>index.ts\<close>): reading the chain, a record of what its calls answer.
  \<^item> \<open>AmmImpl\<close> (\<open>index.ts\<close>): the pool object, a record, and its quotes; \<open>Lifecycle\<close>: \<open>create\<close>,
    \<open>createMultiple\<close> and \<open>updateState\<close>; \<open>Batch\<close>: \<open>createMultiple\<close> against \<open>create\<close>; \<open>RoundTrip\<close>:
    a deposit quote followed by the withdrawal quote of its shares.
  \<^item> \<open>Idl\<close> (\<open>idl.ts\<close>): the interface of the program as data, the constant \<open>IDL\<close>. \<open>IdlType\<close>: the type \<open>Amm\<close>
    of the same file, made of literal types. \<open>AmmError\<close> (\<open>error.ts\<close>).
  \<^item> \<open>Instructions\<close> (\<open>utils.ts\<close>): instructions, transactions and the helpers that make them.
    \<open>Transactions\<close> (\<open>index.ts\<close>): the transactions of a pool object. \<open>PoolCreation\<close> (\<open>index.ts\<close>):
    configurations, searches and the three ways to create a pool. \<open>Builders\<close> and
    \<open>Configurations\<close>: their properties.
  \<^item> \<open>Deployments\<close>: the rest of \<open>constants.ts\<close> and \<open>types/index.ts\<close>, tables and types for callers.
    \<open>Scripts\<close> (\<open>ts-client/src/examples\<close>): the example scripts, which read the chain, build and send
    in turn; a script is an action on the chain it reads and the transactions it has sent.

  The repository also holds Rust crates that the SDK has to agree with. They are modelled as far as
  they say what the program on the chain does, and the SDK is compared with them:
  \<^item> \<open>Checked\<close>: the checked arithmetic of unsigned words. \<open>VaultProgram\<close>
    (\<open>programs/dynamic-vault/src/state.rs\<close>): shares of a vault and its locked profit.
  \<^item> \<open>ReferenceQuote\<close> (\<open>dynamic-amm-quote/src\<close>, and the fees of \<open>programs/dynamic-amm/src/state.rs\<close>):
    \<open>compute_quote\<close>, its curves, scaling and depeg prices. \<open>QuoteAgreement\<close> and \<open>StableAgreement\<close>:
    \<open>calculateSwapQuote\<close> against it, on constant product and on stable pools.
  \<^item> \<open>ProgramAccounts\<close> (\<open>programs/dynamic-amm/src/instructions\<close>, \<open>lib.rs\<close>): the account structures of
    the program with their constraints, as data, and the functions that make seeds; the interface
    \<open>idl.ts\<close> against them. \<open>Acceptance\<close>: whether a call passes the addresses the program demands;
    where the program takes a configuration's index from the bytes of the arguments, it is read from
    the bytes the SDK sends at the place where the crate declares it.
    \<open>Ledger\<close>: what transactions ask of the set of existing accounts and of signatures, and pool
    creations on it; \<open>AccountChecks\<close>: the transactions of a pool object on it. Passing these checks is
    not success: balances are not part of them.

  \<^bold>\<open>How the model reads.\<close> A definition has the name of the function or method it models. BN and BigInt
  values are \<open>int\<close>, JavaScript numbers are \<open>int\<close> or \<open>nat\<close> where they are whole and within the
  safe range, with the conversions that raise outside it, and rounded rationals in \<open>JsNumber\<close>. A
  raise is \<open>Inl\<close> of an error; awaiting is sequencing, since the chain is read at one moment. An
  object that a method mutates is passed and returned, also when the method raises. The curve and
  the pool state of a pool object share their \<open>depeg\<close> object while \<open>ammSharesDepeg\<close> holds, so a
  change through one shows in the other. A call of the program is what the sources pass to the
  Anchor method builder: method, arguments, accounts by name and remaining accounts.

  \<^bold>\<open>What the lemmas show.\<close> The curves: the constant product swap is the largest output that keeps the
  product; the iterations end within their limit at the root they look for or report the limit; a
  stable swap stays above its invariant. Quotes: exact refusals, bounds by the reserves, fairness of
  deposits and withdrawals and of the two in a row, independence of calls on one curve object. The pool object: its two
  curves agree through any sequence of calls, but for the time between an update that fails and one
  that succeeds (\<open>settled\<close>); an update gives what a creation gives; a batch gives what creations one
  by one give, beside the depeg accounts of the other pools (\<open>ownAccounts\<close>). Transactions: every call fits the interface, one signature is
  enough, accounts exist when they are needed, native amounts are wrapped as they are spent. The
  configuration loop ends at the first free index. The last section of this theory follows a swap
  from its quote to its transaction. Against the crates: without protocol fee the SDK quotes what
  \<open>compute_quote\<close> quotes on constant product pools, and on stable pools asks its curve for the same
  swap and pays the answer out alike, through a refresh of the depeg price; with a protocol fee,
  \<open>compute_quote\<close> charges it twice; the fees agree up to the minimum of one unit that only the
  program charges; the instructions of the interface agree up to the named exceptions; every call
  passes the addresses the program derives, but for stable pools with two particular fees and for
  \<open>createConfig\<close>, whose index the crate would read elsewhere; a pool creation passes the checks of its
  accounts and signatures to its end, whatever accounts others make meanwhile, and so does every
  transaction of a pool object, but for a swap with oneself as referrer and a claim for an escrow
  without token account. The script that locks the liquidity of a new pool locks all of
  it, as its percentages share it out; the one that swaps takes any output. Where the code does not do what it means to, a
  property states what it does.

  \<^bold>\<open>Interfaces.\<close> \<open>newton_iteration\<close> (a loop that stops between neighbours), \<open>curve_object\<close> (a curve whose
  calls only refresh it), \<open>pair_seeds\<close> (seeds that name an unordered pair), \<open>limited_request\<close> (a
  request with a maximal number of keys), \<open>rounding_down\<close> (a share conversion) and \<open>reading\<close> (what is
  read off an instruction list part by part: accounts made, lamports moved, calls) are locales, each interpreted on the definitions of
  the model that provide it.

  \<^bold>\<open>Parameters and their laws.\<close> Code outside the repository is a parameter: the vault SDK
  (\<open>vault_sdk_laws\<close>, \<open>vaults_by_address\<close>; \<open>solvent_vaults\<close>: the two vaults of a pool
  object have not locked more than they hold), \<open>bn.js\<close> rounding (\<open>div_round_law\<close>),
  program addresses (\<open>pda_law\<close>: equal addresses have equal seeds and programs) and token account
  addresses (\<open>ata_law\<close>; \<open>off_curve\<close> and \<open>wallet\<close>: these, program addresses and wallets differ), the
  network of a script (\<open>keeps_addresses\<close>), the RPC node with the decoders of other packages (\<open>chain\<close>, with
  \<open>decoded_by_interface\<close>: decoded fields are the bytes at the places the interface gives them), and
  parsing of program logs. For the crates: \<open>crates\<close>, the functions of other projects they call, with
  \<open>spl_swap_law\<close> (the constant product swap; of the stable swap nothing is assumed, the comparison of
  stable pools is up to its answer), \<open>decoders_agree\<close> (the stake
  accounts are decoded alike) and \<open>follows_vault\<close> (the vault SDK computes what the vault program
  does). \<open>same_quote_data\<close> relates the data of the two quotes. Each property that uses a law has a
  witness with a concrete parameter.

  \<^bold>\<open>Bounds.\<close> \<open>newtonLoop\<close> runs \<open>MAX_ITERS\<close>, 20, steps as the source does. \<open>typeSize\<close> has fuel 3: no layout of
  the interface nests named types deeper. \<open>findConfigIndex\<close> is a partial function whose \<open>None\<close> would be
  a loop without end; \<open>createConfig_returns\<close> excludes it below 2 to the 53 configurations. Requests
  are cut into chunks of 100 keys, the limit of a node.

  \<^bold>\<open>Not modelled.\<close> The interface \<open>AmmImplementation\<close>, which lists methods of the class; the documentation strings of the
  interface; the encoding of instructions to bytes, which is
  Anchor's; the exponent range of doubles; sharing of one vault object between the pool objects of
  a batch, and of one pool state when a batch names a pool twice; package entry points, which
  export again, tests, the interface data of another program, and what a script prints. Amounts given to transfers are taken as they
  are: their encoder refuses what is negative or has more than 64 bits. Of the crates: the handlers
  of the program, which are empty in the repository, so the model of a chain knows which accounts exist and not
  what they hold, and says nothing of funds; what an initialized account is filled with; strategies of a vault; host fees; and
  the command line client, which calls the same functions.
\<close>

section \<open>From a quote to a transaction\<close>

text \<open>A quote leaves what a transaction reads of the pool.\<close>

lemma quoted_frame:
  assumes "getSwapQuote X mint x slippage who self = (Inr q, self')"
    and "tokenAMint (ammPoolState self) \<noteq> tokenBMint (ammPoolState self)"
  shows "ammAddress self' = ammAddress self" "ammTokenAMint self' = ammTokenAMint self"
    "tokenAMint (ammPoolState self') = tokenAMint (ammPoolState self)"
    "tokenBMint (ammPoolState self') = tokenBMint (ammPoolState self)"
    "protocolTokenAFee (ammPoolState self') = protocolTokenAFee (ammPoolState self)"
    "protocolTokenBFee (ammPoolState self') = protocolTokenBFee (ammPoolState self)"
    "mint = tokenAMint (ammPoolState self) \<or> mint = tokenBMint (ammPoolState self)"
    "enabled (ammPoolState self)"
proof -
  obtain params r ps' where
    quote: "calculateSwapQuote X mint x params who (ammPoolState self) = (Inr r, ps')" and
    self': "self' = self\<lparr>ammPoolState := ps',
      ammSwapCurve := (if ammSharesDepeg self then loadDepeg ps' (ammSwapCurve self) else ammSwapCurve self)\<rparr>"
    by (rule getSwapQuote_cases [OF assms(1)])
  have store: "protocolTokenAFee (storeDepeg c ps) = protocolTokenAFee ps"
    "protocolTokenBFee (storeDepeg c ps) = protocolTokenBFee ps" for c ps
    by (cases c; cases "curveType ps"; simp)+
  from swap_quote_state [of X mint x params who "ammPoolState self"]
  have ps': "ps' = ammPoolState self \<or> (\<exists>c. ps' = storeDepeg c (ammPoolState self))"
    unfolding quote by auto
  show "ammAddress self' = ammAddress self" "ammTokenAMint self' = ammTokenAMint self" by (simp_all add: self')
  show "tokenAMint (ammPoolState self') = tokenAMint (ammPoolState self)"
    "tokenBMint (ammPoolState self') = tokenBMint (ammPoolState self)"
    "protocolTokenAFee (ammPoolState self') = protocolTokenAFee (ammPoolState self)"
    "protocolTokenBFee (ammPoolState self') = protocolTokenBFee (ammPoolState self)"
    using ps' by (auto simp: self' store)
  show "mint = tokenAMint (ammPoolState self) \<or> mint = tokenBMint (ammPoolState self)"
    by (rule swap_quote_cases [OF quote assms(2) refl]) assumption
  show "enabled (ammPoolState self)"
    by (rule swap_quote_cases [OF quote assms(2) refl]) assumption
qed

text \<open>
  C9: A swap that is quoted and then built from its quote asks the program for what was quoted: the
  transaction makes one call, of the method \<open>swap\<close> of this pool, that fits the interface, spends the
  quoted input from the user's account of the token sold, pays into his account of the other
  token, charges the fee account of the token sold, and asks for a minimum output that is at most
  the quoted output, which the reserve of the vault can pay.
\<close>

theorem quoted_swap_call:
  assumes "getSwapQuote X mint x slippage who self = (Inr q, self')"
    and "swap E owner mint (swapInAmount q) (minSwapOutAmount q) ref self' = Inr tx"
    and "tokenAMint (ammPoolState self) \<noteq> tokenBMint (ammPoolState self)"
    and "mintAddress (ammTokenAMint self) = tokenAMint (ammPoolState self)"
    and "0 \<le> slippage" and "slippage \<le> 100" and "0 \<le> swapOutAmount q"
    and "\<bar>currentTime (ammAccountsInfo self) + BASE_CACHE_EXPIRE\<bar> < 2 ^ 53"
    and "(other, feeAccount, reserve) = (if mint = tokenAMint (ammPoolState self)
      then (tokenBMint (ammPoolState self), protocolTokenAFee (ammPoolState self), vaultBReserve (ammAccountsInfo self))
      else (tokenAMint (ammPoolState self), protocolTokenBFee (ammPoolState self), vaultAReserve (ammAccountsInfo self)))"
  shows "\<exists>c. programCalls (instructions tx) = [c] \<and> conforms c \<and> callMethod c = ''swap'' \<and>
    callArgs c = [ValBN x, ValBN (minSwapOutAmount q)] \<and>
    0 \<le> minSwapOutAmount q \<and> minSwapOutAmount q \<le> swapOutAmount q \<and> swapOutAmount q < reserve \<and>
    map (map_of (callAccounts c)) [''pool'', ''user'', ''userSourceToken'', ''userDestinationToken'', ''protocolTokenFee''] =
      map Some [ammAddress self, owner, getAssociatedTokenAccount (envFns E) mint owner,
        getAssociatedTokenAccount (envFns E) other owner, feeAccount]"
proof -
  note frame = quoted_frame [OF assms(1,3)]
  have x: "swapInAmount q = x" using assms(1) by (rule getSwapQuote_cases) (metis swap_quote.select_convs(1))
  have mints: "swapMints mint self' = (mint, other)" "swapFeeAccount mint self' = feeAccount"
    using frame assms(3,4,9) by (auto simp: swapMints_def swapFeeAccount_def split: if_splits)
  have amounts: "0 \<le> minSwapOutAmount q \<and> minSwapOutAmount q \<le> swapOutAmount q \<and> swapOutAmount q < reserve"
    using object_quote [OF assms(1,3,5,6,8)] assms(7,9) by (auto split: if_splits)
  from assms(2) mints(1) show ?thesis
  proof (rule swap_parts)
    fix pre
    let ?c = "swapCall E owner (swapInAmount q) (minSwapOutAmount q) (ataOf E mint owner) (ataOf E other owner)
       (swapFeeAccount mint self')
       (curve_getRemainingAccounts (ammSwapCurve self') @
         (case ref of None \<Rightarrow> []
          | Some k \<Rightarrow> [\<lparr>metaPubkey = ataOf E mint k, isWritable = True, isSigner = False\<rparr>])) self'"
    assume tx: "instructions tx = pre @ [ProgramCall ?c] @ unwrapAfter E owner (NATIVE_MINT E = other)"
      and calls: "programCalls pre = []"
    have only: "programCalls (instructions tx) = [?c]" by (simp add: tx ix_simps calls)
    have "sound owner (ProgramCall ?c)"
      by (rule sound_swapCall) (auto simp: remaining_unsigned split: option.splits)
    then have "conforms ?c" by (simp add: sound_def)
    with only amounts show ?thesis
      by (intro exI [of _ ?c]) (simp add: swapCall_def Let_def x mints(2) frame)
  qed
qed

theorem quoted_swap_call_witness:
  "\<exists>q self' tx c. getSwapQuote example_externals (key 2) 10000 1 None (example_amm ConstantProductCurve CurveConstantProduct) =
      (Inr q, self') \<and>
    swap example_env (key 40) (key 2) 10000 (minSwapOutAmount q) None self' = Inr tx \<and>
    programCalls (instructions tx) = [c] \<and> callArgs c = [ValBN 10000, ValBN 17575]"
proof -
  let ?amm = "example_amm ConstantProductCurve CurveConstantProduct"
  obtain self' where quote: "getSwapQuote example_externals (key 2) 10000 1 None ?amm =
    (Inr \<lparr>swapInAmount = 10000, swapOutAmount = 17753, minSwapOutAmount = 17575, quoteFee = 20,
      quotePriceImpact = DecimalQuotient 148 17902\<rparr>, self')"
    by (rule example_object_quote)
  obtain tx where tx: "swap example_env (key 40) (key 2) 10000 17575 None self' = Inr tx"
    using example_swap by blast
  have "tokenAMint (ammPoolState ?amm) \<noteq> tokenBMint (ammPoolState ?amm)"
    "mintAddress (ammTokenAMint ?amm) = tokenAMint (ammPoolState ?amm)"
    "\<bar>currentTime (ammAccountsInfo ?amm) + BASE_CACHE_EXPIRE\<bar> < 2 ^ 53"
    by (simp_all add: example_amm_def example_pool_def key_def BASE_CACHE_EXPIRE_def)
  with quoted_swap_call [OF quote, of example_env "key 40" None tx "key 3" "key 8" 6900000] tx quote show ?thesis
    by (auto simp: example_amm_def example_pool_def)
qed

end
